(* ===== verification/JsPrelude.thy ===== *)
theory JsPrelude
  imports Complex_Main "HOL-Library.AList" "HOL-Library.Multiset" "HOL-Library.Sublist"
begin

text \<open>
  The fragment of JavaScript the front end is written in: the untyped values that travel
  between the manager's JSON and the React state, and the operators the code applies to
  them (truthiness, \<open>||\<close>, \<open>??\<close>, property access, spread, \<open>===\<close>, \<open>Number\<close>, \<open>String\<close>,
  the string methods, \<open>Array.prototype.sort\<close>). Every other theory builds on this one.

  Bounds of the model: a number is an exact rational or \<open>NaN\<close> (no rounding, no infinities, no
  negative zero); a string is a list of byte characters and case mapping is the ASCII one;
  object properties keep insertion order (integer-like keys are not reordered); \<open>===\<close> is
  only applied to primitive values by the modelled code, so comparing two objects is
  \<open>False\<close>. The text of an engine-generated TypeError is its name.
\<close>

section \<open>Values\<close>

datatype jsnum = NaN | Fin rat

datatype jsv =
    JUndef
  | JNull
  | JBool bool
  | JNum jsnum
  | JStr string
  | JArr "jsv list"
  | JObj "(string \<times> jsv) list"

type_synonym obj = "(string \<times> jsv) list"

abbreviation jn :: "rat \<Rightarrow> jsv" where
  "jn x \<equiv> JNum (Fin x)"

text \<open>A computation that may throw: \<open>Inl\<close> is the thrown value.\<close>

type_synonym 'a res = "jsv + 'a"

definition type_error :: jsv where
  "type_error = JObj [(''name'', JStr ''TypeError''), (''message'', JStr ''TypeError'')]"

definition rbind :: "'a res \<Rightarrow> ('a \<Rightarrow> 'b res) \<Rightarrow> 'b res" where
  "rbind m k = (case m of Inl e \<Rightarrow> Inl e | Inr x \<Rightarrow> k x)"

definition rmap :: "('a \<Rightarrow> 'b) \<Rightarrow> 'a res \<Rightarrow> 'b res" where
  "rmap f m = rbind m (\<lambda>x. Inr (f x))"

lemma rbind_simps [simp]: "rbind (Inl e) k = Inl e" "rbind (Inr x) k = k x"
  by (simp_all add: rbind_def)

lemma rmap_simps [simp]: "rmap f (Inl e) = Inl e" "rmap f (Inr x) = Inr (f x)"
  by (simp_all add: rmap_def)

lemma rbind_eq_Inr: "rbind m k = Inr y \<longleftrightarrow> (\<exists>x. m = Inr x \<and> k x = Inr y)"
  by (cases m) auto

text \<open>\<open>xs.map(f)\<close> and \<open>xs.filter(p)\<close> with a callback that may throw: the first throw wins.\<close>

fun rmapM :: "('a \<Rightarrow> 'b res) \<Rightarrow> 'a list \<Rightarrow> 'b list res" where
  "rmapM f [] = Inr []"
| "rmapM f (x # xs) = rbind (f x) (\<lambda>y. rbind (rmapM f xs) (\<lambda>ys. Inr (y # ys)))"

fun rfilter :: "('a \<Rightarrow> bool res) \<Rightarrow> 'a list \<Rightarrow> 'a list res" where
  "rfilter p [] = Inr []"
| "rfilter p (x # xs) =
     rbind (p x) (\<lambda>b. rbind (rfilter p xs) (\<lambda>ys. Inr (if b then x # ys else ys)))"

lemma rmapM_Inr: "rmapM (\<lambda>x. Inr (f x)) xs = Inr (map f xs)"
  by (induction xs) auto

lemma rmapM_total: "(\<And>x. x \<in> set xs \<Longrightarrow> f x = Inr (g x)) \<Longrightarrow> rmapM f xs = Inr (map g xs)"
  by (induction xs) auto

lemma rmapM_length: "rmapM f xs = Inr ys \<Longrightarrow> length ys = length xs"
  by (induction xs arbitrary: ys) (auto simp: rbind_eq_Inr)

lemma rmapM_set: "rmapM f xs = Inr ys \<Longrightarrow> y \<in> set ys \<Longrightarrow> \<exists>x\<in>set xs. f x = Inr y"
  by (induction xs arbitrary: ys) (auto simp: rbind_eq_Inr)

lemma rfilter_Inr: "rfilter (\<lambda>x. Inr (p x)) xs = Inr (filter p xs)"
  by (induction xs) auto

lemma rfilter_total:
  "(\<And>x. x \<in> set xs \<Longrightarrow> p x = Inr (q x)) \<Longrightarrow> rfilter p xs = Inr (filter q xs)"
  by (induction xs) auto

lemma rfilter_subset: "rfilter p xs = Inr ys \<Longrightarrow> set ys \<subseteq> {x \<in> set xs. p x = Inr True}"
  by (induction xs arbitrary: ys) (fastforce simp: rbind_eq_Inr split: if_splits)+

section \<open>Operators\<close>

fun truthy :: "jsv \<Rightarrow> bool" where
  "truthy JUndef = False"
| "truthy JNull = False"
| "truthy (JBool b) = b"
| "truthy (JNum NaN) = False"
| "truthy (JNum (Fin x)) = (x \<noteq> 0)"
| "truthy (JStr s) = (s \<noteq> [])"
| "truthy (JArr xs) = True"
| "truthy (JObj ps) = True"

definition nullishp :: "jsv \<Rightarrow> bool" where
  "nullishp v \<longleftrightarrow> v = JUndef \<or> v = JNull"

definition js_or :: "jsv \<Rightarrow> jsv \<Rightarrow> jsv" where
  "js_or a b = (if truthy a then a else b)"

definition js_and :: "jsv \<Rightarrow> jsv \<Rightarrow> jsv" where
  "js_and a b = (if truthy a then b else a)"

definition nullish :: "jsv \<Rightarrow> jsv \<Rightarrow> jsv" where
  \<comment> \<open>\<open>a ?? b\<close>\<close>
  "nullish a b = (if nullishp a then b else a)"

lemma nullishp_simps [simp]:
  "nullishp JUndef" "nullishp JNull" "\<not> nullishp (JBool b)" "\<not> nullishp (JNum n)"
  "\<not> nullishp (JStr s)" "\<not> nullishp (JArr xs)" "\<not> nullishp (JObj ps)"
  by (simp_all add: nullishp_def)

lemma truthy_not_nullish: "truthy v \<Longrightarrow> \<not> nullishp v"
  by (cases v) auto

lemma js_or_truthy [simp]: "truthy a \<Longrightarrow> js_or a b = a"
  by (simp add: js_or_def)

lemma js_or_falsy [simp]: "\<not> truthy a \<Longrightarrow> js_or a b = b"
  by (simp add: js_or_def)

lemma js_or_default: "truthy b \<Longrightarrow> truthy (js_or a b)"
  by (simp add: js_or_def)

lemma nullish_simps [simp]:
  "nullish JUndef b = b" "nullish JNull b = b" "\<not> nullishp a \<Longrightarrow> nullish a b = a"
  by (simp_all add: nullish_def)

fun strict_eq :: "jsv \<Rightarrow> jsv \<Rightarrow> bool" where
  "strict_eq JUndef JUndef = True"
| "strict_eq JNull JNull = True"
| "strict_eq (JBool a) (JBool b) = (a = b)"
| "strict_eq (JNum (Fin a)) (JNum (Fin b)) = (a = b)"
| "strict_eq (JStr a) (JStr b) = (a = b)"
| "strict_eq _ _ = False"

lemma strict_eq_imp_eq: "strict_eq a b \<Longrightarrow> a = b"
  by (cases "(a, b)" rule: strict_eq.cases) auto

lemma strict_eq_sym: "strict_eq a b = strict_eq b a"
  by (cases "(a, b)" rule: strict_eq.cases; cases "(b, a)" rule: strict_eq.cases) auto

lemma strict_eq_Str [simp]: "strict_eq v (JStr s) \<longleftrightarrow> v = JStr s"
  by (cases v) auto

lemma strict_eq_Str_left [simp]: "strict_eq (JStr s) v \<longleftrightarrow> v = JStr s"
  by (cases v) auto

lemma strict_eq_Bool [simp]: "strict_eq v (JBool b) \<longleftrightarrow> v = JBool b"
  by (cases v) auto

text \<open>A value on which \<open>===\<close> is reflexive: every primitive but \<open>NaN\<close>.\<close>

definition is_key :: "jsv \<Rightarrow> bool" where
  "is_key v \<longleftrightarrow> strict_eq v v"

lemma is_key_simps [simp]:
  "is_key (JStr s)" "is_key (JNum (Fin x))" "is_key JUndef" "is_key JNull" "is_key (JBool b)"
  by (simp_all add: is_key_def)

lemma strict_eq_iff: "is_key b \<Longrightarrow> strict_eq a b \<longleftrightarrow> a = b"
  using strict_eq_imp_eq by (auto simp: is_key_def)

section \<open>Numbers and strings\<close>

definition digit_char :: "nat \<Rightarrow> char" where
  "digit_char d = ''0123456789'' ! d"

fun nat_str :: "nat \<Rightarrow> string" where
  "nat_str n = (if n < 10 then [digit_char n] else nat_str (n div 10) @ [digit_char (n mod 10)])"

declare nat_str.simps [simp del]

text \<open>
  The decimal fraction of \<open>r\<close> with \<open>0 \<le> r < 1\<close>, at most \<open>k\<close> digits, without trailing zeros.
\<close>

fun frac_digits :: "nat \<Rightarrow> rat \<Rightarrow> string" where
  "frac_digits 0 r = []"
| "frac_digits (Suc k) r =
     (if r = 0 then [] else
      let d = \<lfloor>r * 10\<rfloor> in digit_char (nat d) # frac_digits k (r * 10 - of_int d))"

definition pos_str :: "rat \<Rightarrow> string" where
  "pos_str r = (let i = \<lfloor>r\<rfloor>; f = r - of_int i
                in nat_str (nat i) @ (if f = 0 then [] else ''.'' @ frac_digits 17 f))"

fun num_str :: "jsnum \<Rightarrow> string" where
  "num_str NaN = ''NaN''"
| "num_str (Fin r) = (if r < 0 then ''-'' @ pos_str (- r) else pos_str r)"

fun join_str :: "string \<Rightarrow> string list \<Rightarrow> string" where
  "join_str sep [] = []"
| "join_str sep [s] = s"
| "join_str sep (s # ss) = s @ sep @ join_str sep ss"

text \<open>\<open>String(v)\<close>, also what a template literal does with \<open>${v}\<close>.\<close>

fun to_str :: "jsv \<Rightarrow> string" where
  "to_str JUndef = ''undefined''"
| "to_str JNull = ''null''"
| "to_str (JBool b) = (if b then ''true'' else ''false'')"
| "to_str (JNum n) = num_str n"
| "to_str (JStr s) = s"
| "to_str (JArr xs) =
     join_str '','' (map (\<lambda>x. case x of JUndef \<Rightarrow> [] | JNull \<Rightarrow> [] | _ \<Rightarrow> to_str x) xs)"
| "to_str (JObj ps) = ''[object Object]''"

definition js_error :: "jsv \<Rightarrow> jsv" where
  \<comment> \<open>\<open>new Error(m)\<close>: an object that carries the message, converted to a string, and nothing else\<close>
  "js_error m = JObj [(''name'', JStr ''Error''), (''message'', JStr (to_str m))]"

definition is_digit :: "char \<Rightarrow> bool" where
  "is_digit c \<longleftrightarrow> c \<in> set ''0123456789''"

definition digit_val :: "char \<Rightarrow> nat" where
  "digit_val c = of_char c - 48"

definition digits_val :: "string \<Rightarrow> nat" where
  "digits_val s = foldl (\<lambda>a c. 10 * a + digit_val c) 0 s"

definition is_space :: "char \<Rightarrow> bool" where
  "is_space c \<longleftrightarrow> c \<in> {CHR '' '', CHR 0x09, CHR 0x0A, CHR 0x0B, CHR 0x0C, CHR 0x0D}"

definition trim :: "string \<Rightarrow> string" where
  "trim s = rev (dropWhile is_space (rev (dropWhile is_space s)))"

lemma dropWhile_twice [simp]: "dropWhile P (dropWhile P xs) = dropWhile P xs"
  by (induction xs) auto

lemma dropWhile_rev_prefix: "\<exists>t. s = rev (dropWhile P (rev s)) @ t"
  by (metis rev_append rev_rev_ident takeWhile_dropWhile_id)

lemma trim_idem [simp]: "trim (trim s) = trim s"
proof -
  let ?d = "dropWhile is_space s"
  obtain t where t: "?d = trim s @ t"
    using dropWhile_rev_prefix [of ?d is_space] unfolding trim_def by blast
  have "dropWhile is_space (trim s) = trim s"
  proof (cases "trim s")
    case (Cons c cs)
    with t have "?d = c # cs @ t" by simp
    then have "\<not> is_space c" by (metis hd_dropWhile list.distinct(1) list.sel(1))
    with Cons show ?thesis by simp
  qed simp
  then have "trim (trim s) = rev (dropWhile is_space (rev (trim s)))"
    unfolding trim_def [of "trim s"] by simp
  also have "\<dots> = trim s" by (simp add: trim_def)
  finally show ?thesis .
qed

text \<open>
  An unsigned decimal literal \<open>ddd\<close>, \<open>ddd.ddd\<close>, \<open>.ddd\<close>: its value and the rest of the string.
  Exponents, \<open>Infinity\<close> and the \<open>0x\<close>, \<open>0o\<close>, \<open>0b\<close> forms are outside the model.
\<close>

definition scan_unsigned :: "string \<Rightarrow> (rat \<times> string) option" where
  "scan_unsigned s =
    (let ip = takeWhile is_digit s; r1 = dropWhile is_digit s in
     case r1 of
       c # r2 \<Rightarrow>
         if c = CHR ''.'' \<and> (ip \<noteq> [] \<or> takeWhile is_digit r2 \<noteq> []) then
           let fp = takeWhile is_digit r2 in
           Some (of_nat (digits_val ip) + of_nat (digits_val fp) / 10 ^ length fp,
                 dropWhile is_digit r2)
         else if ip = [] then None else Some (of_nat (digits_val ip), r1)
     | [] \<Rightarrow> if ip = [] then None else Some (of_nat (digits_val ip), []))"

definition scan_signed :: "string \<Rightarrow> (rat \<times> string) option" where
  "scan_signed s =
    (case s of
       c # r \<Rightarrow> if c = CHR ''-'' then map_option (\<lambda>(x, t). (- x, t)) (scan_unsigned r)
                else if c = CHR ''+'' then scan_unsigned r else scan_unsigned s
     | [] \<Rightarrow> None)"

definition str_num :: "string \<Rightarrow> jsnum" where
  \<comment> \<open>\<open>Number(s)\<close>: blank is 0, the whole trimmed text has to be a literal\<close>
  "str_num s = (let t = trim s in
     if t = [] then Fin 0
     else case scan_signed t of Some (x, []) \<Rightarrow> Fin x | _ \<Rightarrow> NaN)"

fun to_num :: "jsv \<Rightarrow> jsnum" where
  "to_num JUndef = NaN"
| "to_num JNull = Fin 0"
| "to_num (JBool b) = Fin (if b then 1 else 0)"
| "to_num (JNum n) = n"
| "to_num (JStr s) = str_num s"
| "to_num (JArr xs) = str_num (to_str (JArr xs))"
| "to_num (JObj ps) = NaN"

definition parse_float :: "jsv \<Rightarrow> jsnum" where
  \<comment> \<open>the longest numeric prefix of \<open>String(v)\<close>, leading blanks skipped\<close>
  "parse_float v =
     (case scan_signed (dropWhile is_space (to_str v)) of Some (x, _) \<Rightarrow> Fin x | None \<Rightarrow> NaN)"

text \<open>Arithmetic and comparison after \<open>Number\<close> coercion; a comparison with \<open>NaN\<close> is false.\<close>

fun num_op :: "(rat \<Rightarrow> rat \<Rightarrow> rat) \<Rightarrow> jsnum \<Rightarrow> jsnum \<Rightarrow> jsnum" where
  "num_op f (Fin a) (Fin b) = Fin (f a b)"
| "num_op f _ _ = NaN"

fun num_lt :: "jsnum \<Rightarrow> jsnum \<Rightarrow> bool" where
  "num_lt (Fin a) (Fin b) = (a < b)"
| "num_lt _ _ = False"

fun num_le :: "jsnum \<Rightarrow> jsnum \<Rightarrow> bool" where
  "num_le (Fin a) (Fin b) = (a \<le> b)"
| "num_le _ _ = False"

abbreviation num_add where "num_add \<equiv> num_op (+)"
abbreviation num_sub where "num_sub \<equiv> num_op (-)"
abbreviation math_max where "math_max \<equiv> num_op max"
abbreviation math_min where "math_min \<equiv> num_op min"

definition lower_char :: "char \<Rightarrow> char" where
  "lower_char c = (let n = of_char c :: nat in if 65 \<le> n \<and> n \<le> 90 then char_of (n + 32) else c)"

definition upper_char :: "char \<Rightarrow> char" where
  "upper_char c = (let n = of_char c :: nat in if 97 \<le> n \<and> n \<le> 122 then char_of (n - 32) else c)"

definition lower :: "string \<Rightarrow> string" where
  "lower = map lower_char"

definition upper :: "string \<Rightarrow> string" where
  "upper = map upper_char"

lemma lower_char_idem [simp]: "lower_char (lower_char c) = lower_char c"
proof -
  let ?n = "of_char c :: nat"
  show ?thesis
  proof (cases "65 \<le> ?n \<and> ?n \<le> 90")
    case True
    then have "of_char (lower_char c) = ?n + 32"
      by (simp add: lower_char_def of_char_of)
    with True show ?thesis by (simp add: lower_char_def [of "lower_char c"])
  next
    case False
    then have "lower_char c = c" by (auto simp: lower_char_def Let_def)
    then show ?thesis by simp
  qed
qed

lemma lower_idem [simp]: "lower (lower s) = lower s"
  by (simp add: lower_def)

lemma lower_eq_Nil [simp]: "lower s = [] \<longleftrightarrow> s = []"
  by (simp add: lower_def)

text \<open>\<open>v.toLowerCase()\<close> on an arbitrary value: only strings have the method.\<close>

definition to_lower :: "jsv \<Rightarrow> jsv res" where
  "to_lower v = (case v of JStr s \<Rightarrow> Inr (JStr (lower s)) | _ \<Rightarrow> Inl type_error)"

definition to_upper :: "jsv \<Rightarrow> jsv res" where
  "to_upper v = (case v of JStr s \<Rightarrow> Inr (JStr (upper s)) | _ \<Rightarrow> Inl type_error)"

lemma to_lower_Str [simp]: "to_lower (JStr s) = Inr (JStr (lower s))"
  by (simp add: to_lower_def)

lemma to_upper_Str [simp]: "to_upper (JStr s) = Inr (JStr (upper s))"
  by (simp add: to_upper_def)

definition str_includes :: "string \<Rightarrow> string \<Rightarrow> bool" where
  "str_includes s q \<longleftrightarrow> sublist q s"

lemma str_includes_empty [simp]: "str_includes s []"
  by (simp add: str_includes_def)

text \<open>\<open>a || b\<close> and \<open>a && b\<close> on conditions that may throw: \<open>b\<close> is evaluated on demand.\<close>

definition ror :: "bool res \<Rightarrow> bool res \<Rightarrow> bool res" where
  "ror a b = rbind a (\<lambda>x. if x then Inr True else b)"

definition rand :: "bool res \<Rightarrow> bool res \<Rightarrow> bool res" where
  "rand a b = rbind a (\<lambda>x. if x then b else Inr False)"

lemma ror_simps [simp]:
  "ror (Inr x) (Inr y) = Inr (x \<or> y)" "ror (Inl e) b = Inl e" "ror (Inr True) b = Inr True"
  "ror (Inr False) b = b"
  by (simp_all add: ror_def)

lemma rand_simps [simp]:
  "rand (Inr x) (Inr y) = Inr (x \<and> y)" "rand (Inl e) b = Inl e" "rand (Inr False) b = Inr False"
  "rand (Inr True) b = b"
  by (simp_all add: rand_def)

lemma rand_True: "rand a b = Inr True \<longleftrightarrow> a = Inr True \<and> b = Inr True"
  by (cases a) (auto simp: rand_def)

lemma ror_False: "ror a b = Inr False \<longleftrightarrow> a = Inr False \<and> b = Inr False"
  by (cases a) (auto simp: ror_def)

text \<open>\<open>v.toLowerCase().includes(q.toLowerCase())\<close> and \<open>v.includes(q)\<close>; then with a guard \<open>v && ..\<close>.\<close>

definition low_has :: "jsv \<Rightarrow> string \<Rightarrow> bool res" where
  "low_has v q = (case v of JStr s \<Rightarrow> Inr (str_includes (lower s) (lower q)) | _ \<Rightarrow> Inl type_error)"

definition has_text :: "jsv \<Rightarrow> string \<Rightarrow> bool res" where
  "has_text v q = (case v of JStr s \<Rightarrow> Inr (str_includes s q) | JArr xs \<Rightarrow> Inr (JStr q \<in> set xs)
                   | _ \<Rightarrow> Inl type_error)"

definition if_truthy :: "jsv \<Rightarrow> bool res \<Rightarrow> bool res" where
  "if_truthy v b = (if truthy v then b else Inr False)"

lemma low_has_Str [simp]: "low_has (JStr s) q = Inr (str_includes (lower s) (lower q))"
  by (simp add: low_has_def)

lemma has_text_Str [simp]: "has_text (JStr s) q = Inr (str_includes s q)"
  by (simp add: has_text_def)

lemma if_truthy_total: "\<not> truthy v \<or> b = Inr c \<Longrightarrow> \<exists>d. if_truthy v b = Inr d"
  by (auto simp: if_truthy_def)

section \<open>Objects and arrays\<close>

definition lookup :: "obj \<Rightarrow> string \<Rightarrow> jsv" where
  "lookup ps k = (case map_of ps k of Some x \<Rightarrow> x | None \<Rightarrow> JUndef)"

text \<open>
  \<open>fld v k\<close> is \<open>v?.k\<close>; \<open>get v k\<close> is \<open>v.k\<close>, which throws on \<open>undefined\<close> and \<open>null\<close>.
\<close>

definition fld :: "jsv \<Rightarrow> string \<Rightarrow> jsv" where
  "fld v k = (case v of
       JObj ps \<Rightarrow> lookup ps k
     | JArr xs \<Rightarrow> if k = ''length'' then jn (of_nat (length xs)) else JUndef
     | JStr s \<Rightarrow> if k = ''length'' then jn (of_nat (length s)) else JUndef
     | _ \<Rightarrow> JUndef)"

definition get :: "jsv \<Rightarrow> string \<Rightarrow> jsv res" where
  "get v k = (if nullishp v then Inl type_error else Inr (fld v k))"

definition is_array :: "jsv \<Rightarrow> bool" where
  "is_array v \<longleftrightarrow> (case v of JArr _ \<Rightarrow> True | _ \<Rightarrow> False)"

definition elems :: "jsv \<Rightarrow> jsv list" where
  \<comment> \<open>\<open>Array.isArray(v) ? v : []\<close>\<close>
  "elems v = (case v of JArr xs \<Rightarrow> xs | _ \<Rightarrow> [])"

definition is_object :: "jsv \<Rightarrow> bool" where
  \<comment> \<open>\<open>typeof v === 'object'\<close>, which is true of \<open>null\<close> and of arrays\<close>
  "is_object v \<longleftrightarrow> (case v of JNull \<Rightarrow> True | JArr _ \<Rightarrow> True | JObj _ \<Rightarrow> True | _ \<Rightarrow> False)"

definition own_props :: "jsv \<Rightarrow> obj" where
  "own_props v = (case v of
       JObj ps \<Rightarrow> ps
     | JArr xs \<Rightarrow> zip (map nat_str [0..<length xs]) xs
     | JStr s \<Rightarrow> zip (map nat_str [0..<length s]) (map (\<lambda>c. JStr [c]) s)
     | _ \<Rightarrow> [])"

definition merge :: "obj \<Rightarrow> obj \<Rightarrow> obj" where
  "merge a b = foldl (\<lambda>ps (k, v). AList.update k v ps) a b"

definition spread :: "jsv list \<Rightarrow> jsv" where
  \<comment> \<open>\<open>{...v1, ...v2, ...}\<close>, a literal part \<open>k: x\<close> being an object of its own\<close>
  "spread vs = JObj (foldl (\<lambda>ps v. merge ps (own_props v)) [] vs)"

lemma lookup_simps [simp]:
  "lookup [] k = JUndef"
  "lookup ((k', v) # ps) k = (if k' = k then v else lookup ps k)"
  by (auto simp: lookup_def)

lemma fld_simps [simp]:
  "fld JUndef k = JUndef" "fld JNull k = JUndef" "fld (JBool b) k = JUndef"
  "fld (JNum n) k = JUndef" "fld (JObj ps) k = lookup ps k"
  "fld (JArr xs) ''length'' = jn (of_nat (length xs))"
  "fld (JStr s) ''length'' = jn (of_nat (length s))"
  by (simp_all add: fld_def)

lemma get_simps [simp]:
  "get JUndef k = Inl type_error" "get JNull k = Inl type_error"
  "get (JObj ps) k = Inr (lookup ps k)" "\<not> nullishp v \<Longrightarrow> get v k = Inr (fld v k)"
  by (simp_all add: get_def)

lemma js_error_simps [simp]:
  "fld (js_error m) ''message'' = JStr (to_str m)" "fld (js_error m) ''response'' = JUndef"
  by (simp_all add: js_error_def)

lemma elems_simps [simp]:
  "elems (JArr xs) = xs" "elems JUndef = []" "elems JNull = []" "elems (JObj ps) = []"
  "elems (JStr s) = []" "elems (JNum n) = []" "elems (JBool b) = []"
  by (simp_all add: elems_def)

lemma is_array_simps [simp]:
  "is_array (JArr xs)" "\<not> is_array JUndef" "\<not> is_array JNull" "\<not> is_array (JObj ps)"
  "\<not> is_array (JStr s)" "\<not> is_array (JNum n)" "\<not> is_array (JBool b)"
  by (simp_all add: is_array_def)

lemma is_array_elems: "is_array v \<Longrightarrow> v = JArr (elems v)"
  by (cases v) auto

lemma is_object_simps [simp]:
  "is_object (JArr xs)" "\<not> is_object JUndef" "is_object JNull" "is_object (JObj ps)"
  "\<not> is_object (JStr s)" "\<not> is_object (JNum n)" "\<not> is_object (JBool b)"
  by (simp_all add: is_object_def)

lemma own_props_simps [simp]:
  "own_props (JObj ps) = ps" "own_props JUndef = []" "own_props JNull = []"
  "own_props (JNum n) = []" "own_props (JBool b) = []"
  by (simp_all add: own_props_def)

lemma lookup_update: "lookup (AList.update k v ps) k' = (if k = k' then v else lookup ps k')"
  by (simp add: lookup_def update_conv')

lemma lookup_foldl_update:
  "lookup (foldl (\<lambda>ps (k, v). AList.update k v ps) a b) k =
     (case map_of (rev b) k of Some v \<Rightarrow> v | None \<Rightarrow> lookup a k)"
  by (induction b rule: rev_induct) (auto simp: lookup_update split: option.splits)

lemma lookup_merge:
  "lookup (merge a b) k = (case map_of (rev b) k of Some v \<Rightarrow> v | None \<Rightarrow> lookup a k)"
  by (simp add: merge_def lookup_foldl_update)

lemma map_of_rev_distinct: "distinct (map fst b) \<Longrightarrow> map_of (rev b) = map_of b"
  by (rule map_of_inject_set [THEN iffD2]) (simp_all flip: rev_map)

lemma lookup_merge_distinct:
  assumes "distinct (map fst b)"
  shows "lookup (merge a b) k = (if k \<in> fst ` set b then lookup b k else lookup a k)"
proof (cases "map_of b k")
  case None
  with assms show ?thesis
    by (simp add: lookup_merge map_of_rev_distinct) (simp add: map_of_eq_None_iff)
next
  case (Some v)
  then have "k \<in> fst ` set b" by (force dest: map_of_SomeD)
  with Some assms show ?thesis
    by (simp add: lookup_merge map_of_rev_distinct) (simp add: lookup_def)
qed

lemma merge_Nil [simp]: "merge a [] = a"
  by (simp add: merge_def)

lemma merge_Cons [simp]: "merge a ((k, v) # b) = merge (AList.update k v a) b"
  by (simp add: merge_def)

lemma dom_merge: "fst ` set (merge a b) = fst ` set a \<union> fst ` set b"
proof (induction b arbitrary: a)
  case (Cons p b)
  then show ?case by (cases p) (auto simp: dom_update)
qed simp

text \<open>\<open>{...v, k: x}\<close>, by far the commonest spread.\<close>

definition with_fld :: "jsv \<Rightarrow> string \<Rightarrow> jsv \<Rightarrow> jsv" where
  "with_fld v k x = JObj (AList.update k x (own_props v))"

lemma truthy_with_fld [simp]: "truthy (with_fld v k x)"
  by (simp add: with_fld_def)

lemma fld_with_fld [simp]:
  "fld (with_fld v k x) k' = (if k = k' then x else lookup (own_props v) k')"
  by (simp add: with_fld_def lookup_update)

lemma fld_own_props: "\<not> is_array v \<Longrightarrow> (\<forall>s. v \<noteq> JStr s) \<Longrightarrow> lookup (own_props v) k = fld v k"
  by (cases v) auto

lemma digit_char_digit: "d < 10 \<Longrightarrow> is_digit (digit_char d)"
  unfolding is_digit_def digit_char_def by (rule nth_mem) simp

lemma nat_str_digits: "\<forall>c\<in>set (nat_str n). is_digit c"
proof (induction n rule: nat_str.induct)
  case (1 n)
  then show ?case
    by (subst nat_str.simps) (auto simp: digit_char_digit)
qed

lemma lookup_digit_keys:
  assumes "list_ex (\<lambda>c. \<not> is_digit c) k"
  shows "lookup (zip (map nat_str ns) xs) k = JUndef"
proof -
  have "k \<notin> set (map nat_str ns)"
    using assms nat_str_digits by (auto simp: list_ex_iff)
  then have "map_of (zip (map nat_str ns) xs) k = None"
    by (auto simp: map_of_eq_None_iff dest: set_zip_leftD)
  then show ?thesis by (simp add: lookup_def)
qed

lemma lookup_own_props:
  "list_ex (\<lambda>c. \<not> is_digit c) k \<Longrightarrow> k \<noteq> ''length'' \<Longrightarrow> lookup (own_props v) k = fld v k"
  by (cases v) (simp_all add: own_props_def fld_def lookup_digit_keys)

lemma update_same: "map_of ps k = Some x \<Longrightarrow> AList.update k x ps = ps"
  by (induction ps) auto

section \<open>Sorting\<close>

text \<open>
  \<open>Array.prototype.sort\<close> with a comparator, which the standard requires to be stable. A
  \<open>NaN\<close> result counts as \<open>+0\<close>. Where the comparator is a consistent order the outcome is
  unique, so insertion is as good as any other algorithm.
\<close>

definition cmp_le0 :: "jsnum \<Rightarrow> bool" where
  "cmp_le0 n = (case n of NaN \<Rightarrow> True | Fin x \<Rightarrow> x \<le> 0)"

fun js_insert :: "('a \<Rightarrow> 'a \<Rightarrow> jsnum) \<Rightarrow> 'a \<Rightarrow> 'a list \<Rightarrow> 'a list" where
  "js_insert cmp x [] = [x]"
| "js_insert cmp x (y # ys) =
     (if cmp_le0 (cmp x y) then x # y # ys else y # js_insert cmp x ys)"

definition js_sort :: "('a \<Rightarrow> 'a \<Rightarrow> jsnum) \<Rightarrow> 'a list \<Rightarrow> 'a list" where
  "js_sort cmp xs = foldr (js_insert cmp) xs []"

lemma js_sort_simps [simp]:
  "js_sort cmp [] = []" "js_sort cmp (x # xs) = js_insert cmp x (js_sort cmp xs)"
  by (simp_all add: js_sort_def)

lemma mset_js_insert [simp]: "mset (js_insert cmp x xs) = add_mset x (mset xs)"
  by (induction xs) auto

lemma mset_js_sort [simp]: "mset (js_sort cmp xs) = mset xs"
  by (induction xs) auto

lemma set_js_sort [simp]: "set (js_sort cmp xs) = set xs"
  by (metis mset_js_sort set_mset_mset)

lemma length_js_sort [simp]: "length (js_sort cmp xs) = length xs"
  by (metis mset_js_sort size_mset)

text \<open>Descending order of a numeric key, the comparator \<open>(a, b) => key(b) - key(a)\<close>.\<close>

definition by_desc :: "('a \<Rightarrow> jsnum) \<Rightarrow> 'a \<Rightarrow> 'a \<Rightarrow> jsnum" where
  "by_desc key a b = num_sub (key b) (key a)"

lemma js_insert_by_desc:
  assumes "\<And>y. y \<in> insert x (set ys) \<Longrightarrow> key y = Fin (f y)"
  shows "js_insert (by_desc key) x ys = insort_key (\<lambda>y. - f y) x ys"
  using assms by (induction ys) (auto simp: by_desc_def cmp_le0_def)

text \<open>On finite keys \<open>sort\<close> with this comparator is the library's stable sort.\<close>

lemma js_sort_by_desc:
  assumes "\<And>y. y \<in> set ys \<Longrightarrow> key y = Fin (f y)"
  shows "js_sort (by_desc key) ys = sort_key (\<lambda>y. - f y) ys"
  using assms
proof (induction ys)
  case (Cons y ys)
  have "js_insert (by_desc key) y (js_sort (by_desc key) ys) =
        insort_key (\<lambda>y. - f y) y (js_sort (by_desc key) ys)"
    by (rule js_insert_by_desc) (use Cons.prems in auto)
  with Cons show ?case by simp
qed simp

section \<open>The clock\<close>

text \<open>
  What the code reads of the host: the current time and the engine's date parser, whose
  result depends on the local time zone and is therefore a parameter.
\<close>

record clock =
  now_ms :: rat
  now_iso :: string
  date_parse :: "string \<Rightarrow> jsnum"

definition date_ms :: "clock \<Rightarrow> jsv \<Rightarrow> jsnum" where
  \<comment> \<open>\<open>new Date(v).getTime()\<close>\<close>
  "date_ms c v = (case v of
       JUndef \<Rightarrow> NaN
     | JNull \<Rightarrow> Fin 0
     | JBool b \<Rightarrow> Fin (if b then 1 else 0)
     | JNum n \<Rightarrow> n
     | JStr s \<Rightarrow> date_parse c s
     | _ \<Rightarrow> date_parse c (to_str v))"

text \<open>A stopped clock that reads every date as the epoch, for concrete runs.\<close>

definition stopped_clock :: clock where
  "stopped_clock = \<lparr>now_ms = 0, now_iso = ''1970-01-01T00:00:00.000Z'', date_parse = (\<lambda>_. Fin 0)\<rparr>"

end
