(* ===== verification/Async.thy ===== *)
theory Async
  imports JsPrelude
begin

text \<open>
  Asynchronous JavaScript over React state. A handler of a hook or page is a tree of type
  \<open>act\<close>: its nodes are the state updates it makes (\<open>setX\<close> with a function of the previous
  state), the reads of mutable refs, and its \<open>await\<close>s, each on the HTTP requests issued at that
  moment (one for \<open>await api.get\<close>, several for \<open>Promise.all\<close>). \<open>bnd\<close>, \<open>catch\<close> and \<open>fin\<close>
  are sequencing, \<open>try/catch\<close> and \<open>try/finally\<close>.

  Two executions are given. \<open>run\<close> lets one handler run to its end against a server with a
  state of its own. \<open>step\<close> is the event loop: handlers start at any moment, every handler
  runs atomically up to its next await, and pending requests are answered in any order; an
  answer is any one the contract \<open>ok\<close> of the server admits. The locale \<open>hook\<close> lifts an
  invariant of the single updates to every interleaving, the locale \<open>spinner\<close> does the same
  for "a busy flag is only up while a request that will clear it is pending".
\<close>

section \<open>Requests\<close>

datatype http_method = GET | POST | PUT | PATCH | DELETE

datatype request =
  Req (req_method: http_method) (req_path: string) (req_params: jsv) (req_body: jsv)

text \<open>\<open>Inr\<close> is an axios response object, \<open>Inl\<close> the error axios rejects with.\<close>

type_synonym response = "jsv + jsv"

section \<open>Handlers\<close>

datatype ('s, 'a) act =
    Ret 'a
  | Throw jsv
  | Upd "'s \<Rightarrow> 's" "('s, 'a) act"
  | Look "'s \<Rightarrow> ('s, 'a) act"
  | Await "request list" "response list \<Rightarrow> ('s, 'a) act"

primrec bnd :: "('s, 'a) act \<Rightarrow> ('a \<Rightarrow> ('s, 'b) act) \<Rightarrow> ('s, 'b) act" where
  "bnd (Ret a) k = k a"
| "bnd (Throw e) k = Throw e"
| "bnd (Upd f m) k = Upd f (bnd m k)"
| "bnd (Look g) k = Look (\<lambda>s. bnd (g s) k)"
| "bnd (Await qs c) k = Await qs (\<lambda>rs. bnd (c rs) k)"

primrec catch :: "('s, 'a) act \<Rightarrow> (jsv \<Rightarrow> ('s, 'a) act) \<Rightarrow> ('s, 'a) act" where
  "catch (Ret a) h = Ret a"
| "catch (Throw e) h = h e"
| "catch (Upd f m) h = Upd f (catch m h)"
| "catch (Look g) h = Look (\<lambda>s. catch (g s) h)"
| "catch (Await qs c) h = Await qs (\<lambda>rs. catch (c rs) h)"

text \<open>The \<open>finally\<close> blocks of the program only set state, so \<open>fin\<close> takes that update.\<close>

primrec fin :: "('s, 'a) act \<Rightarrow> ('s \<Rightarrow> 's) \<Rightarrow> ('s, 'a) act" where
  "fin (Ret a) f = Upd f (Ret a)"
| "fin (Throw e) f = Upd f (Throw e)"
| "fin (Upd g m) f = Upd g (fin m f)"
| "fin (Look g) f = Look (\<lambda>s. fin (g s) f)"
| "fin (Await qs c) f = Await qs (\<lambda>rs. fin (c rs) f)"

definition thn :: "('s, 'a) act \<Rightarrow> ('s, 'b) act \<Rightarrow> ('s, 'b) act" where
  "thn m n = bnd m (\<lambda>_. n)"

lemma thn_simps [simp]:
  "thn (Ret a) n = n" "thn (Throw e) n = Throw e" "thn (Upd f m) n = Upd f (thn m n)"
  "thn (Look g) n = Look (\<lambda>s. thn (g s) n)"
  "thn (Await qs c) n = Await qs (\<lambda>rs. thn (c rs) n)"
  by (simp_all add: thn_def)

definition lift :: "'a res \<Rightarrow> ('s, 'a) act" where
  "lift r = (case r of Inl e \<Rightarrow> Throw e | Inr x \<Rightarrow> Ret x)"

lemma lift_simps [simp]: "lift (Inl e) = Throw e" "lift (Inr x) = Ret x"
  by (simp_all add: lift_def)

lemma bnd_Ret [simp]: "bnd m Ret = m"
  by (induction m) auto

lemma bnd_assoc: "bnd (bnd m k) h = bnd m (\<lambda>x. bnd (k x) h)"
  by (induction m) auto

section \<open>One handler against a server\<close>

primrec serve :: "('w \<Rightarrow> request \<Rightarrow> response \<times> 'w) \<Rightarrow> request list \<Rightarrow> 'w \<Rightarrow> response list \<times> 'w" where
  "serve srv [] w = ([], w)"
| "serve srv (q # qs) w =
     (let (r, w1) = srv w q; (rs, w2) = serve srv qs w1 in (r # rs, w2))"

primrec run ::
  "('w \<Rightarrow> request \<Rightarrow> response \<times> 'w) \<Rightarrow> ('s, 'a) act \<Rightarrow> 's \<Rightarrow> 'w \<Rightarrow> 'a res \<times> 's \<times> 'w" where
  "run srv (Ret a) s w = (Inr a, s, w)"
| "run srv (Throw e) s w = (Inl e, s, w)"
| "run srv (Upd f m) s w = run srv m (f s) w"
| "run srv (Look g) s w = run srv (g s) s w"
| "run srv (Await qs c) s w = (case serve srv qs w of (rs, w') \<Rightarrow> run srv (c rs) s w')"

lemma run_bnd:
  "run srv (bnd m k) s w =
     (case run srv m s w of (Inl e, s', w') \<Rightarrow> (Inl e, s', w') | (Inr x, s', w') \<Rightarrow> run srv (k x) s' w')"
  by (induction m arbitrary: s w) (auto split: prod.splits)

lemma run_thn:
  "run srv (thn m n) s w =
     (case run srv m s w of (Inl e, s', w') \<Rightarrow> (Inl e, s', w') | (Inr x, s', w') \<Rightarrow> run srv n s' w')"
  by (simp add: thn_def run_bnd)

lemma run_catch:
  "run srv (catch m h) s w =
     (case run srv m s w of (Inl e, s', w') \<Rightarrow> run srv (h e) s' w' | (Inr x, s', w') \<Rightarrow> (Inr x, s', w'))"
  by (induction m arbitrary: s w) (auto split: prod.splits)

lemma run_fin:
  "run srv (fin m f) s w = (case run srv m s w of (r, s', w') \<Rightarrow> (r, f s', w'))"
  by (induction m arbitrary: s w) (auto split: prod.splits)

lemma run_lift [simp]: "run srv (lift r) s w = (r, s, w)"
  by (cases r) auto

lemmas run_simps = run_bnd run_thn run_catch run_fin

definition result :: "'a res \<times> 's \<times> 'w \<Rightarrow> 'a res" where
  "result x = fst x"

definition state_of :: "'a res \<times> 's \<times> 'w \<Rightarrow> 's" where
  "state_of x = fst (snd x)"

definition world_of :: "'a res \<times> 's \<times> 'w \<Rightarrow> 'w" where
  "world_of x = snd (snd x)"

lemma outcome_simps [simp]:
  "result (r, s, w) = r" "state_of (r, s, w) = s" "world_of (r, s, w) = w"
  by (simp_all add: result_def state_of_def world_of_def)

text \<open>A server that answers from a function of the request and logs what it is asked.\<close>

definition logging :: "(request \<Rightarrow> response) \<Rightarrow> request list \<Rightarrow> request \<Rightarrow> response \<times> request list" where
  "logging f asked q = (f q, asked @ [q])"

lemma serve_logging [simp]: "serve (logging f) qs asked = (map f qs, asked @ qs)"
  by (induction qs arbitrary: asked) (auto simp: logging_def)

section \<open>The event loop\<close>

type_synonym ('s, 'a) waiting = "request list \<times> (response list \<Rightarrow> ('s, 'a) act)"

text \<open>Run a handler up to its next await: the new state, and what it waits for if it did not end.\<close>

primrec advance :: "('s, 'a) act \<Rightarrow> 's \<Rightarrow> 's \<times> ('s, 'a) waiting option" where
  "advance (Ret a) s = (s, None)"
| "advance (Throw e) s = (s, None)"
| "advance (Upd f m) s = advance m (f s)"
| "advance (Look g) s = advance (g s) s"
| "advance (Await qs c) s = (s, Some (qs, c))"

type_synonym ('s, 'a) sys = "'s \<times> ('s, 'a) waiting list"

definition enqueue :: "('s, 'a) waiting option \<Rightarrow> ('s, 'a) waiting list \<Rightarrow> ('s, 'a) waiting list" where
  "enqueue p ps = (case p of None \<Rightarrow> ps | Some x \<Rightarrow> ps @ [x])"

inductive step ::
  "('s \<Rightarrow> ('s, 'a) act set) \<Rightarrow> (request \<Rightarrow> response \<Rightarrow> bool) \<Rightarrow> ('s, 'a) sys \<Rightarrow> ('s, 'a) sys \<Rightarrow> bool"
  for ops ok where
  start: "m \<in> ops s \<Longrightarrow> advance m s = (s', p) \<Longrightarrow> step ops ok (s, ps) (s', enqueue p ps)"
| resume: "i < length ps \<Longrightarrow> ps ! i = (qs, c) \<Longrightarrow> list_all2 ok qs rs \<Longrightarrow> advance (c rs) s = (s', p) \<Longrightarrow>
     step ops ok (s, ps) (s', enqueue p (take i ps @ drop (Suc i) ps))"

inductive_cases stepE: "step ops ok x y"

inductive reach ::
  "('s \<Rightarrow> ('s, 'a) act set) \<Rightarrow> (request \<Rightarrow> response \<Rightarrow> bool) \<Rightarrow> ('s, 'a) sys \<Rightarrow> ('s, 'a) sys \<Rightarrow> bool"
  for ops ok x where
  reach_refl: "reach ops ok x x"
| reach_step: "reach ops ok x y \<Longrightarrow> step ops ok y z \<Longrightarrow> reach ops ok x z"

definition mounted :: "('s, 'a) act \<Rightarrow> 's \<Rightarrow> ('s, 'a) sys" where
  \<comment> \<open>the system right after mounting: the initial state and the first effect started\<close>
  "mounted m s = (case advance m s of (s', p) \<Rightarrow> (s', enqueue p []))"

text \<open>A concrete run for examples: mount, answer the one await, end.\<close>

lemma reach_first_answer:
  assumes "snd (advance m s) \<noteq> None" and "list_all2 ok (fst (the (snd (advance m s)))) rs"
    and "advance (snd (the (snd (advance m s))) rs) (fst (advance m s)) = (s2, None)"
  shows "reach ops ok (mounted m s) (s2, [])"
proof -
  obtain s1 qs c where adv: "advance m s = (s1, Some (qs, c))"
    using assms(1) by (cases "advance m s") auto
  with assms have "step ops ok (s1, [(qs, c)]) (s2, enqueue None (take 0 [(qs, c)] @ drop (Suc 0) [(qs, c)]))"
    by (intro resume [where i = 0 and qs = qs and c = c and rs = rs]) auto
  with adv show ?thesis
    by (auto simp: mounted_def enqueue_def intro: reach_step [OF reach_refl])
qed

subsection \<open>Invariants of the single updates\<close>

primrec keeps :: "(request \<Rightarrow> response \<Rightarrow> bool) \<Rightarrow> ('s \<Rightarrow> bool) \<Rightarrow> ('s, 'a) act \<Rightarrow> bool" where
  "keeps ok P (Ret a) = True"
| "keeps ok P (Throw e) = True"
| "keeps ok P (Upd f m) = ((\<forall>s. P s \<longrightarrow> P (f s)) \<and> keeps ok P m)"
| "keeps ok P (Look g) = (\<forall>s. P s \<longrightarrow> keeps ok P (g s))"
| "keeps ok P (Await qs c) = (\<forall>rs. list_all2 ok qs rs \<longrightarrow> keeps ok P (c rs))"

lemma keeps_bnd: "keeps ok P m \<Longrightarrow> (\<And>x. keeps ok P (k x)) \<Longrightarrow> keeps ok P (bnd m k)"
  by (induction m) auto

lemma keeps_thn: "keeps ok P m \<Longrightarrow> keeps ok P n \<Longrightarrow> keeps ok P (thn m n)"
  by (simp add: thn_def keeps_bnd)

lemma keeps_catch: "keeps ok P m \<Longrightarrow> (\<And>e. keeps ok P (h e)) \<Longrightarrow> keeps ok P (catch m h)"
  by (induction m) auto

lemma keeps_fin: "keeps ok P m \<Longrightarrow> (\<And>s. P s \<Longrightarrow> P (f s)) \<Longrightarrow> keeps ok P (fin m f)"
  by (induction m) auto

lemma keeps_lift [simp]: "keeps ok P (lift r)"
  by (cases r) auto

lemmas keeps_intros = keeps_bnd keeps_thn keeps_catch keeps_fin

lemma keeps_advance:
  assumes "keeps ok P m" and "P s" and "advance m s = (s', p)"
  shows "P s' \<and> (\<forall>qs c. p = Some (qs, c) \<longrightarrow> (\<forall>rs. list_all2 ok qs rs \<longrightarrow> keeps ok P (c rs)))"
  using assms
proof (induction m arbitrary: s)
  case (Look g)
  show ?case
    by (rule Look.IH [of "g s" s]) (use Look.prems in simp_all)
qed auto

lemma keeps_run:
  assumes "keeps ok P m" and "\<And>w q. ok q (fst (srv w q))" and "P s"
  shows "P (state_of (run srv m s w))"
  using assms(1,3)
proof (induction m arbitrary: s w)
  case (Await qs c)
  obtain rs w' where served: "serve srv qs w = (rs, w')"
    by fastforce
  have "list_all2 ok qs rs"
    using served
  proof (induction qs arbitrary: w rs)
    case (Cons q qs)
    then show ?case
      using assms(2) [of q w] by (auto split: prod.splits)
  qed simp
  with Await served show ?case by simp
qed auto

definition all_keep ::
  "(request \<Rightarrow> response \<Rightarrow> bool) \<Rightarrow> ('s \<Rightarrow> bool) \<Rightarrow> ('s, 'a) sys \<Rightarrow> bool" where
  "all_keep ok P y \<longleftrightarrow> P (fst y) \<and>
     (\<forall>(qs, c) \<in> set (snd y). \<forall>rs. list_all2 ok qs rs \<longrightarrow> keeps ok P (c rs))"

locale hook =
  fixes ops :: "'s \<Rightarrow> ('s, 'a) act set"
    and ok :: "request \<Rightarrow> response \<Rightarrow> bool"
    and inv :: "'s \<Rightarrow> bool"
  assumes ops_keep: "inv s \<Longrightarrow> m \<in> ops s \<Longrightarrow> keeps ok inv m"
begin

lemma all_keep_step:
  assumes "step ops ok y z" and "all_keep ok inv y"
  shows "all_keep ok inv z"
  using assms
proof (induction rule: step.induct)
  case (start m s s' p ps)
  from start.prems have "inv s" by (simp add: all_keep_def)
  with start keeps_advance [OF ops_keep, of s m s s' p] show ?case
    by (auto simp: all_keep_def enqueue_def split: option.splits)
next
  case (resume i ps qs c rs s s' p)
  then have mem: "(qs, c) \<in> set ps" by (metis nth_mem)
  with resume have "keeps ok inv (c rs)" and "inv s"
    by (auto simp: all_keep_def)
  from keeps_advance [OF this resume.hyps(4)] resume.prems show ?case
    by (fastforce simp: all_keep_def enqueue_def split: option.splits
        dest: in_set_takeD in_set_dropD)
qed

lemma reach_inv:
  assumes "reach ops ok (mounted m s0) y" and "m \<in> ops s0" and "inv s0"
  shows "inv (fst y)"
proof -
  have "all_keep ok inv (mounted m s0)"
    using keeps_advance [OF ops_keep [OF assms(3,2)] assms(3)]
    by (auto simp: all_keep_def mounted_def enqueue_def split: prod.splits option.splits)
  from assms(1) this have "all_keep ok inv y"
    by (induction rule: reach.induct) (auto intro: all_keep_step)
  then show ?thesis by (simp add: all_keep_def)
qed

lemma run_inv:
  "inv s \<Longrightarrow> m \<in> ops s \<Longrightarrow> (\<And>w q. ok q (fst (srv w q))) \<Longrightarrow> inv (state_of (run srv m s w))"
  by (rule keeps_run [where ok = ok]) (simp_all add: ops_keep)

end

subsection \<open>Busy flags\<close>

text \<open>
  Two readings of a handler with respect to a flag \<open>B\<close>, computed together: \<open>owes B m\<close>, on every
  path \<open>m\<close> comes to an update that lowers the flag for certain, and raises it afterwards only
  to lower it again; \<open>settles B m\<close>, the same from a point where nothing is owed yet. Neither
  depends on what other handlers do to the state while \<open>m\<close> waits.
\<close>

primrec duty :: "('s \<Rightarrow> bool) \<Rightarrow> ('s, 'a) act \<Rightarrow> bool \<times> bool" where
  "duty B (Ret a) = (False, True)"
| "duty B (Throw e) = (False, True)"
| "duty B (Upd f m) =
     ((\<forall>s. \<not> B (f s)) \<and> snd (duty B m) \<or> fst (duty B m),
      (\<forall>s. B (f s) \<longrightarrow> B s) \<and> snd (duty B m) \<or> fst (duty B m))"
| "duty B (Look g) = (\<forall>s. fst (duty B (g s)), \<forall>s. snd (duty B (g s)))"
| "duty B (Await qs c) = (\<forall>rs. fst (duty B (c rs)), \<forall>rs. snd (duty B (c rs)))"

definition owes :: "('s \<Rightarrow> bool) \<Rightarrow> ('s, 'a) act \<Rightarrow> bool" where
  "owes B m = fst (duty B m)"

definition settles :: "('s \<Rightarrow> bool) \<Rightarrow> ('s, 'a) act \<Rightarrow> bool" where
  "settles B m = snd (duty B m)"

lemma owes_simps [simp]:
  "\<not> owes B (Ret a)" "\<not> owes B (Throw e)"
  "owes B (Upd f m) \<longleftrightarrow> (\<forall>s. \<not> B (f s)) \<and> settles B m \<or> owes B m"
  "owes B (Look g) \<longleftrightarrow> (\<forall>s. owes B (g s))"
  "owes B (Await qs c) \<longleftrightarrow> (\<forall>rs. owes B (c rs))"
  by (simp_all add: owes_def settles_def)

lemma settles_Ret [simp]: "settles B (Ret a)" "settles B (Throw e)"
  by (simp_all add: settles_def)

lemma settles_Upd: "settles B (Upd f m) \<longleftrightarrow> (\<forall>s. B (f s) \<longrightarrow> B s) \<and> settles B m \<or> owes B m"
  by (simp add: owes_def settles_def)

lemma settles_wait [simp]:
  "settles B (Look g) \<longleftrightarrow> (\<forall>s. settles B (g s))"
  "settles B (Await qs c) \<longleftrightarrow> (\<forall>rs. settles B (c rs))"
  by (simp_all add: settles_def)

lemma settles_UpdI [intro!]: "(\<And>s. B (f s) \<Longrightarrow> B s) \<Longrightarrow> settles B m \<Longrightarrow> settles B (Upd f m)"
  unfolding settles_Upd by blast

lemma settles_UpdI2: "owes B m \<Longrightarrow> settles B (Upd f m)"
  unfolding settles_Upd by blast

lemma owes_settles: "owes B m \<Longrightarrow> settles B m"
proof (induction m)
  case (Upd f m)
  then show ?case unfolding settles_Upd owes_simps by blast
qed auto

lemma duty_bnd:
  assumes "\<And>x. settles B (k x)"
  shows "(owes B m \<longrightarrow> owes B (bnd m k)) \<and> (settles B m \<longrightarrow> settles B (bnd m k))"
proof (induction m)
  case (Upd f m)
  then show ?case unfolding bnd.simps settles_Upd owes_simps by blast
qed (simp_all add: assms)

lemma duty_catch:
  assumes "\<And>e. settles B (h e)"
  shows "(owes B m \<longrightarrow> owes B (catch m h)) \<and> (settles B m \<longrightarrow> settles B (catch m h))"
proof (induction m)
  case (Upd f m)
  then show ?case unfolding catch.simps settles_Upd owes_simps by blast
qed (simp_all add: assms)

lemma duty_fin:
  assumes "\<And>s. B (f s) \<Longrightarrow> B s"
  shows "(owes B m \<longrightarrow> owes B (fin m f)) \<and> (settles B m \<longrightarrow> settles B (fin m f))"
proof -
  have ret: "settles B (Upd f (Ret a))" "settles B (Upd f (Throw e))" for a :: 'b and e
    unfolding settles_Upd using assms by auto
  show ?thesis
  proof (induction m)
    case (Upd g m)
    then show ?case unfolding fin.simps settles_Upd owes_simps by blast
  qed (simp_all only: fin.simps owes_simps settles_wait ret, simp_all)
qed

lemmas settles_bnd = duty_bnd [THEN conjunct2, THEN mp]
lemmas settles_catch = duty_catch [THEN conjunct2, THEN mp]
lemmas settles_fin = duty_fin [THEN conjunct2, THEN mp]
lemmas owes_bnd = duty_bnd [THEN conjunct1, THEN mp]
lemmas owes_catch = duty_catch [THEN conjunct1, THEN mp]
lemmas owes_fin_neutral = duty_fin [THEN conjunct1, THEN mp]

lemma settles_thn: "settles B n \<Longrightarrow> settles B m \<Longrightarrow> settles B (thn m n)"
  by (simp add: thn_def settles_bnd)

lemma owes_thn: "settles B n \<Longrightarrow> owes B m \<Longrightarrow> owes B (thn m n)"
  by (simp add: thn_def owes_bnd)

lemma owes_fin: "(\<And>s. \<not> B (f s)) \<Longrightarrow> owes B (fin m f)"
  by (induction m) auto

lemma settles_raised [simp]: "(\<And>s. \<not> B (g s)) \<Longrightarrow> settles B (Upd f (fin m g))"
  by (rule settles_UpdI2) (rule owes_fin)

lemma owes_raised [simp]: "(\<And>s. \<not> B (g s)) \<Longrightarrow> owes B (Upd f (fin m g))"
  by (simp add: owes_fin)

lemma settles_lift [simp]: "settles B (lift r)"
  by (cases r) auto

lemmas settles_intros = settles_bnd settles_thn settles_catch settles_fin

lemma owes_catch_both:
  "(\<And>x. owes B (k x)) \<Longrightarrow> (\<And>e. owes B (h e)) \<Longrightarrow> owes B (catch (bnd m k) h)"
  by (induction m) (auto intro: owes_catch owes_settles)

text \<open>A pending handler that settles the flag, and one that is sure to lower it.\<close>

definition settler :: "('s \<Rightarrow> bool) \<Rightarrow> ('s, 'a) waiting \<Rightarrow> bool" where
  "settler B p \<longleftrightarrow> (\<forall>rs. settles B (snd p rs))"

definition clearer :: "('s \<Rightarrow> bool) \<Rightarrow> ('s, 'a) waiting \<Rightarrow> bool" where
  "clearer B p \<longleftrightarrow> (\<forall>rs. owes B (snd p rs))"

lemma duty_advance:
  assumes "advance m s = (s', p)"
  shows "(owes B m \<longrightarrow> (case p of None \<Rightarrow> \<not> B s' | Some x \<Rightarrow> settler B x \<and> (clearer B x \<or> \<not> B s'))) \<and>
    (settles B m \<longrightarrow> (case p of None \<Rightarrow> B s' \<longrightarrow> B s
                       | Some x \<Rightarrow> settler B x \<and> (clearer B x \<or> (B s' \<longrightarrow> B s))))"
  using assms
proof (induction m arbitrary: s)
  case (Upd f m)
  then have "advance m (f s) = (s', p)" by simp
  from Upd.IH [OF this] show ?case
    unfolding settles_Upd owes_simps by (cases p) auto
next
  case (Look g)
  then have "advance (g s) s = (s', p)" by simp
  from Look.IH [OF _ this] show ?case by (cases p) auto
next
  case (Await qs c)
  then show ?case by (auto simp: settler_def clearer_def owes_settles)
qed auto

definition covered :: "('s \<Rightarrow> bool) \<Rightarrow> ('s, 'a) sys \<Rightarrow> bool" where
  "covered B y \<longleftrightarrow> (\<forall>p \<in> set (snd y). settler B p) \<and>
     (B (fst y) \<longrightarrow> (\<exists>p \<in> set (snd y). clearer B p))"

lemma covered_enqueue:
  assumes "\<forall>p \<in> set ps. settler B p" and "advance m s = (s', p)"
    and "owes B m \<or> settles B m \<and> (B s \<longrightarrow> (\<exists>p \<in> set ps. clearer B p))"
  shows "covered B (s', enqueue p ps)"
  using assms(3)
proof
  assume "owes B m"
  with duty_advance [OF assms(2), of B] assms(1) show ?thesis
    by (cases p) (auto simp: covered_def enqueue_def)
next
  assume "settles B m \<and> (B s \<longrightarrow> (\<exists>p \<in> set ps. clearer B p))"
  with duty_advance [OF assms(2), of B] assms(1) show ?thesis
    by (cases p) (auto simp: covered_def enqueue_def)
qed

locale spinner =
  fixes ops :: "'s \<Rightarrow> ('s, 'a) act set"
    and ok :: "request \<Rightarrow> response \<Rightarrow> bool"
    and busy :: "'s \<Rightarrow> bool"
  assumes ops_settle: "m \<in> ops s \<Longrightarrow> settles busy m"
begin

lemma covered_step:
  assumes "step ops ok y z" and "covered busy y"
  shows "covered busy z"
  using assms
proof (induction rule: step.induct)
  case (start m s s' p ps)
  then show ?case
    using ops_settle [OF start.hyps(1)]
    by (intro covered_enqueue [where m = m and s = s]) (auto simp: covered_def)
next
  case (resume i ps qs c rs s s' p)
  let ?rest = "take i ps @ drop (Suc i) ps"
  have ps: "ps = take i ps @ (qs, c) # drop (Suc i) ps"
    using resume.hyps(1,2) by (metis id_take_nth_drop)
  then have set_ps: "set ps = insert (qs, c) (set ?rest)"
    by (metis Un_insert_right list.simps(15) set_append)
  with resume.prems have "settles busy (c rs)"
    and "busy s \<longrightarrow> clearer busy (qs, c) \<or> (\<exists>p \<in> set ?rest. clearer busy p)"
    by (auto simp: covered_def settler_def)
  then have "owes busy (c rs) \<or>
      settles busy (c rs) \<and> (busy s \<longrightarrow> (\<exists>p \<in> set ?rest. clearer busy p))"
    by (auto simp: clearer_def)
  with resume set_ps show ?case
    by (intro covered_enqueue [where m = "c rs" and s = s]) (auto simp: covered_def)
qed

lemma reach_covered:
  assumes "reach ops ok (mounted m s0) y" and "owes busy m \<or> settles busy m \<and> \<not> busy s0"
  shows "busy (fst y) \<Longrightarrow> \<exists>p \<in> set (snd y). clearer busy p"
proof -
  have "covered busy (mounted m s0)"
    using covered_enqueue [of "[]" busy m s0] assms(2)
    by (auto simp: mounted_def split: prod.splits)
  from assms(1) this have "covered busy y"
    by (induction rule: reach.induct) (auto intro: covered_step)
  then show "busy (fst y) \<Longrightarrow> \<exists>p \<in> set (snd y). clearer busy p"
    by (simp add: covered_def)
qed

text \<open>In particular the flag is down whenever nothing is pending.\<close>

lemma idle_not_busy:
  assumes "reach ops ok (mounted m s0) (s, [])" and "owes busy m \<or> settles busy m \<and> \<not> busy s0"
  shows "\<not> busy s"
  using reach_covered [OF assms] by auto

end

end
