(* ===== verification/ApiClient.thy ===== *)
theory ApiClient
  imports Async
begin

text \<open>
  The HTTP client of \<open>src/frontend/src/api/api.js\<close> and the shape every endpoint function of
  \<open>src/frontend/src/api/\<close> has: a \<open>task\<close> issues at most one request and post-processes its
  settled answer. \<open>await\<close> turns a task into a handler step, \<open>promise_all\<close> issues the requests
  of several tasks together and is rejected with the first rejection (by position).
  Axios and the network are the server parameter of \<open>run\<close> and \<open>step\<close>.
\<close>

section \<open>The response interceptor\<close>

text \<open>
  \<open>err.response?.data?.detail || err.response?.data?.error || err.message || '...'\<close>, wrapped in a
  new Error; on success the interceptor unwraps \<open>res.data\<close>.
\<close>

definition intercept_error :: "jsv \<Rightarrow> jsv" where
  "intercept_error err = js_error
     (js_or (fld (fld (fld err ''response'') ''data'') ''detail'')
     (js_or (fld (fld (fld err ''response'') ''data'') ''error'')
     (js_or (fld err ''message'') (JStr ''Something went wrong''))))"

definition settle :: "response \<Rightarrow> jsv res" where
  "settle r = (case r of Inl err \<Rightarrow> Inl (intercept_error err) | Inr res \<Rightarrow> Inr (fld res ''data''))"

lemma settle_simps [simp]:
  "settle (Inl err) = Inl (intercept_error err)" "settle (Inr res) = Inr (fld res ''data'')"
  by (simp_all add: settle_def)

text \<open>Whatever is rejected is an Error with a string message and no \<open>response\<close> of its own.\<close>

definition plain_error :: "jsv \<Rightarrow> bool" where
  "plain_error e \<longleftrightarrow> (\<exists>m. fld e ''message'' = JStr m) \<and> fld e ''response'' = JUndef"

lemma plain_intercept [simp]: "plain_error (intercept_error err)"
  by (simp add: plain_error_def intercept_error_def)

lemma plain_type_error [simp]: "plain_error type_error"
  by (simp add: plain_error_def type_error_def)

lemma settle_plain: "settle r = Inl e \<Longrightarrow> plain_error e"
  by (cases r) auto

section \<open>Tasks\<close>

datatype 'a task = Now "'a res" | Ask request "jsv res \<Rightarrow> 'a res"

definition ask :: "request \<Rightarrow> jsv task" where
  "ask q = Ask q (\<lambda>r. r)"

primrec tbind :: "'a task \<Rightarrow> ('a \<Rightarrow> 'b res) \<Rightarrow> 'b task" where
  "tbind (Now r) f = Now (rbind r f)"
| "tbind (Ask q h) f = Ask q (\<lambda>r. rbind (h r) f)"

definition rcatch :: "'a res \<Rightarrow> (jsv \<Rightarrow> 'a res) \<Rightarrow> 'a res" where
  "rcatch r f = (case r of Inl e \<Rightarrow> f e | Inr x \<Rightarrow> Inr x)"

lemma rcatch_simps [simp]: "rcatch (Inl e) f = f e" "rcatch (Inr x) f = Inr x"
  by (simp_all add: rcatch_def)

primrec tcatch :: "'a task \<Rightarrow> (jsv \<Rightarrow> 'a res) \<Rightarrow> 'a task" where
  "tcatch (Now r) f = Now (rcatch r f)"
| "tcatch (Ask q h) f = Ask q (\<lambda>r. rcatch (h r) f)"

definition no_answer :: jsv where
  \<comment> \<open>unreachable: the event loop answers every request of an await\<close>
  "no_answer = js_error (JStr ''no answer'')"

primrec await :: "'a task \<Rightarrow> ('s, 'a) act" where
  "await (Now r) = lift r"
| "await (Ask q h) =
     Await [q] (\<lambda>rs. case rs of [] \<Rightarrow> Throw no_answer | r # _ \<Rightarrow> lift (h (settle r)))"

fun requests :: "'a task list \<Rightarrow> request list" where
  "requests [] = []"
| "requests (Now r # ts) = requests ts"
| "requests (Ask q h # ts) = q # requests ts"

fun gather :: "'a task list \<Rightarrow> response list \<Rightarrow> 'a list res" where
  "gather [] rs = Inr []"
| "gather (Now r # ts) rs = rbind r (\<lambda>x. rmap ((#) x) (gather ts rs))"
| "gather (Ask q h # ts) [] = Inl no_answer"
| "gather (Ask q h # ts) (r # rs) = rbind (h (settle r)) (\<lambda>x. rmap ((#) x) (gather ts rs))"

definition promise_all :: "'a task list \<Rightarrow> ('s, 'a list) act" where
  "promise_all ts = Await (requests ts) (\<lambda>rs. lift (gather ts rs))"

text \<open>What a task returns when the request is answered by \<open>f\<close>.\<close>

primrec answer :: "(request \<Rightarrow> response) \<Rightarrow> 'a task \<Rightarrow> 'a res" where
  "answer f (Now r) = r"
| "answer f (Ask q h) = h (settle (f q))"

lemma answer_tbind [simp]: "answer f (tbind t g) = rbind (answer f t) g"
  by (cases t) auto

lemma answer_tcatch [simp]: "answer f (tcatch t g) = rcatch (answer f t) g"
  by (cases t) auto

lemma answer_ask [simp]: "answer f (ask q) = settle (f q)"
  by (simp add: ask_def)

lemma requests_tbind [simp]: "requests [tbind t g] = requests [t]"
  by (cases t) auto

lemma requests_tcatch [simp]: "requests [tcatch t g] = requests [t]"
  by (cases t) auto

lemma requests_ask [simp]: "requests [ask q] = [q]"
  by (simp add: ask_def)

lemma run_await_logging [simp]:
  "run (logging f) (await t) s w = (answer f t, s, w @ requests [t])"
  by (cases t) (auto simp: logging_def)

lemma gather_map: "gather ts (map f (requests ts)) = rmapM (answer f) ts"
proof (induction ts)
  case (Cons t ts)
  then show ?case by (cases t) (auto simp: rmap_def)
qed simp

lemma run_promise_all_logging [simp]:
  "run (logging f) (promise_all ts) s w = (rmapM (answer f) ts, s, w @ requests ts)"
  by (simp add: promise_all_def gather_map)

text \<open>Awaiting only reads: the state is changed by the code around it.\<close>

lemma keeps_await [simp]: "keeps ok P (await t)"
  by (cases t) (auto split: list.splits)

lemma keeps_promise_all [simp]: "keeps ok P (promise_all ts)"
  by (simp add: promise_all_def)

lemma settles_await [simp]: "settles B (await t)"
  by (cases t) (auto split: list.splits)

lemma settles_promise_all [simp]: "settles B (promise_all ts)"
  by (simp add: promise_all_def)

text \<open>What any server at all can make a task return.\<close>

definition outcome :: "'a task \<Rightarrow> 'a res \<Rightarrow> bool" where
  "outcome t r \<longleftrightarrow> (\<exists>f. answer f t = r)"

lemma run_await_outcome:
  "\<exists>r w'. run srv (await t) s w = (r, s, w') \<and> outcome t r"
proof (cases t)
  case (Now r)
  then show ?thesis by (auto simp: outcome_def)
next
  case (Ask q h)
  obtain a w' where "srv w q = (a, w')" by fastforce
  with Ask show ?thesis
    by (auto simp: outcome_def intro: exI [of _ "\<lambda>_. a"])
qed

section \<open>The verbs\<close>

definition api_get :: "string \<Rightarrow> jsv task" where
  "api_get p = ask (Req GET p JUndef JUndef)"

definition api_get_params :: "string \<Rightarrow> jsv \<Rightarrow> jsv task" where
  "api_get_params p ps = ask (Req GET p ps JUndef)"

definition api_post :: "string \<Rightarrow> jsv \<Rightarrow> jsv task" where
  "api_post p b = ask (Req POST p JUndef b)"

definition api_put :: "string \<Rightarrow> jsv \<Rightarrow> jsv task" where
  "api_put p b = ask (Req PUT p JUndef b)"

definition api_patch :: "string \<Rightarrow> jsv \<Rightarrow> jsv task" where
  "api_patch p b = ask (Req PATCH p JUndef b)"

definition api_delete :: "string \<Rightarrow> jsv task" where
  "api_delete p = ask (Req DELETE p JUndef JUndef)"

lemmas api_verbs = api_get_def api_get_params_def api_post_def api_put_def api_patch_def
  api_delete_def

text \<open>A parameter's default value replaces \<open>undefined\<close> only.\<close>

definition dflt :: "jsv \<Rightarrow> jsv \<Rightarrow> jsv" where
  "dflt v d = (if v = JUndef then d else v)"

lemma dflt_simps [simp]: "dflt JUndef d = d" "v \<noteq> JUndef \<Longrightarrow> dflt v d = v"
  by (simp_all add: dflt_def)

text \<open>\<open>Array.isArray(data) ? data : []\<close>, as a value.\<close>

definition as_list :: "jsv \<Rightarrow> jsv" where
  "as_list v = JArr (elems v)"

lemma elems_as_list [simp]: "elems (as_list v) = elems v"
  by (simp add: as_list_def)

lemma is_array_as_list [simp]: "is_array (as_list v)"
  by (simp add: as_list_def)

end
