(* ===== verification/Json.thy ===== *)
theory Json
  imports JsPrelude
begin

text \<open>
  \<open>JSON.parse\<close> and \<open>JSON.stringify(v, null, 2)\<close>, which the rule editors of the front end use to let the
  user edit a configuration as text, and the sockets to decode messages. The printer gives each element and member a line of its own,
  indented by two blanks per level; the parser is the grammar of the standard on byte characters, with the nesting bounded by
  a fuel that \<open>JSON_parse\<close> takes from the length of the text. What a printed value is read back as is proved.
\<close>

section \<open>Printing\<close>

definition hex_char :: "nat \<Rightarrow> char" where
  "hex_char d = ''0123456789abcdef'' ! d"

definition json_char :: "char \<Rightarrow> string" where
  "json_char c =
    (let n = of_char c :: nat in
     if n = 34 then [CHR 0x5C, CHR 0x22]
     else if n = 92 then [CHR 0x5C, CHR 0x5C]
     else if n = 8 then [CHR 0x5C, CHR ''b'']
     else if n = 9 then [CHR 0x5C, CHR ''t'']
     else if n = 10 then [CHR 0x5C, CHR ''n'']
     else if n = 12 then [CHR 0x5C, CHR ''f'']
     else if n = 13 then [CHR 0x5C, CHR ''r'']
     else if n < 32 then [CHR 0x5C, CHR ''u'', CHR ''0'', CHR ''0'', hex_char (n div 16), hex_char (n mod 16)]
     else [c])"

definition json_quote :: "string \<Rightarrow> string" where
  "json_quote s = CHR 0x22 # concat (map json_char s) @ [CHR 0x22]"

text \<open>\<open>JSON.stringify(v)\<close>: \<open>undefined\<close> is left out of an object and is \<open>null\<close> in an array; \<open>NaN\<close> is \<open>null\<close>.\<close>

fun json_str :: "jsv \<Rightarrow> string" where
  "json_str JUndef = ''null''"
| "json_str JNull = ''null''"
| "json_str (JBool b) = (if b then ''true'' else ''false'')"
| "json_str (JNum n) = (case n of NaN \<Rightarrow> ''null'' | Fin _ \<Rightarrow> num_str n)"
| "json_str (JStr s) = json_quote s"
| "json_str (JArr xs) = ''['' @ join_str '','' (map json_str xs) @ '']''"
| "json_str (JObj ps) =
     ''{'' @ join_str '','' (concat (map (\<lambda>(k, v). if v = JUndef then []
                                           else [json_quote k @ '':'' @ json_str v]) ps)) @ ''}''"

text \<open>With the indentation argument.\<close>

abbreviation quote_char :: char where
  "quote_char \<equiv> CHR 0x22"

abbreviation backslash :: char where
  "backslash \<equiv> CHR 0x5C"

definition new_line :: "nat \<Rightarrow> string" where
  "new_line ind = CHR 0x0A # replicate ind (CHR '' '')"

text \<open>The lines between the brackets, each of them on its own line.\<close>

fun json_lines :: "nat \<Rightarrow> string list \<Rightarrow> string" where
  "json_lines ind [] = []"
| "json_lines ind [x] = new_line ind @ x"
| "json_lines ind (x # xs) = new_line ind @ x @ '','' @ json_lines ind xs"

text \<open>Inside an array what has no JSON form is \<open>null\<close>; in an object such a member is left out.\<close>

definition json_able :: "jsv \<Rightarrow> bool" where
  "json_able v \<longleftrightarrow> v \<noteq> JUndef"

fun json_text :: "nat \<Rightarrow> jsv \<Rightarrow> string" where
  "json_text ind JUndef = ''null''"
| "json_text ind JNull = ''null''"
| "json_text ind (JBool b) = (if b then ''true'' else ''false'')"
| "json_text ind (JNum n) = (case n of NaN \<Rightarrow> ''null'' | Fin r \<Rightarrow> num_str n)"
| "json_text ind (JStr s) = json_quote s"
| "json_text ind (JArr xs) =
     (if xs = [] then ''[]'' else ''['' @ json_lines (ind + 2) (map (json_text (ind + 2)) xs) @ new_line ind @ '']'')"
| "json_text ind (JObj ps) =
     (let ms = map (\<lambda>(k, t). json_quote k @ '': '' @ t) (map (\<lambda>(k, v). (k, json_text (ind + 2) v))
          (filter (\<lambda>(k, v). json_able v) ps))
      in if ms = [] then ''{}'' else ''{'' @ json_lines (ind + 2) ms @ new_line ind @ ''}'')"

definition JSON_stringify :: "jsv \<Rightarrow> string" where
  \<comment> \<open>\<open>JSON.stringify(v, null, 2)\<close> of a value other than \<open>undefined\<close>\<close>
  "JSON_stringify v = json_text 0 v"

section \<open>Parsing\<close>

definition json_ws :: "char \<Rightarrow> bool" where
  "json_ws c \<longleftrightarrow> c \<in> {CHR '' '', CHR 0x09, CHR 0x0A, CHR 0x0D}"

abbreviation skip_ws :: "string \<Rightarrow> string" where
  "skip_ws \<equiv> dropWhile json_ws"

definition hex_val :: "char \<Rightarrow> nat option" where
  "hex_val c = (let n = of_char c :: nat in
     if 48 \<le> n \<and> n \<le> 57 then Some (n - 48)
     else if 97 \<le> n \<and> n \<le> 102 then Some (n - 87)
     else if 65 \<le> n \<and> n \<le> 70 then Some (n - 55) else None)"

definition unescape :: "char \<Rightarrow> char option" where
  "unescape c =
     (if c \<in> {quote_char, backslash, CHR ''/''} then Some c
      else if c = CHR ''b'' then Some (CHR 0x08) else if c = CHR ''f'' then Some (CHR 0x0C)
      else if c = CHR ''n'' then Some (CHR 0x0A) else if c = CHR ''r'' then Some (CHR 0x0D)
      else if c = CHR ''t'' then Some (CHR 0x09) else None)"

text \<open>A code point above 255 is outside the model's characters.\<close>

definition code_point :: "string \<Rightarrow> char option" where
  "code_point h = (case map hex_val h of
      [Some a, Some b, Some c, Some d] \<Rightarrow>
        (let n = ((a * 16 + b) * 16 + c) * 16 + d in if n < 256 then Some (char_of n) else None)
    | _ \<Rightarrow> None)"

text \<open>The rest of a string literal after its opening quote, as one step and then to its end.\<close>

definition char_step :: "string \<Rightarrow> (char \<times> string) option" where
  "char_step s = (case s of
      [] \<Rightarrow> None
    | c # t \<Rightarrow>
        if c = backslash then
          (case t of [] \<Rightarrow> None
           | e # u \<Rightarrow> if e = CHR ''u'' then (case code_point (take 4 u) of None \<Rightarrow> None | Some d \<Rightarrow> Some (d, drop 4 u))
                      else (case unescape e of None \<Rightarrow> None | Some d \<Rightarrow> Some (d, u)))
        else if (of_char c :: nat) < 32 then None else Some (c, t))"

fun string_body :: "nat \<Rightarrow> string \<Rightarrow> (string \<times> string) option" where
  "string_body 0 s = None"
| "string_body (Suc n) s =
     (case s of [] \<Rightarrow> None
      | c # t \<Rightarrow> if c = quote_char then Some ([], t)
                 else (case char_step s of None \<Rightarrow> None
                       | Some (d, u) \<Rightarrow> map_option (\<lambda>(r, v). (d # r, v)) (string_body n u)))"

definition read_string :: "string \<Rightarrow> (string \<times> string) option" where
  "read_string t = string_body (Suc (length t)) t"

text \<open>\<open>-? (0 | [1-9][0-9]*) (. [0-9]+)? ([eE] [+-]? [0-9]+)?\<close>\<close>

definition json_exponent :: "rat \<Rightarrow> string \<Rightarrow> (rat \<times> string) option" where
  "json_exponent x s = (case s of
      c # t \<Rightarrow>
        if c = CHR ''e'' \<or> c = CHR ''E'' then
          (let neg = (t \<noteq> [] \<and> hd t = CHR ''-''); t1 = (if t \<noteq> [] \<and> hd t \<in> {CHR ''-'', CHR ''+''} then tl t else t);
               e = takeWhile is_digit t1
           in if e = [] then None
              else Some (if neg then x / 10 ^ digits_val e else x * 10 ^ digits_val e, dropWhile is_digit t1))
        else Some (x, s)
    | [] \<Rightarrow> Some (x, []))"

definition json_unsigned :: "string \<Rightarrow> (rat \<times> string) option" where
  "json_unsigned s =
     (let ip = takeWhile is_digit s; r = dropWhile is_digit s in
      if ip = [] \<or> (hd ip = CHR ''0'' \<and> ip \<noteq> ''0'') then None
      else if r \<noteq> [] \<and> hd r = CHR ''.'' then
        (let fp = takeWhile is_digit (tl r) in
         if fp = [] then None
         else json_exponent (of_nat (digits_val ip) + of_nat (digits_val fp) / 10 ^ length fp) (dropWhile is_digit (tl r)))
      else json_exponent (of_nat (digits_val ip)) r)"

definition json_number :: "string \<Rightarrow> (jsv \<times> string) option" where
  "json_number s = (case s of
      c # t \<Rightarrow> if c = CHR ''-'' then map_option (\<lambda>(x, u). (jn (- x), u)) (json_unsigned t)
               else map_option (\<lambda>(x, u). (jn x, u)) (json_unsigned s)
    | [] \<Rightarrow> None)"

definition strip_prefix :: "string \<Rightarrow> string \<Rightarrow> string option" where
  "strip_prefix p s = (if take (length p) s = p then Some (drop (length p) s) else None)"

definition json_atom :: "string \<Rightarrow> (jsv \<times> string) option" where
  "json_atom s =
     (case strip_prefix ''true'' s of Some t \<Rightarrow> Some (JBool True, t)
      | None \<Rightarrow> case strip_prefix ''false'' s of Some t \<Rightarrow> Some (JBool False, t)
      | None \<Rightarrow> case strip_prefix ''null'' s of Some t \<Rightarrow> Some (JNull, t)
      | None \<Rightarrow> json_number s)"

text \<open>
  The elements of an array up to \<open>]\<close> and the members of an object up to \<open>}\<close>; a repeated key keeps its place and
  takes the later value.
\<close>

fun json_value :: "nat \<Rightarrow> string \<Rightarrow> (jsv \<times> string) option"
  and json_elements :: "nat \<Rightarrow> string \<Rightarrow> (jsv list \<times> string) option"
  and json_members :: "nat \<Rightarrow> obj \<Rightarrow> string \<Rightarrow> (obj \<times> string) option"
where
  "json_value 0 s = None"
| "json_value (Suc n) s =
     (case skip_ws s of
        [] \<Rightarrow> None
      | c # t \<Rightarrow>
          if c = CHR ''['' then
            (case skip_ws t of
               [] \<Rightarrow> None
             | d # u \<Rightarrow> if d = CHR '']'' then Some (JArr [], u)
                        else map_option (\<lambda>(xs, r). (JArr xs, r)) (json_elements n (d # u)))
          else if c = CHR ''{'' then
            (case skip_ws t of
               [] \<Rightarrow> None
             | d # u \<Rightarrow> if d = CHR ''}'' then Some (JObj [], u)
                        else map_option (\<lambda>(ps, r). (JObj ps, r)) (json_members n [] (d # u)))
          else if c = quote_char then map_option (\<lambda>(x, r). (JStr x, r)) (read_string t)
          else json_atom (c # t))"
| "json_elements 0 s = None"
| "json_elements (Suc n) s =
     (case json_value n s of None \<Rightarrow> None
      | Some (x, r) \<Rightarrow>
          (case skip_ws r of
             [] \<Rightarrow> None
           | c # t \<Rightarrow> if c = CHR '']'' then Some ([x], t)
                      else if c = CHR '','' then map_option (\<lambda>(xs, u). (x # xs, u)) (json_elements n t)
                      else None))"
| "json_members 0 ps s = None"
| "json_members (Suc n) ps s =
     (case skip_ws s of
        [] \<Rightarrow> None
      | c # t \<Rightarrow>
          if c \<noteq> quote_char then None
          else (case read_string t of None \<Rightarrow> None
          | Some (k, r) \<Rightarrow>
              (case skip_ws r of
                 [] \<Rightarrow> None
               | d # u \<Rightarrow>
                   if d \<noteq> CHR '':'' then None
                   else (case json_value n u of None \<Rightarrow> None
                   | Some (x, r2) \<Rightarrow>
                       (case skip_ws r2 of
                          [] \<Rightarrow> None
                        | e # w \<Rightarrow> if e = CHR ''}'' then Some (AList.update k x ps, w)
                                   else if e = CHR '','' then json_members n (AList.update k x ps) w
                                   else None)))))"

definition syntax_error :: jsv where
  "syntax_error = JObj [(''name'', JStr ''SyntaxError''), (''message'', JStr ''SyntaxError'')]"

definition JSON_parse :: "string \<Rightarrow> jsv res" where
  "JSON_parse s = (case json_value (2 * length s + 2) s of
      Some (v, r) \<Rightarrow> if skip_ws r = [] then Inr v else Inl syntax_error
    | None \<Rightarrow> Inl syntax_error)"

section \<open>Digits\<close>

lemma digits_val_Cons: "digits_val (c # s) = digit_val c * 10 ^ length s + digits_val s"
proof -
  have *: "foldl (\<lambda>a c. 10 * a + digit_val c) x s = x * 10 ^ length s + foldl (\<lambda>a c. 10 * a + digit_val c) 0 s" for x
  proof (induction s arbitrary: x)
    case (Cons d s)
    define F where "F = foldl (\<lambda>a c. 10 * a + digit_val c) 0 s"
    have IH: "foldl (\<lambda>a c. 10 * a + digit_val c) y s = y * 10 ^ length s + F" for y
      unfolding F_def by (rule Cons.IH)
    show ?case by (simp add: IH) (simp add: algebra_simps)
  qed simp
  show ?thesis unfolding digits_val_def using * [of "digit_val c"] by simp
qed

lemma digits_val_append: "digits_val (s @ t) = digits_val s * 10 ^ length t + digits_val t"
  by (induction s) (simp_all add: digits_val_Cons power_add algebra_simps, simp add: digits_val_def)

lemma digit_val_char: "d < 10 \<Longrightarrow> digit_val (digit_char d) = d"
proof -
  have "list_all (\<lambda>d. digit_val (digit_char d) = d) [0..<10]"
    by (simp add: digit_val_def digit_char_def upt_rec)
  then show "d < 10 \<Longrightarrow> digit_val (digit_char d) = d"
    by (auto simp: list_all_iff)
qed

lemma digits_val_nat_str: "digits_val (nat_str n) = n"
proof (induction n rule: nat_str.induct)
  case (1 n)
  then show ?case
    by (subst nat_str.simps)
      (auto simp: digits_val_append digits_val_Cons digit_val_char, simp_all add: digits_val_def digit_val_char)
qed

lemma digit_zero: "digit_char d = CHR ''0'' \<Longrightarrow> d < 10 \<Longrightarrow> d = 0"
proof -
  assume "digit_char d = CHR ''0''" and "d < 10"
  then have "digit_val CHR ''0'' = d" using digit_val_char by metis
  then show "d = 0" by (simp add: digit_val_def)
qed

lemma nat_str_head: "nat_str n \<noteq> [] \<and> (hd (nat_str n) = CHR ''0'' \<longrightarrow> n = 0)"
proof (induction n rule: nat_str.induct)
  case (1 n)
  show ?case
  proof (cases "n < 10")
    case True
    then show ?thesis by (subst nat_str.simps, subst (2) nat_str.simps) (auto dest: digit_zero)
  next
    case False
    with 1 have "nat_str (n div 10) \<noteq> []" and "hd (nat_str (n div 10)) \<noteq> CHR ''0''" by auto
    with False show ?thesis
      by (subst nat_str.simps, subst (2) nat_str.simps) simp
  qed
qed

lemma nat_str_zero: "nat_str 0 = ''0''"
  by (subst nat_str.simps) (simp add: digit_char_def)

definition decimal :: "nat \<Rightarrow> rat \<Rightarrow> bool" where
  "decimal k r \<longleftrightarrow> r * 10 ^ k \<in> \<int>"

lemma decimal_zero: "decimal 0 r \<Longrightarrow> 0 \<le> r \<Longrightarrow> r < 1 \<Longrightarrow> r = 0"
  by (auto simp: decimal_def elim!: Ints_cases)

lemma frac_digits_correct:
  "decimal k r \<Longrightarrow> 0 \<le> r \<Longrightarrow> r < 1 \<Longrightarrow>
     of_nat (digits_val (frac_digits k r)) / 10 ^ length (frac_digits k r) = r \<and> (\<forall>c\<in>set (frac_digits k r). is_digit c)"
proof (induction k arbitrary: r)
  case 0
  then show ?case using decimal_zero [of r] by (simp add: digits_val_def)
next
  case (Suc k)
  show ?case
  proof (cases "r = 0")
    case True
    then show ?thesis by (simp add: digits_val_def)
  next
    case False
    define d where "d = \<lfloor>r * 10\<rfloor>"
    define q where "q = r * 10 - of_int d"
    have d: "0 \<le> d" "d < 10" unfolding d_def using Suc.prems(2,3) by (simp_all add: floor_less_iff)
    have q: "0 \<le> q" "q < 1" unfolding q_def d_def by linarith+
    have "r * 10 ^ Suc k - of_int d * 10 ^ k \<in> \<int>"
      using Suc.prems(1) by (intro Ints_diff) (simp_all add: decimal_def)
    then have "decimal k q"
      by (simp add: decimal_def q_def algebra_simps)
    from Suc.IH [OF this q] have IH: "of_nat (digits_val (frac_digits k q)) / 10 ^ length (frac_digits k q) = q"
      and digits: "\<forall>c\<in>set (frac_digits k q). is_digit c" by simp_all
    let ?l = "length (frac_digits k q)"
    have split: "frac_digits (Suc k) r = digit_char (nat d) # frac_digits k q"
      using False by (simp add: Let_def d_def q_def)
    have "of_nat (nat d) = (of_int d :: rat)" using d(1) by simp
    then have "(of_nat (digits_val (frac_digits (Suc k) r)) :: rat) = of_int d * 10 ^ ?l + q * 10 ^ ?l"
      using d IH unfolding split digits_val_Cons
      by (simp add: digit_val_char nat_less_iff field_simps)
    also have "\<dots> = r * 10 ^ Suc ?l"
      by (simp add: q_def algebra_simps)
    finally show ?thesis
      using d digits unfolding split by (simp add: digit_char_digit nat_less_iff)
  qed
qed

lemma frac_digits_nonempty: "r \<noteq> 0 \<Longrightarrow> 0 < k \<Longrightarrow> frac_digits k r \<noteq> []"
  by (cases k) (simp_all add: Let_def)

text \<open>What may follow a number without becoming a part of it.\<close>

definition number_ends :: "string \<Rightarrow> bool" where
  "number_ends s \<longleftrightarrow> (case s of [] \<Rightarrow> True | c # _ \<Rightarrow> \<not> is_digit c \<and> c \<noteq> CHR ''.'' \<and> c \<noteq> CHR ''e'' \<and> c \<noteq> CHR ''E'')"

lemma span_digits:
  "\<forall>c\<in>set s. is_digit c \<Longrightarrow> (case t of [] \<Rightarrow> True | c # _ \<Rightarrow> \<not> is_digit c) \<Longrightarrow>
     takeWhile is_digit (s @ t) = s \<and> dropWhile is_digit (s @ t) = t"
  by (induction s) (auto split: list.splits)

lemma json_exponent_ends: "number_ends t \<Longrightarrow> json_exponent x t = Some (x, t)"
  by (auto simp: number_ends_def json_exponent_def split: list.splits)

lemma dot_not_digit: "\<not> is_digit CHR ''.''" and minus_not_digit: "\<not> is_digit CHR ''-''"
  by (simp_all add: is_digit_def)

text \<open>The decimal text of a number, cut where the parsers cut it.\<close>

lemma pos_str_cut:
  assumes "decimal 17 r" and "0 \<le> r" and "number_ends t"
  obtains ip where "takeWhile is_digit (pos_str r @ t) = ip" "dropWhile is_digit (pos_str r @ t) = t"
      "of_nat (digits_val ip) = r" "ip \<noteq> []" "hd ip = CHR ''0'' \<longrightarrow> ip = ''0''"
    | ip fp where "takeWhile is_digit (pos_str r @ t) = ip" "dropWhile is_digit (pos_str r @ t) = CHR ''.'' # fp @ t"
      "takeWhile is_digit (fp @ t) = fp" "dropWhile is_digit (fp @ t) = t" "fp \<noteq> []" "ip \<noteq> []" "hd ip = CHR ''0'' \<longrightarrow> ip = ''0''"
      "of_nat (digits_val ip) + of_nat (digits_val fp) / 10 ^ length fp = r"
proof -
  define i where "i = \<lfloor>r\<rfloor>"
  define f where "f = r - of_int i"
  have i: "0 \<le> i" and f: "0 \<le> f" "f < 1"
    using assms(2) unfolding i_def f_def by (simp, linarith+)
  have ip: "of_nat (digits_val (nat_str (nat i))) = (of_int i :: rat)"
    using i by (simp add: digits_val_nat_str)
  have lead: "nat_str (nat i) \<noteq> []" "hd (nat_str (nat i)) = CHR ''0'' \<longrightarrow> nat_str (nat i) = ''0''"
    using nat_str_head [of "nat i"] nat_str_zero by auto
  have ends: "case t of [] \<Rightarrow> True | c # _ \<Rightarrow> \<not> is_digit c"
    using assms(3) by (auto simp: number_ends_def split: list.splits)
  show thesis
  proof (cases "f = 0")
    case True
    then have "pos_str r = nat_str (nat i)" and "of_int i = r"
      by (simp_all add: pos_str_def Let_def i_def f_def)
    with span_digits [OF nat_str_digits ends, of "nat i"] ip lead that(1) show thesis by auto
  next
    case False
    let ?fd = "frac_digits 17 f"
    have "r * 10 ^ 17 - of_int i * 10 ^ 17 \<in> \<int>"
      using assms(1) by (intro Ints_diff) (simp_all add: decimal_def)
    then have "decimal 17 f" by (simp add: decimal_def f_def algebra_simps)
    from frac_digits_correct [OF this f] have fd: "of_nat (digits_val ?fd) / 10 ^ length ?fd = f" "\<forall>c\<in>set ?fd. is_digit c"
      by simp_all
    have "?fd \<noteq> []" using False by (intro frac_digits_nonempty) simp_all
    have str: "pos_str r @ t = nat_str (nat i) @ CHR ''.'' # ?fd @ t"
      using False by (simp add: pos_str_def Let_def i_def f_def)
    have "takeWhile is_digit (pos_str r @ t) = nat_str (nat i)" "dropWhile is_digit (pos_str r @ t) = CHR ''.'' # ?fd @ t"
      unfolding str using span_digits [OF nat_str_digits, of "CHR ''.'' # ?fd @ t" "nat i"] by (auto simp: dot_not_digit)
    moreover have "takeWhile is_digit (?fd @ t) = ?fd" "dropWhile is_digit (?fd @ t) = t"
      using span_digits [OF fd(2) ends] by auto
    moreover have "of_nat (digits_val (nat_str (nat i))) + of_nat (digits_val ?fd) / 10 ^ length ?fd = r"
      by (simp only: ip fd(1)) (simp add: f_def)
    ultimately show thesis using that(2) lead \<open>?fd \<noteq> []\<close> by blast
  qed
qed

lemma json_unsigned_pos:
  assumes "decimal 17 r" and "0 \<le> r" and "number_ends t"
  shows "json_unsigned (pos_str r @ t) = Some (r, t)"
  using assms
proof (cases rule: pos_str_cut)
  case (1 ip)
  have "(t \<noteq> [] \<and> hd t = CHR ''.'') = False"
    using assms(3) by (auto simp: number_ends_def split: list.splits)
  with 1 show ?thesis
    unfolding json_unsigned_def by (simp only: Let_def if_False) (simp add: json_exponent_ends assms(3))
next
  case (2 ip fp)
  then show ?thesis
    unfolding json_unsigned_def by (simp only: Let_def) (simp add: json_exponent_ends assms(3))
qed

text \<open>\<open>Number(String(x))\<close> and \<open>parseFloat(String(x))\<close> give the number back.\<close>

lemma scan_pos_str:
  assumes "decimal 17 r" and "0 \<le> r"
  shows "scan_unsigned (pos_str r) = Some (r, [])"
proof -
  have "number_ends []" by (simp add: number_ends_def)
  with assms show ?thesis
  proof (cases rule: pos_str_cut)
    case (1 ip)
    then show ?thesis by (simp add: scan_unsigned_def Let_def del: dropWhile_eq_Nil_conv)
  next
    case (2 ip fp)
    then show ?thesis
      by (simp add: scan_unsigned_def Let_def del: dropWhile_eq_Nil_conv takeWhile_eq_all_conv)
  qed
qed

lemma pos_str_head: "\<exists>c s. pos_str r = c # s \<and> is_digit c"
proof -
  obtain c s where "nat_str (nat \<lfloor>r\<rfloor>) = c # s" using nat_str_head by (meson neq_Nil_conv)
  moreover have "is_digit c" using nat_str_digits [of "nat \<lfloor>r\<rfloor>"] calculation by simp
  ultimately show ?thesis by (simp add: pos_str_def Let_def)
qed

lemma json_number_str:
  assumes "decimal 17 r" and "number_ends t"
  shows "json_number (num_str (Fin r) @ t) = Some (jn r, t)"
proof (cases "r < 0")
  case True
  from assms(1) have "decimal 17 (- r)" by (simp add: decimal_def)
  with True assms(2) show ?thesis by (simp add: json_number_def json_unsigned_pos)
next
  case False
  obtain c s where "pos_str r = c # s" "is_digit c" using pos_str_head by blast
  then have "pos_str r @ t = c # s @ t" and "c \<noteq> CHR ''-''" using minus_not_digit by auto
  with False assms show ?thesis
    using json_unsigned_pos [of r t] by (simp add: json_number_def)
qed

lemma scan_num_str: "decimal 17 r \<Longrightarrow> scan_signed (num_str (Fin r)) = Some (r, [])"
proof -
  assume d: "decimal 17 r"
  obtain c s where cs: "pos_str r = c # s" "is_digit c" using pos_str_head by blast
  then have "c \<noteq> CHR ''-''" "c \<noteq> CHR ''+''" by (auto simp: is_digit_def)
  moreover have "decimal 17 (- r)" using d by (simp add: decimal_def)
  ultimately show ?thesis
    using d cs scan_pos_str [of r] scan_pos_str [of "- r"] by (simp add: scan_signed_def)
qed

lemma parse_float_num:
  assumes "decimal 17 r"
  shows "parse_float (jn r) = Fin r"
proof -
  obtain c s where "num_str (Fin r) = c # s" "is_digit c \<or> c = CHR ''-''"
    using pos_str_head [of r] pos_str_head [of "- r"] by (cases "r < 0") auto
  then have "dropWhile is_space (num_str (Fin r)) = num_str (Fin r)"
    by (auto simp: is_digit_def is_space_def)
  with scan_num_str [OF assms] show ?thesis
    by (simp add: parse_float_def del: num_str.simps)
qed

section \<open>Strings\<close>

lemma hex_val_char: "d < 16 \<Longrightarrow> hex_val (hex_char d) = Some d"
proof -
  have "list_all (\<lambda>d. hex_val (hex_char d) = Some d) [0..<16]"
    by (simp add: hex_val_def hex_char_def upt_rec)
  then show "d < 16 \<Longrightarrow> hex_val (hex_char d) = Some d"
    by (auto simp: list_all_iff)
qed

lemma code_point_control: "n < 32 \<Longrightarrow> code_point [CHR ''0'', CHR ''0'', hex_char (n div 16), hex_char (n mod 16)] = Some (char_of n)"
proof -
  assume "n < 32"
  moreover have "hex_val CHR ''0'' = Some 0" by (simp add: hex_val_def)
  ultimately show ?thesis
    using hex_val_char [of "n div 16"] hex_val_char [of "n mod 16"]
    by (simp add: code_point_def Let_def mult.commute)
qed

lemma char_code: "of_char d = k \<Longrightarrow> (of_char c :: nat) = k \<longleftrightarrow> c = d"
  by (metis of_char_eq_iff)

text \<open>An escaped character is read back in one step and does not start with the closing quote.\<close>

lemma json_char_step: "char_step (json_char c @ u) = Some (c, u) \<and> (\<exists>d t. json_char c = d # t \<and> d \<noteq> quote_char)"
proof -
  define n where "n = (of_char c :: nat)"
  have c: "c = char_of n" by (simp add: n_def)
  have codes: "n = 34 \<longleftrightarrow> c = quote_char" "n = 92 \<longleftrightarrow> c = backslash" "n = 8 \<longleftrightarrow> c = CHR 0x08"
    "n = 9 \<longleftrightarrow> c = CHR 0x09" "n = 10 \<longleftrightarrow> c = CHR 0x0A" "n = 12 \<longleftrightarrow> c = CHR 0x0C" "n = 13 \<longleftrightarrow> c = CHR 0x0D"
    unfolding n_def by (rule char_code, simp)+
  show ?thesis
  proof (cases "c \<in> {quote_char, backslash, CHR 0x08, CHR 0x09, CHR 0x0A, CHR 0x0C, CHR 0x0D}")
    case True
    then show ?thesis
      by (elim insertE emptyE; simp add: json_char_def char_step_def unescape_def)
  next
    case False
    then have plain: "c \<noteq> quote_char" "c \<noteq> backslash" "n \<noteq> 34" "n \<noteq> 92" "n \<noteq> 8" "n \<noteq> 9" "n \<noteq> 10" "n \<noteq> 12" "n \<noteq> 13"
      by (simp_all add: codes)
    show ?thesis
    proof (cases "n < 32")
      case True
      then have "json_char c = [backslash, CHR ''u'', CHR ''0'', CHR ''0'', hex_char (n div 16), hex_char (n mod 16)]"
        using plain by (simp add: json_char_def Let_def flip: n_def)
      then show ?thesis
        using code_point_control [OF True] c by (simp add: char_step_def)
    next
      case False
      then have "json_char c = [c]" using plain by (simp add: json_char_def Let_def flip: n_def)
      with plain False show ?thesis by (simp add: char_step_def n_def)
    qed
  qed
qed

lemma string_body_quoted:
  "length s < n \<Longrightarrow> string_body n (concat (map json_char s) @ quote_char # rest) = Some (s, rest)"
proof (induction s arbitrary: n)
  case Nil
  then show ?case by (cases n) auto
next
  case (Cons c s)
  then obtain m where n: "n = Suc m" "length s < m" by (cases n) auto
  obtain d t where dt: "json_char c = d # t" "d \<noteq> quote_char" using json_char_step by blast
  have "char_step (d # t @ concat (map json_char s) @ quote_char # rest) =
      Some (c, concat (map json_char s) @ quote_char # rest)"
    using json_char_step [of c "concat (map json_char s) @ quote_char # rest"] dt(1) by simp
  with Cons.IH [OF n(2)] n(1) dt show ?case by simp
qed

lemma length_json_chars: "length s \<le> length (concat (map json_char s))"
proof (induction s)
  case (Cons c s)
  moreover have "1 \<le> length (json_char c)" using json_char_step [of c "[]"] by auto
  ultimately show ?case by simp
qed simp

lemma string_read: "read_string (concat (map json_char s) @ quote_char # rest) = Some (s, rest)"
  unfolding read_string_def using length_json_chars [of s] by (intro string_body_quoted) simp

section \<open>Reading back what was printed\<close>

text \<open>What has a JSON form of its own: no \<open>undefined\<close>, no \<open>NaN\<close>, numbers with at most 17 decimals, distinct keys.\<close>

fun json_ok :: "jsv \<Rightarrow> bool" where
  "json_ok JUndef = False"
| "json_ok JNull = True"
| "json_ok (JBool b) = True"
| "json_ok (JNum n) = (case n of NaN \<Rightarrow> False | Fin r \<Rightarrow> decimal 17 r)"
| "json_ok (JStr s) = True"
| "json_ok (JArr xs) = list_all json_ok xs"
| "json_ok (JObj ps) = (distinct (map fst ps) \<and> list_all (\<lambda>(k, v). json_ok v) ps)"

text \<open>Fuel enough for a value.\<close>

fun need :: "jsv \<Rightarrow> nat" where
  "need (JArr xs) = Suc (\<Sum>x\<leftarrow>xs. Suc (need x))"
| "need (JObj ps) = Suc (\<Sum>p\<leftarrow>ps. Suc (need (snd p)))"
| "need _ = 1"

definition member_text :: "nat \<Rightarrow> string \<times> jsv \<Rightarrow> string" where
  "member_text ind p = json_quote (fst p) @ '': '' @ json_text ind (snd p)"

lemma json_text_obj:
  assumes "json_ok (JObj ps)"
  shows "json_text ind (JObj ps) =
    (if ps = [] then ''{}'' else ''{'' @ json_lines (ind + 2) (map (member_text (ind + 2)) ps) @ new_line ind @ ''}'')"
proof -
  have "filter (\<lambda>(k, v). json_able v) ps = ps"
    using assms by (auto simp: json_able_def list_all_iff intro!: filter_True)
  moreover have "map (\<lambda>(k, t). json_quote k @ '': '' @ t) (map (\<lambda>(k, v). (k, json_text (ind + 2) v)) ps) =
      map (member_text (ind + 2)) ps"
    by (auto simp: member_text_def)
  ultimately show ?thesis by (simp del: map_map)
qed

lemma new_line_ws: "skip_ws (new_line ind @ s) = skip_ws s"
proof -
  have "dropWhile json_ws (replicate n (CHR '' '') @ s) = dropWhile json_ws s" for n
    by (induction n) (simp_all add: json_ws_def)
  then show ?thesis by (simp add: new_line_def json_ws_def)
qed

text \<open>A printed value starts with a character of its own.\<close>

definition starts_value :: "char \<Rightarrow> bool" where
  "starts_value c \<longleftrightarrow> \<not> json_ws c \<and> c \<noteq> CHR '']'' \<and> c \<noteq> CHR ''}''"

lemma digit_starts: "is_digit c \<Longrightarrow> starts_value c"
  by (auto simp: is_digit_def starts_value_def json_ws_def)

lemma json_text_start: "json_ok v \<Longrightarrow> json_text ind v \<noteq> [] \<and> starts_value (hd (json_text ind v))"
proof (cases v)
  case (JNum n)
  assume "json_ok v"
  with JNum obtain r where n: "n = Fin r" by (cases n) auto
  obtain c s where "pos_str (if r < 0 then - r else r) = c # s" "is_digit c" using pos_str_head by blast
  with JNum n digit_starts show ?thesis
    by (cases "r < 0") (auto simp: starts_value_def json_ws_def)
next
  case (JObj ps)
  assume "json_ok v"
  with JObj json_text_obj [of ps ind] show ?thesis
    by (simp add: starts_value_def json_ws_def)
qed (auto simp: starts_value_def json_ws_def json_quote_def)

lemma json_text_head:
  assumes "json_ok v"
  obtains c t where "json_text ind v = c # t" "starts_value c"
  using json_text_start [OF assms, of ind] that by (cases "json_text ind v") auto

lemma value_skip: "json_value n (skip_ws s) = json_value n s"
  by (cases n) simp_all

lemma elements_skip: "json_elements n (skip_ws s) = json_elements n s"
  by (cases n) (simp_all add: value_skip)

lemma members_skip: "json_members n ps (skip_ws s) = json_members n ps s"
  by (cases n) simp_all

text \<open>A value is read back from its text, whatever ends it.\<close>

definition reads_back :: "jsv \<Rightarrow> bool" where
  "reads_back v \<longleftrightarrow> (\<forall>ind n rest. need v \<le> n \<longrightarrow> number_ends rest \<longrightarrow> json_value n (json_text ind v @ rest) = Some (v, rest))"

lemma ends_simps [simp]:
  "number_ends (CHR '','' # s)" "number_ends (new_line ind @ s)" "number_ends []"
  by (simp_all add: number_ends_def new_line_def is_digit_def)

lemma need_pos: "0 < need v"
  by (cases v) simp_all

lemma elements_back:
  assumes "\<forall>x\<in>set (x # xs). reads_back x" and "(\<Sum>y\<leftarrow>x # xs. Suc (need y)) \<le> n"
  shows "json_elements n (json_lines ind (map (json_text ind) (x # xs)) @ new_line j @ CHR '']'' # rest) = Some (x # xs, rest)"
  using assms
proof (induction xs arbitrary: x n)
  case Nil
  then obtain m where n: "n = Suc m" "need x \<le> m" by (cases n) auto
  have "json_value m (new_line ind @ json_text ind x @ new_line j @ CHR '']'' # rest) =
      json_value m (json_text ind x @ new_line j @ CHR '']'' # rest)"
    by (metis value_skip new_line_ws)
  also have "\<dots> = Some (x, new_line j @ CHR '']'' # rest)"
    using Nil.prems(1) n(2) by (simp add: reads_back_def)
  finally show ?case by (simp add: n(1) new_line_ws json_ws_def)
next
  case (Cons y ys)
  from Cons.prems(2) obtain m where n: "n = Suc m" "need x \<le> m" "(\<Sum>z\<leftarrow>y # ys. Suc (need z)) \<le> m"
    by (cases n) auto
  let ?tail = "json_lines ind (map (json_text ind) (y # ys)) @ new_line j @ CHR '']'' # rest"
  have lines: "json_lines ind (map (json_text ind) (x # y # ys)) @ new_line j @ CHR '']'' # rest =
      new_line ind @ json_text ind x @ CHR '','' # ?tail"
    by simp
  have "json_value m (new_line ind @ json_text ind x @ CHR '','' # ?tail) = json_value m (json_text ind x @ CHR '','' # ?tail)"
    by (metis value_skip new_line_ws)
  also have "\<dots> = Some (x, CHR '','' # ?tail)"
    using Cons.prems(1) n(2) by (simp add: reads_back_def)
  finally show ?case
    using Cons.IH [OF _ n(3)] Cons.prems(1) unfolding lines by (simp add: n(1) json_ws_def)
qed

lemma member_back:
  assumes "reads_back (snd p)" and "need (snd p) \<le> m" and "number_ends rest" and "fst p \<notin> fst ` set acc"
  shows "json_members (Suc m) acc (member_text ind p @ rest) =
    (case skip_ws rest of
       [] \<Rightarrow> None
     | e # w \<Rightarrow> if e = CHR ''}'' then Some (acc @ [p], w) else if e = CHR '','' then json_members m (acc @ [p]) w else None)"
proof -
  obtain k x where p: "p = (k, x)" by (cases p)
  have shape: "member_text ind p @ rest = quote_char # concat (map json_char k) @ quote_char # CHR '':'' # CHR '' '' # json_text ind x @ rest"
    by (simp add: member_text_def json_quote_def p)
  have "json_value m (CHR '' '' # json_text ind x @ rest) = json_value m (json_text ind x @ rest)"
    by (subst value_skip [symmetric]) (simp add: json_ws_def value_skip)
  also have "\<dots> = Some (x, rest)"
    using assms(1-3) by (simp add: reads_back_def p)
  finally have val: "json_value m (CHR '' '' # json_text ind x @ rest) = Some (x, rest)" .
  have upd: "AList.update k x acc = acc @ [p]"
    using assms(4) by (induction acc) (auto simp: p)
  show ?thesis
    unfolding shape using string_read [of k "CHR '':'' # CHR '' '' # json_text ind x @ rest"]
    by (simp add: json_ws_def val) ((subst upd)+, rule refl)
qed

lemma members_back:
  assumes "\<forall>q\<in>set (p # ps). reads_back (snd q)" and "(\<Sum>q\<leftarrow>p # ps. Suc (need (snd q))) \<le> n"
    and "distinct (map fst (acc @ p # ps))"
  shows "json_members n acc (json_lines ind (map (member_text ind) (p # ps)) @ new_line j @ CHR ''}'' # rest) =
    Some (acc @ p # ps, rest)"
  using assms
proof (induction ps arbitrary: p n acc)
  case Nil
  then obtain m where n: "n = Suc m" "need (snd p) \<le> m" by (cases n) auto
  have "json_members n acc (json_lines ind (map (member_text ind) [p]) @ new_line j @ CHR ''}'' # rest) =
      json_members n acc (member_text ind p @ new_line j @ CHR ''}'' # rest)"
    by (simp only: list.map json_lines.simps append_assoc) (metis members_skip new_line_ws)
  also have "\<dots> = Some (acc @ [p], rest)"
    using Nil.prems n(2) unfolding n(1) by (subst member_back) (simp_all add: new_line_ws json_ws_def)
  finally show ?case .
next
  case (Cons y ys)
  from Cons.prems(2) obtain m where n: "n = Suc m" "need (snd p) \<le> m" "(\<Sum>z\<leftarrow>y # ys. Suc (need (snd z))) \<le> m"
    by (cases n) auto
  let ?tail = "json_lines ind (map (member_text ind) (y # ys)) @ new_line j @ CHR ''}'' # rest"
  have "json_members n acc (json_lines ind (map (member_text ind) (p # y # ys)) @ new_line j @ CHR ''}'' # rest) =
      json_members n acc (member_text ind p @ CHR '','' # ?tail)"
    by (simp only: list.map json_lines.simps append_assoc append.simps) (metis members_skip new_line_ws)
  also have "\<dots> = json_members m (acc @ [p]) ?tail"
    using Cons.prems n(2) unfolding n(1) by (subst member_back) (simp_all add: json_ws_def image_Un)
  also have "\<dots> = Some ((acc @ [p]) @ y # ys, rest)"
    by (rule Cons.IH) (use Cons.prems n(3) in auto)
  finally show ?case by simp
qed

lemma skip_json_lines:
  assumes "x = c # t" and "starts_value c"
  shows "skip_ws (json_lines ind (x # xs) @ r) = c # tl (skip_ws (json_lines ind (x # xs) @ r))"
proof (cases xs)
  case Nil
  with assms show ?thesis by (simp add: new_line_ws starts_value_def)
next
  case (Cons y ys)
  with assms show ?thesis by (simp add: new_line_ws starts_value_def)
qed

lemma json_reads_back: "json_ok v \<Longrightarrow> reads_back v"
proof (induction v)
  case (JNum k)
  then obtain r where k: "k = Fin r" "decimal 17 r" by (cases k) auto
  have "json_value n (num_str (Fin r) @ rest) = Some (jn r, rest)" if "1 \<le> n" "number_ends rest" for n rest
  proof -
    obtain c s where cs: "num_str (Fin r) = c # s" "is_digit c \<or> c = CHR ''-''"
      using pos_str_head [of r] pos_str_head [of "- r"] by (cases "r < 0") auto
    have "strip_prefix p (c # s @ rest) = None" if "p \<noteq> []" "hd p \<in> {CHR ''t'', CHR ''f'', CHR ''n''}" for p
      using that cs(2) by (cases p) (auto simp: strip_prefix_def is_digit_def)
    then have "json_atom (c # s @ rest) = json_number (c # s @ rest)"
      by (simp add: json_atom_def)
    also have "\<dots> = Some (jn r, rest)"
      using json_number_str [OF k(2) that(2)] cs(1) by simp
    finally have "json_atom (c # s @ rest) = Some (jn r, rest)" .
    moreover have "\<not> json_ws c \<and> c \<noteq> CHR ''['' \<and> c \<noteq> CHR ''{'' \<and> c \<noteq> quote_char"
      using cs(2) by (auto simp: is_digit_def json_ws_def)
    moreover have "num_str (Fin r) @ rest = c # s @ rest" by (simp only: cs(1) append.simps)
    ultimately show ?thesis
      using that(1) by (cases n) (simp_all del: num_str.simps)
  qed
  then show ?case by (auto simp: reads_back_def k(1))
next
  case (JStr s)
  show ?case
    unfolding reads_back_def
  proof (intro allI impI)
    fix ind n rest
    assume "need (JStr s) \<le> n"
    then show "json_value n (json_text ind (JStr s) @ rest) = Some (JStr s, rest)"
      using string_read [of s rest] by (cases n) (simp_all add: json_quote_def json_ws_def)
  qed
next
  case (JArr xs)
  show ?case
    unfolding reads_back_def
  proof (intro allI impI)
    fix ind n rest
    assume "need (JArr xs) \<le> n"
    then obtain m where n: "n = Suc m" "(\<Sum>x\<leftarrow>xs. Suc (need x)) \<le> m" by (cases n) auto
    show "json_value n (json_text ind (JArr xs) @ rest) = Some (JArr xs, rest)"
    proof (cases xs)
      case Nil
      then show ?thesis by (simp add: n(1) json_ws_def)
    next
      case (Cons y ys)
      with JArr.prems have "json_ok y" by simp
      then obtain c t where c: "json_text (ind + 2) y = c # t" "starts_value c"
        by (rule json_text_head)
      define S where "S = json_lines (ind + 2) (map (json_text (ind + 2)) xs) @ new_line ind @ CHR '']'' # rest"
      obtain u where start: "skip_ws S = c # u"
        unfolding S_def Cons list.map using skip_json_lines [OF c(1,2)] by blast
      have "json_elements m (skip_ws S) = Some (xs, rest)"
        unfolding elements_skip S_def Cons by (rule elements_back) (use JArr Cons n(2) in \<open>auto simp: list_all_iff\<close>)
      then have els: "json_elements m (c # u) = Some (xs, rest)"
        by (simp only: start)
      have "json_text ind (JArr xs) @ rest = CHR ''['' # S"
        by (simp add: Cons S_def)
      with start els c(2) show ?thesis
        by (simp add: n(1) json_ws_def starts_value_def del: json_text.simps)
    qed
  qed
next
  case (JObj ps)
  show ?case
    unfolding reads_back_def
  proof (intro allI impI)
    fix ind n rest
    assume "need (JObj ps) \<le> n"
    then obtain m where n: "n = Suc m" "(\<Sum>p\<leftarrow>ps. Suc (need (snd p))) \<le> m" by (cases n) auto
    show "json_value n (json_text ind (JObj ps) @ rest) = Some (JObj ps, rest)"
    proof (cases ps)
      case Nil
      then show ?thesis by (simp add: n(1) json_ws_def)
    next
      case (Cons y ys)
      obtain t where c: "member_text (ind + 2) y = quote_char # t" "starts_value quote_char"
        by (simp add: member_text_def json_quote_def starts_value_def json_ws_def)
      define S where "S = json_lines (ind + 2) (map (member_text (ind + 2)) ps) @ new_line ind @ CHR ''}'' # rest"
      obtain u where start: "skip_ws S = quote_char # u"
        unfolding S_def Cons list.map using skip_json_lines [OF c(1,2)] by blast
      have "reads_back (snd p)" if "p \<in> set ps" for p
        using JObj.IH [of p "snd p"] JObj.prems that by (cases p) (auto simp: list_all_iff)
      then have "json_members m [] (skip_ws S) = Some (ps, rest)"
        unfolding members_skip S_def Cons
        by (subst members_back) (use JObj.prems Cons n(2) in \<open>auto\<close>)
      then have mems: "json_members m [] (quote_char # u) = Some (ps, rest)"
        by (simp only: start)
      have "json_text ind (JObj ps) @ rest = CHR ''{'' # S"
        unfolding json_text_obj [OF JObj.prems] by (simp add: Cons S_def)
      with start mems show ?thesis
        by (simp add: n(1) json_ws_def del: json_text.simps)
    qed
  qed
qed (auto simp: reads_back_def Suc_le_eq gr0_conv_Suc json_ws_def json_atom_def strip_prefix_def)

text \<open>The length of the text is fuel enough.\<close>

lemma length_json_lines: "length (json_lines ind ss) \<ge> (\<Sum>s\<leftarrow>ss. Suc (length s))"
  by (induction ind ss rule: json_lines.induct) (simp_all add: new_line_def)

lemma need_le: "json_ok v \<Longrightarrow> need v \<le> length (json_text ind v)"
proof (induction v arbitrary: ind)
  case (JNum k)
  then show ?case using json_text_start [of "JNum k" ind] by (cases "json_text ind (JNum k)") (auto simp: Suc_le_eq)
next
  case (JArr xs)
  have "(\<Sum>x\<leftarrow>xs. Suc (need x)) \<le> (\<Sum>x\<leftarrow>xs. Suc (length (json_text (ind + 2) x)))"
    by (rule sum_list_mono) (use JArr in \<open>auto simp: list_all_iff\<close>)
  also have "\<dots> = (\<Sum>s\<leftarrow>map (json_text (ind + 2)) xs. Suc (length s))"
    by (simp add: comp_def)
  also have "\<dots> \<le> length (json_lines (ind + 2) (map (json_text (ind + 2)) xs))"
    by (rule length_json_lines)
  finally show ?case by (cases "xs = []") simp_all
next
  case (JObj ps)
  have "(\<Sum>p\<leftarrow>ps. Suc (need (snd p))) \<le> (\<Sum>p\<leftarrow>ps. Suc (length (member_text (ind + 2) p)))"
  proof (rule sum_list_mono)
    fix p assume "p \<in> set ps"
    then have "need (snd p) \<le> length (json_text (ind + 2) (snd p))"
      using JObj.IH [of p "snd p"] JObj.prems by (cases p) (auto simp: list_all_iff)
    then show "Suc (need (snd p)) \<le> Suc (length (member_text (ind + 2) p))"
      by (simp add: member_text_def)
  qed
  also have "\<dots> = (\<Sum>s\<leftarrow>map (member_text (ind + 2)) ps. Suc (length s))"
    by (simp add: comp_def)
  also have "\<dots> \<le> length (json_lines (ind + 2) (map (member_text (ind + 2)) ps))"
    by (rule length_json_lines)
  finally show ?case
    unfolding json_text_obj [OF JObj.prems] by (cases "ps = []") simp_all
qed (simp_all add: json_quote_def)

theorem json_roundtrip: "json_ok v \<Longrightarrow> JSON_parse (JSON_stringify v) = Inr v"
proof -
  assume ok: "json_ok v"
  let ?t = "json_text 0 v"
  have "need v \<le> 2 * length ?t + 2" using need_le [OF ok, of 0] by simp
  from json_reads_back [OF ok, unfolded reads_back_def, rule_format, OF this ends_simps(3), of 0]
  show ?thesis by (simp add: JSON_parse_def JSON_stringify_def del: json_value.simps)
qed

lemma JSON_stringify_nonempty: "json_ok v \<Longrightarrow> JSON_stringify v \<noteq> []"
  using json_text_start by (simp add: JSON_stringify_def)

end
