(* ===== verification/ApiData.thy ===== *)
theory ApiData
  imports ApiClient Json
begin

text \<open>
  The data mappers of \<open>src/frontend/src/api/\<close>: they turn the manager's snake-case JSON into
  the objects the hooks and pages work with. Each may throw (a string method on a value that
  is not a string, a property of \<open>null\<close>), so each returns a \<open>res\<close>.
\<close>

section \<open>agents.js\<close>

definition mapStatus :: "jsv \<Rightarrow> jsv \<Rightarrow> string" where
  "mapStatus status isIsolated =
    (if truthy isIsolated then ''isolated''
     else let s = lower (to_str (js_or status (JStr ''''))) in
       if s = ''active'' \<or> s = ''online'' then ''online''
       else if s = ''isolated'' \<or> s = ''quarantine'' then ''isolated''
       else if s = ''dead'' \<or> s = ''offline'' \<or> s = ''inactive'' then ''offline''
       else ''offline'')"

definition non_null :: "jsv \<Rightarrow> 'a \<Rightarrow> 'a res" where
  \<comment> \<open>the first property read of a \<open>null\<close> or \<open>undefined\<close> element throws\<close>
  "non_null v x = (if nullishp v then Inl type_error else Inr x)"

lemma non_null_simps [simp]:
  "non_null JUndef x = Inl type_error" "non_null JNull x = Inl type_error"
  "\<not> nullishp v \<Longrightarrow> non_null v x = Inr x"
  by (simp_all add: non_null_def)

definition mapAgent :: "jsv \<Rightarrow> jsv res" where
  "mapAgent agent = non_null agent (JObj
    [(''id'', fld agent ''id''),
     (''hostname'', js_or (fld agent ''hostname'') (fld agent ''id'')),
     (''ip'', js_or (fld agent ''ip_address'') (fld agent ''ip'')),
     (''status'', JStr (mapStatus (fld agent ''status'') (fld agent ''is_isolated''))),
     (''cpu'', js_or (fld agent ''cpu'') (jn 0)),
     (''ram'', js_or (fld agent ''ram'') (jn 0)),
     (''disk'', js_or (fld agent ''disk'') (jn 0)),
     (''firewall'', JBool (\<not> truthy (fld agent ''is_isolated''))),
     (''isProbe'', fld agent ''is_probe''),
     (''is_isolated'', fld agent ''is_isolated''),
     (''last_seen'', fld agent ''last_seen'')])"

lemma mapStatus_range: "mapStatus s i \<in> {''online'', ''offline'', ''isolated''}"
  by (simp add: mapStatus_def Let_def)

section \<open>commands.js\<close>

definition mapCommand :: "clock \<Rightarrow> jsv \<Rightarrow> jsv res" where
  "mapCommand c cmd =
    (if \<not> truthy cmd then Inr JNull
     else rbind (to_upper (js_or (fld cmd ''status'') (JStr ''PENDING''))) (\<lambda>status.
       Inr (JObj
         [(''id'', fld cmd ''id''),
          (''agentId'', js_or (fld cmd ''agent_id'') (js_or (fld cmd ''agentId'') (JStr ''ALL''))),
          (''command'', js_or (fld cmd ''command'')
                          (js_or (fld cmd ''action'') (JStr ''isolate_agent''))),
          (''parameters'', if is_object (fld cmd ''parameters'')
                           then JStr (json_str (fld cmd ''parameters''))
                           else js_or (fld cmd ''parameters'') (JStr ''{}'')),
          (''status'', status),
          (''result'', js_or (fld cmd ''result'') (js_or (fld cmd ''response'') JNull)),
          (''createdAt'', js_or (fld cmd ''created_at'')
                            (js_or (fld cmd ''createdAt'') (JStr (now_iso c)))),
          (''executedAt'', js_or (fld cmd ''executed_at'')
                             (js_or (fld cmd ''executedAt'') JNull))])))"

section \<open>events.js\<close>

definition mapEvent :: "clock \<Rightarrow> jsv \<Rightarrow> jsv res" where
  "mapEvent c e = non_null e (JObj
    [(''id'', fld e ''id''),
     (''agentId'', js_or (fld e ''agent_id'') (fld e ''agentId'')),
     (''type'', js_or (fld e ''event_type'') (js_or (fld e ''type'') (JStr ''security_event''))),
     (''severity'', js_or (fld e ''severity'') (JStr ''Medium'')),
     (''sourceIp'', js_or (fld e ''source'') (js_or (fld e ''source_ip'')
                      (js_or (fld e ''sourceIp'') (JStr ''10.0.0.1'')))),
     (''description'', js_or (fld (fld e ''details'') ''description'')
                         (js_or (fld e ''description'')
                           (JStr (''Security event '' @ to_str (fld e ''id''))))),
     (''riskScore'', js_or (fld e ''risk_score'') (js_or (fld e ''riskScore'') (jn 50))),
     (''timestamp'', js_or (fld e ''created_at'')
                       (js_or (fld e ''timestamp'') (JStr (now_iso c))))])"

section \<open>flows.js\<close>

text \<open>\<open>rnd\<close> is the suffix \<open>Math.random()\<close> yields for a flow without an id.\<close>

definition flow_packets :: "jsv \<Rightarrow> jsv" where
  "flow_packets f = nullish (fld f ''packets_sent'') (nullish (fld f ''packets'') (jn 0))"

definition flow_syn :: "jsv \<Rightarrow> jsv \<Rightarrow> jsnum" where
  "flow_syn f proto =
    (if fld f ''syn'' \<noteq> JUndef then to_num (fld f ''syn'')
     else if proto = JStr ''TCP'' \<or> proto = JStr ''SYN''
     then math_max (to_num (flow_packets f)) (Fin 1) else Fin 0)"

definition flow_udp :: "jsv \<Rightarrow> jsv \<Rightarrow> jsnum" where
  "flow_udp f proto =
    (if fld f ''udp'' \<noteq> JUndef then to_num (fld f ''udp'')
     else if proto = JStr ''UDP'' then math_max (to_num (flow_packets f)) (Fin 1) else Fin 0)"

definition flow_total :: "jsv \<Rightarrow> jsnum \<Rightarrow> jsnum \<Rightarrow> jsnum" where
  "flow_total f syn udp =
    (if fld f ''total'' \<noteq> JUndef then to_num (fld f ''total'')
     else if num_lt (Fin 0) (num_add syn udp) then num_add syn udp
     else math_max (to_num (flow_packets f)) (Fin 1))"

definition mapFlow :: "clock \<Rightarrow> string \<Rightarrow> jsv \<Rightarrow> jsv res" where
  "mapFlow c rnd f =
    (if \<not> truthy f then Inr JNull
     else rbind (to_upper (js_or (fld f ''protocol'') (JStr ''TCP''))) (\<lambda>proto.
       Inr (JObj
         [(''id'', js_or (fld f ''id'') (JStr (''flow-'' @ rnd))),
          (''agent_id'', js_or (fld f ''agent_id'') (JStr ''manager'')),
          (''src_ip'', js_or (fld f ''src_ip'') (JStr ''192.168.10.1'')),
          (''dst_ip'', js_or (fld f ''dst_ip'') (JStr ''192.168.10.2'')),
          (''src_port'', js_or (fld f ''src_port'') (jn 0)),
          (''dst_port'', js_or (fld f ''dst_port'') (jn 0)),
          (''protocol'', proto),
          (''packets_sent'', flow_packets f),
          (''bytes_sent'', nullish (fld f ''bytes_sent'') (nullish (fld f ''bytes'') (jn 0))),
          (''syn'', JNum (flow_syn f proto)),
          (''udp'', JNum (flow_udp f proto)),
          (''total'', JNum (flow_total f (flow_syn f proto) (flow_udp f proto))),
          (''is_beacon'', JBool (truthy (fld f ''is_beacon''))),
          (''timestamp'', js_or (fld f ''timestamp'') (js_or (fld f ''start_time'')
                            (js_or (fld f ''created_at'') (JStr (now_iso c)))))])))"

section \<open>incidents.js\<close>

text \<open>\<open>v ? v.toLowerCase() : d\<close>\<close>

definition lower_or :: "jsv \<Rightarrow> string \<Rightarrow> jsv res" where
  "lower_or v d = (if truthy v then to_lower v else Inr (JStr d))"

definition mapIncident :: "clock \<Rightarrow> jsv \<Rightarrow> jsv res" where
  "mapIncident c inc =
    (if \<not> truthy inc then Inr JNull
     else rbind (lower_or (fld inc ''severity'') ''medium'') (\<lambda>severity.
          rbind (lower_or (fld inc ''status'') ''open'') (\<lambda>status.
       Inr (JObj
         [(''id'', fld inc ''id''),
          (''title'', js_or (fld inc ''title'') (js_or (fld inc ''name'')
                        (JStr (''Incident #'' @ to_str (fld inc ''id''))))),
          (''description'', js_or (fld inc ''description'')
                              (JStr ''No detailed description provided.'')),
          (''severity'', severity),
          (''status'', status),
          (''assignedTo'', js_or (fld inc ''assigned_to'')
                             (js_or (fld inc ''assignedTo'') (JStr ''Unassigned''))),
          (''agentId'', js_or (fld inc ''agent_id'') (js_or (fld inc ''agentId'') (JStr ''N/A''))),
          (''riskScore'', if fld inc ''risk_score'' \<noteq> JUndef then fld inc ''risk_score''
                          else js_or (fld inc ''riskScore'') (jn 0)),
          (''notes'', js_or (fld inc ''notes'') (JStr '''')),
          (''resolvedAt'', js_or (fld inc ''resolved_at'') (js_or (fld inc ''resolvedAt'') JNull)),
          (''label'', js_or (fld inc ''label'') JNull),
          (''labelReason'', js_or (fld inc ''label_reason'')
                              (js_or (fld inc ''labelReason'') (JStr ''''))),
          (''labeledBy'', js_or (fld inc ''labeled_by'') (js_or (fld inc ''labeledBy'') (JStr ''''))),
          (''labeledAt'', js_or (fld inc ''labeled_at'') (js_or (fld inc ''labeledAt'') JNull)),
          (''createdAt'', js_or (fld inc ''created_at'')
                            (js_or (fld inc ''createdAt'') (JStr (now_iso c)))),
          (''updatedAt'', js_or (fld inc ''updated_at'')
                            (js_or (fld inc ''updatedAt'') (JStr (now_iso c)))),
          (''culpritProcess'', js_or (fld inc ''culprit_process'') JNull),
          (''parentProcess'', js_or (fld inc ''parent_process'') JNull),
          (''networkIndicators'', as_list (fld inc ''network_indicators'')),
          (''factorsBreakdown'', as_list (fld inc ''factors_breakdown''))]))))"

section \<open>risk.js\<close>

definition smooth_record :: "jsv \<Rightarrow> jsv res" where
  "smooth_record r = non_null r
     (with_fld r ''smoothed_score'' (nullish (fld r ''smoothed_score'') (fld r ''score'')))"

section \<open>What the mappers guarantee\<close>

lemma lower_or_cases:
  assumes "lower_or v d = Inr s"
  shows "(\<exists>t. v = JStr t \<and> s = JStr (lower t)) \<or> \<not> truthy v \<and> s = JStr d"
  using assms by (cases v) (auto simp: lower_or_def to_lower_def split: if_splits)

lemma lower_or_string: "lower_or v d = Inr s \<Longrightarrow> \<exists>t. s = JStr t"
  using lower_or_cases by blast

text \<open>The keys of a mapped incident: camel case only; no \<open>agent_id\<close>, no \<open>risk_score\<close>.\<close>

lemma mapIncident_shape:
  assumes "mapIncident c inc = Inr m"
  shows "m = JNull \<and> \<not> truthy inc \<or>
    (\<exists>ps. m = JObj ps \<and> truthy inc \<and> lookup ps ''agent_id'' = JUndef \<and>
       lookup ps ''risk_score'' = JUndef \<and> lookup ps ''score'' = JUndef \<and>
       lookup ps ''timestamp'' = JUndef \<and> lookup ps ''created_at'' = JUndef)"
  using assms by (auto simp: mapIncident_def rbind_eq_Inr split: if_splits)

lemma mapIncident_agent_id:
  assumes "mapIncident c inc = Inr m"
  shows "fld m ''agent_id'' = JUndef" and "fld m ''risk_score'' = JUndef"
  using mapIncident_shape [OF assms] by auto

lemma mapIncident_status:
  assumes "mapIncident c inc = Inr m" and "truthy inc"
  shows "lower_or (fld inc ''status'') ''open'' = Inr (fld m ''status'')"
    and "lower_or (fld inc ''severity'') ''medium'' = Inr (fld m ''severity'')"
  using assms by (auto simp: mapIncident_def rbind_eq_Inr split: if_splits)

lemma mapIncident_id:
  "mapIncident c inc = Inr m \<Longrightarrow> truthy inc \<Longrightarrow> fld m ''id'' = fld inc ''id''"
  by (auto simp: mapIncident_def rbind_eq_Inr split: if_splits)

lemma to_upper_string: "to_upper v = Inr p \<Longrightarrow> \<exists>t. p = JStr t"
  by (cases v) (auto simp: to_upper_def)

lemma mapFlow_keys:
  assumes "mapFlow c rnd f = Inr m" and "truthy f"
  shows "\<exists>ps p. m = JObj ps \<and> lookup ps ''protocol'' = JStr p \<and>
    lookup ps ''syn'' = JNum (flow_syn f (JStr p)) \<and> lookup ps ''udp'' = JNum (flow_udp f (JStr p)) \<and>
    lookup ps ''total'' = JNum (flow_total f (flow_syn f (JStr p)) (flow_udp f (JStr p)))"
  using assms
  by (cases "to_upper (js_or (fld f ''protocol'') (JStr ''TCP''))")
    (auto simp: mapFlow_def dest: to_upper_string)

end
