(* ===== verification/ApiServices.thy ===== *)
theory ApiServices
  imports ApiData
begin

text \<open>
  The endpoint functions of \<open>src/frontend/src/api/\<close>, one definition per exported function, with
  its path, body, default parameters and its own \<open>try/catch\<close>. A function that issues one
  request is a \<open>task\<close>; \<open>getGroupActions\<close> issues a request per member and is a handler.
  \<open>console\<close> output is dropped.
\<close>

section \<open>Shared shapes\<close>

text \<open>\<open>try { data = await t; return Array.isArray(data) ? data : [] } catch { return [] }\<close>\<close>

definition list_or_empty :: "jsv task \<Rightarrow> jsv task" where
  "list_or_empty t = tcatch (tbind t (\<lambda>d. Inr (as_list d))) (\<lambda>_. Inr (JArr []))"

text \<open>\<open>data = await t; return Array.isArray(data) ? data : []\<close>, the error passing through\<close>

definition list_of :: "jsv task \<Rightarrow> jsv task" where
  "list_of t = tbind t (\<lambda>d. Inr (as_list d))"

text \<open>\<open>Array.isArray(data) ? data.map(f) : []\<close>\<close>

definition map_list :: "(jsv \<Rightarrow> jsv res) \<Rightarrow> jsv \<Rightarrow> jsv res" where
  "map_list f d = (if is_array d then rmap JArr (rmapM f (elems d)) else Inr (JArr []))"

lemma answer_list_or_empty:
  "answer f (list_or_empty t) = Inr (case answer f t of Inl _ \<Rightarrow> JArr [] | Inr d \<Rightarrow> as_list d)"
  by (simp add: list_or_empty_def split: sum.splits)

lemma answer_list_of: "answer f (list_of t) = rmap as_list (answer f t)"
  by (simp add: list_of_def rmap_def)

text \<open>A listing that swallows its errors always resolves, to an array.\<close>

lemma list_or_empty_resolves: "outcome (list_or_empty t) r \<Longrightarrow> \<exists>xs. r = Inr (JArr xs)"
proof -
  assume "outcome (list_or_empty t) r"
  then obtain f where "answer f (list_or_empty t) = r" by (auto simp: outcome_def)
  then show ?thesis
    by (cases "answer f t") (auto simp: answer_list_or_empty as_list_def)
qed

lemma map_list_array: "map_list f d = Inr v \<Longrightarrow> \<exists>ys. v = JArr ys"
  by (cases "rmapM f (elems d)") (auto simp: map_list_def split: if_splits)

section \<open>actions.js\<close>

definition createAction :: "jsv \<Rightarrow> jsv \<Rightarrow> jsv \<Rightarrow> jsv \<Rightarrow> jsv \<Rightarrow> jsv task" where
  "createAction agentId actionType actionParams incidentId autoRollbackSeconds =
     api_post ''/actions'' (JObj
       [(''agent_id'', agentId), (''action_type'', actionType),
        (''action_params'', dflt actionParams (JObj [])),
        (''incident_id'', dflt incidentId JNull),
        (''auto_rollback_seconds'', dflt autoRollbackSeconds JNull)])"

definition getAction :: "jsv \<Rightarrow> jsv task" where
  "getAction actionId = api_get (''/actions/'' @ to_str actionId)"

definition undoAction :: "jsv \<Rightarrow> jsv \<Rightarrow> jsv task" where
  "undoAction actionId reason = api_post (''/actions/'' @ to_str actionId @ ''/undo'')
     (JObj [(''reason'', dflt reason (JStr ''Manual undo via UI''))])"

definition undoIncidentActions :: "jsv \<Rightarrow> jsv \<Rightarrow> jsv task" where
  "undoIncidentActions incidentId reason =
     api_post (''/incidents/'' @ to_str incidentId @ ''/undo-all'')
       (JObj [(''reason'', dflt reason (JStr ''Incident batch undo via UI''))])"

definition undoAgentActions :: "jsv \<Rightarrow> jsv \<Rightarrow> jsv task" where
  "undoAgentActions agentId reason = api_post (''/agents/'' @ to_str agentId @ ''/undo-all'')
     (JObj [(''reason'', dflt reason (JStr ''Agent batch undo via UI''))])"

definition getActionAuditLogs :: "jsv \<Rightarrow> jsv task" where
  "getActionAuditLogs actionId = api_get (''/actions/'' @ to_str actionId @ ''/audit'')"

definition getAgentActions :: "jsv \<Rightarrow> jsv \<Rightarrow> jsv \<Rightarrow> jsv task" where
  "getAgentActions agentId limit offset =
     api_get_params (''/agents/'' @ to_str agentId @ ''/actions'')
       (JObj [(''params'', JObj [(''limit'', dflt limit (jn 50)), (''offset'', dflt offset (jn 0))])])"

definition getIncidentActions :: "jsv \<Rightarrow> jsv task" where
  "getIncidentActions incidentId = api_get (''/incidents/'' @ to_str incidentId @ ''/actions'')"

definition getAutoRollbackSettings :: "jsv task" where
  "getAutoRollbackSettings = api_get ''/settings/auto-rollback''"

definition updateAutoRollbackSettings :: "jsv \<Rightarrow> jsv task" where
  "updateAutoRollbackSettings settings = api_patch ''/settings/auto-rollback'' settings"

text \<open>\<open>new Date(a.applied_at || a.created_at || 0).getTime()\<close>\<close>

definition action_time :: "clock \<Rightarrow> jsv \<Rightarrow> jsnum" where
  "action_time c a = date_ms c (js_or (fld a ''applied_at'') (js_or (fld a ''created_at'') (jn 0)))"

definition sort_actions :: "clock \<Rightarrow> jsv list \<Rightarrow> jsv list" where
  "sort_actions c = js_sort (by_desc (action_time c))"

definition listAllActions :: "clock \<Rightarrow> jsv \<Rightarrow> jsv task" where
  "listAllActions c params =
     tbind (api_get_params ''/actions/'' (JObj [(''params'', dflt params (JObj []))]))
       (\<lambda>res. Inr (JArr (sort_actions c (elems res))))"

lemma mset_sort_actions [simp]: "mset (sort_actions c xs) = mset xs"
  by (simp add: sort_actions_def)

lemma set_sort_actions [simp]: "set (sort_actions c xs) = set xs"
  by (simp add: sort_actions_def)

lemma sort_actions_finite:
  assumes "\<And>a. a \<in> set xs \<Longrightarrow> action_time c a = Fin (f a)"
  shows "sort_actions c xs = sort_key (\<lambda>a. - f a) xs"
  unfolding sort_actions_def by (rule js_sort_by_desc) (rule assms)

section \<open>agents.js\<close>

definition getAgents :: "jsv task" where
  "getAgents = tbind (api_get ''/agents/'') (\<lambda>response. rmap JArr (rmapM mapAgent (elems response)))"

definition isolateAgent :: "jsv \<Rightarrow> jsv task" where
  "isolateAgent agentId = api_post (''/agents/'' @ to_str agentId @ ''/isolate'') JUndef"

definition getAgentHistory :: "jsv \<Rightarrow> jsv task" where
  "getAgentHistory agentId =
     tcatch (api_get (''/agents/'' @ to_str agentId @ ''/history'')) (\<lambda>_. Inr (JArr []))"

definition unisolateAgent :: "jsv \<Rightarrow> jsv task" where
  "unisolateAgent agentId = api_post (''/agents/'' @ to_str agentId @ ''/unisolate'') JUndef"

section \<open>commands.js\<close>

definition getCommands :: "clock \<Rightarrow> jsv task" where
  "getCommands c = tbind (api_get ''/commands/'') (map_list (mapCommand c))"

definition createCommand :: "clock \<Rightarrow> jsv \<Rightarrow> jsv task" where
  "createCommand c payload = tbind (api_post ''/commands/'' payload) (mapCommand c)"

definition retryCommand :: "clock \<Rightarrow> jsv \<Rightarrow> jsv task" where
  "retryCommand c commandId =
     tcatch (tbind (api_post (''/commands/'' @ to_str commandId @ ''/retry'') JUndef) (mapCommand c))
       (\<lambda>_. Inr (JObj [(''id'', commandId), (''status'', JStr ''EXECUTING''),
                        (''executedAt'', JStr (now_iso c))]))"

section \<open>detectionRules.js\<close>

definition getDetectionRules :: "jsv task" where
  "getDetectionRules = list_of (api_get ''/rules/detection'')"

definition createDetectionRule :: "jsv \<Rightarrow> jsv task" where
  "createDetectionRule ruleData = api_post ''/rules/detection'' ruleData"

definition getDetectionRule :: "jsv \<Rightarrow> jsv task" where
  "getDetectionRule ruleId = api_get (''/rules/detection/'' @ to_str ruleId)"

definition updateDetectionRule :: "jsv \<Rightarrow> jsv \<Rightarrow> jsv task" where
  "updateDetectionRule ruleId data = api_put (''/rules/detection/'' @ to_str ruleId) data"

definition deleteDetectionRule :: "jsv \<Rightarrow> jsv task" where
  "deleteDetectionRule ruleId = api_delete (''/rules/detection/'' @ to_str ruleId)"

section \<open>docker.js, events.js\<close>

definition getDockerStatus :: "jsv task" where
  "getDockerStatus = api_get ''/docker/status''"

definition getEvents :: "clock \<Rightarrow> jsv task" where
  "getEvents c = tcatch (tbind (api_get ''/events/'') (map_list (mapEvent c))) (\<lambda>_. Inr (JArr []))"

section \<open>flows.js\<close>

definition flow_query :: "jsv \<Rightarrow> obj" where
  "flow_query params =
     (if truthy (fld params ''agent_id'') \<and> \<not> strict_eq (fld params ''agent_id'') (JStr ''all'')
      then [(''agent_id'', fld params ''agent_id'')] else []) @
     (if truthy (fld params ''minutes'') then [(''minutes'', fld params ''minutes'')] else [])"

text \<open>\<open>Array.isArray(data) ? data : data?.flows || []\<close>\<close>

definition flow_list :: "jsv \<Rightarrow> jsv" where
  "flow_list data = (if is_array data then data else js_or (fld data ''flows'') (JArr []))"

text \<open>
  \<open>rnds\<close> supplies the \<open>Math.random()\<close> suffix of the i-th flow. A truthy non-array with a
  positive \<open>length\<close> has no \<open>map\<close> method; the TypeError is caught like any other error.
\<close>

definition map_flows :: "clock \<Rightarrow> (nat \<Rightarrow> string) \<Rightarrow> jsv list \<Rightarrow> jsv res" where
  "map_flows c rnds fs =
     rmap (\<lambda>ys. JArr (filter truthy ys)) (rmapM (\<lambda>(i, f). mapFlow c (rnds i) f) (enumerate 0 fs))"

definition getTrafficStats :: "clock \<Rightarrow> (nat \<Rightarrow> string) \<Rightarrow> jsv \<Rightarrow> jsv task" where
  "getTrafficStats c rnds params =
     tcatch (tbind (api_get_params ''/flows/traffic-stats'' (JObj [(''params'', JObj (flow_query params))]))
       (\<lambda>data. let flowList = flow_list data in
          if num_lt (Fin 0) (to_num (fld flowList ''length''))
          then (if is_array flowList then map_flows c rnds (elems flowList) else Inl type_error)
          else Inr JNull))
       (\<lambda>_. Inr JNull)"

section \<open>groups.js\<close>

definition listGroups :: "jsv task" where
  "listGroups = api_get ''/groups/''"

definition getGroup :: "jsv \<Rightarrow> jsv task" where
  "getGroup groupId = api_get (''/groups/'' @ to_str groupId)"

definition createGroup :: "jsv \<Rightarrow> jsv task" where
  "createGroup data = api_post ''/groups/'' data"

definition updateGroup :: "jsv \<Rightarrow> jsv \<Rightarrow> jsv task" where
  "updateGroup groupId data = api_put (''/groups/'' @ to_str groupId) data"

definition deleteGroup :: "jsv \<Rightarrow> jsv task" where
  "deleteGroup groupId = api_delete (''/groups/'' @ to_str groupId)"

definition addAgentToGroup :: "jsv \<Rightarrow> jsv \<Rightarrow> jsv task" where
  "addAgentToGroup groupId agentIds =
     (let ids = (if is_array agentIds then agentIds else JArr [agentIds])
      in api_post (''/groups/'' @ to_str groupId @ ''/agents'') (JObj [(''agent_ids'', ids)]))"

definition removeAgentFromGroup :: "jsv \<Rightarrow> jsv \<Rightarrow> jsv task" where
  "removeAgentFromGroup groupId agentId =
     api_delete (''/groups/'' @ to_str groupId @ ''/agents/'' @ to_str agentId)"

definition getAgentGroups :: "jsv \<Rightarrow> jsv task" where
  "getAgentGroups agentId = api_get (''/agents/'' @ to_str agentId @ ''/groups'')"

definition group_action_payload :: "jsv \<Rightarrow> jsv \<Rightarrow> jsv \<Rightarrow> jsv" where
  "group_action_payload d actionParams autoRollbackSeconds =
     (if is_object d \<and> d \<noteq> JNull then JObj
        [(''action_type'', js_or (fld d ''action_type'') (fld d ''actionType'')),
         (''action_params'', js_or (fld d ''action_params'')
                               (js_or (fld d ''actionParams'') (JObj []))),
         (''auto_rollback_seconds'', nullish (fld d ''auto_rollback_seconds'')
                                       (nullish (fld d ''autoRollbackSeconds'') JNull))]
      else JObj
        [(''action_type'', d),
         (''action_params'', dflt actionParams (JObj [])),
         (''auto_rollback_seconds'', dflt autoRollbackSeconds JNull)])"

definition executeGroupAction :: "jsv \<Rightarrow> jsv \<Rightarrow> jsv \<Rightarrow> jsv \<Rightarrow> jsv task" where
  "executeGroupAction groupId actionTypeOrData actionParams autoRollbackSeconds =
     api_post (''/groups/'' @ to_str groupId @ ''/actions'')
       (group_action_payload actionTypeOrData actionParams autoRollbackSeconds)"

definition undoAllGroupActions :: "jsv \<Rightarrow> jsv \<Rightarrow> jsv task" where
  "undoAllGroupActions groupId reason = api_post (''/groups/'' @ to_str groupId @ ''/undo-all'')
     (JObj [(''reason'', dflt reason (JStr ''Batch group undo via UI''))])"

text \<open>
  The actions of one member: a failed request, or one that does not return an array, counts
  as no actions. Reading \<open>agent_id\<close> of a \<open>null\<close> member throws inside the same \<open>try\<close>, and then
  again in its \<open>catch\<close>, which rejects.
\<close>

definition member_actions :: "jsv \<Rightarrow> jsv task" where
  "member_actions member =
     (if nullishp member then Now (Inl type_error)
      else list_or_empty (getAgentActions (fld member ''agent_id'') JUndef JUndef))"

text \<open>\<open>new Map()\<close> filled with the first action of every truthy id, in order of insertion.\<close>

fun dedupe_actions :: "jsv list \<Rightarrow> (jsv \<times> jsv) list \<Rightarrow> (jsv \<times> jsv) list" where
  "dedupe_actions [] m = m"
| "dedupe_actions (a # as) m =
     (if truthy a \<and> truthy (fld a ''id'') \<and> fld a ''id'' \<notin> fst ` set m
      then dedupe_actions as (m @ [(fld a ''id'', a)]) else dedupe_actions as m)"

definition group_actions_of :: "clock \<Rightarrow> jsv list \<Rightarrow> jsv list" where
  "group_actions_of c results =
     sort_actions c (map snd (dedupe_actions (concat (map elems results)) []))"

definition getGroupActions :: "clock \<Rightarrow> jsv \<Rightarrow> ('s, jsv) act" where
  "getGroupActions c groupId = catch
     (bnd (await (getGroup groupId)) (\<lambda>groupDetail.
        let members = js_or (fld groupDetail ''members'') (JArr []) in
        if strict_eq (fld members ''length'') (jn 0) then Ret (JArr [])
        else if \<not> is_array members then Throw type_error
        else bnd (promise_all (map member_actions (elems members))) (\<lambda>results.
               Ret (JArr (group_actions_of c results)))))
     (\<lambda>_. Ret (JArr []))"

section \<open>incidents.js\<close>

definition getIncidents :: "clock \<Rightarrow> jsv task" where
  "getIncidents c = tbind (api_get ''/incidents/'') (map_list (mapIncident c))"

definition getIncident :: "clock \<Rightarrow> jsv \<Rightarrow> jsv task" where
  "getIncident c incidentId =
     tbind (api_get (''/incidents/'' @ to_str incidentId)) (mapIncident c)"

definition getIncidentTimeline :: "jsv \<Rightarrow> jsv task" where
  "getIncidentTimeline incidentId =
     tcatch (tbind (api_get (''/incidents/'' @ to_str incidentId @ ''/timeline''))
       (\<lambda>data. Inr (if truthy data \<and> truthy (fld data ''timeline'') then fld data ''timeline''
                     else JArr [])))
       (\<lambda>_. Inr (JArr []))"

definition getIncidentNotes :: "jsv \<Rightarrow> jsv task" where
  "getIncidentNotes incidentId =
     list_or_empty (api_get (''/incidents/'' @ to_str incidentId @ ''/notes''))"

definition addIncidentNote :: "jsv \<Rightarrow> jsv \<Rightarrow> jsv \<Rightarrow> jsv task" where
  "addIncidentNote incidentId content user =
     api_post (''/incidents/'' @ to_str incidentId @ ''/notes'')
       (JObj [(''content'', content), (''user'', dflt user (JStr ''admin''))])"

text \<open>The transition endpoint of a target status; any other status is a plain PATCH.\<close>

definition status_suffix :: "jsv \<Rightarrow> string option" where
  "status_suffix status =
     (if strict_eq status (JStr ''contained'') then Some ''/contain''
      else if strict_eq status (JStr ''resolved'') then Some ''/resolve''
      else if strict_eq status (JStr ''false_positive'') then Some ''/false-positive''
      else if strict_eq status (JStr ''closed'') then Some ''/close''
      else None)"

definition updateIncidentStatus :: "clock \<Rightarrow> jsv \<Rightarrow> jsv \<Rightarrow> jsv task" where
  "updateIncidentStatus c incidentId status =
     tcatch (tbind (case status_suffix status of
         Some sfx \<Rightarrow> api_post (''/incidents/'' @ to_str incidentId @ sfx) JUndef
       | None \<Rightarrow> api_patch (''/incidents/'' @ to_str incidentId) (JObj [(''status'', status)]))
         (mapIncident c))
       (\<lambda>_. Inr (JObj [(''id'', incidentId), (''status'', status),
                        (''updatedAt'', JStr (now_iso c))]))"

definition assignIncident :: "clock \<Rightarrow> jsv \<Rightarrow> jsv \<Rightarrow> jsv task" where
  "assignIncident c incidentId assignee =
     tcatch (tbind (api_post (''/incidents/'' @ to_str incidentId @ ''/assign'')
                      (JObj [(''user_id'', assignee)])) (mapIncident c))
       (\<lambda>_. Inr (JObj [(''id'', incidentId), (''assignedTo'', assignee),
                        (''status'', JStr ''investigating''), (''updatedAt'', JStr (now_iso c))]))"

definition executeIncidentAction :: "jsv \<Rightarrow> jsv \<Rightarrow> jsv \<Rightarrow> jsv \<Rightarrow> jsv task" where
  "executeIncidentAction incidentId actionType params user =
     api_post (''/incidents/'' @ to_str incidentId @ ''/action'')
       (JObj [(''action_type'', actionType), (''params'', dflt params (JObj [])),
              (''user'', dflt user (JStr ''admin''))])"

definition closeIncident :: "clock \<Rightarrow> jsv \<Rightarrow> jsv \<Rightarrow> jsv task" where
  "closeIncident c incId opts =
     (if nullishp opts then Now (Inl type_error)
      else tbind (api_patch (''/incidents/'' @ to_str incId)
        (JObj [(''status'', JStr ''closed''), (''label'', fld opts ''label''),
               (''label_reason'', fld opts ''label_reason''),
               (''labeled_by'', dflt (fld opts ''labeled_by'') (JStr ''current_user''))]))
        (mapIncident c))"

definition getAIAnalysis :: "jsv \<Rightarrow> jsv task" where
  "getAIAnalysis incId = api_get (''/incidents/'' @ to_str incId @ ''/ai-analysis'')"

definition regenerateAIAnalysis :: "jsv \<Rightarrow> jsv task" where
  "regenerateAIAnalysis incId = api_post (''/incidents/'' @ to_str incId @ ''/ai-analysis/regenerate'') JUndef"

definition rateAIAnalysis :: "jsv \<Rightarrow> jsv \<Rightarrow> jsv task" where
  "rateAIAnalysis incId rating = api_post (''/incidents/'' @ to_str incId @ ''/ai-analysis/rate'')
     (JObj [(''rating'', rating)])"

definition suggestAIResponse :: "jsv \<Rightarrow> jsv task" where
  "suggestAIResponse incId =
     api_post (''/incidents/'' @ to_str incId @ ''/ai-analysis/suggest-response'') JUndef"

definition applyAISuggestion :: "jsv \<Rightarrow> jsv \<Rightarrow> jsv task" where
  "applyAISuggestion incId payload =
     api_post (''/incidents/'' @ to_str incId @ ''/ai-analysis/apply-suggestion'')
       (dflt payload (JObj [(''analyst'', JStr ''current_user'')]))"

definition dismissAISuggestion :: "jsv \<Rightarrow> jsv \<Rightarrow> jsv task" where
  "dismissAISuggestion incId payload =
     api_post (''/incidents/'' @ to_str incId @ ''/ai-analysis/dismiss-suggestion'')
       (dflt payload (JObj [(''analyst'', JStr ''current_user''), (''reason'', JStr '''')]))"

end
