(* ===== verification/ApiAdmin.thy ===== *)
theory ApiAdmin
  imports ApiServices
begin

text \<open>
  The remaining endpoint functions of \<open>src/frontend/src/api/\<close>: network queries, notifications,
  policies, processes, process-chain rules and groups, reports, risk, firewall rules, settings,
  threat intelligence and the whitelist.
\<close>

section \<open>network.js\<close>

text \<open>\<open>URLSearchParams.toString()\<close>: the form-urlencoded serialiser.\<close>

definition form_safe :: "char \<Rightarrow> bool" where
  "form_safe ch \<longleftrightarrow> (let n = of_char ch :: nat in
     48 \<le> n \<and> n \<le> 57 \<or> 65 \<le> n \<and> n \<le> 90 \<or> 97 \<le> n \<and> n \<le> 122 \<or> n \<in> {42, 45, 46, 95})"

definition upper_hex :: "nat \<Rightarrow> char" where
  "upper_hex d = ''0123456789ABCDEF'' ! d"

definition form_char :: "char \<Rightarrow> string" where
  "form_char ch = (if form_safe ch then [ch] else if ch = CHR '' '' then ''+''
     else let n = of_char ch :: nat in [CHR 0x25, upper_hex (n div 16), upper_hex (n mod 16)])"

definition form_encode :: "(string \<times> jsv) list \<Rightarrow> string" where
  "form_encode ps = join_str ''&''
     (map (\<lambda>(k, v). concat (map form_char k) @ ''='' @ concat (map form_char (to_str v))) ps)"

definition param_if :: "bool \<Rightarrow> string \<Rightarrow> jsv \<Rightarrow> (string \<times> jsv) list" where
  "param_if b k v = (if b then [(k, v)] else [])"

definition not_all :: "jsv \<Rightarrow> bool" where
  "not_all v \<longleftrightarrow> truthy v \<and> \<not> strict_eq v (JStr ''all'')"

text \<open>\<open>Array.isArray(res) ? res : (res?.data || [])\<close>\<close>

definition rows_of :: "jsv \<Rightarrow> jsv" where
  "rows_of res = (if is_array res then res else js_or (fld res ''data'') (JArr []))"

definition getSuspiciousConnections :: "jsv \<Rightarrow> jsv task" where
  "getSuspiciousConnections filters =
     tbind (api_get (''/network/suspicious?'' @ form_encode
       (param_if (not_all (fld filters ''agent'')) ''agent'' (fld filters ''agent'') @
        param_if (truthy (fld filters ''time'')) ''time'' (fld filters ''time'') @
        param_if (not_all (fld filters ''risk'')) ''risk'' (fld filters ''risk'') @
        param_if (truthy (fld filters ''limit'')) ''limit'' (fld filters ''limit''))))
       (\<lambda>res. Inr (rows_of res))"

definition getTopTalkers :: "jsv \<Rightarrow> jsv task" where
  "getTopTalkers filters =
     tbind (api_get (''/network/top-talkers?'' @ form_encode
       (param_if (not_all (fld filters ''agent'')) ''agent'' (fld filters ''agent'') @
        param_if (truthy (fld filters ''time'')) ''time'' (fld filters ''time''))))
       (\<lambda>res. Inr (rows_of res))"

definition getProtocols :: "jsv \<Rightarrow> jsv task" where
  "getProtocols filters =
     tbind (api_get (''/network/protocols?'' @ form_encode
       (param_if (not_all (fld filters ''agent'')) ''agent'' (fld filters ''agent'') @
        param_if (truthy (fld filters ''time'')) ''time'' (fld filters ''time''))))
       (\<lambda>res. Inr (rows_of res))"

definition getFlowDetail :: "jsv \<Rightarrow> jsv task" where
  "getFlowDetail flowId = api_get (''/network/'' @ to_str flowId)"

section \<open>notifications.js\<close>

definition getNotificationConfigs :: "jsv task" where
  "getNotificationConfigs = list_or_empty (api_get ''/notifications/configs'')"

definition createNotificationConfig :: "jsv \<Rightarrow> jsv task" where
  "createNotificationConfig config = api_post ''/notifications/configs'' config"

definition getNotificationLogs :: "jsv task" where
  "getNotificationLogs = list_or_empty (api_get ''/notifications/logs'')"

section \<open>policies.js\<close>

definition listPolicies :: "jsv \<Rightarrow> jsv task" where
  "listPolicies params =
     api_get_params ''/policies/'' (JObj [(''params'', dflt params (JObj []))])"

definition getPolicy :: "jsv \<Rightarrow> jsv task" where
  "getPolicy policyId = api_get (''/policies/'' @ to_str policyId)"

definition createPolicy :: "jsv \<Rightarrow> jsv task" where
  "createPolicy data = api_post ''/policies/'' data"

definition updatePolicy :: "jsv \<Rightarrow> jsv \<Rightarrow> jsv task" where
  "updatePolicy policyId data = api_put (''/policies/'' @ to_str policyId) data"

definition deletePolicy :: "jsv \<Rightarrow> jsv task" where
  "deletePolicy policyId = api_delete (''/policies/'' @ to_str policyId)"

definition evaluatePolicy :: "jsv \<Rightarrow> jsv task" where
  "evaluatePolicy data = api_post ''/policies/evaluate'' data"

section \<open>process.js\<close>

text \<open>\<open>data?.data ?? data\<close>\<close>

definition unwrap_data :: "jsv \<Rightarrow> jsv" where
  "unwrap_data d = nullish (fld d ''data'') d"

definition getProcessTree :: "jsv \<Rightarrow> jsv task" where
  "getProcessTree agentId =
     tbind (api_get (''/process/'' @ to_str agentId @ ''/tree'')) (\<lambda>d. Inr (unwrap_data d))"

definition getSuspiciousProcesses :: "jsv \<Rightarrow> jsv task" where
  "getSuspiciousProcesses agentId =
     tcatch (tbind (api_get (''/process/'' @ to_str agentId @ ''/suspicious''))
       (\<lambda>d. Inr (as_list (unwrap_data d)))) (\<lambda>_. Inr (JArr []))"

definition getProcessDetail :: "jsv \<Rightarrow> jsv \<Rightarrow> jsv task" where
  "getProcessDetail agentId pid =
     tbind (api_get (''/process/'' @ to_str agentId @ ''/process/'' @ to_str pid))
       (\<lambda>d. Inr (unwrap_data d))"

text \<open>The options of a kill: a boolean is the tree flag, an object may carry both fields.\<close>

definition kill_body :: "jsv \<Rightarrow> jsv" where
  "kill_body options =
     (let manual = JStr ''Manual analyst action'';
          (reason, killTree) =
            (case options of
               JBool b \<Rightarrow> (manual, b)
             | _ \<Rightarrow> if truthy options \<and> is_object options
                   then (js_or (fld options ''reason'') manual,
                         truthy (nullish (fld options ''killTree'')
                           (nullish (fld options ''kill_tree'') (JBool False))))
                   else (manual, False))
      in JObj [(''reason'', reason), (''kill_tree'', JBool killTree)])"

definition killProcess :: "jsv \<Rightarrow> jsv \<Rightarrow> jsv \<Rightarrow> jsv task" where
  "killProcess agentId pid options =
     tbind (api_post (''/process/'' @ to_str agentId @ ''/process/'' @ to_str pid @ ''/kill'')
       (kill_body (dflt options (JObj []))))
       (\<lambda>res. Inr (unwrap_data res))"

definition killProcessTree :: "jsv \<Rightarrow> jsv \<Rightarrow> jsv \<Rightarrow> jsv task" where
  "killProcessTree agentId pid processName =
     killProcess agentId pid (JObj
       [(''reason'', if truthy processName then JStr (''Kill tree: '' @ to_str processName)
                     else JStr ''Manual analyst action''),
        (''killTree'', JBool True)])"

section \<open>processChainRules.js, processGroups.js\<close>

definition getProcessChainRules :: "jsv \<Rightarrow> jsv task" where
  "getProcessChainRules params =
     list_of (api_get_params ''/process-chain-rules/'' (JObj [(''params'', dflt params (JObj []))]))"

definition getProcessChainRule :: "jsv \<Rightarrow> jsv task" where
  "getProcessChainRule ruleId = api_get (''/process-chain-rules/'' @ to_str ruleId)"

definition createProcessChainRule :: "jsv \<Rightarrow> jsv task" where
  "createProcessChainRule payload = api_post ''/process-chain-rules/'' payload"

definition updateProcessChainRule :: "jsv \<Rightarrow> jsv \<Rightarrow> jsv task" where
  "updateProcessChainRule ruleId payload = api_put (''/process-chain-rules/'' @ to_str ruleId) payload"

definition deleteProcessChainRule :: "jsv \<Rightarrow> jsv task" where
  "deleteProcessChainRule ruleId = api_delete (''/process-chain-rules/'' @ to_str ruleId)"

definition getProcessGroups :: "jsv \<Rightarrow> jsv task" where
  "getProcessGroups params =
     list_of (api_get_params ''/process-groups/'' (JObj [(''params'', dflt params (JObj []))]))"

definition getProcessGroup :: "jsv \<Rightarrow> jsv task" where
  "getProcessGroup groupId = api_get (''/process-groups/'' @ to_str groupId)"

definition createProcessGroup :: "jsv \<Rightarrow> jsv task" where
  "createProcessGroup payload = api_post ''/process-groups/'' payload"

definition updateProcessGroup :: "jsv \<Rightarrow> jsv \<Rightarrow> jsv task" where
  "updateProcessGroup groupId payload = api_put (''/process-groups/'' @ to_str groupId) payload"

definition deleteProcessGroup :: "jsv \<Rightarrow> jsv task" where
  "deleteProcessGroup groupId = api_delete (''/process-groups/'' @ to_str groupId)"

section \<open>reports.js\<close>

definition getReports :: "jsv task" where
  "getReports = list_or_empty (api_get ''/reports/'')"

definition generateReport :: "jsv \<Rightarrow> jsv task" where
  "generateReport payload = api_post ''/reports/generate'' payload"

text \<open>\<open>downloadReport\<close> opens a window; what is computed is its address.\<close>

definition downloadReport :: "jsv \<Rightarrow> jsv \<Rightarrow> string" where
  "downloadReport base_env reportId =
     to_str (js_or base_env (JStr ''/api/v1'')) @ ''/reports/'' @ to_str reportId @ ''/download''"

section \<open>risk.js\<close>

definition evaluateRisk :: "jsv \<Rightarrow> jsv task" where
  "evaluateRisk payload = api_post ''/risk/evaluate'' payload"

definition smooth_records :: "jsv \<Rightarrow> jsv res" where
  "smooth_records data = rmap JArr (rmapM smooth_record (elems data))"

definition getRiskHistory :: "jsv \<Rightarrow> jsv \<Rightarrow> jsv task" where
  "getRiskHistory agentId limit =
     tcatch (tbind (api_get_params (''/risk/'' @ to_str agentId @ ''/history'')
       (JObj [(''params'', JObj [(''limit'', dflt limit (jn 20))])])) smooth_records)
       (\<lambda>_. Inr (JArr []))"

definition getAgentRiskScores :: "jsv \<Rightarrow> jsv \<Rightarrow> jsv task" where
  "getAgentRiskScores agentId limit =
     tcatch (tbind (api_get_params (''/risk/agent/'' @ to_str agentId)
       (JObj [(''params'', JObj [(''limit'', dflt limit (jn 100))])])) smooth_records)
       (\<lambda>_. Inr (JArr []))"

definition getAgentRiskSummary :: "jsv \<Rightarrow> jsv task" where
  "getAgentRiskSummary agentId =
     tcatch (api_get (''/risk/agent/'' @ to_str agentId @ ''/summary''))
       (\<lambda>_. Inr (JObj [(''agent_id'', agentId), (''score'', jn 0), (''smoothed_score'', jn 0),
                        (''factors'', JObj [])]))"

definition verifyPhase2 :: "jsv task" where
  "verifyPhase2 = api_get ''/risk/verify-phase2''"

section \<open>rules.js\<close>

definition getRules :: "jsv task" where
  "getRules = list_or_empty (api_get ''/rules/'')"

definition addRule :: "jsv \<Rightarrow> jsv task" where
  "addRule ruleData = api_post ''/rules/'' ruleData"

definition deleteRule :: "jsv \<Rightarrow> jsv task" where
  "deleteRule ruleId = api_delete (''/rules/'' @ to_str ruleId)"

definition getRule :: "jsv \<Rightarrow> jsv task" where
  "getRule ruleId = api_get (''/rules/'' @ to_str ruleId)"

section \<open>settings.js\<close>

definition getSettings :: "jsv task" where
  "getSettings = tcatch (api_get ''/settings/'') (\<lambda>_. Inr JNull)"

definition getSettingByKey :: "jsv \<Rightarrow> jsv task" where
  "getSettingByKey key = tcatch (api_get (''/settings/'' @ to_str key)) (\<lambda>_. Inr JNull)"

definition updateSetting :: "jsv \<Rightarrow> jsv \<Rightarrow> jsv task" where
  "updateSetting key value = api_put (''/settings/'' @ to_str key) (JObj [(''value'', value)])"

definition getRiskThresholds :: "jsv task" where
  "getRiskThresholds = tcatch (api_get ''/settings/risk_thresholds'')
     (\<lambda>_. Inr (JObj [(''auto_isolate'', jn 85), (''alert_with_buttons'', jn 70), (''alert'', jn 50),
                      (''log'', jn 20)]))"

definition updateRiskThresholds :: "jsv \<Rightarrow> jsv task" where
  "updateRiskThresholds thresholds = api_put ''/settings/risk_thresholds'' thresholds"

definition getFileChangesThresholds :: "jsv task" where
  "getFileChangesThresholds = tcatch (api_get ''/settings/file_changes_thresholds'')
     (\<lambda>_. Inr (JObj [(''file_changes_critical'', jn 100), (''file_changes_elevated'', jn 30)]))"

definition updateFileChangesThresholds :: "jsv \<Rightarrow> jsv task" where
  "updateFileChangesThresholds thresholds = api_put ''/settings/file_changes_thresholds'' thresholds"

section \<open>threatIntel.js, whitelist.js\<close>

definition checkThreatIndicator :: "jsv \<Rightarrow> jsv \<Rightarrow> jsv task" where
  "checkThreatIndicator indicatorType value =
     api_post ''/threat-intel/check'' (JObj [(''indicator_type'', indicatorType), (''value'', value)])"

definition getWhitelist :: "jsv task" where
  "getWhitelist = list_or_empty (api_get ''/whitelist/'')"

definition addWhitelistEntry :: "jsv \<Rightarrow> jsv task" where
  "addWhitelistEntry entry = api_post ''/whitelist/'' entry"

definition removeWhitelistEntry :: "jsv \<Rightarrow> jsv task" where
  "removeWhitelistEntry entryId = api_delete (''/whitelist/'' @ to_str entryId)"

lemmas resolving_lists = getNotificationConfigs_def getNotificationLogs_def getReports_def
  getRules_def getWhitelist_def

end
