(* ===== verification/HookBase.thy ===== *)
theory HookBase
  imports ApiAdmin
begin

text \<open>
  What the hooks of \<open>src/frontend/src/hooks/\<close> share: the fetch state (a loading flag and an
  error), collections of JSON objects that are searched, patched and filtered by an id, and the
  optimistic update with rollback. The locale \<open>rollback\<close> is the contract of the latter: undoing
  a change right after making it gives the state back.

  The elements of server arrays are taken to be non-null, so an updater does not throw.
\<close>

record load_st =
  loading :: bool

record fetch_st = load_st +
  error :: jsv

section \<open>Collections keyed by a field\<close>

definition has_id :: "string \<Rightarrow> jsv \<Rightarrow> jsv \<Rightarrow> bool" where
  "has_id k v x \<longleftrightarrow> strict_eq (fld x k) v"

definition find_by :: "string \<Rightarrow> jsv \<Rightarrow> jsv list \<Rightarrow> jsv option" where
  \<comment> \<open>\<open>xs.find((x) => x.k === v)\<close>\<close>
  "find_by k v xs = List.find (has_id k v) xs"

definition patch_by :: "string \<Rightarrow> jsv \<Rightarrow> (jsv \<Rightarrow> jsv) \<Rightarrow> jsv list \<Rightarrow> jsv list" where
  \<comment> \<open>\<open>xs.map((x) => (x.k === v ? f(x) : x))\<close>\<close>
  "patch_by k v f xs = map (\<lambda>x. if has_id k v x then f x else x) xs"

definition remove_by :: "string \<Rightarrow> jsv \<Rightarrow> jsv list \<Rightarrow> jsv list" where
  \<comment> \<open>\<open>xs.filter((x) => x.k !== v)\<close>\<close>
  "remove_by k v xs = filter (\<lambda>x. \<not> has_id k v x) xs"

definition spread2 :: "jsv \<Rightarrow> jsv \<Rightarrow> jsv" where
  \<comment> \<open>\<open>{ ...x, ...y }\<close>\<close>
  "spread2 x y = JObj (merge (merge [] (own_props x)) (own_props y))"

lemma length_patch_by [simp]: "length (patch_by k v f xs) = length xs"
  by (simp add: patch_by_def)

lemma patch_by_simps [simp]:
  "patch_by k v f [] = []"
  "patch_by k v f (x # xs) = (if has_id k v x then f x else x) # patch_by k v f xs"
  by (simp_all add: patch_by_def)

lemma remove_by_simps [simp]:
  "remove_by k v [] = []"
  "remove_by k v (x # xs) = (if has_id k v x then remove_by k v xs else x # remove_by k v xs)"
  by (simp_all add: remove_by_def)

lemma patch_by_id: "\<forall>x\<in>set xs. \<not> has_id k v x \<Longrightarrow> patch_by k v f xs = xs"
  by (induction xs) auto

lemma remove_by_no_id: "x \<in> set (remove_by k v xs) \<Longrightarrow> \<not> has_id k v x"
  by (simp add: remove_by_def)

lemma remove_by_idem [simp]: "remove_by k v (remove_by k v xs) = remove_by k v xs"
  by (simp add: remove_by_def)

lemma remove_by_others: "x \<in> set xs \<Longrightarrow> \<not> has_id k v x \<Longrightarrow> x \<in> set (remove_by k v xs)"
  by (simp add: remove_by_def)

lemma find_by_Some: "find_by k v xs = Some x \<Longrightarrow> x \<in> set xs \<and> has_id k v x"
  unfolding find_by_def by (metis find_Some_iff nth_mem)

lemma find_by_None: "find_by k v xs = None \<longleftrightarrow> (\<forall>x\<in>set xs. \<not> has_id k v x)"
  unfolding find_by_def by (auto simp: find_None_iff)

text \<open>Objects whose \<open>k\<close> fields are pairwise different and comparable.\<close>

definition keyed :: "string \<Rightarrow> jsv list \<Rightarrow> bool" where
  "keyed k xs \<longleftrightarrow> (\<forall>x\<in>set xs. (\<exists>ps. x = JObj ps) \<and> is_key (fld x k)) \<and> distinct (map (\<lambda>x. fld x k) xs)"

lemma keyed_Nil [simp]: "keyed k []"
  by (simp add: keyed_def)

lemma keyed_Cons: "keyed k (x # xs) \<longleftrightarrow>
    (\<exists>ps. x = JObj ps) \<and> is_key (fld x k) \<and> fld x k \<notin> (\<lambda>x. fld x k) ` set xs \<and> keyed k xs"
  by (auto simp: keyed_def)

lemma keyed_remove_by: "keyed k xs \<Longrightarrow> keyed k (remove_by k v xs)"
  by (auto simp: keyed_def remove_by_def distinct_map intro: inj_on_subset)

lemma has_id_eq: "has_id k v x \<Longrightarrow> fld x k = v"
  unfolding has_id_def by (rule strict_eq_imp_eq)

text \<open>With unique ids at most one element is patched, the one \<open>find\<close> returns.\<close>

lemma keyed_find_unique:
  assumes "keyed k xs" and "find_by k v xs = Some t" and "x \<in> set xs" and "has_id k v x"
  shows "x = t"
proof -
  from find_by_Some [OF assms(2)] have "t \<in> set xs" and "fld t k = v"
    using has_id_eq by blast+
  moreover have "fld x k = v" using assms(4) by (rule has_id_eq)
  ultimately show ?thesis
    using assms(1,3) by (auto simp: keyed_def distinct_map inj_on_def)
qed

lemma patch_by_undo:
  assumes "keyed k xs" and "find_by k v xs = Some t" and "g (f t) = t" and "has_id k v (f t)"
  shows "patch_by k v g (patch_by k v f xs) = xs"
proof -
  have "x = (if has_id k v (if has_id k v x then f x else x)
             then g (if has_id k v x then f x else x) else (if has_id k v x then f x else x))"
    if "x \<in> set xs" for x
    using keyed_find_unique [OF assms(1,2) that] assms(3,4) by auto
  then show ?thesis
    by (simp add: patch_by_def map_idI comp_def)
qed

text \<open>Writing a present field and then its old value back is the identity.\<close>

lemma with_fld_undo:
  "map_of ps k = Some old \<Longrightarrow> with_fld (with_fld (JObj ps) k new) k old = JObj ps"
proof -
  assume "map_of ps k = Some old"
  then have "AList.update k old (AList.update k new ps) = ps"
    by (induction ps) auto
  then show ?thesis by (simp add: with_fld_def)
qed

lemma has_id_with_fld: "k \<noteq> k' \<Longrightarrow> has_id k v (with_fld (JObj ps) k' y) = has_id k v (JObj ps)"
  by (simp add: has_id_def)

text \<open>A collection whose every element carries the field \<open>p\<close>.\<close>

definition carries :: "string \<Rightarrow> jsv list \<Rightarrow> bool" where
  "carries p xs \<longleftrightarrow> (\<forall>x\<in>set xs. \<exists>ps. x = JObj ps \<and> map_of ps p \<noteq> None)"

lemma patch_field_undo:
  assumes "keyed k xs" and "carries p xs" and "k \<noteq> p" and "find_by k v xs = Some t"
  shows "patch_by k v (\<lambda>x. with_fld x p (fld t p)) (patch_by k v (\<lambda>x. with_fld x p new) xs) = xs"
proof -
  from find_by_Some [OF assms(4)] have t: "t \<in> set xs" "has_id k v t" by auto
  with assms(2) obtain ps old where ps: "t = JObj ps" and old: "map_of ps p = Some old"
    by (auto simp: carries_def)
  then have "fld t p = old" by (simp add: lookup_def)
  moreover have "with_fld (with_fld t p new) p old = t"
    unfolding ps by (rule with_fld_undo) (rule old)
  moreover have "has_id k v (with_fld t p new)"
    using t(2) unfolding ps has_id_with_fld [OF assms(3)] .
  ultimately show ?thesis
    using assms(1,4) by (intro patch_by_undo) simp_all
qed

section \<open>Optimistic updates\<close>

text \<open>
  \<open>setX(do); try { await t; } catch (err) { setX(undo); throw err; }\<close>, followed on success by
  the update \<open>done\<close> of the answer, which is also returned.
\<close>

definition optimistic ::
  "('s \<Rightarrow> 's) \<Rightarrow> jsv task \<Rightarrow> (jsv \<Rightarrow> 's \<Rightarrow> 's) \<Rightarrow> ('s \<Rightarrow> 's) \<Rightarrow> ('s, jsv) act" where
  "optimistic do_it t confirm undo =
     Upd do_it (catch (bnd (await t) (\<lambda>r. Upd (confirm r) (Ret r))) (\<lambda>e. Upd undo (Throw e)))"

lemma run_optimistic [simp]:
  "run (logging f) (optimistic do_it t confirm undo) s w =
     (case answer f t of
        Inl e \<Rightarrow> (Inl e, undo (do_it s), w @ requests [t])
      | Inr r \<Rightarrow> (Inr r, confirm r (do_it s), w @ requests [t]))"
  by (simp add: optimistic_def run_simps split: sum.splits)

lemma settles_optimistic:
  assumes "\<And>s. B (do_it s) \<Longrightarrow> B s" and "\<And>r s. B (confirm r s) \<Longrightarrow> B s" and "\<And>s. B (undo s) \<Longrightarrow> B s"
  shows "settles B (optimistic do_it t confirm undo)"
  unfolding optimistic_def
  by (rule settles_UpdI [OF assms(1)], assumption,
      rule settles_catch [OF settles_UpdI [OF assms(3)]], assumption, rule settles_Ret,
      rule settles_bnd [OF settles_UpdI [OF assms(2)]], assumption, simp_all)

lemma keeps_optimistic:
  assumes "\<And>s. P s \<Longrightarrow> P (do_it s)" and "\<And>r s. P s \<Longrightarrow> P (confirm r s)" and "\<And>s. P s \<Longrightarrow> P (undo s)"
  shows "keeps ok P (optimistic do_it t confirm undo)"
proof -
  have "keeps ok P (catch (bnd (await t) (\<lambda>r. Upd (confirm r) (Ret r))) (\<lambda>e. Upd undo (Throw e)))"
    by (intro keeps_catch keeps_bnd keeps_await; unfold keeps.simps) (use assms(2,3) in blast)+
  then show ?thesis
    unfolding optimistic_def keeps.simps using assms(1) by blast
qed

locale rollback =
  fixes do_it :: "'s \<Rightarrow> 's"
    and undo :: "'s \<Rightarrow> 's"
    and good :: "'s \<Rightarrow> bool"
  assumes undo_do: "good s \<Longrightarrow> undo (do_it s) = s"
begin

lemma failure_restores:
  assumes "good s" and "answer f t = Inl e"
  shows "run (logging f) (optimistic do_it t confirm undo) s w = (Inl e, s, w @ requests [t])"
  using assms by (simp add: undo_do)

lemma success_commits:
  assumes "answer f t = Inr r"
  shows "run (logging f) (optimistic do_it t confirm undo) s w =
    (Inr r, confirm r (do_it s), w @ requests [t])"
  using assms by simp

end

section \<open>Errors shown to the user\<close>

text \<open>Everything a piece of code throws satisfies \<open>Q\<close>.\<close>

primrec throws :: "(jsv \<Rightarrow> bool) \<Rightarrow> ('s, 'a) act \<Rightarrow> bool" where
  "throws Q (Ret a) = True"
| "throws Q (Throw e) = Q e"
| "throws Q (Upd f m) = throws Q m"
| "throws Q (Look g) = (\<forall>s. throws Q (g s))"
| "throws Q (Await qs c) = (\<forall>rs. throws Q (c rs))"

definition plain_task :: "'a task \<Rightarrow> bool" where
  "plain_task t \<longleftrightarrow> (\<forall>f e. answer f t = Inl e \<longrightarrow> plain_error e)"

lemma plain_no_answer [simp]: "plain_error no_answer"
  by (simp add: no_answer_def plain_error_def)

lemma throws_lift [simp]: "throws Q (lift r) = (\<forall>e. r = Inl e \<longrightarrow> Q e)"
  by (cases r) auto

lemma throws_await: "plain_task t \<Longrightarrow> throws plain_error (await t)"
proof (cases t)
  case (Ask q h)
  assume "plain_task t"
  with Ask have "h (settle r) = Inl e \<Longrightarrow> plain_error e" for r e
    by (auto simp: plain_task_def elim: allE [of _ "\<lambda>_. r"])
  with Ask show ?thesis by (auto split: list.splits)
qed (auto simp: plain_task_def)

lemma throws_bnd: "throws Q m \<Longrightarrow> (\<And>x. throws Q (k x)) \<Longrightarrow> throws Q (bnd m k)"
  by (induction m) auto

lemma throws_catch: "(\<And>e. throws Q (h e)) \<Longrightarrow> throws Q (catch m h)"
  by (induction m) auto

lemma throws_fin [simp]: "throws Q (fin m f) = throws Q m"
  by (induction m) auto

lemma throws_thn: "throws Q m \<Longrightarrow> throws Q n \<Longrightarrow> throws Q (thn m n)"
  by (simp add: thn_def throws_bnd)

lemma throws_mono: "throws Q m \<Longrightarrow> (\<And>e. Q e \<Longrightarrow> R e) \<Longrightarrow> throws R m"
  by (induction m) auto

text \<open>After code that cannot throw, the rest of the handler is reached.\<close>

abbreviation never_throws :: "('s, 'a) act \<Rightarrow> bool" where
  "never_throws \<equiv> throws (\<lambda>_. False)"

lemma owes_bnd_tail: "never_throws m \<Longrightarrow> (\<And>x. owes B (k x)) \<Longrightarrow> owes B (bnd m k)"
  by (induction m) auto

lemma owes_thn_tail: "never_throws m \<Longrightarrow> owes B n \<Longrightarrow> owes B (thn m n)"
  by (simp add: thn_def owes_bnd_tail)

lemma run_never_throws: "never_throws m \<Longrightarrow> \<exists>x. result (run srv m s w) = Inr x"
  by (induction m arbitrary: s w) (auto split: prod.splits)

lemma keeps_catch_throws:
  "keeps ok P m \<Longrightarrow> throws Q m \<Longrightarrow> (\<And>e. Q e \<Longrightarrow> keeps ok P (h e)) \<Longrightarrow> keeps ok P (catch m h)"
  by (induction m) auto

text \<open>Everything a piece of code returns satisfies \<open>Q\<close>; the same for a task.\<close>

primrec gives :: "('a \<Rightarrow> bool) \<Rightarrow> ('s, 'a) act \<Rightarrow> bool" where
  "gives Q (Ret a) = Q a"
| "gives Q (Throw e) = True"
| "gives Q (Upd f m) = gives Q m"
| "gives Q (Look g) = (\<forall>s. gives Q (g s))"
| "gives Q (Await qs c) = (\<forall>rs. gives Q (c rs))"

definition task_gives :: "('a \<Rightarrow> bool) \<Rightarrow> 'a task \<Rightarrow> bool" where
  "task_gives Q t \<longleftrightarrow> (\<forall>f x. answer f t = Inr x \<longrightarrow> Q x)"

lemma gives_lift [simp]: "gives Q (lift r) = (\<forall>x. r = Inr x \<longrightarrow> Q x)"
  by (cases r) auto

lemma gives_await: "task_gives Q t \<Longrightarrow> gives Q (await t)"
proof (cases t)
  case (Ask q h)
  assume "task_gives Q t"
  with Ask have "h (settle r) = Inr x \<Longrightarrow> Q x" for r x
    by (auto simp: task_gives_def elim: allE [of _ "\<lambda>_. r"])
  with Ask show ?thesis by (auto split: list.splits)
qed (auto simp: task_gives_def)

lemma keeps_bnd_gives:
  "gives Q m \<Longrightarrow> keeps ok P m \<Longrightarrow> (\<And>x. Q x \<Longrightarrow> keeps ok P (k x)) \<Longrightarrow> keeps ok P (bnd m k)"
  by (induction m) auto

lemma keeps_await_bnd:
  "task_gives Q t \<Longrightarrow> (\<And>x. Q x \<Longrightarrow> keeps ok P (k x)) \<Longrightarrow> keeps ok P (bnd (await t) k)"
  by (rule keeps_bnd_gives [where Q = Q]) (simp_all add: gives_await)

lemma plain_task_ask [simp]: "plain_task (ask q)"
  using settle_plain by (simp add: plain_task_def)

lemma plain_task_tbind:
  "plain_task t \<Longrightarrow> (\<And>x e. g x = Inl e \<Longrightarrow> plain_error e) \<Longrightarrow> plain_task (tbind t g)"
  by (auto simp: plain_task_def rbind_def split: sum.splits)

lemma plain_task_list_of [simp]: "plain_task t \<Longrightarrow> plain_task (list_of t)"
  by (auto simp: list_of_def intro: plain_task_tbind)

lemma plain_task_verbs [simp]:
  "plain_task (api_get p)" "plain_task (api_get_params p ps)" "plain_task (api_post p b)"
  "plain_task (api_put p b)" "plain_task (api_patch p b)" "plain_task (api_delete p)"
  by (simp_all add: api_verbs)

section \<open>The requests sent\<close>

text \<open>Every request a piece of code can send satisfies \<open>P\<close>, whatever was answered before.\<close>

primrec asks :: "(request \<Rightarrow> bool) \<Rightarrow> ('s, 'a) act \<Rightarrow> bool" where
  "asks P (Ret a) = True"
| "asks P (Throw e) = True"
| "asks P (Upd f m) = asks P m"
| "asks P (Look g) = (\<forall>s. asks P (g s))"
| "asks P (Await qs c) = (list_all P qs \<and> (\<forall>rs. asks P (c rs)))"

lemma asks_bnd: "asks P m \<Longrightarrow> (\<And>x. asks P (k x)) \<Longrightarrow> asks P (bnd m k)"
  by (induction m) auto

lemma asks_catch: "asks P m \<Longrightarrow> (\<And>e. asks P (h e)) \<Longrightarrow> asks P (catch m h)"
  by (induction m) auto

lemma asks_fin [simp]: "asks P (fin m f) = asks P m"
  by (induction m) auto

lemma asks_thn: "asks P m \<Longrightarrow> asks P n \<Longrightarrow> asks P (thn m n)"
  by (simp add: thn_def asks_bnd)

lemma asks_lift [simp]: "asks P (lift r)"
  by (cases r) auto

lemma asks_await: "list_all P (requests [t]) \<Longrightarrow> asks P (await t)"
  by (cases t) (auto split: list.splits)

lemmas asks_intros = asks_bnd asks_catch asks_thn asks_await

lemma asks_run:
  "asks P m \<Longrightarrow> \<exists>qs. world_of (run (logging f) m s w) = w @ qs \<and> list_all P qs"
proof (induction m arbitrary: s w)
  case (Await qs c)
  then have "asks P (c (map f qs))" and sent: "list_all P qs" by simp_all
  from Await.IH [OF rangeI this(1), of s "w @ qs"] obtain qs'
    where "world_of (run (logging f) (c (map f qs)) s (w @ qs)) = (w @ qs) @ qs'" and "list_all P qs'" by blast
  with sent show ?case by (intro exI [of _ "qs @ qs'"]) simp
qed auto

text \<open>\<open>err.message || '...'\<close>\<close>

definition message_or :: "jsv \<Rightarrow> string \<Rightarrow> jsv" where
  "message_or err d = js_or (fld err ''message'') (JStr d)"

definition null_or_text :: "jsv \<Rightarrow> bool" where
  "null_or_text v \<longleftrightarrow> v = JNull \<or> (\<exists>s. v = JStr s)"

lemma null_or_text_simps [simp]: "null_or_text JNull" "null_or_text (JStr s)"
  by (simp_all add: null_or_text_def)

lemma message_or_text: "plain_error e \<Longrightarrow> null_or_text (message_or e d)"
  by (auto simp: plain_error_def message_or_def null_or_text_def js_or_def)

text \<open>\<open>err.response?.data?.detail || err.message || '...'\<close>\<close>

definition detail_or :: "jsv \<Rightarrow> string \<Rightarrow> jsv" where
  "detail_or err d = js_or (fld (fld (fld err ''response'') ''data'') ''detail'') (message_or err d)"

lemma detail_or_plain: "plain_error e \<Longrightarrow> detail_or e d = message_or e d"
  by (simp add: detail_or_def plain_error_def)

end
