(* ===== verification/ActionsHook.thy ===== *)
theory ActionsHook
  imports HookBase
begin

text \<open>
  \<open>src/frontend/src/hooks/useActions.js\<close>: response actions of an incident, an agent or the whole
  system, with undo, batch undo and the bulk undo loop. The handlers are generic in the rest of
  the page's state, so that \<open>ActionsHistoryPage\<close> can embed the hook.
\<close>

record actions_props =
  p_agentId :: jsv
  p_incidentId :: jsv
  p_isGlobal :: bool

record actions_st = fetch_st +
  actions :: "jsv list"
  actionLoading :: bool

definition init_actions :: actions_st where
  "init_actions = \<lparr>loading = False, error = JNull, actions = [], actionLoading = False\<rparr>"

definition any_scope :: "actions_props \<Rightarrow> bool" where
  "any_scope p \<longleftrightarrow> truthy (p_agentId p) \<or> truthy (p_incidentId p) \<or> p_isGlobal p"

text \<open>The listing the props select: the incident's, else the agent's, else the global one.\<close>

definition scoped_list :: "clock \<Rightarrow> actions_props \<Rightarrow> jsv task" where
  "scoped_list c p =
     (if truthy (p_incidentId p) then getIncidentActions (p_incidentId p)
      else if truthy (p_agentId p) then getAgentActions (p_agentId p) JUndef JUndef
      else if p_isGlobal p then listAllActions c JUndef
      else Now (Inr (JArr [])))"

definition fetchActions :: "clock \<Rightarrow> actions_props \<Rightarrow> ('z actions_st_scheme, jsv) act" where
  "fetchActions c p =
     (if \<not> any_scope p then Ret JUndef
      else Upd (loading_update (\<lambda>_. True))
        (fin (catch
           (bnd (await (scoped_list c p)) (\<lambda>data.
              Upd (actions_update (\<lambda>_. elems data)) (Upd (error_update (\<lambda>_. JNull)) (Ret data))))
           (\<lambda>err. Upd (error_update (\<lambda>_. message_or err ''Failed to fetch response actions''))
              (Ret (JArr []))))
         (loading_update (\<lambda>_. False))))"

text \<open>One tick of the poll: quiet, keeps the old list on an error or a non-array.\<close>

definition pollActions :: "clock \<Rightarrow> actions_props \<Rightarrow> ('z actions_st_scheme, jsv) act" where
  "pollActions c p =
     (if \<not> any_scope p then Ret JUndef
      else catch
        (bnd (await (scoped_list c p)) (\<lambda>d.
           if is_array d then Upd (actions_update (\<lambda>_. elems d)) (Ret JUndef) else Ret JUndef))
        (\<lambda>_. Ret JUndef))"

definition handleCreate ::
  "clock \<Rightarrow> actions_props \<Rightarrow> jsv \<Rightarrow> jsv \<Rightarrow> jsv \<Rightarrow> ('z actions_st_scheme, jsv) act" where
  "handleCreate c p type params autoRollbackSecs =
     (if \<not> truthy (p_agentId p) then Throw (js_error (JStr ''Agent ID is required to create action''))
      else Upd (actionLoading_update (\<lambda>_. True))
        (fin (bnd (await (createAction (p_agentId p) type (dflt params (JObj [])) (p_incidentId p)
                     (dflt autoRollbackSecs JNull)))
               (\<lambda>res. thn (fetchActions c p) (Ret res)))
           (actionLoading_update (\<lambda>_. False))))"

definition handleUndo ::
  "clock \<Rightarrow> actions_props \<Rightarrow> jsv \<Rightarrow> jsv \<Rightarrow> ('z actions_st_scheme, jsv) act" where
  "handleUndo c p actionId reason =
     Upd (actionLoading_update (\<lambda>_. True))
       (fin (bnd (await (undoAction actionId reason)) (\<lambda>res.
               Upd (actions_update (patch_by ''id'' actionId
                      (\<lambda>act. with_fld (spread2 act res) ''status'' (JStr ''reverted''))))
                 (thn (fetchActions c p) (Ret res))))
          (actionLoading_update (\<lambda>_. False)))"

definition handleUndoAll ::
  "clock \<Rightarrow> actions_props \<Rightarrow> jsv \<Rightarrow> ('z actions_st_scheme, jsv) act" where
  "handleUndoAll c p reason =
     Upd (actionLoading_update (\<lambda>_. True))
       (fin (bnd (if truthy (p_incidentId p) then await (undoIncidentActions (p_incidentId p) reason)
                  else if truthy (p_agentId p) then await (undoAgentActions (p_agentId p) reason)
                  else Ret JUndef)
               (\<lambda>res. thn (fetchActions c p) (Ret res)))
          (actionLoading_update (\<lambda>_. False)))"

text \<open>
  The loop of \<open>handleBulkUndo\<close> over the ids from index \<open>i\<close> on, with its counters and results.
  \<open>progress\<close> is the caller's \<open>onProgress\<close>, an update of the page around the hook.
\<close>

definition undo_ok :: "jsv \<Rightarrow> jsv \<Rightarrow> jsv" where
  "undo_ok actionId res =
     JObj [(''actionId'', actionId), (''status'', JStr ''success''), (''data'', res)]"

definition undo_failed :: "jsv \<Rightarrow> jsv \<Rightarrow> jsv" where
  "undo_failed actionId err =
     JObj [(''actionId'', actionId), (''status'', JStr ''failed''), (''error'', fld err ''message'')]"

definition attempt :: "('s, 'a) act \<Rightarrow> ('s, 'a res) act" where
  "attempt m = catch (bnd m (\<lambda>x. Ret (Inr x))) (\<lambda>e. Ret (Inl e))"

fun bulk_loop ::
  "jsv \<Rightarrow> (nat \<Rightarrow> nat \<Rightarrow> 's \<Rightarrow> 's) \<Rightarrow> nat \<Rightarrow> jsv list \<Rightarrow> nat \<Rightarrow> nat \<Rightarrow> nat \<Rightarrow> jsv list
     \<Rightarrow> ('s, nat \<times> nat \<times> jsv list) act" where
  "bulk_loop reason progress n [] i succeeded failed results = Ret (succeeded, failed, results)"
| "bulk_loop reason progress n (x # xs) i succeeded failed results =
     bnd (attempt (await (undoAction x reason))) (\<lambda>r.
       Upd (progress (Suc i) n)
         (case r of
            Inr res \<Rightarrow> bulk_loop reason progress n xs (Suc i) (Suc succeeded) failed
                         (results @ [undo_ok x res])
          | Inl err \<Rightarrow> bulk_loop reason progress n xs (Suc i) succeeded (Suc failed)
                         (results @ [undo_failed x err])))"

definition bulk_result :: "nat \<times> nat \<times> jsv list \<Rightarrow> jsv" where
  "bulk_result r = (case r of (succeeded, failed, results) \<Rightarrow>
     JObj [(''succeeded'', jn (of_nat succeeded)), (''failed'', jn (of_nat failed)),
           (''results'', JArr results)])"

definition handleBulkUndo ::
  "clock \<Rightarrow> actions_props \<Rightarrow> jsv list \<Rightarrow> jsv
     \<Rightarrow> (nat \<Rightarrow> nat \<Rightarrow> 'z actions_st_scheme \<Rightarrow> 'z actions_st_scheme)
     \<Rightarrow> ('z actions_st_scheme, jsv) act" where
  "handleBulkUndo c p actionIds reason progress =
     (if actionIds = [] then Ret (bulk_result (0, 0, []))
      else Upd (actionLoading_update (\<lambda>_. True))
        (bnd (bulk_loop (dflt reason (JStr ''Bulk undo via UI'')) progress (length actionIds) actionIds 0 0 0 [])
          (\<lambda>r. thn (fetchActions c p)
             (Upd (actionLoading_update (\<lambda>_. False)) (Ret (bulk_result r))))))"

definition actions_ops :: "clock \<Rightarrow> actions_props \<Rightarrow> actions_st \<Rightarrow> (actions_st, jsv) act set" where
  "actions_ops c p s = {fetchActions c p, pollActions c p}
     \<union> {handleCreate c p t ps a | t ps a. True} \<union> {handleUndo c p i r | i r. True}
     \<union> range (handleUndoAll c p) \<union> {handleBulkUndo c p ids r (\<lambda>_ _ s. s) | ids r. True}"

section \<open>The flags\<close>

lemma fetchActions_settles [simp]: "settles loading (fetchActions c p)"
  unfolding fetchActions_def by (simp add: settles_Upd owes_fin)

lemma fetchActions_actionLoading [simp]: "settles actionLoading (fetchActions c p)"
  unfolding fetchActions_def by (auto intro!: settles_fin settles_catch settles_bnd)

lemma attempt_settles [simp]: "settles B m \<Longrightarrow> settles B (attempt m)"
  unfolding attempt_def by (intro settles_catch settles_bnd) auto

lemma bulk_loop_settles:
  assumes "\<And>i n s. B (progress i n s) \<Longrightarrow> B s"
  shows "settles B (bulk_loop reason progress n xs i sc fl rs)"
proof (induction xs arbitrary: i sc fl rs)
  case (Cons x xs)
  show ?case
    unfolding bulk_loop.simps
    by (rule settles_bnd [OF settles_UpdI [OF assms]], assumption)
      (auto simp: Cons.IH split: sum.splits)
qed simp

lemma actions_loading_settles: "m \<in> actions_ops c p s \<Longrightarrow> settles loading m"
  unfolding actions_ops_def pollActions_def handleCreate_def handleUndo_def handleUndoAll_def
    handleBulkUndo_def
  by (auto intro!: settles_fin settles_bnd settles_thn settles_catch bulk_loop_settles)

interpretation actions_loading: spinner "actions_ops c p" ok loading for c p ok
  by unfold_locales (rule actions_loading_settles)

lemma fetchActions_no_throw: "never_throws (fetchActions c p)"
  by (auto simp: fetchActions_def intro!: throws_catch)

lemma attempt_no_throw [simp]: "never_throws (attempt m)"
  unfolding attempt_def by (intro throws_catch) simp

lemma bulk_loop_no_throw: "never_throws (bulk_loop reason progress n xs i sc fl rs)"
  by (induction xs arbitrary: i sc fl rs) (auto intro!: throws_bnd split: sum.splits)

lemma handleBulkUndo_settles: "settles actionLoading (handleBulkUndo c p ids reason progress)"
  unfolding handleBulkUndo_def
  by (auto intro!: settles_UpdI2 owes_bnd_tail owes_thn_tail bulk_loop_no_throw fetchActions_no_throw)

lemma handlers_busy [simp]:
  "settles actionLoading (handleCreate c p type ps secs)" "settles actionLoading (handleUndo c p i r)"
  "settles actionLoading (handleUndoAll c p r)" "settles actionLoading (pollActions c p)"
  by (simp_all add: handleCreate_def handleUndo_def handleUndoAll_def)
    (auto simp: pollActions_def intro!: settles_bnd settles_catch)

lemma actions_busy_settles: "m \<in> actions_ops c p s \<Longrightarrow> settles actionLoading m"
  unfolding actions_ops_def by (auto simp: handleBulkUndo_settles)

interpretation actions_busy: spinner "actions_ops c p" ok actionLoading for c p ok
  by unfold_locales (rule actions_busy_settles)

section \<open>What a handler does\<close>

definition undo_req :: "jsv \<Rightarrow> jsv \<Rightarrow> request" where
  "undo_req reason x = Req POST (''/actions/'' @ to_str x @ ''/undo'') JUndef (JObj [(''reason'', reason)])"

definition undone :: "(request \<Rightarrow> response) \<Rightarrow> jsv \<Rightarrow> jsv \<Rightarrow> bool" where
  "undone f reason x \<longleftrightarrow> (\<exists>res. f (undo_req reason x) = Inr res)"

definition undo_entry :: "(request \<Rightarrow> response) \<Rightarrow> jsv \<Rightarrow> jsv \<Rightarrow> jsv" where
  "undo_entry f reason x = (case f (undo_req reason x) of
     Inr res \<Rightarrow> undo_ok x (fld res ''data'') | Inl err \<Rightarrow> undo_failed x (intercept_error err))"

lemma undoAction_ask: "reason \<noteq> JUndef \<Longrightarrow> undoAction x reason = ask (undo_req reason x)"
  by (simp add: undoAction_def api_post_def undo_req_def)

lemma run_attempt: "run srv (attempt m) s w = (case run srv m s w of (r, s', w') \<Rightarrow> (Inr r, s', w'))"
  by (auto simp: attempt_def run_simps split: prod.splits sum.splits)

lemma run_bulk_loop:
  assumes "reason \<noteq> JUndef"
  shows "run (logging f) (bulk_loop reason progress n xs i sc fl rs) s w =
    (Inr (sc + length (filter (undone f reason) xs), fl + length (filter (\<lambda>x. \<not> undone f reason x) xs),
          rs @ map (undo_entry f reason) xs),
     fold (\<lambda>j. progress (Suc j) n) [i..<i + length xs] s, w @ map (undo_req reason) xs)"
proof (induction xs arbitrary: i sc fl rs s w)
  case (Cons x xs)
  have "[i..<i + length (x # xs)] = i # [Suc i..<Suc i + length xs]"
    by (simp add: upt_rec)
  with assms show ?case
    by (cases "f (undo_req reason x)")
      (simp_all add: run_bnd run_attempt undoAction_ask Cons.IH undone_def undo_entry_def
        del: upt_Suc)
qed simp

lemma fetch_requests:
  "\<exists>x s' qs. run (logging f) (fetchActions c p) s w = (Inr x, s', w @ qs) \<and> length qs \<le> 1
     \<and> actionLoading s' = actionLoading s"
proof -
  have one: "length (requests [t]) \<le> 1" for t :: "jsv task"
    by (cases t) auto
  show ?thesis
    using one
    by (cases "answer f (scoped_list c p)") (auto simp: fetchActions_def run_simps)
qed

lemma run_handleBulkUndo:
  "\<exists>s' sc fl qs. run (logging f) (handleBulkUndo c p (x # xs) (JStr reason) progress) s [] =
     (Inr (bulk_result (sc, fl, map (undo_entry f (JStr reason)) (x # xs))), s',
      map (undo_req (JStr reason)) (x # xs) @ qs)
   \<and> sc = length (filter (undone f (JStr reason)) (x # xs)) \<and> sc + fl = length (x # xs)
   \<and> length qs \<le> 1
   \<and> s' = (state_of (run (logging f) (fetchActions c p)
              (fold (\<lambda>j. progress (Suc j) (length (x # xs))) [0..<length (x # xs)]
                 (s\<lparr>actionLoading := True\<rparr>)) []))\<lparr>actionLoading := False\<rparr>"
proof -
  let ?ids = "x # xs" and ?r = "JStr reason"
  let ?s2 = "fold (\<lambda>j. progress (Suc j) (length ?ids)) [0..<length ?ids] (s\<lparr>actionLoading := True\<rparr>)"
  let ?w = "map (undo_req ?r) ?ids"
  obtain y s3 qs where fetch: "run (logging f) (fetchActions c p) ?s2 ?w = (Inr y, s3, ?w @ qs)"
    and len: "length qs \<le> 1"
    using fetch_requests by blast
  have state: "state_of (run (logging f) (fetchActions c p) ?s2 []) = s3"
    using fetch by (cases "answer f (scoped_list c p)") (auto simp: fetchActions_def run_simps split: if_splits)
  have loop: "run (logging f) (handleBulkUndo c p ?ids ?r progress) s [] =
      (Inr (bulk_result (length (filter (undone f ?r) ?ids), length (filter (\<lambda>x. \<not> undone f ?r x) ?ids),
         map (undo_entry f ?r) ?ids)), s3\<lparr>actionLoading := False\<rparr>, ?w @ qs)"
    using fetch
    by (simp add: handleBulkUndo_def run_bnd run_thn run_bulk_loop del: upt_Suc bulk_loop.simps)
  show ?thesis
    unfolding state by (intro exI conjI, rule loop, rule refl, rule sum_length_filter_compl, rule len, rule refl)
qed

section \<open>Properties\<close>

text \<open>
  C35: a bulk undo never throws, whatever each single undo answers. It sends one POST per
  selected action, in the order selected, then at most the one request of the refetch; the
  counters add up to the selection, the results come in its order, \<open>onProgress\<close> was called once
  per action, with 1, 2, .., n, before the refetch, and \<open>actionLoading\<close> is down at the end.
\<close>

theorem bulk_undo_accounting:
  "\<exists>s' sc fl qs. run (logging f) (handleBulkUndo c p (x # xs) (JStr reason) progress) s [] =
     (Inr (bulk_result (sc, fl, map (undo_entry f (JStr reason)) (x # xs))), s',
      map (undo_req (JStr reason)) (x # xs) @ qs)
   \<and> sc = length (filter (undone f (JStr reason)) (x # xs)) \<and> sc + fl = length (x # xs)
   \<and> length qs \<le> 1
   \<and> s' = (state_of (run (logging f) (fetchActions c p)
              (fold (\<lambda>j. progress (Suc j) (length (x # xs))) [0..<length (x # xs)]
                 (s\<lparr>actionLoading := True\<rparr>)) []))\<lparr>actionLoading := False\<rparr>"
  by (rule run_handleBulkUndo)

text \<open>
  Undoing one action. A refused undo is rethrown and leaves the list and the error
  shown as they were. An accepted undo followed by a good refetch shows the
  refetched list; when only the refetch fails, the undone action is shown as \<open>reverted\<close> with the
  server's fields merged in, and the undo still counts as done.
\<close>

theorem undo_outcome:
  assumes "any_scope p"
  shows "run (logging f) (handleUndo c p i (JStr r)) s [] =
    (case f (undo_req (JStr r) i) of
       Inl err \<Rightarrow> (Inl (intercept_error err), s\<lparr>actionLoading := False\<rparr>, [undo_req (JStr r) i])
     | Inr res \<Rightarrow>
        (Inr (fld res ''data''),
         (case answer f (scoped_list c p) of
            Inr d \<Rightarrow> s\<lparr>actionLoading := False, loading := False, error := JNull, actions := elems d\<rparr>
          | Inl e \<Rightarrow> s\<lparr>actionLoading := False, loading := False,
              error := message_or e ''Failed to fetch response actions'',
              actions := patch_by ''id'' i
                (\<lambda>a. with_fld (spread2 a (fld res ''data'')) ''status'' (JStr ''reverted'')) (actions s)\<rparr>),
         undo_req (JStr r) i # requests [scoped_list c p]))"
  using assms
  by (simp add: handleUndo_def fetchActions_def undoAction_ask run_simps split: sum.splits)

definition undo_server :: "request \<Rightarrow> response" where
  "undo_server q = (if req_method q = POST then Inr (JObj [(''data'', JObj [(''reverted_by'', JStr ''ui'')])])
                    else Inl (JObj [(''message'', JStr ''offline'')]))"

definition one_action :: actions_st where
  "one_action = init_actions\<lparr>actions := [JObj [(''id'', JStr ''A1''), (''status'', JStr ''applied'')]]\<rparr>"

definition global_props :: actions_props where
  "global_props = \<lparr>p_agentId = JNull, p_incidentId = JNull, p_isGlobal = True\<rparr>"

theorem undo_outcome_witness:
  "actions (state_of (run (logging undo_server)
     (handleUndo stopped_clock global_props (JStr ''A1'') (JStr ''why'')) one_action [])) =
   [JObj [(''id'', JStr ''A1''), (''status'', JStr ''reverted''), (''reverted_by'', JStr ''ui'')]]"
proof -
  have any: "any_scope global_props" by (simp add: any_scope_def global_props_def)
  show ?thesis
    by (subst undo_outcome [OF any])
      (simp add: undo_server_def undo_req_def scoped_list_def global_props_def listAllActions_def
        api_get_params_def ask_def one_action_def init_actions_def has_id_def spread2_def with_fld_def)
qed

end
