(* ===== verification/Paging.thy ===== *)
theory Paging
  imports HookBase
begin

text \<open>
  Paged lists. The lists of the front end are cut into pages with \<open>slice\<close> and counted with
  \<open>Math.ceil\<close>; the locale \<open>pager\<close> is what they promise to \<open>Pagination.jsx\<close>, the buttons, and to the
  user: the pages are a partition of the filtered list. The lists of rules, actions, incidents, commands and
  risk scores are interpretations, each in the theory of its hook or page.
\<close>

section \<open>Searching\<close>

text \<open>
  \<open>x.k && x.k.toLowerCase().includes(q.toLowerCase())\<close>, and the disjunction of it over several fields. A
  truthy value that is not a string throws, and so does \<open>x\<close> itself when it is \<open>null\<close>.
\<close>

definition field_match :: "jsv \<Rightarrow> string \<Rightarrow> string \<Rightarrow> bool res" where
  "field_match x q k = rbind (get x k) (\<lambda>v. if_truthy v (low_has v q))"

fun any_field :: "jsv \<Rightarrow> string \<Rightarrow> string list \<Rightarrow> bool res" where
  "any_field x q [] = Inr False"
| "any_field x q (k # ks) = ror (field_match x q k) (any_field x q ks)"

text \<open>\<open>f === 'all' || x.k === f\<close>\<close>

definition picked :: "string \<Rightarrow> jsv \<Rightarrow> string \<Rightarrow> bool res" where
  "picked f x k = ror (Inr (f = ''all'')) (rmap (\<lambda>v. v = JStr f) (get x k))"

text \<open>An object whose listed fields are strings or falsy: no search over them throws.\<close>

definition texts :: "string list \<Rightarrow> jsv \<Rightarrow> bool" where
  "texts ks x \<longleftrightarrow> (\<exists>ps. x = JObj ps) \<and> list_all (\<lambda>k. (\<exists>t. fld x k = JStr t) \<or> \<not> truthy (fld x k)) ks"

definition field_hit :: "jsv \<Rightarrow> string \<Rightarrow> string \<Rightarrow> bool" where
  "field_hit x q k = (case fld x k of JStr t \<Rightarrow> t \<noteq> [] \<and> str_includes (lower t) (lower q) | _ \<Rightarrow> False)"

lemma any_field_total: "texts ks x \<Longrightarrow> any_field x q ks = Inr (list_ex (field_hit x q) ks)"
proof (induction ks)
  case (Cons k ks)
  then have "texts ks x" by (simp add: texts_def)
  moreover from Cons.prems obtain ps where x: "x = JObj ps" by (auto simp: texts_def)
  moreover have "field_match x q k = Inr (field_hit x q k)"
    using Cons.prems by (auto simp: x texts_def field_match_def field_hit_def if_truthy_def split: jsv.splits)
  ultimately show ?case using Cons.IH by simp
qed simp

lemma picked_obj [simp]: "picked f (JObj ps) k = Inr (f = ''all'' \<or> lookup ps k = JStr f)"
  by (simp add: picked_def)

section \<open>slice and ceil\<close>

text \<open>\<open>xs.slice(b, e)\<close>: a negative bound counts from the end, both are clamped.\<close>

definition slice_bound :: "nat \<Rightarrow> int \<Rightarrow> nat" where
  "slice_bound n i = (if i < 0 then nat (max 0 (int n + i)) else min n (nat i))"

definition js_slice :: "int \<Rightarrow> int \<Rightarrow> 'a list \<Rightarrow> 'a list" where
  "js_slice b e xs =
     (let n = length xs; i = slice_bound n b; j = slice_bound n e in take (j - i) (drop i xs))"

definition page_slice :: "nat \<Rightarrow> int \<Rightarrow> 'a list \<Rightarrow> 'a list" where
  \<comment> \<open>\<open>xs.slice((page - 1) * size, page * size)\<close>\<close>
  "page_slice sz page xs = js_slice ((page - 1) * int sz) (page * int sz) xs"

definition page_count :: "nat \<Rightarrow> nat \<Rightarrow> int" where
  \<comment> \<open>\<open>Math.ceil(n / size) || 1\<close>\<close>
  "page_count sz n =
     (let c = \<lceil>(of_nat n :: rat) / of_nat sz\<rceil> in if c = 0 then 1 else c)"

lemma slice_bound_nonneg: "0 \<le> i \<Longrightarrow> slice_bound n i = min n (nat i)"
  by (simp add: slice_bound_def)

lemma page_slice_nat:
  "page_slice sz (int p + 1) xs = take sz (drop (p * sz) xs)"
proof -
  let ?n = "length xs"
  have b: "slice_bound ?n (int p * int sz) = min ?n (p * sz)"
    and e: "slice_bound ?n ((int p + 1) * int sz) = min ?n (p * sz + sz)"
    by (simp_all add: slice_bound_nonneg nat_mult_distrib nat_add_distrib distrib_right flip: of_nat_mult of_nat_add)
  show ?thesis
  proof (cases "?n \<le> p * sz")
    case True
    then show ?thesis by (simp add: page_slice_def js_slice_def Let_def b e)
  next
    case False
    then have "min ?n (p * sz + sz) - p * sz = min (?n - p * sz) sz" by simp
    with False show ?thesis
      by (simp add: page_slice_def js_slice_def Let_def b e min_def)
  qed
qed

text \<open>\<open>c\<close> is the ceiling of \<open>n / size\<close>.\<close>

lemma ceil_facts:
  fixes n sz :: nat
  defines "c \<equiv> \<lceil>(of_nat n :: rat) / of_nat sz\<rceil>"
  shows "0 \<le> c" and "0 < sz \<Longrightarrow> int n \<le> c * int sz" and "0 < sz \<Longrightarrow> (c - 1) * int sz < int n"
proof -
  have "of_int (- 1) < (of_nat n :: rat) / of_nat sz"
    by (rule less_le_trans [of _ 0]) simp_all
  then have "- 1 < c" unfolding c_def by (simp only: less_ceiling_iff)
  then show "0 \<le> c" by simp
  assume sz: "0 < sz"
  have "(of_nat n :: rat) / of_nat sz \<le> of_int c" and "of_int c - 1 < (of_nat n :: rat) / of_nat sz"
    unfolding c_def using ceiling_correct by blast+
  with sz have "(of_nat n :: rat) \<le> of_int c * of_nat sz" and "(of_int c - 1) * of_nat sz < (of_nat n :: rat)"
    by (simp_all add: pos_divide_le_eq pos_less_divide_eq)
  then have "(of_int (int n) :: rat) \<le> of_int (c * int sz)" and "of_int ((c - 1) * int sz) < (of_int (int n) :: rat)"
    by simp_all
  then show "int n \<le> c * int sz" and "(c - 1) * int sz < int n"
    by (simp_all only: of_int_le_iff of_int_less_iff)
qed

lemma page_count_ge1: "1 \<le> page_count sz n"
  unfolding page_count_def Let_def using ceil_facts(1) [of n sz] by (split if_split) linarith

lemma page_count_covers:
  assumes "0 < sz"
  shows "n \<le> nat (page_count sz n) * sz"
proof -
  have "int n \<le> page_count sz n * int sz"
    using ceil_facts(2) [OF assms, of n] assms by (auto simp: page_count_def Let_def)
  also have "\<dots> = int (nat (page_count sz n) * sz)"
    using page_count_ge1 [of sz n] by simp
  finally show ?thesis by linarith
qed

lemma page_count_tight:
  assumes "0 < sz" and "1 < page_count sz n"
  shows "(nat (page_count sz n) - 1) * sz < n"
proof -
  have "(page_count sz n - 1) * int sz < int n"
    using ceil_facts(3) [OF assms(1), of n] assms(2)
    unfolding page_count_def Let_def by (metis less_irrefl)
  moreover have "page_count sz n - 1 = int (nat (page_count sz n) - 1)"
    using assms(2) by simp
  ultimately show ?thesis
    by (metis of_nat_less_iff of_nat_mult)
qed

section \<open>The pager\<close>

locale pager =
  fixes sz :: nat
    and view :: "int \<Rightarrow> 'a list \<Rightarrow> 'a list"
    and pages :: "'a list \<Rightarrow> int"
  assumes size_pos: "0 < sz"
    and view_page: "view (int p + 1) xs = take sz (drop (p * sz) xs)"
    and pages_ge1: "1 \<le> pages xs"
    and pages_cover: "length xs \<le> nat (pages xs) * sz"
    and pages_tight: "1 < pages xs \<Longrightarrow> (nat (pages xs) - 1) * sz < length xs"
begin

definition all_pages :: "'a list \<Rightarrow> 'a list list" where
  "all_pages xs = map (\<lambda>p. view (int p + 1) xs) [0..<nat (pages xs)]"

lemma concat_prefix: "concat (map (\<lambda>p. view (int p + 1) xs) [0..<n]) = take (n * sz) xs"
proof (induction n)
  case (Suc n)
  have "take (Suc n * sz) xs = take (n * sz) xs @ take sz (drop (n * sz) xs)"
    by (simp only: mult_Suc add.commute [of sz] take_add)
  with Suc show ?case by (simp add: view_page)
qed simp

text \<open>Going through the pages shows the list, each element once and in order.\<close>

lemma pages_partition: "concat (map (\<lambda>p. view (int p + 1) xs) [0..<nat (pages xs)]) = xs"
  using pages_cover [of xs] by (simp add: concat_prefix)

lemma page_length: "length (view (int p + 1) xs) \<le> sz"
  by (simp add: view_page)

lemma page_full: "int p + 1 < pages xs \<Longrightarrow> length (view (int p + 1) xs) = sz"
proof -
  assume p: "int p + 1 < pages xs"
  then have "p + 1 \<le> nat (pages xs) - 1" by linarith
  then have "(p + 1) * sz \<le> (nat (pages xs) - 1) * sz" by (rule mult_le_mono1)
  also have "\<dots> < length xs" using p pages_tight [of xs] by simp
  finally show ?thesis by (simp add: view_page)
qed

text \<open>No page the buttons offer is empty, unless the list is; past the last page there is nothing.\<close>

lemma page_nonempty:
  assumes "xs \<noteq> []" and "int p + 1 \<le> pages xs"
  shows "view (int p + 1) xs \<noteq> []"
proof (cases "p = 0")
  case True
  with assms(1) size_pos show ?thesis using view_page [of 0 xs] by simp
next
  case False
  with assms(2) have "1 < pages xs" and "p \<le> nat (pages xs) - 1" by linarith+
  then have "p * sz < length xs"
    using pages_tight [of xs] by (meson le_less_trans mult_le_mono1)
  with size_pos show ?thesis by (simp add: view_page)
qed

lemma page_beyond: "pages xs \<le> int p \<Longrightarrow> view (int p + 1) xs = []"
proof -
  assume "pages xs \<le> int p"
  then have "nat (pages xs) * sz \<le> p * sz" by (intro mult_le_mono1) linarith
  then have "length xs \<le> p * sz" using pages_cover [of xs] by (rule order_trans [rotated])
  then show ?thesis by (simp add: view_page)
qed

end

text \<open>Every list cut with \<open>slice\<close> and \<open>Math.ceil\<close> at the same size is a pager.\<close>

lemma pager_page_slice:
  "0 < sz \<Longrightarrow> pager sz (page_slice sz) (\<lambda>xs. page_count sz (length xs))"
  by unfold_locales (simp_all add: page_slice_nat page_count_ge1 page_count_covers page_count_tight [simplified])

end
