(* ===== verification/ActionsPage.thy ===== *)
theory ActionsPage
  imports ActionsHook Paging
begin

text \<open>
  \<open>src/frontend/src/pages/ActionsHistory.jsx\<close>, with \<open>components/ui/Pagination.jsx\<close> and
  \<open>components/actions/AutoRollbackTimer.jsx\<close>: the filters over all response actions, the selection and
  its bulk undo, the page buttons and the countdown. The page's state extends the state of
  \<open>useActions\<close>, so the hook's handlers run on it.
\<close>

record apage_st = actions_st +
  groupsList :: "jsv list"
  activeTab :: string
  actionType :: string
  agentFilter :: string
  groupFilter :: string
  searchTerm :: string
  currentPage :: int
  selectedIds :: "jsv list"
  bulkModalOpen :: bool
  bulkProgress :: "(nat \<times> nat) option"
  singleUndo :: jsv
  shownToasts :: "(string \<times> string) list"

section \<open>Filtering\<close>

text \<open>\<open>(v || '').toLowerCase()\<close>: a truthy value that is not a string throws.\<close>

definition low_str :: "jsv \<Rightarrow> string res" where
  "low_str v = (if truthy v then (case v of JStr s \<Rightarrow> Inr (lower s) | _ \<Rightarrow> Inl type_error) else Inr [])"

definition tab_matches :: "string \<Rightarrow> jsv \<Rightarrow> bool res" where
  "tab_matches tab act =
     (if tab \<in> {''applied'', ''reverted'', ''failed''} then rmap (\<lambda>v. v = JStr tab) (get act ''status'')
      else if tab = ''with_rollback'' then rmap truthy (get act ''auto_rollback_at'')
      else Inr True)"

definition type_matches :: "string \<Rightarrow> jsv \<Rightarrow> bool res" where
  "type_matches f act =
     (if f = ''all'' then Inr True
      else rmap (\<lambda>t. (f = ''isolate'' \<longrightarrow> str_includes t ''isolate'') \<and> (f = ''block_ip'' \<longrightarrow> str_includes t ''block'')
             \<and> (f = ''kill'' \<longrightarrow> str_includes t ''kill'') \<and> (f = ''quarantine'' \<longrightarrow> str_includes t ''quarantine''))
        (rbind (get act ''action_type'') low_str))"

definition agent_matches :: "string \<Rightarrow> jsv \<Rightarrow> bool res" where
  "agent_matches f act = (if f = ''all'' then Inr True else rmap (\<lambda>v. v = JStr f) (get act ''agent_id''))"

definition group_matches :: "jsv list \<Rightarrow> string \<Rightarrow> jsv \<Rightarrow> bool res" where
  "group_matches gs f act =
     (if f = ''all'' then Inr True
      else rbind (get act ''action_params'') (\<lambda>ps. rbind (low_str (fld ps ''group_name'')) (\<lambda>actGroupName.
        rmap (\<lambda>matchName. fld ps ''group_id'' = JStr f \<or> matchName)
          (case List.find (\<lambda>g. fld g ''id'' = JStr f) gs of
             None \<Rightarrow> Inr False
           | Some g \<Rightarrow> rmap (\<lambda>n. JStr actGroupName = n) (to_lower (fld g ''name''))))))"

definition search_matches :: "string \<Rightarrow> jsv \<Rightarrow> bool res" where
  "search_matches q act =
     (if trim q = [] then Inr True
      else rbind (get act ''id'') (\<lambda>actId. rbind (rmapM low_str
          [actId, fld act ''agent_id'', fld act ''action_type'',
           js_or (fld act ''reason'') (fld (fld act ''action_params'') ''reason''),
           fld (fld act ''action_params'') ''group_name'']) (\<lambda>texts.
        Inr (list_ex (\<lambda>t. str_includes t (lower q)) texts))))"

definition action_matches :: "apage_st \<Rightarrow> jsv \<Rightarrow> bool res" where
  "action_matches s act =
     rand (tab_matches (activeTab s) act)
     (rand (type_matches (actionType s) act)
     (rand (agent_matches (agentFilter s) act)
     (rand (group_matches (groupsList s) (groupFilter s) act)
           (search_matches (searchTerm s) act))))"

definition filteredActions :: "apage_st \<Rightarrow> jsv list res" where
  "filteredActions s = rfilter (action_matches s) (actions s)"

definition actionPages :: "jsv list \<Rightarrow> int" where
  \<comment> \<open>\<open>Math.max(1, Math.ceil(n / pageSize))\<close>\<close>
  "actionPages xs = max 1 \<lceil>(of_nat (length xs) :: rat) / 20\<rceil>"

definition paginatedActions :: "apage_st \<Rightarrow> jsv list res" where
  "paginatedActions s =
     rmap (\<lambda>xs. let start = (currentPage s - 1) * 20 in js_slice start (start + 20) xs) (filteredActions s)"

section \<open>Selection\<close>

text \<open>A JavaScript \<open>Set\<close> is the list of its elements in insertion order.\<close>

definition set_toggle :: "jsv \<Rightarrow> jsv list \<Rightarrow> jsv list" where
  "set_toggle i sel = (if i \<in> set sel then filter (\<lambda>j. j \<noteq> i) sel else sel @ [i])"

definition new_set :: "jsv list \<Rightarrow> jsv list" where
  "new_set xs = rev (remdups (rev xs))"

definition handleToggleSelect :: "jsv \<Rightarrow> apage_st \<Rightarrow> apage_st" where
  "handleToggleSelect i = selectedIds_update (set_toggle i)"

definition handleSelectAll :: "bool \<Rightarrow> jsv list \<Rightarrow> apage_st \<Rightarrow> apage_st" where
  \<comment> \<open>given the rendered \<open>filteredActions\<close>\<close>
  "handleSelectAll checked filtered = selectedIds_update (\<lambda>_. if \<not> checked then []
     else new_set (map (\<lambda>a. fld a ''id'') (filter (\<lambda>a. fld a ''status'' = JStr ''applied'') filtered)))"

definition handleClearSelection :: "apage_st \<Rightarrow> apage_st" where
  "handleClearSelection = selectedIds_update (\<lambda>_. [])"

definition selectedActionsList :: "apage_st \<Rightarrow> jsv list" where
  "selectedActionsList s = filter (\<lambda>a. fld a ''id'' \<in> set (selectedIds s)) (actions s)"

section \<open>Undoing\<close>

definition showToast :: "string \<Rightarrow> string \<Rightarrow> 'z apage_st_scheme \<Rightarrow> 'z apage_st_scheme" where
  "showToast msg type = shownToasts_update (\<lambda>ts. ts @ [(msg, type)])"

definition bulk_message :: "jsv \<Rightarrow> nat \<Rightarrow> string" where
  "bulk_message r n = ''Da hoan nguyen thanh cong '' @ to_str (fld r ''succeeded'') @ ''/'' @ nat_str n @ '' actions.'' @
     (if num_lt (Fin 0) (to_num (fld r ''failed'')) then '' ('' @ to_str (fld r ''failed'') @ '' loi)'' else [])"

text \<open>\<open>ids\<close> is the rendered selection.\<close>

definition handleConfirmBulkUndo ::
  "clock \<Rightarrow> actions_props \<Rightarrow> jsv list \<Rightarrow> jsv \<Rightarrow> (apage_st, jsv) act" where
  "handleConfirmBulkUndo c p ids reason =
     (if ids = [] then Ret JUndef
      else Upd (bulkProgress_update (\<lambda>_. Some (0, length ids)))
        (fin (catch
           (bnd (handleBulkUndo c p ids reason (\<lambda>i n. bulkProgress_update (\<lambda>_. Some (i, n)))) (\<lambda>r.
              Upd (bulkModalOpen_update (\<lambda>_. False)) (Upd (selectedIds_update (\<lambda>_. []))
                (Upd (showToast (bulk_message r (length ids))
                       (if num_lt (Fin 0) (to_num (fld r ''failed'')) then ''warning'' else ''success''))
                  (Ret JUndef)))))
           (\<lambda>err. Upd (showToast (''Hoan nguyen hang loat that bai: '' @ to_str (fld err ''message'')) ''error'')
              (Ret JUndef)))
         (bulkProgress_update (\<lambda>_. None))))"

definition handleConfirmSingleUndo :: "clock \<Rightarrow> actions_props \<Rightarrow> jsv \<Rightarrow> jsv \<Rightarrow> ('z apage_st_scheme, jsv) act" where
  "handleConfirmSingleUndo c p action reason =
     (if \<not> truthy action then Ret JUndef
      else catch
        (bnd (handleUndo c p (fld action ''id'') reason) (\<lambda>_.
           Upd (showToast (''Da hoan nguyen thanh cong action '' @ to_str (fld action ''id'')) ''success'')
             (Upd (singleUndo_update (\<lambda>_. JNull)) (Ret JUndef))))
        (\<lambda>err. Upd (showToast (''Khong the hoan nguyen action '' @ to_str (fld action ''id'') @ '': '' @
             to_str (fld err ''message'')) ''error'') (Ret JUndef)))"

section \<open>The page buttons\<close>

datatype page_item = Dots int | Button int

definition visible_pages :: "int \<Rightarrow> int \<Rightarrow> int list" where
  "visible_pages current npages =
     filter (\<lambda>p. p = 1 \<or> p = npages \<or> \<bar>p - current\<bar> \<le> 1) (map (\<lambda>i. int i + 1) [0..<nat npages])"

fun render_pages :: "int \<Rightarrow> int list \<Rightarrow> page_item list" where
  "render_pages prev [] = []"
| "render_pages prev (p # ps) =
     (if 1 < p - prev then [Dots p] else []) @ Button p # render_pages p ps"

definition pagination :: "int \<Rightarrow> int \<Rightarrow> page_item list" where
  "pagination current npages = (if npages \<le> 1 then [] else render_pages 0 (visible_pages current npages))"

section \<open>The countdown\<close>

text \<open>\<open>updateTimer\<close>: the whole seconds left, 0 when the time has passed, \<open>NaN\<close> for an unreadable date.\<close>

definition time_left :: "clock \<Rightarrow> jsv \<Rightarrow> jsnum" where
  "time_left c autoRollbackAt =
     (case num_sub (date_ms c autoRollbackAt) (Fin (now_ms c)) of
        NaN \<Rightarrow> NaN
      | Fin diff \<Rightarrow> if diff \<le> 0 then Fin 0 else Fin (of_int \<lfloor>diff / 1000\<rfloor>))"

definition pad2 :: "nat \<Rightarrow> string" where
  "pad2 n = (let s = nat_str n in replicate (2 - length s) (CHR ''0'') @ s)"

datatype timer_view = Rolled_back | Hidden | Rolling | Remaining string

definition timer_text :: "nat \<Rightarrow> string" where
  "timer_text t = pad2 (t div 60) @ '':'' @ pad2 (t mod 60)"

definition timer_shown :: "clock \<Rightarrow> jsv \<Rightarrow> jsv \<Rightarrow> timer_view" where
  "timer_shown c autoRollbackAt status =
     (if status = JStr ''reverted'' then Rolled_back
      else if status \<noteq> JStr ''applied'' \<or> \<not> truthy autoRollbackAt then Hidden
      else case time_left c autoRollbackAt of
          NaN \<Rightarrow> Remaining ''NaN:NaN''
        | Fin t \<Rightarrow> if t \<le> 0 then Rolling else Remaining (timer_text (nat \<lfloor>t\<rfloor>)))"

section \<open>Lemmas\<close>

lemma actionPages_count: "actionPages xs = page_count 20 (length xs)"
proof -
  have "max 1 c = (if c = 0 then 1 else c)" if "0 \<le> c" for c :: int
    using that by auto
  from this [OF ceil_facts(1) [of "length xs" 20]] show ?thesis
    unfolding actionPages_def page_count_def Let_def by (simp only: of_nat_numeral)
qed

interpretation actions_pager: pager 20 "page_slice 20" actionPages
  unfolding actionPages_count by (rule pager_page_slice) simp

lemma set_new_set [simp]: "set (new_set xs) = set xs" and distinct_new_set [simp]: "distinct (new_set xs)"
  by (simp_all add: new_set_def)

lemma set_toggle_mem: "j \<in> set (set_toggle i sel) \<longleftrightarrow> (if j = i then i \<notin> set sel else j \<in> set sel)"
  by (auto simp: set_toggle_def)

lemma distinct_set_toggle: "distinct sel \<Longrightarrow> distinct (set_toggle i sel)"
  by (auto simp: set_toggle_def)

text \<open>What the hook's handlers leave alone.\<close>

lemma fetchActions_toasts:
  "shownToasts (state_of (run (logging f) (fetchActions c p) s w)) = shownToasts s"
  by (cases "answer f (scoped_list c p)") (simp_all add: fetchActions_def run_simps)

lemma fold_progress_toasts:
  "shownToasts (fold (\<lambda>j. bulkProgress_update (\<lambda>_. Some (Suc j, n))) js s) = shownToasts s"
  by (induction js arbitrary: s) auto

lemma bulk_result_fields [simp]:
  "fld (bulk_result (sc, fl, rs)) ''succeeded'' = jn (of_nat sc)"
  "fld (bulk_result (sc, fl, rs)) ''failed'' = jn (of_nat fl)"
  by (simp_all add: bulk_result_def)

section \<open>Buttons\<close>

fun page_no :: "page_item \<Rightarrow> int" where
  "page_no (Dots p) = p"
| "page_no (Button p) = p"

definition is_button :: "page_item \<Rightarrow> bool" where
  "is_button x \<longleftrightarrow> (case x of Button _ \<Rightarrow> True | Dots _ \<Rightarrow> False)"

lemma buttons_render: "map page_no (filter is_button (render_pages prev ps)) = ps"
  by (induction ps arbitrary: prev) (auto simp: is_button_def)

lemma set_visible_pages:
  "set (visible_pages cur npages) = {p. 1 \<le> p \<and> p \<le> npages \<and> (p = 1 \<or> p = npages \<or> \<bar>p - cur\<bar> \<le> 1)}"
proof -
  have "(\<lambda>i. int i + 1) ` {0..<nat npages} = {1..npages}"
  proof
    show "{1..npages} \<subseteq> (\<lambda>i. int i + 1) ` {0..<nat npages}"
    proof
      fix p
      assume "p \<in> {1..npages}"
      then show "p \<in> (\<lambda>i. int i + 1) ` {0..<nat npages}"
        by (intro image_eqI [of _ _ "nat (p - 1)"]) auto
    qed
  qed auto
  then show ?thesis by (auto simp: visible_pages_def)
qed

lemma sorted_visible_pages: "sorted_wrt (<) (visible_pages cur npages)"
proof -
  have "sorted_wrt (<) (map (\<lambda>i. int i + 1) [0..<n])" for n
    by (induction n) (auto simp: sorted_wrt_append)
  then show ?thesis
    unfolding visible_pages_def by (rule sorted_wrt_filter)
qed

lemma length_visible_pages: "length (visible_pages cur npages) \<le> 5"
proof -
  have "distinct (visible_pages cur npages)"
    using sorted_visible_pages [of cur npages] by (simp add: strict_sorted_iff)
  then have "length (visible_pages cur npages) = card (set (visible_pages cur npages))"
    by (simp add: distinct_card)
  also have "\<dots> \<le> card {1, npages, cur - 1, cur, cur + 1}"
    unfolding set_visible_pages by (intro card_mono) auto
  also have "\<dots> \<le> 5"
    using card_length [of "[1, npages, cur - 1, cur, cur + 1]"] by simp
  finally show ?thesis .
qed

section \<open>Properties\<close>

text \<open>
  The bulk undo of the page. The selected actions are undone one POST each, in the order they
  were selected; afterwards the selection is empty, the dialog closed and the progress gone, and
  one toast tells how many of how many succeeded, as a warning exactly when one failed.
\<close>

theorem bulk_undo_page:
  "\<exists>s' rs qs. run (logging f) (handleConfirmBulkUndo c p (x # xs) (JStr r)) s [] =
      (Inr JUndef, s', map (undo_req (JStr r)) (x # xs) @ qs)
    \<and> selectedIds s' = [] \<and> bulkProgress s' = None \<and> \<not> bulkModalOpen s' \<and> \<not> actionLoading s'
    \<and> shownToasts s' = shownToasts s @
        [(bulk_message (bulk_result (length (filter (undone f (JStr r)) (x # xs)),
             length (filter (\<lambda>i. \<not> undone f (JStr r) i) (x # xs)), rs)) (Suc (length xs)),
          if list_all (undone f (JStr r)) (x # xs) then ''success'' else ''warning'')]"
proof -
  let ?ids = "x # xs" and ?r = "JStr r"
  let ?progress = "\<lambda>i n. bulkProgress_update (\<lambda>_. Some (i, n)) :: apage_st \<Rightarrow> apage_st"
  let ?s = "s\<lparr>bulkProgress := Some (0, length ?ids)\<rparr>"
  obtain s1 sc fl qs where run: "run (logging f) (handleBulkUndo c p ?ids ?r ?progress) ?s [] =
      (Inr (bulk_result (sc, fl, map (undo_entry f ?r) ?ids)), s1, map (undo_req ?r) ?ids @ qs)"
    and sc: "sc = length (filter (undone f ?r) ?ids)" and sum: "sc + fl = length ?ids"
    and s1: "s1 = (state_of (run (logging f) (fetchActions c p)
        (fold (\<lambda>j. ?progress (Suc j) (length ?ids)) [0..<length ?ids] (?s\<lparr>actionLoading := True\<rparr>)) []))
          \<lparr>actionLoading := False\<rparr>"
    using run_handleBulkUndo [of f c p x xs r ?progress ?s] by blast
  have fl: "fl = length (filter (\<lambda>i. \<not> undone f ?r i) ?ids)"
    using sum sum_length_filter_compl [of "undone f ?r" ?ids] by (simp only: sc)
  have toasts: "shownToasts s1 = shownToasts s"
    unfolding s1 by (simp add: fetchActions_toasts fold_progress_toasts del: upt_Suc)
  have idle: "\<not> actionLoading s1" by (simp add: s1)
  have warn: "0 < fl \<longleftrightarrow> \<not> list_all (undone f ?r) ?ids"
    unfolding fl by (auto simp: list_all_iff filter_empty_conv)
  let ?msg = "(bulk_message (bulk_result (sc, fl, map (undo_entry f ?r) ?ids)) (Suc (length xs)),
      if 0 < fl then ''warning'' else ''success'')"
  have "run (logging f) (handleConfirmBulkUndo c p ?ids ?r) s [] =
      (Inr JUndef, s1\<lparr>bulkModalOpen := False, selectedIds := [], shownToasts := shownToasts s @ [?msg],
         bulkProgress := None\<rparr>, map (undo_req ?r) ?ids @ qs)"
    using run toasts by (simp add: handleConfirmBulkUndo_def run_simps showToast_def)
  with idle warn show ?thesis
    unfolding sc [symmetric] fl [symmetric]
    by (intro exI [of _ "s1\<lparr>bulkModalOpen := False, selectedIds := [], shownToasts := shownToasts s @ [?msg],
         bulkProgress := None\<rparr>"] exI [of _ "map (undo_entry f ?r) ?ids"] exI [of _ qs]) auto
qed

text \<open>
  "select all" selects exactly the applied actions among the filtered ones, without
  duplicates; toggling an id changes that id only, and keeps the selection free of duplicates.
\<close>

theorem selection_exact:
  "set (selectedIds (handleSelectAll True filtered s)) =
      (\<lambda>a. fld a ''id'') ` {a \<in> set filtered. fld a ''status'' = JStr ''applied''}
    \<and> distinct (selectedIds (handleSelectAll b filtered s))
    \<and> set (selectedIds (handleToggleSelect i (s\<lparr>selectedIds := new_set js\<rparr>))) =
        (if i \<in> set js then set js - {i} else insert i (set js))
    \<and> distinct (selectedIds (handleToggleSelect i (s\<lparr>selectedIds := new_set js\<rparr>)))"
  by (auto simp: handleSelectAll_def handleToggleSelect_def distinct_set_toggle set_toggle_mem split: if_splits)

text \<open>
  The page buttons. They are the first and the last page, the current one and its neighbours,
  in increasing order and at most five, whatever the number of pages; nothing is shown for
  a single page.
\<close>

theorem pagination_buttons:
  "pagination cur npages = [] \<and> npages \<le> 1 \<or>
   (let bs = map page_no (filter is_button (pagination cur npages))
    in 1 < npages \<and> sorted_wrt (<) bs \<and> length bs \<le> 5 \<and>
       set bs = {p. 1 \<le> p \<and> p \<le> npages \<and> (p = 1 \<or> p = npages \<or> \<bar>p - cur\<bar> \<le> 1)})"
proof (cases "npages \<le> 1")
  case False
  then have "map page_no (filter is_button (pagination cur npages)) = visible_pages cur npages"
    by (simp only: pagination_def if_False buttons_render)
  with False show ?thesis
    unfolding Let_def using sorted_visible_pages length_visible_pages set_visible_pages by simp
qed (simp add: pagination_def)

text \<open>
  The countdown is exact to the second. For a readable date in the future it shows minutes and
  seconds, the seconds below 60, whose total is the time left rounded down; from the last second on it shows
  the rolling-back text.
\<close>

theorem countdown_exact:
  assumes "date_ms c due = Fin d" and "truthy due"
  shows "(d - now_ms c < 1000 \<and> timer_shown c due (JStr ''applied'') = Rolling) \<or>
    (\<exists>mm ss. timer_shown c due (JStr ''applied'') = Remaining (pad2 mm @ '':'' @ pad2 ss) \<and> ss < 60
       \<and> of_nat (60 * mm + ss) * 1000 \<le> d - now_ms c \<and> d - now_ms c < (of_nat (60 * mm + ss) + 1) * 1000)"
proof (cases "d - now_ms c < 1000")
  case True
  have "\<lfloor>(d - now_ms c) / 1000\<rfloor> \<le> 0" using True by (simp add: floor_le_iff)
  with True show ?thesis
    using assms by (auto simp: timer_shown_def time_left_def)
next
  case False
  let ?q = "(d - now_ms c) / 1000"
  define t where "t = nat \<lfloor>?q\<rfloor>"
  have pos: "1 \<le> \<lfloor>?q\<rfloor>" using False by (simp add: le_floor_iff)
  have "timer_shown c due (JStr ''applied'') = Remaining (timer_text t)"
    using assms False pos by (auto simp: timer_shown_def time_left_def t_def)
  moreover have "(of_nat t :: rat) = of_int \<lfloor>?q\<rfloor>"
    using pos by (simp add: t_def)
  then have "of_nat t \<le> ?q" and "?q < of_nat t + 1"
    using floor_correct [of ?q] by (simp_all only: of_int_add of_int_1)
  then have "of_nat t * 1000 \<le> d - now_ms c" and "d - now_ms c < (of_nat t + 1) * 1000"
    by (simp_all add: le_divide_eq divide_less_eq)
  moreover have "60 * (t div 60) + t mod 60 = t" by simp
  ultimately show ?thesis
    unfolding timer_text_def by (metis mod_less_divisor zero_less_numeral)
qed

definition noon_clock :: clock where
  "noon_clock = \<lparr>now_ms = 1000, now_iso = ''t'', date_parse = (\<lambda>_. Fin 91500)\<rparr>"

theorem countdown_exact_witness:
  "\<exists>mm ss. timer_shown noon_clock (JStr ''t'') (JStr ''applied'') = Remaining (pad2 mm @ '':'' @ pad2 ss) \<and> ss < 60"
proof -
  have d: "date_ms noon_clock (JStr ''t'') = Fin 91500" "truthy (JStr ''t'')"
    by (simp_all add: date_ms_def noon_clock_def)
  show ?thesis
    using countdown_exact [OF d] by (auto simp: noon_clock_def)
qed

end
