(* ===== verification/GroupsHook.thy ===== *)
theory GroupsHook
  imports HookBase
begin

text \<open>
  \<open>src/frontend/src/hooks/useGroups.js\<close>: agent groups, enriched in parallel with their members and
  isolation state, the selected group's detail, and the batch operations on a group. A handler
  closes over the \<open>selectedGroup\<close> it was rendered with (\<open>sel\<close>).
\<close>

record groups_st = fetch_st +
  groups :: "jsv list"
  selectedGroup :: jsv
  detailLoading :: bool
  groupBusy :: bool

definition init_groups :: groups_st where
  "init_groups = \<lparr>loading = False, error = JNull, groups = [], selectedGroup = JNull,
     detailLoading = False, groupBusy = False\<rparr>"

section \<open>Enriching a group\<close>

definition group_with :: "jsv \<Rightarrow> bool \<Rightarrow> jsv \<Rightarrow> jsv" where
  \<comment> \<open>\<open>{ ...grp, has_isolated_agents: isolated, members: ms }\<close>\<close>
  "group_with grp isolated ms = with_fld (with_fld grp ''has_isolated_agents'' (JBool isolated)) ''members'' ms"

text \<open>\<open>ms?.some((m) => m.is_isolated === true)\<close>, under \<open>!!\<close>\<close>

fun some_isolated :: "jsv list \<Rightarrow> bool res" where
  "some_isolated [] = Inr False"
| "some_isolated (m # ms) =
     rbind (get m ''is_isolated'') (\<lambda>b. if strict_eq b (JBool True) then Inr True else some_isolated ms)"

definition has_isolated :: "jsv \<Rightarrow> bool res" where
  "has_isolated ms = (if nullishp ms then Inr False
                      else if is_array ms then some_isolated (elems ms) else Inl type_error)"

definition enrich_group :: "jsv \<Rightarrow> jsv task" where
  "enrich_group grp =
     (if nullishp grp \<or> \<not> truthy (fld grp ''member_count'') then Now (Inr (group_with grp False (JArr [])))
      else tcatch
        (tbind (getGroup (fld grp ''id'')) (\<lambda>detail.
           rbind (get detail ''members'') (\<lambda>ms. rbind (has_isolated ms) (\<lambda>isolated.
             Inr (group_with grp isolated (js_or ms (JArr [])))))))
        (\<lambda>_. Inr (group_with grp False (JArr []))))"

definition fetchGroups :: "('z groups_st_scheme, jsv) act" where
  "fetchGroups = Upd (loading_update (\<lambda>_. True))
     (fin (catch
        (bnd (await listGroups) (\<lambda>data.
           bnd (promise_all (map enrich_group (elems data))) (\<lambda>enriched.
             Upd (groups_update (\<lambda>_. enriched)) (Upd (error_update (\<lambda>_. JNull)) (Ret JUndef)))))
        (\<lambda>err. Upd (error_update (\<lambda>_. message_or err ''Failed to fetch agent groups'')) (Ret JUndef)))
      (loading_update (\<lambda>_. False)))"

definition fetchGroupDetail :: "jsv \<Rightarrow> ('z groups_st_scheme, jsv) act" where
  "fetchGroupDetail groupId =
     (if \<not> truthy groupId then Upd (selectedGroup_update (\<lambda>_. JNull)) (Ret JNull)
      else Upd (detailLoading_update (\<lambda>_. True))
        (fin (catch
           (bnd (await (getGroup groupId)) (\<lambda>data. Upd (selectedGroup_update (\<lambda>_. data)) (Ret data)))
           (\<lambda>err. Upd (error_update (\<lambda>_. message_or err ''Failed to fetch group details'')) (Ret JNull)))
         (detailLoading_update (\<lambda>_. False))))"

section \<open>Changing groups\<close>

definition group_busy :: "('z groups_st_scheme, jsv) act \<Rightarrow> ('z groups_st_scheme, jsv) act" where
  \<comment> \<open>\<open>setActionLoading(true); try { m } catch (err) { throw err; } finally { setActionLoading(false); }\<close>\<close>
  "group_busy m = Upd (groupBusy_update (\<lambda>_. True)) (fin m (groupBusy_update (\<lambda>_. False)))"

definition handleCreateGroup :: "jsv \<Rightarrow> ('z groups_st_scheme, jsv) act" where
  "handleCreateGroup data = group_busy
     (bnd (await (createGroup data)) (\<lambda>newGroup.
        Upd (groups_update (\<lambda>prev. prev @ [newGroup])) (thn fetchGroups (Ret newGroup))))"

definition handleUpdateGroup :: "jsv \<Rightarrow> jsv \<Rightarrow> jsv \<Rightarrow> ('z groups_st_scheme, jsv) act" where
  "handleUpdateGroup sel groupId data = group_busy
     (bnd (await (updateGroup groupId data)) (\<lambda>updated.
        Upd (groups_update (patch_by ''id'' groupId (\<lambda>g. spread2 g updated)))
          (Upd (if has_id ''id'' groupId sel then selectedGroup_update (\<lambda>prev. spread2 prev updated) else id)
            (Ret updated))))"

definition handleDeleteGroup :: "jsv \<Rightarrow> jsv \<Rightarrow> ('z groups_st_scheme, jsv) act" where
  "handleDeleteGroup sel groupId = group_busy
     (bnd (await (deleteGroup groupId)) (\<lambda>_.
        Upd (groups_update (remove_by ''id'' groupId))
          (Upd (if has_id ''id'' groupId sel then selectedGroup_update (\<lambda>_. JNull) else id)
            (Ret JUndef))))"

text \<open>\<open>updatedDetail.members?.length ?? (g.member_count + 1)\<close>; \<open>+\<close> is applied to numbers here.\<close>

definition count_after_add :: "jsv \<Rightarrow> jsv \<Rightarrow> jsv" where
  "count_after_add detail g =
     nullish (fld (fld detail ''members'') ''length'')
       (JNum (num_add (to_num (fld g ''member_count'')) (Fin 1)))"

definition handleAddMember :: "jsv \<Rightarrow> jsv \<Rightarrow> ('z groups_st_scheme, jsv) act" where
  "handleAddMember groupId agentIds = group_busy
     (bnd (await (addAgentToGroup groupId agentIds)) (\<lambda>detail.
        Upd (selectedGroup_update (\<lambda>_. detail))
          (Upd (groups_update (patch_by ''id'' groupId
                  (\<lambda>g. with_fld g ''member_count'' (count_after_add detail g))))
            (Ret detail))))"

text \<open>\<open>Math.max(0, (g.member_count || 1) - 1)\<close>\<close>

definition count_after_remove :: "jsv \<Rightarrow> jsnum" where
  "count_after_remove g =
     math_max (Fin 0) (num_sub (to_num (js_or (fld g ''member_count'') (jn 1))) (Fin 1))"

definition without_member :: "jsv \<Rightarrow> jsv \<Rightarrow> jsv" where
  \<comment> \<open>\<open>{ ...prev, members: prev.members?.filter((m) => m.agent_id !== agentId) || [] }\<close>\<close>
  "without_member agentId prev =
     with_fld prev ''members'' (JArr (remove_by ''agent_id'' agentId (elems (fld prev ''members''))))"

definition handleRemoveMember :: "jsv \<Rightarrow> jsv \<Rightarrow> jsv \<Rightarrow> ('z groups_st_scheme, jsv) act" where
  "handleRemoveMember sel groupId agentId = group_busy
     (bnd (await (removeAgentFromGroup groupId agentId)) (\<lambda>_.
        Upd (if has_id ''id'' groupId sel then selectedGroup_update (without_member agentId) else id)
          (Upd (groups_update (patch_by ''id'' groupId
                  (\<lambda>g. with_fld g ''member_count'' (JNum (count_after_remove g)))))
            (Ret JUndef))))"

definition handleBatchIsolate :: "jsv \<Rightarrow> jsv \<Rightarrow> jsv \<Rightarrow> ('z groups_st_scheme, jsv) act" where
  "handleBatchIsolate groupId reason autoRollbackSecs = group_busy
     (bnd (await (executeGroupAction groupId (JStr ''isolate'') (JObj [(''reason'', reason)])
              (dflt autoRollbackSecs (jn 300)))) (\<lambda>res.
        thn (fetchGroupDetail groupId) (thn fetchGroups (Ret res))))"

definition handleBatchUndo :: "jsv \<Rightarrow> jsv \<Rightarrow> ('z groups_st_scheme, jsv) act" where
  "handleBatchUndo groupId reason = group_busy
     (bnd (await (undoAllGroupActions groupId reason)) (\<lambda>res.
        thn (fetchGroupDetail groupId) (thn fetchGroups (Ret res))))"

definition groups_ops :: "groups_st \<Rightarrow> (groups_st, jsv) act set" where
  "groups_ops s = {fetchGroups} \<union> range fetchGroupDetail \<union> range handleCreateGroup
     \<union> {handleUpdateGroup (selectedGroup s) i d | i d. True} \<union> range (handleDeleteGroup (selectedGroup s))
     \<union> {handleAddMember i a | i a. True} \<union> {handleRemoveMember (selectedGroup s) i a | i a. True}
     \<union> {handleBatchIsolate i r t | i r t. True} \<union> {handleBatchUndo i r | i r. True}"

lemmas group_handlers = fetchGroupDetail_def handleCreateGroup_def handleUpdateGroup_def
  handleDeleteGroup_def handleAddMember_def handleRemoveMember_def handleBatchIsolate_def
  handleBatchUndo_def

section \<open>The flags\<close>

lemma group_busy_flags [simp]:
  "settles groupBusy (group_busy m)"
  "settles B m \<Longrightarrow> (\<And>s f. B (groupBusy_update f s) = B s) \<Longrightarrow> settles B (group_busy m)"
  unfolding group_busy_def by (auto intro!: settles_fin)

lemma fetchGroups_flags [simp]:
  "settles loading fetchGroups" "settles detailLoading fetchGroups" "settles groupBusy fetchGroups"
  by (simp_all add: fetchGroups_def) (auto intro!: settles_fin settles_catch settles_bnd)

lemma fetchGroupDetail_flags [simp]:
  "settles loading (fetchGroupDetail i)" "settles detailLoading (fetchGroupDetail i)"
  "settles groupBusy (fetchGroupDetail i)"
  by (simp_all add: fetchGroupDetail_def) (auto intro!: settles_fin settles_catch settles_bnd)

lemma group_handlers_busy [simp]:
  "settles groupBusy (handleCreateGroup d)" "settles groupBusy (handleUpdateGroup sel i d)"
  "settles groupBusy (handleDeleteGroup sel i)" "settles groupBusy (handleAddMember i a)"
  "settles groupBusy (handleRemoveMember sel i a)" "settles groupBusy (handleBatchIsolate i r t)"
  "settles groupBusy (handleBatchUndo i r)"
  by (simp_all add: handleCreateGroup_def handleUpdateGroup_def handleDeleteGroup_def
      handleAddMember_def handleRemoveMember_def handleBatchIsolate_def handleBatchUndo_def)

lemma group_handlers_other:
  assumes "\<And>s f. B (groupBusy_update f s) = B s" and "\<And>s f. B (groups_update f s) = B s"
    and "\<And>s f. B (selectedGroup_update f s) = B s"
    and "settles B fetchGroups" and "\<And>i. settles B (fetchGroupDetail i)"
  shows "m \<in> groups_ops s \<Longrightarrow> settles B m"
  using assms(4,5)
  by (auto simp: groups_ops_def handleCreateGroup_def handleUpdateGroup_def handleDeleteGroup_def
      handleAddMember_def handleRemoveMember_def handleBatchIsolate_def handleBatchUndo_def assms(1-3)
      intro!: settles_bnd settles_thn group_busy_flags(2) split: if_splits)

lemma groups_settle:
  assumes "m \<in> groups_ops s"
  shows "settles loading m" "settles detailLoading m" "settles groupBusy m"
proof -
  show "settles loading m" "settles detailLoading m"
    using assms by (rule group_handlers_other [rotated 5]; simp)+
  show "settles groupBusy m"
    using assms by (auto simp: groups_ops_def)
qed

interpretation groups_loading: spinner groups_ops ok loading for ok
  by unfold_locales (rule groups_settle)

interpretation groups_detail: spinner groups_ops ok detailLoading for ok
  by unfold_locales (rule groups_settle)

interpretation groups_busy: spinner groups_ops ok groupBusy for ok
  by unfold_locales (rule groups_settle)

section \<open>Properties\<close>

definition counted :: "jsv \<Rightarrow> bool" where
  "counted g \<longleftrightarrow> \<not> nullishp g \<and> truthy (fld g ''member_count'')"

definition group_req :: "jsv \<Rightarrow> request" where
  "group_req g = Req GET (''/groups/'' @ to_str (fld g ''id'')) JUndef JUndef"

text \<open>What the card of a group shows, given the answers of the server.\<close>

definition enriched :: "(request \<Rightarrow> response) \<Rightarrow> jsv \<Rightarrow> jsv" where
  "enriched f g =
     (if \<not> counted g then group_with g False (JArr [])
      else case f (group_req g) of
        Inl _ \<Rightarrow> group_with g False (JArr [])
      | Inr res \<Rightarrow>
          if nullishp (fld res ''data'') then group_with g False (JArr [])
          else case has_isolated (fld (fld res ''data'') ''members'') of
              Inl _ \<Rightarrow> group_with g False (JArr [])
            | Inr isolated \<Rightarrow> group_with g isolated (js_or (fld (fld res ''data'') ''members'') (JArr [])))"

lemma answer_enrich_group: "answer f (enrich_group g) = Inr (enriched f g)"
  by (auto simp: enrich_group_def enriched_def counted_def getGroup_def api_get_def group_req_def get_def
      split: sum.splits)

lemma requests_enrich: "requests (map enrich_group gs) = map group_req (filter counted gs)"
proof (induction gs)
  case (Cons g gs)
  then show ?case
    by (cases "counted g")
      (auto simp: enrich_group_def counted_def getGroup_def api_get_def ask_def group_req_def)
qed simp

lemma enriched_id: "(\<exists>ps. g = JObj ps) \<Longrightarrow> fld (enriched f g) ''id'' = fld g ''id''"
  by (auto simp: enriched_def group_with_def with_fld_def lookup_update split: sum.splits)

lemma fetchGroups_run:
  "run (logging f) fetchGroups s w =
    (case f (Req GET ''/groups/'' JUndef JUndef) of
       Inl err \<Rightarrow> (Inr JUndef,
         s\<lparr>loading := False, error := message_or (intercept_error err) ''Failed to fetch agent groups''\<rparr>,
         w @ [Req GET ''/groups/'' JUndef JUndef])
     | Inr res \<Rightarrow> (Inr JUndef,
         s\<lparr>loading := False, error := JNull, groups := map (enriched f) (elems (fld res ''data''))\<rparr>,
         w @ Req GET ''/groups/'' JUndef JUndef # map group_req (filter counted (elems (fld res ''data'')))))"
proof -
  have "rmapM (answer f) (map enrich_group gs) = Inr (map (enriched f) gs)" for gs
    by (induction gs) (simp_all add: answer_enrich_group)
  then show ?thesis
    by (simp add: fetchGroups_def listGroups_def api_get_def run_simps requests_enrich split: sum.splits)
qed

text \<open>
  The parallel enrichment never loses a group. One GET lists the groups and one more is sent per
  group with members, all before any answer; the groups shown are the listed ones in the listed
  order, each with its own detail or, when its detail request fails or is malformed, with no
  members. Only a failing listing is an error, and it leaves the groups shown before.
\<close>

theorem fetchGroups_outcome:
  "run (logging f) fetchGroups s [] =
    (case f (Req GET ''/groups/'' JUndef JUndef) of
       Inl err \<Rightarrow> (Inr JUndef,
         s\<lparr>loading := False, error := message_or (intercept_error err) ''Failed to fetch agent groups''\<rparr>,
         [Req GET ''/groups/'' JUndef JUndef])
     | Inr res \<Rightarrow> (Inr JUndef,
         s\<lparr>loading := False, error := JNull, groups := map (enriched f) (elems (fld res ''data''))\<rparr>,
         Req GET ''/groups/'' JUndef JUndef # map group_req (filter counted (elems (fld res ''data'')))))"
  by (simp add: fetchGroups_run split: sum.splits)

text \<open>
  Removing a member. On success every group with that id counts one member less, never below
  zero, the other groups are untouched, and the member disappears from the detail when the group is
  the selected one; a refused removal changes nothing.
\<close>

theorem remove_member_outcome:
  assumes "\<And>g. g \<in> set (groups s) \<Longrightarrow> fld g ''member_count'' = jn (cnt g)"
  shows "run (logging f) (handleRemoveMember (selectedGroup s) i a) s [] =
    (case f (Req DELETE (''/groups/'' @ to_str i @ ''/agents/'' @ to_str a) JUndef JUndef) of
       Inl err \<Rightarrow> (Inl (intercept_error err), s\<lparr>groupBusy := False\<rparr>,
         [Req DELETE (''/groups/'' @ to_str i @ ''/agents/'' @ to_str a) JUndef JUndef])
     | Inr _ \<Rightarrow> (Inr JUndef,
         s\<lparr>groupBusy := False,
           groups := map (\<lambda>g. if has_id ''id'' i g then with_fld g ''member_count'' (jn (max 0 (cnt g - 1)))
                             else g) (groups s),
           selectedGroup := (if has_id ''id'' i (selectedGroup s) then without_member a (selectedGroup s)
                             else selectedGroup s)\<rparr>,
         [Req DELETE (''/groups/'' @ to_str i @ ''/agents/'' @ to_str a) JUndef JUndef]))"
proof -
  have "count_after_remove g = Fin (max 0 (cnt g - 1))" if "g \<in> set (groups s)" for g
    using assms [OF that] by (simp add: count_after_remove_def js_or_def)
  then have "patch_by ''id'' i (\<lambda>g. with_fld g ''member_count'' (JNum (count_after_remove g))) (groups s) =
      map (\<lambda>g. if has_id ''id'' i g then with_fld g ''member_count'' (jn (max 0 (cnt g - 1))) else g) (groups s)"
    by (auto simp: patch_by_def)
  then show ?thesis
    by (auto simp: handleRemoveMember_def group_busy_def removeAgentFromGroup_def api_delete_def run_simps
        split: sum.splits)
qed

definition lone_group :: groups_st where
  "lone_group = init_groups\<lparr>groups := [JObj [(''id'', JStr ''G1''), (''member_count'', jn 0)]]\<rparr>"

theorem remove_member_outcome_witness:
  "groups (state_of (run (logging (\<lambda>_. Inr JNull))
     (handleRemoveMember (selectedGroup lone_group) (JStr ''G1'') (JStr ''a'')) lone_group [])) =
   [JObj [(''id'', JStr ''G1''), (''member_count'', jn 0)]]"
proof -
  have n: "g \<in> set (groups lone_group) \<Longrightarrow> fld g ''member_count'' = jn ((\<lambda>_. 0) g)" for g
    by (simp add: lone_group_def)
  show ?thesis
    by (subst remove_member_outcome [where cnt = "\<lambda>_. 0"], erule n)
      (simp add: lone_group_def has_id_def with_fld_def)
qed

end
