(* ===== verification/FeedHooks.thy ===== *)
theory FeedHooks
  imports HookBase
begin

text \<open>
  The listing hooks of \<open>src/frontend/src/hooks/\<close>: useAgents, useAgentHistory, useCommands,
  useDockerStatus, useEvents, useFlows, useReports, useRiskAssessment and useThreatIntel. Each
  keeps what it last fetched, a loading flag and mostly an error. The polls are the repeated starts of the
  fetch operation; toasts are a log in the state, their Vietnamese texts written without
  diacritics.
\<close>

section \<open>useAgents\<close>

datatype toast = Toast_ok string | Toast_error string

record agents_st = fetch_st +
  agents :: "jsv list"
  toasts :: "toast list"

definition init_agents :: agents_st where
  "init_agents = \<lparr>loading = True, error = JNull, agents = [], toasts = []\<rparr>"

definition fetchAgents :: "('z agents_st_scheme, jsv) act" where
  "fetchAgents = fin (catch
      (bnd (await getAgents) (\<lambda>data.
         Upd (agents_update (\<lambda>_. elems data)) (Upd (error_update (\<lambda>_. JNull)) (Ret JUndef))))
      (\<lambda>e. Upd (error_update (\<lambda>_. e)) (Ret JUndef)))
    (loading_update (\<lambda>_. False))"

definition detail_text :: "jsv \<Rightarrow> string" where
  \<comment> \<open>\<open>${e.response?.data?.detail || e.message}\<close>\<close>
  "detail_text e = to_str (js_or (fld (fld (fld e ''response'') ''data'') ''detail'') (fld e ''message''))"

definition push_toast :: "toast \<Rightarrow> 'z agents_st_scheme \<Rightarrow> 'z agents_st_scheme" where
  "push_toast t = toasts_update (\<lambda>ts. ts @ [t])"

definition isolation_change :: "jsv task \<Rightarrow> string \<Rightarrow> string \<Rightarrow> ('z agents_st_scheme, jsv) act" where
  "isolation_change t done_msg fail_msg = catch
     (bnd (await t) (\<lambda>_. Upd (push_toast (Toast_ok done_msg)) (thn fetchAgents (Ret JUndef))))
     (\<lambda>e. Upd (push_toast (Toast_error (fail_msg @ detail_text e))) (Ret JUndef))"

definition handleIsolate :: "jsv \<Rightarrow> ('z agents_st_scheme, jsv) act" where
  "handleIsolate agentId = isolation_change (isolateAgent agentId)
     (''Da co lap mang cho agent '' @ to_str agentId) ''Co lap agent that bai: ''"

definition handleUnisolate :: "jsv \<Rightarrow> ('z agents_st_scheme, jsv) act" where
  "handleUnisolate agentId = isolation_change (unisolateAgent agentId)
     (''Da huy co lap cho agent '' @ to_str agentId) ''Huy co lap that bai: ''"

definition agents_ops :: "agents_st \<Rightarrow> (agents_st, jsv) act set" where
  "agents_ops s = {fetchAgents} \<union> range handleIsolate \<union> range handleUnisolate"

lemma fetchAgents_owes: "owes loading fetchAgents"
  by (simp add: fetchAgents_def owes_fin)

interpretation agents_loading: spinner agents_ops ok loading for ok
proof
  fix m s
  assume "m \<in> agents_ops s"
  then show "settles loading m"
    by (auto simp: agents_ops_def owes_settles [OF fetchAgents_owes] handleIsolate_def handleUnisolate_def
        isolation_change_def push_toast_def intro!: settles_catch settles_bnd settles_thn)
qed

section \<open>useAgentHistory\<close>

text \<open>\<open>historyAgent\<close> is the \<open>agentId\<close> the hook was last rendered with; every change runs the effect.\<close>

record history_st = load_st +
  historyAgent :: jsv
  history :: jsv

definition init_history :: history_st where
  "init_history = \<lparr>loading = True, historyAgent = JUndef, history = JArr []\<rparr>"

definition history_effect :: "jsv \<Rightarrow> (history_st, jsv) act" where
  "history_effect agentId = Upd (historyAgent_update (\<lambda>_. agentId))
     (if \<not> truthy agentId
      then Upd (history_update (\<lambda>_. JArr [])) (Upd (loading_update (\<lambda>_. False)) (Ret JUndef))
      else Upd (loading_update (\<lambda>_. True))
        (fin (catch
           (bnd (await (getAgentHistory agentId)) (\<lambda>data. Upd (history_update (\<lambda>_. data)) (Ret JUndef)))
           (\<lambda>_. Ret JUndef))
         (loading_update (\<lambda>_. False))))"

definition history_ops :: "history_st \<Rightarrow> (history_st, jsv) act set" where
  "history_ops s = range history_effect"

interpretation history_loading: spinner history_ops ok loading for ok
  by unfold_locales (auto simp: history_ops_def history_effect_def)

section \<open>useCommands\<close>

record commands_st = fetch_st +
  commands :: "jsv list"

definition init_commands :: commands_st where
  "init_commands = \<lparr>loading = True, error = JNull, commands = []\<rparr>"

definition loadCommands :: "clock \<Rightarrow> ('z commands_st_scheme, jsv) act" where
  "loadCommands c = Upd (loading_update (\<lambda>_. True))
     (fin (catch
        (bnd (await (getCommands c)) (\<lambda>data.
           Upd (commands_update (\<lambda>_. elems data)) (Upd (error_update (\<lambda>_. JNull)) (Ret JUndef))))
        (\<lambda>err. Upd (error_update (\<lambda>_. fld err ''message'')) (Ret JUndef)))
      (loading_update (\<lambda>_. False)))"

definition handleCreateCommand :: "clock \<Rightarrow> jsv \<Rightarrow> ('z commands_st_scheme, jsv) act" where
  "handleCreateCommand c payload = catch
     (bnd (await (createCommand c payload)) (\<lambda>newCmd.
        Upd (commands_update (\<lambda>prev. newCmd # prev)) (Ret newCmd)))
     (\<lambda>_. Ret JUndef)"

definition handleRetryCommand :: "clock \<Rightarrow> jsv \<Rightarrow> ('z commands_st_scheme, jsv) act" where
  "handleRetryCommand c commandId = catch
     (bnd (await (retryCommand c commandId)) (\<lambda>updated.
        Upd (commands_update (patch_by ''id'' commandId (\<lambda>cmd. spread2 cmd updated))) (Ret updated)))
     (\<lambda>_. Ret JUndef)"

definition commands_ops :: "clock \<Rightarrow> commands_st \<Rightarrow> (commands_st, jsv) act set" where
  "commands_ops c s = {loadCommands c} \<union> range (handleCreateCommand c) \<union> range (handleRetryCommand c)"

interpretation commands_loading: spinner "commands_ops c" ok loading for c ok
proof
  fix m s
  assume "m \<in> commands_ops c s"
  moreover have "settles loading (loadCommands c)"
    by (simp add: loadCommands_def)
  ultimately show "settles loading m"
    by (auto simp: commands_ops_def handleCreateCommand_def handleRetryCommand_def
        intro!: settles_catch settles_bnd)
qed

section \<open>useDockerStatus, useEvents, useFlows\<close>

record docker_st = fetch_st +
  containers :: jsv

text \<open>\<open>Array.isArray(data) ? data : data?.containers || []\<close>\<close>

definition container_list :: "jsv \<Rightarrow> jsv" where
  "container_list data = (if is_array data then data else js_or (fld data ''containers'') (JArr []))"

definition fetchDockerStatus :: "('z docker_st_scheme, jsv) act" where
  "fetchDockerStatus = fin (catch
      (bnd (await getDockerStatus) (\<lambda>data.
         Upd (containers_update (\<lambda>_. container_list data)) (Upd (error_update (\<lambda>_. JNull)) (Ret JUndef))))
      (\<lambda>err. Upd (error_update (\<lambda>_. message_or err ''Cannot connect to Docker daemon'')) (Ret JUndef)))
    (loading_update (\<lambda>_. False))"

record events_st = load_st +
  events :: "jsv list"

definition fetchEvents :: "clock \<Rightarrow> ('z events_st_scheme, jsv) act" where
  "fetchEvents c = Upd (loading_update (\<lambda>_. True))
     (fin (catch
        (bnd (await (getEvents c)) (\<lambda>data. Upd (events_update (\<lambda>_. elems data)) (Ret JUndef)))
        (\<lambda>_. Ret JUndef))
      (loading_update (\<lambda>_. False)))"

record flows_st = fetch_st +
  flows :: "jsv list"

text \<open>
  \<open>getFlows\<close> is a parameter: its source (\<open>api/flows.js\<close>) does not parse, a brace is missing.
\<close>

definition flow_params :: "jsv \<Rightarrow> jsv" where
  "flow_params agentId =
     (if truthy agentId \<and> \<not> strict_eq agentId (JStr ''all'') then JObj [(''agent_id'', agentId)] else JObj [])"

definition fetchFlows :: "(jsv \<Rightarrow> jsv task) \<Rightarrow> jsv \<Rightarrow> (flows_st, jsv) act" where
  "fetchFlows getFlows agentId = fin (catch
      (bnd (await (getFlows (flow_params agentId))) (\<lambda>data.
         Upd (flows_update (\<lambda>_. elems data)) (Upd (error_update (\<lambda>_. JNull)) (Ret JUndef))))
      (\<lambda>e. Upd (error_update (\<lambda>_. message_or e ''Failed to fetch flows'')) (Ret JUndef)))
    (loading_update (\<lambda>_. False))"

section \<open>useReports\<close>

record reports_st = fetch_st +
  reports :: "jsv list"
  generating :: bool

definition init_reports :: reports_st where
  "init_reports = \<lparr>loading = True, error = JNull, reports = [], generating = False\<rparr>"

definition loadReports :: "('z reports_st_scheme, jsv) act" where
  "loadReports = Upd (loading_update (\<lambda>_. True))
     (fin (catch
        (bnd (await getReports) (\<lambda>data.
           Upd (reports_update (\<lambda>_. elems data)) (Upd (error_update (\<lambda>_. JNull)) (Ret JUndef))))
        (\<lambda>err. Upd (error_update (\<lambda>_. message_or err ''Failed to load reports''))
           (Upd (reports_update (\<lambda>_. [])) (Ret JUndef))))
      (loading_update (\<lambda>_. False)))"

definition handleGenerateReport :: "jsv \<Rightarrow> ('z reports_st_scheme, jsv) act" where
  "handleGenerateReport payload = Upd (generating_update (\<lambda>_. True))
     (fin (catch
        (bnd (await (generateReport payload)) (\<lambda>res. thn loadReports (Ret res)))
        (\<lambda>err. Upd (error_update (\<lambda>_. message_or err ''Failed to generate report'')) (Throw err)))
      (generating_update (\<lambda>_. False)))"

definition reports_ops :: "reports_st \<Rightarrow> (reports_st, jsv) act set" where
  "reports_ops s = {loadReports} \<union> range handleGenerateReport"

lemma loadReports_flags [simp]: "settles loading loadReports" "settles generating loadReports"
  by (simp add: loadReports_def) (auto simp: loadReports_def intro!: settles_fin settles_catch settles_bnd)

interpretation reports_loading: spinner reports_ops ok loading for ok
  by unfold_locales
    (auto simp: reports_ops_def handleGenerateReport_def
      intro!: settles_fin settles_catch settles_bnd settles_thn)

lemma handleGenerateReport_generating [simp]: "settles generating (handleGenerateReport p)"
  by (simp add: handleGenerateReport_def)

interpretation reports_generating: spinner reports_ops ok generating for ok
  by unfold_locales (auto simp: reports_ops_def)

section \<open>useRiskAssessment, useThreatIntel\<close>

record risk_st = fetch_st +
  riskResult :: jsv
  riskHistory :: jsv

definition init_risk :: risk_st where
  "init_risk = \<lparr>loading = False, error = JNull, riskResult = JNull, riskHistory = JArr []\<rparr>"

definition handleEvaluateRisk :: "jsv \<Rightarrow> (risk_st, jsv) act" where
  "handleEvaluateRisk payload = Upd (loading_update (\<lambda>_. True)) (Upd (error_update (\<lambda>_. JNull))
     (fin (catch
        (bnd (await (evaluateRisk payload)) (\<lambda>r. Upd (riskResult_update (\<lambda>_. r)) (Ret r)))
        (\<lambda>err. Upd (error_update (\<lambda>_. message_or err ''Failed to evaluate risk'')) (Throw err)))
      (loading_update (\<lambda>_. False))))"

definition fetchRiskHistory :: "jsv \<Rightarrow> jsv \<Rightarrow> (risk_st, jsv) act" where
  "fetchRiskHistory agentId limit =
     (if \<not> truthy agentId then Ret JUndef
      else Upd (loading_update (\<lambda>_. True))
        (fin (catch
           (bnd (await (getRiskHistory agentId (dflt limit (jn 20)))) (\<lambda>data.
              Upd (riskHistory_update (\<lambda>_. data)) (Ret JUndef)))
           (\<lambda>_. Ret JUndef))
         (loading_update (\<lambda>_. False))))"

definition risk_ops :: "risk_st \<Rightarrow> (risk_st, jsv) act set" where
  "risk_ops s = range handleEvaluateRisk \<union> {fetchRiskHistory i l | i l. True}"

lemma risk_ops_settle: "m \<in> risk_ops s \<Longrightarrow> settles loading m"
  by (auto simp: risk_ops_def handleEvaluateRisk_def fetchRiskHistory_def owes_fin
      intro!: settles_UpdI2 [where B = loading])

interpretation risk_loading: spinner risk_ops ok loading for ok
  by unfold_locales (rule risk_ops_settle)

record intel_st = fetch_st +
  intelResult :: jsv

definition checkIndicator :: "jsv \<Rightarrow> jsv \<Rightarrow> ('z intel_st_scheme, jsv) act" where
  "checkIndicator indicatorType value =
     Upd (loading_update (\<lambda>_. True)) (Upd (error_update (\<lambda>_. JNull))
      (fin (catch
        (bnd (await (checkThreatIndicator indicatorType value)) (\<lambda>res.
           Upd (intelResult_update (\<lambda>_. res)) (Ret res)))
        (\<lambda>err. Upd (error_update (\<lambda>_. message_or err ''Error checking threat indicator''))
           (Upd (intelResult_update (\<lambda>_. JNull)) (Ret JNull))))
      (loading_update (\<lambda>_. False))))"

section \<open>Properties\<close>

text \<open>A server that answers every request with its own path, to tell the answers apart.\<close>

definition echo :: "request \<Rightarrow> response \<Rightarrow> bool" where
  "echo q r \<longleftrightarrow> r = Inr (JObj [(''data'', JStr (req_path q))])"

definition history_path :: "jsv \<Rightarrow> string" where
  "history_path i = ''/agents/'' @ to_str i @ ''/history''"

text \<open>
  \<open>useAgentHistory\<close> does not drop stale answers. When the agent changes from \<open>x\<close> to \<open>y\<close> while
  the history of \<open>x\<close> is being fetched, and the two answers arrive in the opposite order, the hook
  settles with the history of \<open>x\<close> shown for agent \<open>y\<close>, not loading and with nothing pending.
\<close>

theorem stale_history_shown:
  "reach history_ops echo (mounted (history_effect (JStr (x # xs))) init_history)
     (\<lparr>loading = False, historyAgent = JStr (y # ys), history = JStr (history_path (JStr (x # xs)))\<rparr>, [])"
proof -
  let ?k = "\<lambda>rs. fin (catch (bnd (case rs of [] \<Rightarrow> Throw no_answer
       | r # _ \<Rightarrow> lift (rcatch (settle r) (\<lambda>_. Inr (JArr []))))
       (\<lambda>data. Upd (history_update (\<lambda>_. data)) (Ret JUndef))) (\<lambda>_. Ret JUndef)) (loading_update (\<lambda>_. False))
     :: (history_st, jsv) act"
  let ?q = "\<lambda>i. Req GET (history_path i) JUndef JUndef"
  let ?x = "JStr (x # xs)" and ?y = "JStr (y # ys)"
  have adv: "advance (history_effect i) s =
      (s\<lparr>historyAgent := i, loading := True\<rparr>, Some ([?q i], ?k))" if "truthy i" for i s
    using that by (simp add: history_effect_def getAgentHistory_def api_get_def ask_def history_path_def)
  have ends: "advance (?k [Inr (JObj [(''data'', JStr (history_path i))])]) s =
      (s\<lparr>history := JStr (history_path i), loading := False\<rparr>, None)" for i s
    by simp
  let ?s = "\<lambda>h. \<lparr>loading = False, historyAgent = ?y, history = h\<rparr>"
  have 1: "reach history_ops echo (mounted (history_effect ?x) init_history)
      (\<lparr>loading = True, historyAgent = ?x, history = JArr []\<rparr>, [([?q ?x], ?k)])"
    using adv [of ?x init_history] by (simp add: mounted_def enqueue_def init_history_def reach_refl)
  have 2: "step history_ops echo (\<lparr>loading = True, historyAgent = ?x, history = JArr []\<rparr>, [([?q ?x], ?k)])
      (\<lparr>loading = True, historyAgent = ?y, history = JArr []\<rparr>, enqueue (Some ([?q ?y], ?k)) [([?q ?x], ?k)])"
    by (rule start [where m = "history_effect ?y"]) (simp_all add: history_ops_def adv)
  have 3: "step history_ops echo
      (\<lparr>loading = True, historyAgent = ?y, history = JArr []\<rparr>, enqueue (Some ([?q ?y], ?k)) [([?q ?x], ?k)])
      (?s (JStr (history_path ?y)), enqueue None [([?q ?x], ?k)])"
    using resume [where i = 1 and rs = "[Inr (JObj [(''data'', JStr (history_path ?y))])]" and qs = "[?q ?y]" and c = ?k
        and ps = "enqueue (Some ([?q ?y], ?k)) [([?q ?x], ?k)]" and p = None and ops = history_ops and ok = echo
        and s = "\<lparr>loading = True, historyAgent = ?y, history = JArr []\<rparr>"]
    by (simp add: enqueue_def echo_def ends)
  have 4: "step history_ops echo (?s (JStr (history_path ?y)), enqueue None [([?q ?x], ?k)])
      (?s (JStr (history_path ?x)), [])"
    using resume [where i = 0 and rs = "[Inr (JObj [(''data'', JStr (history_path ?x))])]" and qs = "[?q ?x]" and c = ?k
        and ps = "enqueue None [([?q ?x], ?k)]" and p = None and ops = history_ops and ok = echo
        and s = "?s (JStr (history_path ?y))"]
    by (simp add: enqueue_def echo_def ends)
  from reach_step [OF reach_step [OF reach_step [OF 1 2] 3] 4] show ?thesis .
qed

text \<open>
  Isolating an agent. Accepted: a success toast, then the list is refetched and mapped.
  Refused: the list and the error are untouched and the only trace is a toast with the interceptor's message; the
  handler itself never rejects.
\<close>

theorem isolate_outcome:
  "run (logging f) (handleIsolate i) s [] =
    (case f (Req POST (''/agents/'' @ to_str i @ ''/isolate'') JUndef JUndef) of
       Inl err \<Rightarrow> (Inr JUndef,
         s\<lparr>toasts := toasts s @ [Toast_error (''Co lap agent that bai: '' @
             to_str (fld (intercept_error err) ''message''))]\<rparr>,
         [Req POST (''/agents/'' @ to_str i @ ''/isolate'') JUndef JUndef])
     | Inr _ \<Rightarrow> (Inr JUndef,
         (case answer f getAgents of
            Inl e \<Rightarrow> s\<lparr>loading := False, error := e,
              toasts := toasts s @ [Toast_ok (''Da co lap mang cho agent '' @ to_str i)]\<rparr>
          | Inr d \<Rightarrow> s\<lparr>loading := False, error := JNull, agents := elems d,
              toasts := toasts s @ [Toast_ok (''Da co lap mang cho agent '' @ to_str i)]\<rparr>),
         [Req POST (''/agents/'' @ to_str i @ ''/isolate'') JUndef JUndef,
          Req GET ''/agents/'' JUndef JUndef]))"
proof -
  have "requests [getAgents] = [Req GET ''/agents/'' JUndef JUndef]"
    by (simp add: getAgents_def api_get_def)
  moreover have "detail_text (intercept_error err) = to_str (fld (intercept_error err) ''message'')" for err
    by (simp add: detail_text_def intercept_error_def)
  ultimately show ?thesis
    by (simp add: handleIsolate_def isolation_change_def isolateAgent_def api_post_def run_simps fetchAgents_def
        push_toast_def split: sum.splits)
qed

end
