(* ===== verification/Texts.thy ===== *)
theory Texts
  imports Json
begin

text \<open>
  Splitting of strings as the forms do it: \<open>s.split(',')\<close>, \<open>s.split(/[..]+/)\<close>, and the cleaned list of the trimmed,
  non-empty parts.
\<close>

definition trim_of :: "jsv \<Rightarrow> string res" where
  \<comment> \<open>\<open>v.trim()\<close>\<close>
  "trim_of v = (case v of JStr s \<Rightarrow> Inr (trim s) | _ \<Rightarrow> Inl type_error)"

lemma trim_of_Str [simp]: "trim_of (JStr s) = Inr (trim s)"
  by (simp add: trim_of_def)

lemma trim_blank: "\<forall>c\<in>set s. is_space c \<Longrightarrow> trim s = []"
proof -
  assume "\<forall>c\<in>set s. is_space c"
  then have "dropWhile is_space s = []" by simp
  then show ?thesis unfolding trim_def by (simp only: dropWhile.simps rev.simps)
qed

fun split_on :: "char \<Rightarrow> string \<Rightarrow> string list" where
  "split_on c [] = [[]]"
| "split_on c (x # s) = (if x = c then [] # split_on c s
     else case split_on c s of [] \<Rightarrow> [[x]] | p # ps \<Rightarrow> (x # p) # ps)"

text \<open>At the maximal runs of separators; a run at an end leaves an empty part there.\<close>

function split_runs :: "(char \<Rightarrow> bool) \<Rightarrow> string \<Rightarrow> string list" where
  "split_runs P s = (case dropWhile (\<lambda>c. \<not> P c) s of
     [] \<Rightarrow> [s]
   | c # r \<Rightarrow> takeWhile (\<lambda>c. \<not> P c) s # split_runs P (dropWhile P r))"
  by pat_completeness auto
termination
proof (relation "measure (length \<circ> snd)")
  fix P s c r
  assume "dropWhile (\<lambda>c. \<not> P c) s = c # r"
  then have "length (c # r) \<le> length s" by (metis length_dropWhile_le)
  then show "((P, dropWhile P r), (P, s)) \<in> measure (length \<circ> snd)"
    using length_dropWhile_le [of P r] by simp
qed simp

declare split_runs.simps [simp del]

definition csv :: "string \<Rightarrow> string list" where
  \<comment> \<open>\<open>s.split(',').map((s) => s.trim()).filter(Boolean)\<close>\<close>
  "csv s = filter (\<lambda>p. p \<noteq> []) (map trim (split_on CHR '','' s))"

lemma split_on_nonempty [simp]: "split_on c s \<noteq> []"
  by (induction s) (auto split: list.splits)

lemma split_on_plain: "c \<notin> set s \<Longrightarrow> split_on c s = [s]"
  by (induction s) auto

lemma split_on_append: "c \<notin> set s \<Longrightarrow> split_on c (s @ c # t) = s # split_on c t"
  by (induction s) auto

text \<open>The parts of a run-wise split hold no separator.\<close>

lemma split_runs_no_sep: "p \<in> set (split_runs P s) \<Longrightarrow> \<forall>c\<in>set p. \<not> P c"
proof (induction P s rule: split_runs.induct)
  case (1 P s)
  show ?case
  proof (cases "dropWhile (\<lambda>c. \<not> P c) s")
    case Nil
    with 1(2) show ?thesis by (auto simp: split_runs.simps [of P s] dropWhile_eq_Nil_conv)
  next
    case (Cons c r)
    with 1 show ?thesis
      by (auto simp: split_runs.simps [of P s] dest: set_takeWhileD)
  qed
qed

lemma split_runs_plain:
  assumes "\<forall>c\<in>set s. \<not> P c"
  shows "split_runs P s = [s]"
proof -
  have "dropWhile (\<lambda>c. \<not> P c) s = []" using assms by simp
  then show ?thesis by (subst split_runs.simps) (simp only: list.case)
qed

lemma split_runs_append:
  "\<forall>c\<in>set s. \<not> P c \<Longrightarrow> P d \<Longrightarrow> split_runs P (s @ d # t) = s # split_runs P (dropWhile P t)"
  by (simp add: split_runs.simps [of P "s @ d # t"] takeWhile_append dropWhile_append)

lemma dropWhile_none: "\<forall>c\<in>set s. \<not> P c \<Longrightarrow> dropWhile P s = s"
  by (cases s) auto

lemma trim_no_space: "\<forall>c\<in>set s. \<not> is_space c \<Longrightarrow> trim s = s"
  by (simp add: trim_def dropWhile_none)

lemma set_trim: "set (trim s) \<subseteq> set s"
  unfolding trim_def by (auto dest!: set_dropWhileD)

definition plain_part :: "string \<Rightarrow> bool" where
  \<comment> \<open>what a comma-separated field can hold as one entry\<close>
  "plain_part x \<longleftrightarrow> x \<noteq> [] \<and> trim x = x \<and> CHR '','' \<notin> set x"

lemma trim_space: "trim (CHR '' '' # s) = trim s"
  by (simp add: trim_def is_space_def)

lemma split_parts_join:
  "xs \<noteq> [] \<Longrightarrow> list_all plain_part xs \<Longrightarrow> map trim (split_on CHR '','' (join_str '', '' xs)) = xs"
proof (induction xs rule: induct_list012)
  case (2 x)
  then show ?case by (simp add: split_on_plain plain_part_def)
next
  case (3 x y zs)
  then have x: "trim x = x" "CHR '','' \<notin> set x" by (simp_all add: plain_part_def)
  obtain p ps where p: "split_on CHR '','' (join_str '', '' (y # zs)) = p # ps"
    using split_on_nonempty by (meson neq_Nil_conv)
  with 3 x show ?case by (simp add: split_on_append trim_space)
qed simp

lemma csv_join: "list_all plain_part xs \<Longrightarrow> csv (join_str '', '' xs) = xs"
proof (cases "xs = []")
  case True
  then show ?thesis by (simp add: csv_def trim_def)
next
  case False
  assume "list_all plain_part xs"
  with split_parts_join [OF False this] show ?thesis
    by (auto simp: csv_def plain_part_def list_all_iff intro: filter_True)
qed

text \<open>A natural number as text, and read back.\<close>

lemma nat_str_plain: "plain_part (nat_str n)"
proof -
  have "\<not> is_space c \<and> c \<noteq> CHR '',''" if "is_digit c" for c
    using that by (auto simp: is_digit_def is_space_def)
  with nat_str_digits [of n] nat_str_head [of n] show ?thesis
    by (auto simp: plain_part_def intro!: trim_no_space)
qed

lemma port_text: "num_str (Fin (of_nat n)) = nat_str n"
  by (simp add: pos_str_def)

lemma str_num_nat: "str_num (nat_str n) = Fin (of_nat n)"
proof -
  have "decimal 17 (of_nat n)" by (simp add: decimal_def)
  from scan_num_str [OF this] have "scan_signed (nat_str n) = Some (of_nat n, [])" unfolding port_text .
  moreover have "trim (nat_str n) = nat_str n" "nat_str n \<noteq> []"
    using nat_str_plain [of n] by (simp_all add: plain_part_def)
  ultimately show ?thesis by (simp add: str_num_def)
qed

end
