(* ===== verification/AgentsPage.thy ===== *)
theory AgentsPage
  imports GroupsHook FeedHooks Paging Texts
begin

text \<open>
  \<open>src/frontend/src/pages/Agents.jsx\<close>: the inventory (filter and pages), the host groups (filter, key figures, tabs and
  handlers, on the state of \<open>useGroups\<close>) and the form of \<open>components/groups/CreateGroupModal.jsx\<close>, which calls the page's
  \<open>handleSaveGroup\<close>, which calls the hook.
\<close>

section \<open>Inventory\<close>

definition inventory_matches :: "string \<Rightarrow> string \<Rightarrow> jsv \<Rightarrow> bool res" where
  "inventory_matches search status agent =
     rbind (ror (field_match agent search ''hostname'')
         (ror (if_truthy (fld agent ''ip'') (has_text (fld agent ''ip'') search))
         (ror (if_truthy (fld agent ''ip_address'') (has_text (fld agent ''ip_address'') search))
           (field_match agent search ''id'')))) (\<lambda>matchSearch.
       Inr (matchSearch \<and> (status = ''all'' \<or> fld agent ''status'' = JStr status)))"

definition filteredAgents :: "string \<Rightarrow> string \<Rightarrow> jsv list \<Rightarrow> jsv list res" where
  "filteredAgents search status ags = rfilter (inventory_matches search status) ags"

definition agentPages :: "jsv list \<Rightarrow> int" where
  "agentPages xs = page_count 8 (length xs)"

definition paginatedAgents :: "int \<Rightarrow> jsv list \<Rightarrow> jsv list" where
  "paginatedAgents p xs = page_slice 8 p xs"

definition shown_range :: "int \<Rightarrow> jsv list \<Rightarrow> int \<times> int" where
  \<comment> \<open>the two numbers of "Showing a-b of n"\<close>
  "shown_range p xs = (min ((p - 1) * 8 + 1) (int (length xs)), min (p * 8) (int (length xs)))"

section \<open>Groups\<close>

record agroups_st = groups_st +
  grToasts :: "toast list"
  createOpen :: bool
  editingGroup :: jsv
  detailOpen :: bool
  cgId :: jsv
  cgName :: jsv
  cgDesc :: jsv
  cgError :: jsv
  cgLoading :: bool

definition init_agroups :: agroups_st where
  "init_agroups = \<lparr>loading = False, error = JNull, groups = [], selectedGroup = JNull, detailLoading = False, groupBusy = False,
     grToasts = [], createOpen = False, editingGroup = JNull, detailOpen = False, cgId = JStr '''', cgName = JStr '''',
     cgDesc = JStr '''', cgError = JStr '''', cgLoading = False\<rparr>"

definition grp_toast :: "toast \<Rightarrow> agroups_st \<Rightarrow> agroups_st" where
  "grp_toast t = grToasts_update (\<lambda>ts. ts @ [t])"

definition group_tab_ok :: "string \<Rightarrow> jsv \<Rightarrow> bool" where
  "group_tab_ok tab grp =
     (if tab = ''with_agents'' then num_lt (Fin 0) (to_num (nullish (fld grp ''member_count'') (jn 0)))
      else if tab = ''empty'' then strict_eq (nullish (fld grp ''member_count'') (jn 0)) (jn 0)
      else True)"

definition host_group_matches :: "string \<Rightarrow> string \<Rightarrow> jsv \<Rightarrow> bool res" where
  "host_group_matches search tab grp =
     rbind (ror (low_has (fld grp ''name'') search)
         (ror (low_has (fld grp ''id'') search) (field_match grp search ''description''))) (\<lambda>matchSearch.
       Inr (matchSearch \<and> group_tab_ok tab grp))"

definition filteredHostGroups :: "string \<Rightarrow> string \<Rightarrow> jsv list \<Rightarrow> jsv list res" where
  "filteredHostGroups search tab gs = rfilter (host_group_matches search tab) gs"

definition member_total :: "jsv list \<Rightarrow> jsnum" where
  \<comment> \<open>\<open>totalAgentsGrouped\<close>; the counts are numbers or absent\<close>
  "member_total gs = foldl (\<lambda>acc g. num_add acc (to_num (js_or (fld g ''member_count'') (jn 0)))) (Fin 0) gs"

definition groupsWithAgents :: "jsv list \<Rightarrow> nat" where
  "groupsWithAgents gs = length (filter (\<lambda>g. num_lt (Fin 0) (to_num (js_or (fld g ''member_count'') (jn 0)))) gs)"

definition tab_count :: "string \<Rightarrow> jsv list \<Rightarrow> int" where
  "tab_count tab gs =
     (if tab = ''with_agents'' then int (groupsWithAgents gs)
      else if tab = ''empty'' then int (length gs) - int (groupsWithAgents gs)
      else int (length gs))"

definition handleOpenDetail :: "jsv \<Rightarrow> (agroups_st, jsv) act" where
  "handleOpenDetail grp = Upd (selectedGroup_update (\<lambda>_. grp)) (Upd (detailOpen_update (\<lambda>_. True)) (fetchGroupDetail (fld grp ''id'')))"

definition handleOpenEdit :: "jsv \<Rightarrow> agroups_st \<Rightarrow> agroups_st" where
  "handleOpenEdit grp s = s\<lparr>editingGroup := grp, createOpen := True\<rparr>"

definition handleOpenCreate :: "agroups_st \<Rightarrow> agroups_st" where
  "handleOpenCreate s = s\<lparr>editingGroup := JNull, createOpen := True\<rparr>"

definition handleSaveGroup :: "jsv \<Rightarrow> jsv \<Rightarrow> jsv \<Rightarrow> (agroups_st, jsv) act" where
  \<comment> \<open>with the selected group of the rendering\<close>
  "handleSaveGroup sel payload editId = catch
     (if truthy editId
      then bnd (handleUpdateGroup sel editId payload) (\<lambda>_.
        Upd (grp_toast (Toast_ok (''Da cap nhat nhom '' @ to_str (js_or (fld payload ''name'') (JStr ''''))))) (Ret JUndef))
      else bnd (handleCreateGroup payload) (\<lambda>_.
        Upd (grp_toast (Toast_ok (''Da tao nhom '' @ to_str (js_or (fld payload ''name'') (JStr ''''))))) (Ret JUndef)))
     (\<lambda>err. Upd (grp_toast (Toast_error (''Loi khi luu nhom: '' @ to_str (fld err ''message'')))) (Throw err))"

definition confirmDeleteGroup :: "jsv \<Rightarrow> jsv \<Rightarrow> bool \<Rightarrow> (agroups_st, jsv) act" where
  "confirmDeleteGroup sel grp confirmed =
     (if \<not> confirmed then Ret JUndef
      else catch
        (bnd (handleDeleteGroup sel (fld grp ''id'')) (\<lambda>_.
          Upd (grp_toast (Toast_ok (''Da xoa nhom '' @ to_str (fld grp ''name'')))) (Ret JUndef)))
        (\<lambda>err. Upd (grp_toast (Toast_error (''Xoa nhom that bai: '' @ to_str (fld err ''message'')))) (Ret JUndef)))"

section \<open>The form of a group\<close>

definition fill_group_form :: "agroups_st \<Rightarrow> agroups_st" where
  \<comment> \<open>the effect of \<open>editGroup\<close> and \<open>isOpen\<close>\<close>
  "fill_group_form s = (let g = editingGroup s in
     if truthy g then s\<lparr>cgId := js_or (fld g ''id'') (JStr ''''), cgName := js_or (fld g ''name'') (JStr ''''),
       cgDesc := js_or (fld g ''description'') (JStr ''''), cgError := JStr ''''\<rparr>
     else s\<lparr>cgId := JStr '''', cgName := JStr '''', cgDesc := JStr '''', cgError := JStr ''''\<rparr>)"

definition id_char :: "char \<Rightarrow> bool" where
  "id_char c \<longleftrightarrow> c \<in> set ''abcdefghijklmnopqrstuvwxyz0123456789_-''"

definition send_group :: "jsv \<Rightarrow> jsv \<Rightarrow> jsv \<Rightarrow> (agroups_st, jsv) act" where
  "send_group sel edited payload = Upd (cgLoading_update (\<lambda>_. True)) (fin (catch
     (thn (handleSaveGroup sel payload (fld edited ''id'')) (Upd (createOpen_update (\<lambda>_. False)) (Ret JUndef)))
     (\<lambda>err. Upd (cgError_update (\<lambda>_. message_or err ''Failed to save agent group.'')) (Ret JUndef)))
    (cgLoading_update (\<lambda>_. False)))"

definition submitGroup :: "jsv \<Rightarrow> jsv \<Rightarrow> jsv \<Rightarrow> jsv \<Rightarrow> jsv \<Rightarrow> (agroups_st, jsv) act" where
  \<comment> \<open>\<open>handleSubmit\<close> with the selected group, the edited group and the fields of the rendering\<close>
  "submitGroup sel edited groupId name description = Upd (cgError_update (\<lambda>_. JStr ''''))
     (bnd (lift (trim_of name)) (\<lambda>trimmedName.
      if trimmedName = [] then Upd (cgError_update (\<lambda>_. JStr ''Group name is required.'')) (Ret JUndef)
      else bnd (lift (trim_of description)) (\<lambda>d.
        let payload = [(''name'', JStr trimmedName), (''description'', js_or (JStr d) JUndef)] in
        bnd (lift (if truthy edited then Inr [] else trim_of groupId)) (\<lambda>cleanId.
          if cleanId = [] then send_group sel edited (JObj payload)
          else if \<not> list_all id_char cleanId
            then Upd (cgError_update (\<lambda>_.
              JStr ''Group ID must contain only lowercase letters, numbers, hyphens, and underscores.'')) (Ret JUndef)
          else send_group sel edited (JObj (payload @ [(''id'', JStr cleanId)]))))))"

section \<open>Lemmas\<close>

definition new_group_body :: "string \<Rightarrow> string \<Rightarrow> string \<Rightarrow> jsv" where
  "new_group_body i n d = JObj ([(''name'', JStr (trim n)), (''description'', js_or (JStr (trim d)) JUndef)]
     @ (if trim i = [] then [] else [(''id'', JStr (trim i))]))"

lemma submit_new:
  "\<not> truthy edited \<Longrightarrow> submitGroup sel edited (JStr i) (JStr n) (JStr d) =
     Upd (cgError_update (\<lambda>_. JStr ''''))
      (if trim n = [] then Upd (cgError_update (\<lambda>_. JStr ''Group name is required.'')) (Ret JUndef)
       else if list_all id_char (trim i) then send_group sel edited (new_group_body i n d)
       else Upd (cgError_update (\<lambda>_.
              JStr ''Group ID must contain only lowercase letters, numbers, hyphens, and underscores.'')) (Ret JUndef))"
  by (simp add: submitGroup_def new_group_body_def Let_def)

lemma fld_falsy [simp]: "\<not> truthy v \<Longrightarrow> \<not> truthy (fld v ''id'')"
  by (cases v) (auto simp: fld_def)

section \<open>Properties\<close>

text \<open>
  A new host group. Nothing is sent without a name, or with an identifier outside [a-z0-9_-]; otherwise one POST
  carries the trimmed name, and the identifier when one was given. When the manager refuses, the form stays open with
  its reason, also shown as a toast, and the groups are as before; otherwise the form closes and the groups are the
  enriched listing of the manager or, when that fails, the old ones and the new one.
\<close>

theorem create_group_outcome:
  assumes "\<not> truthy edited"
  defines "q \<equiv> \<lambda>i n d. Req POST ''/groups/'' JUndef (new_group_body i n d)"
  shows "case run (logging f) (submitGroup sel edited (JStr i) (JStr n) (JStr d)) s [] of (v, s', asked) \<Rightarrow>
    v = Inr JUndef \<and>
    (if trim n = [] \<or> \<not> list_all id_char (trim i) then asked = [] \<and> groups s' = groups s \<and> createOpen s' = createOpen s
     else hd asked = q i n d \<and> \<not> cgLoading s' \<and> (case f (q i n d) of
       Inl err \<Rightarrow> asked = [q i n d] \<and> groups s' = groups s \<and> createOpen s' = createOpen s
         \<and> cgError s' = message_or (intercept_error err) ''Failed to save agent group.''
         \<and> grToasts s' = grToasts s @ [Toast_error (''Loi khi luu nhom: '' @ to_str (fld (intercept_error err) ''message''))]
     | Inr res \<Rightarrow> \<not> createOpen s' \<and> groups s' = (case f (Req GET ''/groups/'' JUndef JUndef) of
           Inl _ \<Rightarrow> groups s @ [fld res ''data'']
         | Inr listing \<Rightarrow> map (enriched f) (elems (fld listing ''data'')))))"
  using assms(1)
  by (auto simp: submit_new send_group_def handleSaveGroup_def handleCreateGroup_def createGroup_def group_busy_def api_post_def
      run_simps fetchGroups_run q_def grp_toast_def split: sum.splits)

theorem create_group_outcome_witness:
  "cgError (state_of (run (logging (\<lambda>_. Inl JNull)) (submitGroup JNull JNull (JStr ''A'') (JStr ''g'') (JStr '''')) init_agroups []))
     = JStr ''Group ID must contain only lowercase letters, numbers, hyphens, and underscores.''
   \<and> world_of (run (logging (\<lambda>_. Inl JNull)) (submitGroup JNull JNull (JStr ''A'') (JStr ''g'') (JStr '''')) init_agroups []) = []"
proof -
  have t: "trim ''A'' = ''A''" "trim ''g'' = ''g''" by (simp_all add: trim_no_space is_space_def)
  from create_group_outcome [where edited = JNull and f = "\<lambda>_. Inl JNull" and sel = JNull and i = "''A''" and n = "''g''"
      and d = "''''" and s = init_agroups]
  have "world_of (run (logging (\<lambda>_. Inl JNull)) (submitGroup JNull JNull (JStr ''A'') (JStr ''g'') (JStr '''')) init_agroups []) = []"
    by (auto simp: t id_char_def split: prod.splits)
  moreover have "\<not> list_all id_char ''A''" by (simp add: id_char_def)
  ultimately show ?thesis by (simp add: submit_new t)
qed

text \<open>
  The description of a group cannot be erased. Saving an edited group with an empty description sends none, so it is
  not part of the JSON the manager receives.
\<close>

theorem description_not_erased:
  assumes "truthy g" and "truthy (fld g ''id'')" and "trim n \<noteq> []" and "trim d = []"
  shows "hd (world_of (run (logging f) (submitGroup sel g i (JStr n) (JStr d)) s [])) =
    Req PUT (''/groups/'' @ to_str (fld g ''id'')) JUndef (JObj [(''name'', JStr (trim n)), (''description'', JUndef)])"
  using assms
  by (auto simp: submitGroup_def send_group_def handleSaveGroup_def handleUpdateGroup_def updateGroup_def group_busy_def api_put_def
      run_simps Let_def grp_toast_def split: sum.splits)

theorem description_not_erased_witness:
  "fld (req_body (hd (world_of (run (logging (\<lambda>_. Inl JNull))
     (submitGroup JNull (JObj [(''id'', JStr ''g1''), (''description'', JStr ''old'')]) (JStr ''g1'') (JStr ''g'') (JStr ''''))
     init_agroups [])))) ''description'' = JUndef"
proof -
  have t: "trim ''g'' = ''g''" "trim [] = []" by (simp_all add: trim_no_space is_space_def)
  from description_not_erased [where g = "JObj [(''id'', JStr ''g1''), (''description'', JStr ''old'')]" and n = "''g''" and d = "''''"
      and f = "\<lambda>_. Inl JNull" and sel = JNull and i = "JStr ''g1''" and s = init_agroups]
  show ?thesis by (simp add: t)
qed

text \<open>
  The number in each group tab is the number of cards it shows when nothing is searched for, if the groups are named and
  their member counts are natural numbers or absent.
\<close>

theorem group_tabs_exact:
  assumes "\<forall>g\<in>set gs. (\<exists>ps n i. g = JObj ps \<and> fld g ''name'' = JStr n \<and> fld g ''id'' = JStr i)
    \<and> (nullishp (fld g ''member_count'') \<or> (\<exists>k. fld g ''member_count'' = jn (of_nat k)))"
    and "tab \<in> {''all'', ''with_agents'', ''empty''}"
  shows "\<exists>shown. filteredHostGroups [] tab gs = Inr shown \<and> int (length shown) = tab_count tab gs"
proof -
  have ok: "host_group_matches [] tab g = Inr (group_tab_ok tab g)" if "g \<in> set gs" for g
    using assms(1) that by (force simp: host_group_matches_def lower_def)
  have same: "num_lt (Fin 0) (to_num (nullish (fld g ''member_count'') (jn 0))) =
        num_lt (Fin 0) (to_num (js_or (fld g ''member_count'') (jn 0)))"
      "strict_eq (nullish (fld g ''member_count'') (jn 0)) (jn 0) =
        (\<not> num_lt (Fin 0) (to_num (js_or (fld g ''member_count'') (jn 0))))" if "g \<in> set gs" for g
    using assms(1) that by (auto simp: js_or_def nullish_def nullishp_def)
  have "filteredHostGroups [] tab gs = Inr (filter (group_tab_ok tab) gs)"
    unfolding filteredHostGroups_def by (rule rfilter_total) (rule ok)
  moreover have "int (length (filter (group_tab_ok tab) gs)) = tab_count tab gs"
  proof -
    let ?P = "\<lambda>g. num_lt (Fin 0) (to_num (js_or (fld g ''member_count'') (jn 0)))"
    have "length (filter ?P gs) + length (filter (\<lambda>g. \<not> ?P g) gs) = length gs"
      by (rule sum_length_filter_compl)
    moreover have "filter (group_tab_ok tab) gs = (if tab = ''with_agents'' then filter ?P gs
        else if tab = ''empty'' then filter (\<lambda>g. \<not> ?P g) gs else gs)"
      by (auto simp: group_tab_ok_def same intro!: filter_cong)
    ultimately show ?thesis by (auto simp: tab_count_def groupsWithAgents_def)
  qed
  ultimately show ?thesis by blast
qed

theorem group_tabs_exact_witness:
  "\<exists>shown. filteredHostGroups [] ''empty'' [JObj [(''id'', JStr ''g1''), (''name'', JStr ''g'')]] = Inr shown \<and> int (length shown) = 1"
  using group_tabs_exact [of "[JObj [(''id'', JStr ''g1''), (''name'', JStr ''g'')]]" "''empty''"]
  by (simp add: tab_count_def groupsWithAgents_def)


end
