(* ===== verification/Polling.thy ===== *)
theory Polling
  imports HookBase
begin

text \<open>
  Waiting for the manager by polling, as \<open>components/incidents/AISuggestionPanel.jsx\<close> and
  \<open>AIAnalysisTab.jsx\<close> do it: a button posts a request; when it is accepted an interval is started and its id put in a
  ref; every tick counts the attempt, gives up after \<open>limit\<close> of them, and otherwise fetches; an answer that is
  what was waited for clears the interval in the ref. The browser's part are the
  events: ticks of running intervals, answers in any order, leaving the page. A \<open>poller\<close> holds what the two panels do
  differently; their data is \<open>panel\<close>, and \<open>'c\<close> is what the interval's closure captured.
\<close>

record 'c timer_iv =
  iv_id :: nat
  attempts :: nat
  captured :: 'c

record ('d, 'c) poll_st =
  panel :: 'd
  waiting_flag :: bool
  timer_ref :: "nat option"
  running :: "'c timer_iv list"
  posting :: "'c list"
  polling :: "'c list"
  next_iv :: nat
  gone :: bool

record ('d, 'c) poller =
  limit :: nat
  on_press :: "'d \<Rightarrow> 'd"
  capture :: "rat \<Rightarrow> 'd \<Rightarrow> 'c"
  on_accept :: "'d \<Rightarrow> 'd"
  on_refuse :: "jsv \<Rightarrow> 'd \<Rightarrow> 'd"
  on_timeout :: "'d \<Rightarrow> 'd"
  on_answer :: "jsv res \<Rightarrow> 'd \<Rightarrow> 'd"
  found :: "'c \<Rightarrow> jsv res \<Rightarrow> bool"
  on_found :: "jsv res \<Rightarrow> 'd \<Rightarrow> 'd"
  forgets :: bool

datatype pevent = Press rat | Accept nat | Refuse nat jsv | Tick nat | Answer nat "jsv res" | Leave

definition clear_interval :: "nat option \<Rightarrow> 'c timer_iv list \<Rightarrow> 'c timer_iv list" where
  "clear_interval r ivs = (case r of None \<Rightarrow> ivs | Some i \<Rightarrow> filter (\<lambda>v. iv_id v \<noteq> i) ivs)"

definition drop_nth :: "nat \<Rightarrow> 'a list \<Rightarrow> 'a list" where
  "drop_nth k xs = take k xs @ drop (Suc k) xs"

text \<open>The button is disabled while the flag is up.\<close>

definition press :: "('d, 'c) poller \<Rightarrow> rat \<Rightarrow> ('d, 'c) poll_st \<Rightarrow> ('d, 'c) poll_st option" where
  "press p now s =
     (if waiting_flag s \<or> gone s then None
      else Some (s\<lparr>waiting_flag := True, running := clear_interval (timer_ref s) (running s),
        posting := posting s @ [capture p now (panel s)], panel := on_press p (panel s)\<rparr>))"

definition accept_post :: "('d, 'c) poller \<Rightarrow> nat \<Rightarrow> ('d, 'c) poll_st \<Rightarrow> ('d, 'c) poll_st option" where
  "accept_post p k s =
     (if k < length (posting s)
      then Some (s\<lparr>posting := drop_nth k (posting s), panel := on_accept p (panel s), timer_ref := Some (next_iv s),
        running := running s @ [\<lparr>iv_id = next_iv s, attempts = 0, captured = posting s ! k\<rparr>], next_iv := Suc (next_iv s)\<rparr>)
      else None)"

definition refuse_post :: "('d, 'c) poller \<Rightarrow> nat \<Rightarrow> jsv \<Rightarrow> ('d, 'c) poll_st \<Rightarrow> ('d, 'c) poll_st option" where
  "refuse_post p k e s =
     (if k < length (posting s)
      then Some (s\<lparr>posting := drop_nth k (posting s), waiting_flag := False, panel := on_refuse p e (panel s)\<rparr>)
      else None)"

definition tick :: "('d, 'c) poller \<Rightarrow> nat \<Rightarrow> ('d, 'c) poll_st \<Rightarrow> ('d, 'c) poll_st option" where
  "tick p i s =
     (if i < length (running s)
      then let v = (running s ! i)\<lparr>attempts := Suc (attempts (running s ! i))\<rparr>; ivs = (running s)[i := v] in
        if limit p < attempts v
        then Some (s\<lparr>running := clear_interval (timer_ref s) ivs, waiting_flag := False, timer_ref := None,
          panel := on_timeout p (panel s)\<rparr>)
        else Some (s\<lparr>running := ivs, polling := polling s @ [captured v]\<rparr>)
      else None)"

definition poll_answered :: "('d, 'c) poller \<Rightarrow> nat \<Rightarrow> jsv res \<Rightarrow> ('d, 'c) poll_st \<Rightarrow> ('d, 'c) poll_st option" where
  "poll_answered p k r s =
     (if k < length (polling s)
      then let s1 = s\<lparr>polling := drop_nth k (polling s), panel := on_answer p r (panel s)\<rparr> in
        if found p (polling s ! k) r
        then Some (s1\<lparr>running := clear_interval (timer_ref s) (running s), waiting_flag := False,
          timer_ref := (if forgets p then None else timer_ref s), panel := on_found p r (panel s1)\<rparr>)
        else Some s1
      else None)"

text \<open>
  The cleanup of the effect, when the panel is left. It also runs when the incident changes under an open panel; the storyboard is
  closed in between, so this is taken for leaving and opening again.
\<close>

definition leave :: "('d, 'c) poll_st \<Rightarrow> ('d, 'c) poll_st option" where
  "leave s = (if gone s then None
     else Some (s\<lparr>running := clear_interval (timer_ref s) (running s), timer_ref := None, gone := True\<rparr>))"

fun poll_event :: "('d, 'c) poller \<Rightarrow> pevent \<Rightarrow> ('d, 'c) poll_st \<Rightarrow> ('d, 'c) poll_st option" where
  "poll_event p (Press now) s = press p now s"
| "poll_event p (Accept k) s = accept_post p k s"
| "poll_event p (Refuse k e) s = refuse_post p k e s"
| "poll_event p (Tick i) s = tick p i s"
| "poll_event p (Answer k r) s = poll_answered p k r s"
| "poll_event p Leave s = leave s"

fun poll_events :: "('d, 'c) poller \<Rightarrow> pevent list \<Rightarrow> ('d, 'c) poll_st \<Rightarrow> ('d, 'c) poll_st option" where
  "poll_events p [] s = Some s"
| "poll_events p (e # es) s = (case poll_event p e s of None \<Rightarrow> None | Some t \<Rightarrow> poll_events p es t)"

definition idle_panel :: "'d \<Rightarrow> ('d, 'c) poll_st" where
  "idle_panel d = \<lparr>panel = d, waiting_flag = False, timer_ref = None, running = [], posting = [], polling = [],
     next_iv = 0, gone = False\<rparr>"

lemma poll_events_append:
  "poll_events p (es @ fs) s = (case poll_events p es s of None \<Rightarrow> None | Some t \<Rightarrow> poll_events p fs t)"
  by (induction es arbitrary: s) (auto split: option.splits)

section \<open>Prompt answers\<close>

text \<open>
  Runs in which a poll is answered before the next tick; \<open>patient\<close> are the events other than the button
  and leaving.
\<close>

fun prompt :: "pevent \<Rightarrow> ('d, 'c) poll_st \<Rightarrow> bool" where
  "prompt (Tick i) s \<longleftrightarrow> polling s = []"
| "prompt _ s \<longleftrightarrow> True"

fun patient :: "pevent \<Rightarrow> bool" where
  "patient (Press now) \<longleftrightarrow> False"
| "patient Leave \<longleftrightarrow> False"
| "patient _ \<longleftrightarrow> True"

inductive prompt_reach :: "('d, 'c) poller \<Rightarrow> 'd \<Rightarrow> ('d, 'c) poll_st \<Rightarrow> bool" for p d where
  prompt_start: "prompt_reach p d (idle_panel d)"
| prompt_move: "prompt_reach p d s \<Longrightarrow> prompt ev s \<Longrightarrow> poll_event p ev s = Some t \<Longrightarrow> prompt_reach p d t"

text \<open>Patient events one after the other, each one prompt.\<close>

inductive patient_steps :: "('d, 'c) poller \<Rightarrow> ('d, 'c) poll_st \<Rightarrow> nat \<Rightarrow> ('d, 'c) poll_st \<Rightarrow> bool" for p where
  patient_none: "patient_steps p s 0 s"
| patient_more: "patient_steps p s n t \<Longrightarrow> patient ev \<Longrightarrow> prompt ev t \<Longrightarrow> poll_event p ev t = Some u \<Longrightarrow>
    patient_steps p s (Suc n) u"

text \<open>At most one thing is under way, the interval in the ref if any; the flag tells.\<close>

definition one_wait :: "('d, 'c) poller \<Rightarrow> ('d, 'c) poll_st \<Rightarrow> bool" where
  "one_wait p s \<longleftrightarrow> length (posting s) + length (running s) \<le> 1
     \<and> (\<forall>v\<in>set (running s). timer_ref s = Some (iv_id v) \<and> attempts v \<le> limit p)
     \<and> length (polling s) \<le> 1 \<and> (polling s \<noteq> [] \<longrightarrow> running s \<noteq> [] \<or> gone s \<and> posting s = [])
     \<and> (gone s \<or> (waiting_flag s \<longleftrightarrow> posting s \<noteq> [] \<or> running s \<noteq> []))"

definition work_left :: "('d, 'c) poller \<Rightarrow> ('d, 'c) poll_st \<Rightarrow> nat" where
  "work_left p s = length (posting s) * (2 * limit p + 3) +
     (\<Sum>v\<leftarrow>running s. 2 * (Suc (limit p) - attempts v)) + length (polling s)"

lemma clear_interval_simps [simp]: "clear_interval r [] = []" "clear_interval None ivs = ivs"
  "clear_interval (Some i) [v] = (if iv_id v = i then [] else [v])"
  by (auto simp: clear_interval_def split: option.splits)

lemma short_list: "length xs \<le> 1 \<Longrightarrow> xs = [] \<or> (\<exists>x. xs = [x])"
  by (cases xs) auto

lemma at_most_one_cases:
  assumes "length xs + length ys \<le> 1"
  obtains "xs = []" "ys = []" | x where "xs = [x]" "ys = []" | y where "xs = []" "ys = [y]"
  using assms by (cases xs; cases ys) auto

lemma one_wait_idle: "one_wait p (idle_panel d)"
  by (simp add: one_wait_def idle_panel_def)

lemmas event_defs = press_def accept_post_def refuse_post_def tick_def poll_answered_def leave_def Let_def drop_nth_def

lemma one_wait_step:
  assumes "one_wait p s" and "prompt ev s" and "poll_event p ev s = Some t"
  shows "one_wait p t \<and> (patient ev \<longrightarrow> work_left p t < work_left p s)"
proof -
  from assms(1) have "length (polling s) \<le> 1" and le: "length (posting s) + length (running s) \<le> 1"
    by (simp_all add: one_wait_def)
  from this(1) have pol: "polling s = [] \<or> (\<exists>x. polling s = [x])" by (rule short_list)
  from le show ?thesis
  proof (cases rule: at_most_one_cases)
    case 1
    with assms pol show ?thesis
      by (cases ev) (auto simp: one_wait_def work_left_def event_defs split: if_splits)
  next
    case (2 x)
    with assms pol show ?thesis
      by (cases ev) (auto simp: one_wait_def work_left_def event_defs split: if_splits)
  next
    case (3 y)
    with assms pol show ?thesis
      by (cases ev) (auto simp: one_wait_def work_left_def event_defs split: if_splits)
  qed
qed

lemma prompt_one_wait: "prompt_reach p d s \<Longrightarrow> one_wait p s"
  by (induction rule: prompt_reach.induct) (auto simp: one_wait_idle dest: one_wait_step)

lemma patient_bound: "patient_steps p s n t \<Longrightarrow> one_wait p s \<Longrightarrow> one_wait p t \<and> n + work_left p t \<le> work_left p s"
  by (induction rule: patient_steps.induct) (auto dest: one_wait_step)

lemma work_left_bound: "one_wait p s \<Longrightarrow> work_left p s \<le> 2 * limit p + 4"
proof -
  assume "one_wait p s"
  then have le: "length (posting s) + length (running s) \<le> 1" and "length (polling s) \<le> 1"
    and "polling s \<noteq> [] \<longrightarrow> running s \<noteq> [] \<or> posting s = []"
    by (auto simp: one_wait_def)
  from le this(2-) show ?thesis
    by (cases rule: at_most_one_cases) (auto simp: work_left_def)
qed

text \<open>Where nothing patient can happen any more, nothing is under way.\<close>

lemma stuck_idle:
  assumes "\<And>ev. patient ev \<Longrightarrow> prompt ev s \<Longrightarrow> poll_event p ev s = None"
  shows "posting s = [] \<and> polling s = [] \<and> running s = []"
proof -
  have "polling s = []"
    using assms [of "Answer 0 (Inr JNull)"] by (auto simp: poll_answered_def Let_def split: if_splits)
  moreover have "posting s = []"
    using assms [of "Accept 0"] by (auto simp: accept_post_def split: if_splits)
  ultimately show ?thesis
    using assms [of "Tick 0"] by (auto simp: tick_def Let_def split: if_splits)
qed

lemma polling_ends:
  assumes "prompt_reach p d s" and "patient_steps p s n t"
  shows "n \<le> 2 * limit p + 4 \<and> length (running t) \<le> 1
    \<and> ((\<forall>ev. patient ev \<longrightarrow> prompt ev t \<longrightarrow> poll_event p ev t = None) \<longrightarrow> gone t \<or> \<not> waiting_flag t)"
proof -
  from assms(1) have s: "one_wait p s" by (rule prompt_one_wait)
  from patient_bound [OF assms(2) s] work_left_bound [OF s] have "n \<le> 2 * limit p + 4" and t: "one_wait p t" by auto
  moreover from t have "length (running t) \<le> 1" by (simp add: one_wait_def)
  moreover have "(\<forall>ev. patient ev \<longrightarrow> prompt ev t \<longrightarrow> poll_event p ev t = None) \<longrightarrow> gone t \<or> \<not> waiting_flag t"
    using t stuck_idle [of t p] by (auto simp: one_wait_def)
  ultimately show ?thesis by blast
qed

section \<open>The waits as one machine\<close>

text \<open>
  What a panel promises: it is ready, or has one request out, or waits with a number of attempts made, never more than
  the limit; a wait ends by a result, by the limit or by leaving.
\<close>

datatype phase = Ready | Requested | Waiting nat | Left

inductive wait_step :: "nat \<Rightarrow> phase \<Rightarrow> phase \<Rightarrow> bool" for mx where
  ask: "wait_step mx Ready Requested"
| refused: "wait_step mx Requested Ready"
| accepted: "wait_step mx Requested (Waiting 0)"
| try_again: "n < mx \<Longrightarrow> wait_step mx (Waiting n) (Waiting (Suc n))"
| give_up: "wait_step mx (Waiting mx) Ready"
| result: "wait_step mx (Waiting n) Ready"
| go: "ph \<noteq> Left \<Longrightarrow> wait_step mx ph Left"

inductive_simps wait_step_simps:
  "wait_step mx Ready ph" "wait_step mx Requested ph" "wait_step mx (Waiting n) ph" "wait_step mx Left ph"

definition phase_of :: "('d, 'c) poll_st \<Rightarrow> phase" where
  "phase_of s = (if gone s then Left else if posting s \<noteq> [] then Requested
     else case running s of [] \<Rightarrow> Ready | v # _ \<Rightarrow> Waiting (attempts v))"

lemma one_wait_phase:
  assumes "one_wait p s" and "prompt ev s" and "poll_event p ev s = Some t"
  shows "phase_of t = phase_of s \<or> wait_step (limit p) (phase_of s) (phase_of t)"
proof -
  from assms(1) have "length (polling s) \<le> 1" and le: "length (posting s) + length (running s) \<le> 1"
    by (simp_all add: one_wait_def)
  from this(1) have pol: "polling s = [] \<or> (\<exists>x. polling s = [x])" by (rule short_list)
  from le show ?thesis
  proof (cases rule: at_most_one_cases)
    case 1
    with assms pol show ?thesis
      by (cases ev) (auto simp: one_wait_def phase_of_def event_defs wait_step_simps split: if_splits)
  next
    case (2 x)
    with assms pol show ?thesis
      by (cases ev) (auto simp: one_wait_def phase_of_def event_defs wait_step_simps split: if_splits)
  next
    case (3 y)
    with assms pol show ?thesis
      by (cases ev) (auto simp: one_wait_def phase_of_def event_defs wait_step_simps split: if_splits)
  qed
qed

text \<open>While the panel is there, the flag is up in the phases that wait.\<close>

lemma one_wait_busy: "one_wait p s \<Longrightarrow> \<not> gone s \<Longrightarrow> waiting_flag s \<longleftrightarrow> phase_of s \<noteq> Ready"
  by (auto simp: one_wait_def phase_of_def split: list.splits)

lemma polling_refines:
  assumes "prompt_reach p d s" and "prompt ev s" and "poll_event p ev s = Some t"
  shows "phase_of (idle_panel d :: ('d, 'c) poll_st) = Ready
    \<and> (phase_of t = phase_of s \<or> wait_step (limit p) (phase_of s) (phase_of t))
    \<and> (gone s \<or> (waiting_flag s \<longleftrightarrow> phase_of s \<noteq> Ready))"
  using one_wait_phase [OF prompt_one_wait [OF assms(1)] assms(2,3)] one_wait_busy [OF prompt_one_wait [OF assms(1)]]
  by (auto simp: phase_of_def idle_panel_def)

section \<open>Giving up\<close>

text \<open>Polls that find nothing, each answered before the next: the attempts are counted, then the limit ends it.\<close>

definition polls :: "nat \<Rightarrow> jsv res \<Rightarrow> pevent list" where
  "polls n r = concat (replicate n [Tick 0, Answer 0 r])"

lemma fruitless_polls:
  assumes "running s = v # vs" and "polling s = []" and "attempts v + n \<le> limit p" and "\<not> found p (captured v) r"
  shows "poll_events p (polls n r) s =
    Some (s\<lparr>running := v\<lparr>attempts := attempts v + n\<rparr> # vs, panel := (on_answer p r ^^ n) (panel s)\<rparr>)"
  using assms
proof (induction n arbitrary: s v)
  case 0
  then show ?case by (cases s) (simp add: polls_def)
next
  case (Suc n)
  let ?v = "v\<lparr>attempts := Suc (attempts v)\<rparr>"
  let ?t = "s\<lparr>running := ?v # vs, panel := on_answer p r (panel s)\<rparr>"
  have "poll_events p [Tick 0, Answer 0 r] s = Some ?t"
    using Suc.prems by (cases s) (simp add: tick_def poll_answered_def drop_nth_def Let_def)
  moreover have "poll_events p (polls n r) ?t = Some (?t\<lparr>running := ?v\<lparr>attempts := attempts ?v + n\<rparr> # vs,
      panel := (on_answer p r ^^ n) (panel ?t)\<rparr>)"
    by (rule Suc.IH) (use Suc.prems in simp_all)
  moreover have "polls (Suc n) r = [Tick 0, Answer 0 r] @ polls n r"
    by (simp add: polls_def)
  ultimately show ?case
    by (simp only: poll_events_append) (simp add: funpow_swap1)
qed

lemma polls_give_up:
  assumes "\<not> found p (capture p now (panel s)) r" and "s = idle_panel d"
  shows "poll_events p (Press now # Accept 0 # polls (limit p) r @ [Tick 0]) s =
    Some (s\<lparr>timer_ref := None, next_iv := 1,
      panel := on_timeout p ((on_answer p r ^^ limit p) (on_accept p (on_press p d)))\<rparr>)"
proof -
  let ?v = "\<lparr>iv_id = 0, attempts = 0, captured = capture p now d\<rparr>"
  let ?s = "s\<lparr>waiting_flag := True, timer_ref := Some 0, next_iv := 1, running := [?v],
    panel := on_accept p (on_press p d)\<rparr>"
  have "poll_events p [Press now, Accept 0] s = Some ?s"
    using assms(2) by (simp add: idle_panel_def press_def accept_post_def drop_nth_def)
  moreover have "poll_events p (polls (limit p) r) ?s = Some (?s\<lparr>running := [?v\<lparr>attempts := attempts ?v + limit p\<rparr>],
      panel := (on_answer p r ^^ limit p) (panel ?s)\<rparr>)"
    by (rule fruitless_polls) (use assms in \<open>simp_all add: idle_panel_def\<close>)
  moreover have "Press now # Accept 0 # polls (limit p) r @ [Tick 0] = [Press now, Accept 0] @ polls (limit p) r @ [Tick 0]"
    by simp
  ultimately show ?thesis
    using assms(2) by (simp only: poll_events_append) (simp add: tick_def idle_panel_def Let_def)
qed

section \<open>Overlapping answers\<close>

text \<open>
  An interval the ref does not name is never cleared: with the ref empty and its attempts used up it reports a
  timeout at every tick, for ever.
\<close>

lemma orphan_ticks:
  assumes "running s = [v]" and "limit p \<le> attempts v" and "timer_ref s = None"
  shows "poll_events p (replicate n (Tick 0)) s =
    Some (if n = 0 then s else s\<lparr>running := [v\<lparr>attempts := attempts v + n\<rparr>], waiting_flag := False, timer_ref := None,
       panel := (on_timeout p ^^ n) (panel s)\<rparr>)"
  using assms
proof (induction n arbitrary: s v)
  case (Suc n)
  let ?v = "v\<lparr>attempts := Suc (attempts v)\<rparr>"
  let ?t = "s\<lparr>running := [?v], waiting_flag := False, timer_ref := None, panel := on_timeout p (panel s)\<rparr>"
  from Suc.prems have "tick p 0 s = Some ?t"
    by (simp add: tick_def Let_def)
  moreover from Suc.IH [of ?t ?v] Suc.prems have "poll_events p (replicate n (Tick 0)) ?t =
      Some (if n = 0 then ?t else ?t\<lparr>running := [?v\<lparr>attempts := attempts ?v + n\<rparr>], waiting_flag := False,
        timer_ref := None, panel := (on_timeout p ^^ n) (panel ?t)\<rparr>)"
    by simp
  ultimately show ?case
    by (cases n) (simp_all add: funpow_swap1)
qed simp

end
