(* ===== verification/AiPanels.thy ===== *)
theory AiPanels
  imports Polling FeedHooks
begin

text \<open>
  \<open>components/incidents/AISuggestionPanel.jsx\<close> and \<open>AIAnalysisTab.jsx\<close>: the analysis of an incident by the
  local model, its regeneration, the suggested response, and applying, dismissing and rating them. Both wait with a
  polling interval; they are the two instances of \<open>Polling\<close>. Vietnamese texts are written without diacritics.
\<close>

section \<open>The suggestion panel\<close>

record aisug_st =
  sug_analysis :: jsv
  sug_loading :: bool
  applying :: bool
  dismissing :: bool
  dismissOpen :: bool
  dismissReason :: string
  sug_toasts :: "toast list"
  refreshes :: nat

definition init_aisug :: aisug_st where
  "init_aisug = \<lparr>sug_analysis = JNull, sug_loading = True, applying = False, dismissing = False, dismissOpen = False,
     dismissReason = [], sug_toasts = [], refreshes = 0\<rparr>"

definition sug_toast :: "toast \<Rightarrow> aisug_st \<Rightarrow> aisug_st" where
  "sug_toast t = sug_toasts_update (\<lambda>ts. ts @ [t])"

definition fetchAnalysis :: "jsv \<Rightarrow> bool \<Rightarrow> (aisug_st, jsv) act" where
  "fetchAnalysis incidentId silent =
     Upd (if silent then id else sug_loading_update (\<lambda>_. True))
       (fin (catch
          (bnd (await (getAIAnalysis incidentId)) (\<lambda>data. Upd (sug_analysis_update (\<lambda>_. data)) (Ret data)))
          (\<lambda>_. Upd (sug_analysis_update (\<lambda>_. JNull)) (Ret JNull)))
        (if silent then id else sug_loading_update (\<lambda>_. False)))"

text \<open>What \<open>handleTriggerSuggest\<close> adds to the polling: the toasts, and the analysis every poll reads.\<close>

definition has_suggestion :: "jsv \<Rightarrow> bool" where
  "has_suggestion fresh \<longleftrightarrow> truthy fresh \<and> truthy (fld fresh ''suggested_action'')"

definition suggestion_found :: "jsv \<Rightarrow> aisug_st \<Rightarrow> aisug_st" where
  \<comment> \<open>\<open>toUpperCase\<close> throws on anything but a string; the throw is caught and logged\<close>
  "suggestion_found fresh d = (case to_upper (fld fresh ''suggested_action'') of
       Inl _ \<Rightarrow> d
     | Inr a \<Rightarrow> refreshes_update Suc (sug_toast (Toast_ok (''AI da de xuat hanh dong: '' @ to_str a)) d))"

definition suggest_timeout :: toast where
  "suggest_timeout = Toast_error ''AI suggestion timeout sau 3 phut. Vui long thu lai sau.''"

definition handleTriggerSuggest :: "(aisug_st, unit) poller" where
  "handleTriggerSuggest = \<lparr>limit = 45, on_press = id, capture = (\<lambda>_ _. ()),
     on_accept = sug_toast (Toast_ok ''AI dang phan tich context & tinh toan blast radius...''),
     on_refuse = (\<lambda>err. sug_toast (Toast_error (to_str (detail_or err ''Loi khi yeu cau goi y tu AI'')))),
     on_timeout = sug_toast suggest_timeout,
     on_answer = (\<lambda>r. sug_analysis_update (\<lambda>_. case r of Inl _ \<Rightarrow> JNull | Inr d \<Rightarrow> d)),
     found = (\<lambda>_ r. case r of Inl _ \<Rightarrow> False | Inr d \<Rightarrow> has_suggestion d),
     on_found = (\<lambda>r. case r of Inl _ \<Rightarrow> id | Inr d \<Rightarrow> suggestion_found d), forgets = True\<rparr>"

definition reason_of :: "jsv \<Rightarrow> string \<Rightarrow> string" where
  \<comment> \<open>\<open>err.response?.data?.detail || err.response?.data?.error || err.message || '...'\<close>\<close>
  "reason_of err d = to_str (js_or (fld (fld (fld err ''response'') ''data'') ''detail'')
     (js_or (fld (fld (fld err ''response'') ''data'') ''error'') (js_or (fld err ''message'') (JStr d))))"

definition handleApply :: "jsv \<Rightarrow> jsv \<Rightarrow> bool \<Rightarrow> (aisug_st, jsv) act" where
  "handleApply incidentId shown busy =
     (if \<not> truthy (fld shown ''suggested_action'') \<or> busy then Ret JUndef
      else Upd (applying_update (\<lambda>_. True)) (fin (catch
        (bnd (await (applyAISuggestion incidentId (JObj [(''analyst'', JStr ''analyst_soc'')]))) (\<lambda>res.
         bnd (lift (get res ''action_id'')) (\<lambda>action_id.
           Upd (sug_toast (Toast_ok (''Da thuc thi phan ung: '' @ to_str (fld shown ''suggested_action'') @ '' (Action ID: ''
                 @ to_str (js_or action_id (JStr ''OK'')) @ '')'')))
             (thn (fetchAnalysis incidentId True) (Upd (refreshes_update Suc) (Ret JUndef))))))
        (\<lambda>err. Upd (sug_toast (Toast_error (reason_of err ''Loi khi ap dung phan ung''))) (Ret JUndef)))
       (applying_update (\<lambda>_. False))))"

definition handleConfirmDismiss :: "jsv \<Rightarrow> string \<Rightarrow> bool \<Rightarrow> (aisug_st, jsv) act" where
  "handleConfirmDismiss incidentId reason busy =
     (if trim reason = [] \<or> busy then Ret JUndef
      else Upd (dismissing_update (\<lambda>_. True)) (fin (catch
        (bnd (await (dismissAISuggestion incidentId
            (JObj [(''analyst'', JStr ''analyst_soc''), (''reason'', JStr (trim reason))]))) (\<lambda>_.
           Upd (sug_toast (Toast_ok ''Da ghi nhan bo qua goi y phan ung'')) (Upd (dismissOpen_update (\<lambda>_. False))
             (Upd (dismissReason_update (\<lambda>_. []))
               (thn (fetchAnalysis incidentId True) (Upd (refreshes_update Suc) (Ret JUndef)))))))
        (\<lambda>err. Upd (sug_toast (Toast_error (reason_of err ''Loi khi bo qua goi y''))) (Ret JUndef)))
       (dismissing_update (\<lambda>_. False))))"

section \<open>The analysis tab\<close>

record aitab_st =
  tab_analysis :: jsv
  tab_loading :: bool
  tab_error :: jsv
  ratingLoading :: bool
  tab_toasts :: "toast list"

definition init_aitab :: aitab_st where
  "init_aitab = \<lparr>tab_analysis = JNull, tab_loading = True, tab_error = JNull, ratingLoading = False, tab_toasts = []\<rparr>"

definition tab_toast :: "toast \<Rightarrow> aitab_st \<Rightarrow> aitab_st" where
  "tab_toast t = tab_toasts_update (\<lambda>ts. ts @ [t])"

definition not_there_yet :: "jsv \<Rightarrow> bool res" where
  \<comment> \<open>\<open>err.response?.status === 404 || err.message?.includes('404')\<close>\<close>
  "not_there_yet err = ror (Inr (strict_eq (fld (fld err ''response'') ''status'') (jn 404)))
     (if nullishp (fld err ''message'') then Inr False else has_text (fld err ''message'') ''404'')"

definition fetchTabAnalysis :: "jsv \<Rightarrow> bool \<Rightarrow> (aitab_st, jsv) act" where
  "fetchTabAnalysis incidentId isRetry =
     Upd (if isRetry then id else tab_loading_update (\<lambda>_. True)) (Upd (tab_error_update (\<lambda>_. JNull))
       (fin (catch
          (bnd (await (getAIAnalysis incidentId)) (\<lambda>data. Upd (tab_analysis_update (\<lambda>_. data)) (Ret JUndef)))
          (\<lambda>err. bnd (lift (not_there_yet err)) (\<lambda>pending.
             if pending then Upd (tab_analysis_update (\<lambda>_. JNull)) (Upd (tab_error_update (\<lambda>_. JStr ''pending'')) (Ret JUndef))
             else Upd (tab_error_update (\<lambda>_. message_or err ''Loi khi tai ket qua phan tich AI'')) (Ret JUndef))))
        (tab_loading_update (\<lambda>_. False))))"

text \<open>\<open>handleRegenerate\<close>: the interval captures the id of the analysis shown and the time of the click.\<close>

definition is_new_record :: "clock \<Rightarrow> jsv \<times> rat \<Rightarrow> jsv \<Rightarrow> bool" where
  "is_new_record c seen d =
     (truthy d \<and> truthy (fld d ''id'') \<and> \<not> strict_eq (fld d ''id'') (fst seen)
      \<and> truthy (fld d ''created_at'') \<and> num_lt (Fin (snd seen)) (date_ms c (fld d ''created_at'')))"

definition failed_analysis :: "jsv \<Rightarrow> bool" where
  "failed_analysis d \<longleftrightarrow> truthy (fld d ''error_message'') \<or> fld d ''summary'' = JStr ''[AI analysis failed]''"

definition regenerated :: "jsv \<Rightarrow> aitab_st \<Rightarrow> aitab_st" where
  "regenerated data d = tab_toast (if failed_analysis data then Toast_error ''AI phan tich that bai - xem chi tiet ben duoi''
     else Toast_ok ''AI analysis hoan tat!'') (d\<lparr>tab_analysis := data\<rparr>)"

definition handleRegenerate :: "clock \<Rightarrow> (aitab_st, jsv \<times> rat) poller" where
  "handleRegenerate c = \<lparr>limit = 60, on_press = tab_error_update (\<lambda>_. JNull),
     capture = (\<lambda>now d. (js_or (fld (tab_analysis d) ''id'') JNull, now)),
     on_accept = tab_toast (Toast_ok ''AI dang phan tich (~2-4 phut). Ban co the roi trang.''),
     on_refuse = (\<lambda>err d. let msg = detail_or err ''Loi khi trigger AI'' in
       tab_toast (Toast_error (to_str msg)) (d\<lparr>tab_error := msg\<rparr>)),
     on_timeout = (\<lambda>d. tab_toast (Toast_error ''AI timeout - thu lai sau'')
       (d\<lparr>tab_error := JStr ''AI timeout sau 5 phut. Thu lai sau.''\<rparr>)),
     on_answer = (\<lambda>_. id), found = (\<lambda>k r. case r of Inl _ \<Rightarrow> False | Inr d \<Rightarrow> is_new_record c k d),
     on_found = (\<lambda>r. case r of Inl _ \<Rightarrow> id | Inr d \<Rightarrow> regenerated d), forgets = False\<rparr>"

definition handleRate :: "jsv \<Rightarrow> string \<Rightarrow> jsv \<Rightarrow> bool \<Rightarrow> (aitab_st, jsv) act" where
  "handleRate incidentId rating shown busy =
     (if busy \<or> \<not> truthy shown then Ret JUndef
      else Upd (ratingLoading_update (\<lambda>_. True)) (fin (catch
        (bnd (await (rateAIAnalysis incidentId (JStr rating))) (\<lambda>_.
           Upd (tab_analysis_update (\<lambda>prev. with_fld prev ''analyst_rating'' (JStr rating)))
             (Upd (tab_toast (Toast_ok (if rating = ''helpful'' then ''Da luu danh gia: Huu ich'' else ''Da luu danh gia: Sai lech'')))
               (Ret JUndef))))
        (\<lambda>err. Upd (tab_toast (Toast_error (''Khong the luu danh gia: '' @ to_str (fld err ''message'')))) (Ret JUndef)))
       (ratingLoading_update (\<lambda>_. False))))"

text \<open>Which of its pages the tab renders.\<close>

datatype tab_page = Skeleton_page | Failed_page string | Pending_page | Ai_failed_page | Analysis_page

definition page_shown :: "aitab_st \<Rightarrow> bool \<Rightarrow> tab_page" where
  "page_shown d regenerating =
     (if tab_loading d \<or> regenerating then Skeleton_page
      else if truthy (tab_error d) \<and> \<not> strict_eq (tab_error d) (JStr ''pending'') \<and> \<not> truthy (tab_analysis d)
        then Failed_page (to_str (tab_error d))
      else if \<not> truthy (tab_analysis d) then Pending_page
      else if failed_analysis (tab_analysis d) then Ai_failed_page else Analysis_page)"

definition offers_generation :: "tab_page \<Rightarrow> bool" where
  \<comment> \<open>the pages with a button for \<open>handleRegenerate\<close>\<close>
  "offers_generation v \<longleftrightarrow> v = Pending_page \<or> v = Ai_failed_page \<or> v = Analysis_page"

section \<open>Lemmas\<close>

lemma no_suggestion_polled:
  "\<not> found handleTriggerSuggest k r \<Longrightarrow> (on_answer handleTriggerSuggest r ^^ n) d =
     (if n = 0 then d else d\<lparr>sug_analysis := (case r of Inl _ \<Rightarrow> JNull | Inr a \<Rightarrow> a)\<rparr>)"
  by (induction n) (simp_all add: handleTriggerSuggest_def)

lemma timeouts_toasted:
  "(on_timeout handleTriggerSuggest ^^ n) d = d\<lparr>sug_toasts := sug_toasts d @ replicate n suggest_timeout\<rparr>"
  by (induction n) (simp_all add: handleTriggerSuggest_def sug_toast_def replicate_append_same)

section \<open>Properties\<close>

text \<open>
  C12: waiting for a suggestion ends. As long as every poll is answered before the next tick, at most one interval
  runs, from any state the panel can be in at most 94 further events (answers and ticks, 45 polls among them) can
  happen without the button being pressed again, and when nothing more can happen the spinner is down, unless the
  panel has been left.
\<close>

theorem suggestion_wait_ends:
  assumes "prompt_reach handleTriggerSuggest init_aisug s" and "patient_steps handleTriggerSuggest s n t"
  shows "n \<le> 94 \<and> length (running t) \<le> 1
    \<and> ((\<forall>ev. patient ev \<longrightarrow> prompt ev t \<longrightarrow> poll_event handleTriggerSuggest ev t = None) \<longrightarrow> gone t \<or> \<not> waiting_flag t)"
proof -
  have "limit handleTriggerSuggest = 45" by (simp add: handleTriggerSuggest_def)
  with polling_ends [OF assms] show ?thesis by simp
qed

definition after_press :: "(aisug_st, unit) poll_st" where
  "after_press = the (press handleTriggerSuggest 0 (idle_panel init_aisug))"

theorem suggestion_wait_ends_witness:
  "\<exists>t. patient_steps handleTriggerSuggest after_press 1 t \<and> (1::nat) \<le> 94 \<and> \<not> waiting_flag t"
proof -
  have start: "prompt_reach handleTriggerSuggest init_aisug after_press"
    by (rule prompt_move [OF prompt_start, of "Press 0"]) (simp_all add: after_press_def press_def idle_panel_def)
  let ?t = "the (refuse_post handleTriggerSuggest 0 JNull after_press)"
  have "patient_steps handleTriggerSuggest after_press (Suc 0) ?t"
    by (rule patient_more [OF patient_none, of "Refuse 0 JNull"])
      (simp_all add: after_press_def press_def idle_panel_def refuse_post_def)
  with suggestion_wait_ends [OF start, of 1 ?t] show ?thesis
    by (intro exI [of _ ?t]) (simp add: after_press_def press_def idle_panel_def refuse_post_def)
qed

text \<open>
  C11: both panels implement the abstract wait: when polls are answered before the next tick, every event of the
  suggestion panel is a step of the abstract machine with 45 attempts or invisible to it, every event of the analysis tab
  the same with 60, and the button is busy exactly in the phases that wait.
\<close>

theorem panels_refine_wait:
  assumes "prompt_reach handleTriggerSuggest init_aisug s" and "prompt ev s" and "poll_event handleTriggerSuggest ev s = Some t"
    and "prompt_reach (handleRegenerate c) init_aitab u" and "prompt ev' u" and "poll_event (handleRegenerate c) ev' u = Some v"
  shows "(phase_of t = phase_of s \<or> wait_step 45 (phase_of s) (phase_of t))
    \<and> (gone s \<or> (waiting_flag s \<longleftrightarrow> phase_of s \<noteq> Ready))
    \<and> (phase_of v = phase_of u \<or> wait_step 60 (phase_of u) (phase_of v))
    \<and> (gone u \<or> (waiting_flag u \<longleftrightarrow> phase_of u \<noteq> Ready))"
proof -
  have limits: "limit handleTriggerSuggest = 45" "limit (handleRegenerate c) = 60"
    by (simp_all add: handleTriggerSuggest_def handleRegenerate_def)
  from polling_refines [OF assms(1-3)] polling_refines [OF assms(4-6)] show ?thesis
    unfolding limits by blast
qed

theorem panels_refine_wait_witness:
  "wait_step 45 Ready (phase_of after_press)"
proof -
  have pressed: "poll_event handleTriggerSuggest (Press 0) (idle_panel init_aisug) = Some after_press"
    by (simp add: after_press_def press_def idle_panel_def)
  obtain v where other: "poll_event (handleRegenerate stopped_clock) (Press 0) (idle_panel init_aitab) = Some v"
    by (simp add: press_def idle_panel_def)
  from panels_refine_wait [OF prompt_start _ pressed prompt_start _ other] show ?thesis
    by (simp add: after_press_def press_def phase_of_def idle_panel_def handleTriggerSuggest_def)
qed

text \<open>
  When the manager never has a suggestion, pressing the button ends, after exactly 45 unsuccessful polls, in the
  timeout message, with no interval left and the button free again; whatever analysis was shown is replaced by the one last
  read, or by nothing when the reads fail.
\<close>

theorem suggestion_times_out:
  assumes "case r of Inl _ \<Rightarrow> True | Inr d \<Rightarrow> \<not> has_suggestion d"
  shows "poll_events handleTriggerSuggest (Press now # Accept 0 # polls 45 r @ [Tick 0]) (idle_panel d) =
    Some (idle_panel (d\<lparr>sug_analysis := (case r of Inl _ \<Rightarrow> JNull | Inr a \<Rightarrow> a),
       sug_toasts := sug_toasts d @ [Toast_ok ''AI dang phan tich context & tinh toan blast radius...'', suggest_timeout]\<rparr>)
     \<lparr>next_iv := 1\<rparr>)"
proof -
  have none: "\<not> found handleTriggerSuggest k r" for k
    using assms by (auto simp: handleTriggerSuggest_def split: sum.splits)
  have limit: "limit handleTriggerSuggest = 45" by (simp add: handleTriggerSuggest_def)
  from polls_give_up [OF none, where s = "idle_panel d", OF refl] show ?thesis
    unfolding limit no_suggestion_polled [OF none]
    by (simp add: idle_panel_def handleTriggerSuggest_def sug_toast_def)
qed

theorem suggestion_times_out_witness:
  "map_option waiting_flag (poll_events handleTriggerSuggest (Press 0 # Accept 0 # polls 45 (Inl JNull) @ [Tick 0])
     (idle_panel init_aisug)) = Some False"
  using suggestion_times_out [of "Inl JNull" 0 init_aisug] by (simp add: idle_panel_def)

text \<open>
  C29: asking for a suggestion again is answered with the old one: as long as the manager still serves the analysis the
  panel shows, with its suggestion, the first poll stops the waiting and announces that suggestion as the new proposal.
\<close>

theorem old_suggestion_announced:
  assumes "fld a ''suggested_action'' = JStr (x # xs)" and "sug_analysis d = a"
  shows "poll_events handleTriggerSuggest [Press now, Accept 0, Tick 0, Answer 0 (Inr a)] (idle_panel d) =
    Some (idle_panel (d\<lparr>refreshes := Suc (refreshes d),
       sug_toasts := sug_toasts d @ [Toast_ok ''AI dang phan tich context & tinh toan blast radius...'',
         Toast_ok (''AI da de xuat hanh dong: '' @ upper (x # xs))]\<rparr>)\<lparr>next_iv := 1\<rparr>)"
proof -
  have "has_suggestion a"
    using assms(1) by (cases a) (auto simp: has_suggestion_def fld_def split: if_splits)
  with assms show ?thesis
    by (cases d) (simp add: idle_panel_def handleTriggerSuggest_def press_def accept_post_def tick_def poll_answered_def
        drop_nth_def sug_toast_def suggestion_found_def)
qed

definition isolate_advice :: jsv where
  "isolate_advice = JObj [(''id'', jn 1), (''suggested_action'', JStr ''isolate'')]"

theorem old_suggestion_announced_witness:
  "map_option waiting_flag (poll_events handleTriggerSuggest [Press 0, Accept 0, Tick 0, Answer 0 (Inr isolate_advice)]
     (idle_panel (init_aisug\<lparr>sug_analysis := isolate_advice\<rparr>))) = Some False"
  using old_suggestion_announced [of isolate_advice "CHR ''i''" "''solate''" "init_aisug\<lparr>sug_analysis := isolate_advice\<rparr>" 0]
  by (simp add: isolate_advice_def idle_panel_def)

definition leak_events :: "pevent list" where
  "leak_events = [Press 0, Accept 0, Tick 0, Tick 0, Answer 0 (Inr isolate_advice), Press 0, Answer 0 (Inr isolate_advice),
     Press 0, Accept 0, Accept 0] @ polls 45 (Inl JNull) @ [Tick 0]"

text \<open>
  C28: waits that overlap leak an interval. In the run given, a poll of the first wait that is answered only after the button was
  pressed again lowers the spinner of the second wait, so the button can be pressed a third time; of the two intervals then only
  one is in the ref, and the other one reports its timeout at every tick for as long as the page is open.
\<close>

theorem leaked_interval_never_stops:
  "\<exists>t. poll_events handleTriggerSuggest (leak_events @ replicate n (Tick 0)) (idle_panel init_aisug) = Some t
     \<and> length (running t) = 1 \<and> n < length (filter (\<lambda>m. m = suggest_timeout) (sug_toasts (panel t)))"
proof -
  let ?p = handleTriggerSuggest and ?prefix = "take 10 leak_events"
  have none: "\<not> found ?p k (Inl JNull)" and limit: "limit ?p = 45" for k
    by (simp_all add: handleTriggerSuggest_def)
  obtain s where s: "poll_events ?p ?prefix (idle_panel init_aisug) = Some s"
    "running s = [\<lparr>iv_id = 1, attempts = 0, captured = ()\<rparr>, \<lparr>iv_id = 2, attempts = 0, captured = ()\<rparr>]"
    "polling s = []" "timer_ref s = Some 2"
    by (simp add: leak_events_def idle_panel_def handleTriggerSuggest_def press_def accept_post_def tick_def poll_answered_def
        drop_nth_def has_suggestion_def isolate_advice_def clear_interval_def)
  from fruitless_polls [where p = ?p and n = 45, OF s(2,3) _ none] have
    "\<exists>t. poll_events ?p (polls 45 (Inl JNull)) s = Some t
       \<and> running t = [\<lparr>iv_id = 1, attempts = 45, captured = ()\<rparr>, \<lparr>iv_id = 2, attempts = 0, captured = ()\<rparr>]
       \<and> timer_ref t = Some 2"
    by (simp add: limit s(4))
  then obtain t where t: "poll_events ?p (polls 45 (Inl JNull)) s = Some t"
    "running t = [\<lparr>iv_id = 1, attempts = 45, captured = ()\<rparr>, \<lparr>iv_id = 2, attempts = 0, captured = ()\<rparr>]"
    "timer_ref t = Some 2" by blast
  let ?u = "t\<lparr>running := [\<lparr>iv_id = 1, attempts = 46, captured = ()\<rparr>], waiting_flag := False, timer_ref := None,
    panel := sug_toast suggest_timeout (panel t)\<rparr>"
  have u: "poll_events ?p [Tick 0] t = Some ?u"
    using t(2,3) by (simp add: tick_def clear_interval_def limit) (simp add: handleTriggerSuggest_def)
  have last: "poll_events ?p (replicate n (Tick 0)) ?u = Some (if n = 0 then ?u else
      ?u\<lparr>running := [\<lparr>iv_id = 1, attempts = 46 + n, captured = ()\<rparr>], waiting_flag := False, timer_ref := None,
        panel := (on_timeout ?p ^^ n) (panel ?u)\<rparr>)"
    by (subst orphan_ticks [where v = "\<lparr>iv_id = 1, attempts = 46, captured = ()\<rparr>"]) (simp_all add: limit)
  have "leak_events @ replicate n (Tick 0) = ?prefix @ polls 45 (Inl JNull) @ [Tick 0] @ replicate n (Tick 0)"
    by (simp add: leak_events_def)
  with s(1) t(1) u last show ?thesis
    by (simp only: poll_events_append option.case) (simp add: timeouts_toasted sug_toast_def)
qed

text \<open>
  A regenerated analysis is only recognised when the manager's clock is ahead of the click. If the new record's time
  of creation is not later than the click by the browser's clock, all 60 polls read it in vain: the tab reports a timeout and
  keeps the old analysis.
\<close>

theorem slow_clock_hides_analysis:
  assumes "date_ms c (fld a ''created_at'') = Fin t" and "t \<le> now"
  shows "poll_events (handleRegenerate c) (Press now # Accept 0 # polls 60 (Inr a) @ [Tick 0]) (idle_panel d) =
    Some (idle_panel (d\<lparr>tab_error := JStr ''AI timeout sau 5 phut. Thu lai sau.'',
       tab_toasts := tab_toasts d @ [Toast_ok ''AI dang phan tich (~2-4 phut). Ban co the roi trang.'',
         Toast_error ''AI timeout - thu lai sau'']\<rparr>)\<lparr>next_iv := 1\<rparr>)"
proof -
  have none: "\<not> found (handleRegenerate c) (capture (handleRegenerate c) now e) (Inr a)" for e
    using assms by (simp add: handleRegenerate_def is_new_record_def)
  have limit: "limit (handleRegenerate c) = 60" and same: "on_answer (handleRegenerate c) r = id" for r
    by (simp_all add: handleRegenerate_def)
  from polls_give_up [OF none, where s = "idle_panel d", OF refl] show ?thesis
    unfolding limit same by (simp add: idle_panel_def handleRegenerate_def tab_toast_def)
qed

definition late_record :: jsv where
  "late_record = JObj [(''id'', jn 2), (''created_at'', JStr ''1970-01-01''), (''summary'', JStr ''done'')]"

theorem slow_clock_hides_analysis_witness:
  "map_option (\<lambda>s. tab_analysis (panel s)) (poll_events (handleRegenerate stopped_clock)
     (Press 5 # Accept 0 # polls 60 (Inr late_record) @ [Tick 0]) (idle_panel init_aitab)) = Some JNull"
proof -
  have "date_ms stopped_clock (fld late_record ''created_at'') = Fin 0"
    by (simp add: late_record_def date_ms_def stopped_clock_def)
  from slow_clock_hides_analysis [OF this, of 5 init_aitab] show ?thesis
    by (simp add: idle_panel_def init_aitab_def)
qed

text \<open>
  For an incident without an analysis the tab offers no way to have one made. The manager's 404 reaches the panel
  as its detail text, without a status; unless that text happens to contain "404" the tab shows it as a failure, with a retry button
  only, and a retry ends the same way.
\<close>

theorem missing_analysis_is_failure:
  assumes "f (Req GET (''/incidents/'' @ to_str i @ ''/ai-analysis'') JUndef JUndef) = Inl err"
    and "fld (fld (fld err ''response'') ''data'') ''detail'' = JStr (x # xs)"
    and "\<not> str_includes (x # xs) ''404''" and "x # xs \<noteq> ''pending''" and "\<not> truthy (tab_analysis d)"
  shows "page_shown (state_of (run (logging f) (fetchTabAnalysis i retry) d [])) False = Failed_page (x # xs)
    \<and> \<not> offers_generation (Failed_page (x # xs))"
  using assms
  by (simp add: fetchTabAnalysis_def getAIAnalysis_def api_get_def run_simps intercept_error_def not_there_yet_def
      message_or_def page_shown_def offers_generation_def)

definition not_analysed :: jsv where
  "not_analysed = JObj [(''response'', JObj [(''status'', jn 404),
     (''data'', JObj [(''detail'', JStr ''AI analysis not found for this incident'')])])]"

theorem missing_analysis_is_failure_witness:
  "page_shown (state_of (run (logging (\<lambda>_. Inl not_analysed)) (fetchTabAnalysis (JStr ''7'') False) init_aitab [])) False =
     Failed_page ''AI analysis not found for this incident''"
proof -
  have "\<not> str_includes ''AI analysis not found for this incident'' ''404''"
    by (simp add: str_includes_def sublist_code)
  then show ?thesis
    using missing_analysis_is_failure [of "\<lambda>_. Inl not_analysed" "JStr ''7''" not_analysed "CHR ''A''"
        "''I analysis not found for this incident''" init_aitab False]
    by (simp add: not_analysed_def init_aitab_def)
qed

text \<open>
  Applying a suggestion. The manager is asked once; when it refuses, its reason is shown and the analysis stays; when
  it answers with an object, the success is reported and the analysis is read again, whatever
  that second read gives; an empty answer, however, is reported as an error although the response was executed. The spinner is
  down in every case.
\<close>

theorem apply_outcome:
  fixes i shown :: jsv and f :: "request \<Rightarrow> response" and d :: aisug_st
  assumes "truthy (fld shown ''suggested_action'')"
  defines "q \<equiv> Req POST (''/incidents/'' @ to_str i @ ''/ai-analysis/apply-suggestion'') JUndef
      (JObj [(''analyst'', JStr ''analyst_soc'')])"
    and "again \<equiv> Req GET (''/incidents/'' @ to_str i @ ''/ai-analysis'') JUndef JUndef"
  shows "case run (logging f) (handleApply i shown False) d [] of (r, d', asked) \<Rightarrow>
    r = Inr JUndef \<and> \<not> applying d' \<and>
    (case f q of
       Inl err \<Rightarrow> asked = [q] \<and> sug_analysis d' = sug_analysis d \<and> refreshes d' = refreshes d
         \<and> sug_toasts d' = sug_toasts d @ [Toast_error (reason_of (intercept_error err) ''Loi khi ap dung phan ung'')]
     | Inr res \<Rightarrow>
         if nullishp (fld res ''data'')
         then asked = [q] \<and> refreshes d' = refreshes d \<and> sug_toasts d' = sug_toasts d @ [Toast_error ''TypeError'']
         else asked = [q, again] \<and> refreshes d' = Suc (refreshes d)
           \<and> sug_analysis d' = (case f again of Inl _ \<Rightarrow> JNull | Inr a \<Rightarrow> fld a ''data'')
           \<and> (\<exists>t. sug_toasts d' = sug_toasts d @ [Toast_ok t]))"
proof (cases "f q")
  case (Inl err)
  with assms(1) show ?thesis
    by (simp add: handleApply_def applyAISuggestion_def api_post_def run_simps q_def sug_toast_def)
next
  case (Inr res)
  have type_error: "reason_of type_error t = ''TypeError''" for t
    by (simp add: reason_of_def type_error_def)
  show ?thesis
  proof (cases "f again")
    case (Inl err)
    with Inr assms(1) show ?thesis
      by (auto simp: handleApply_def applyAISuggestion_def getAIAnalysis_def api_post_def api_get_def run_simps q_def
          again_def sug_toast_def fetchAnalysis_def get_def type_error)
  next
    case (Inr a)
    with \<open>f q = Inr res\<close> assms(1) show ?thesis
      by (auto simp: handleApply_def applyAISuggestion_def getAIAnalysis_def api_post_def api_get_def run_simps q_def
          again_def sug_toast_def fetchAnalysis_def get_def type_error)
  qed
qed

theorem apply_outcome_witness:
  "\<not> applying (state_of (run (logging (\<lambda>_. Inl JNull)) (handleApply (JStr ''7'') isolate_advice False) init_aisug []))
   \<and> refreshes (state_of (run (logging (\<lambda>_. Inl JNull)) (handleApply (JStr ''7'') isolate_advice False) init_aisug [])) = 0"
  using apply_outcome [where shown = isolate_advice and f = "\<lambda>_. Inl JNull" and i = "JStr ''7''" and d = init_aisug]
  by (auto simp: isolate_advice_def init_aisug_def split: prod.splits)

end
