(* ===== verification/ChainRulesHook.thy ===== *)
theory ChainRulesHook
  imports HookBase
begin

text \<open>
  \<open>src/frontend/src/hooks/useProcessChainRules.js\<close> and \<open>useProcessGroups.js\<close>: process-chain rules
  (newest first) and the process groups they refer to (newest last).
\<close>

section \<open>Process-chain rules\<close>

record chain_st = fetch_st +
  chainRules :: "jsv list"

definition init_chain :: chain_st where
  "init_chain = \<lparr>loading = True, error = JNull, chainRules = []\<rparr>"

definition loadChainRules :: "('z chain_st_scheme, jsv) act" where
  "loadChainRules = Upd (loading_update (\<lambda>_. True))
     (fin (catch
        (bnd (await (getProcessChainRules JUndef)) (\<lambda>data.
           Upd (chainRules_update (\<lambda>_. elems data)) (Upd (error_update (\<lambda>_. JNull)) (Ret JUndef))))
        (\<lambda>err. Upd (error_update (\<lambda>_. message_or err ''Failed to load process chain rules''))
           (Upd (chainRules_update (\<lambda>_. [])) (Ret JUndef))))
      (loading_update (\<lambda>_. False)))"

definition set_active :: "jsv \<Rightarrow> jsv \<Rightarrow> 'z chain_st_scheme \<Rightarrow> 'z chain_st_scheme" where
  "set_active ruleId v = chainRules_update (patch_by ''id'' ruleId (\<lambda>r. with_fld r ''is_active'' v))"

definition handleToggleActive :: "jsv list \<Rightarrow> jsv \<Rightarrow> ('z chain_st_scheme, jsv) act" where
  "handleToggleActive rendered ruleId =
     (case find_by ''id'' ruleId rendered of
        None \<Rightarrow> Ret JUndef
      | Some target \<Rightarrow>
          let newStatus = JBool (\<not> truthy (fld target ''is_active'')) in
          optimistic (set_active ruleId newStatus)
            (tbind (updateProcessChainRule ruleId (JObj [(''is_active'', newStatus)])) (\<lambda>_. Inr JUndef))
            (\<lambda>_ s. s)
            (set_active ruleId (fld target ''is_active'')))"

definition handleCreateChainRule :: "jsv \<Rightarrow> ('z chain_st_scheme, jsv) act" where
  "handleCreateChainRule payload =
     bnd (await (createProcessChainRule payload)) (\<lambda>created.
       Upd (chainRules_update (\<lambda>prev. created # prev)) (Ret created))"

definition handleUpdateChainRule :: "jsv \<Rightarrow> jsv \<Rightarrow> ('z chain_st_scheme, jsv) act" where
  "handleUpdateChainRule ruleId payload =
     bnd (await (updateProcessChainRule ruleId payload)) (\<lambda>updated.
       Upd (chainRules_update (patch_by ''id'' ruleId (\<lambda>r. spread2 r updated))) (Ret updated))"

definition handleDeleteChainRule :: "jsv list \<Rightarrow> jsv \<Rightarrow> ('z chain_st_scheme, jsv) act" where
  "handleDeleteChainRule rendered ruleId =
     optimistic (chainRules_update (remove_by ''id'' ruleId))
       (tbind (deleteProcessChainRule ruleId) (\<lambda>_. Inr JUndef))
       (\<lambda>_ s. s)
       (chainRules_update (\<lambda>_. rendered))"

definition chain_ops :: "chain_st \<Rightarrow> (chain_st, jsv) act set" where
  "chain_ops s = {loadChainRules} \<union> range (handleToggleActive (chainRules s))
     \<union> range handleCreateChainRule \<union> {handleUpdateChainRule i p | i p. True}
     \<union> range (handleDeleteChainRule (chainRules s))"

lemma set_active_undo:
  assumes "keyed ''id'' (chainRules s)" and "carries ''is_active'' (chainRules s)"
    and "find_by ''id'' ruleId (chainRules s) = Some t"
  shows "set_active ruleId (fld t ''is_active'') (set_active ruleId v s) = s"
  using patch_field_undo [OF assms(1,2) _ assms(3)] by (simp add: set_active_def)

interpretation chain_toggle: rollback "set_active ruleId v" "set_active ruleId old"
  "\<lambda>s. keyed ''id'' (chainRules s) \<and> carries ''is_active'' (chainRules s) \<and>
     (\<exists>t. find_by ''id'' ruleId (chainRules s) = Some t \<and> fld t ''is_active'' = old)"
  for ruleId v old
  by unfold_locales (auto intro: set_active_undo)

interpretation chain_delete: rollback "chainRules_update (remove_by ''id'' ruleId)"
  "chainRules_update (\<lambda>_. rendered)" "\<lambda>s. chainRules s = rendered"
  for ruleId rendered
  by unfold_locales auto

lemma loadChainRules_owes: "owes loading loadChainRules"
  by (simp add: loadChainRules_def owes_fin)

interpretation chain_spinner: spinner chain_ops ok loading for ok
proof
  fix m s
  assume "m \<in> chain_ops s"
  then show "settles loading m"
    by (auto simp: chain_ops_def owes_settles [OF loadChainRules_owes] handleToggleActive_def handleCreateChainRule_def set_active_def
        handleUpdateChainRule_def handleDeleteChainRule_def Let_def
        intro!: settles_optimistic settles_bnd split: option.splits)
qed

section \<open>Process groups\<close>

record pgroup_st = fetch_st +
  pgroups :: "jsv list"

definition init_pgroups :: pgroup_st where
  "init_pgroups = \<lparr>loading = True, error = JNull, pgroups = []\<rparr>"

definition loadGroups :: "('z pgroup_st_scheme, jsv) act" where
  "loadGroups = Upd (loading_update (\<lambda>_. True))
     (fin (catch
        (bnd (await (getProcessGroups JUndef)) (\<lambda>data.
           Upd (pgroups_update (\<lambda>_. elems data)) (Upd (error_update (\<lambda>_. JNull)) (Ret JUndef))))
        (\<lambda>err. Upd (error_update (\<lambda>_. message_or err ''Failed to load process groups''))
           (Upd (pgroups_update (\<lambda>_. [])) (Ret JUndef))))
      (loading_update (\<lambda>_. False)))"

definition handleCreatePGroup :: "jsv \<Rightarrow> ('z pgroup_st_scheme, jsv) act" where
  "handleCreatePGroup payload =
     bnd (await (createProcessGroup payload)) (\<lambda>created.
       Upd (pgroups_update (\<lambda>prev. prev @ [created])) (Ret created))"

definition handleUpdatePGroup :: "jsv \<Rightarrow> jsv \<Rightarrow> ('z pgroup_st_scheme, jsv) act" where
  "handleUpdatePGroup groupId payload =
     bnd (await (updateProcessGroup groupId payload)) (\<lambda>updated.
       Upd (pgroups_update (patch_by ''id'' groupId (\<lambda>g. spread2 g updated))) (Ret updated))"

definition handleDeletePGroup :: "jsv list \<Rightarrow> jsv \<Rightarrow> ('z pgroup_st_scheme, jsv) act" where
  "handleDeletePGroup rendered groupId =
     optimistic (pgroups_update (remove_by ''id'' groupId))
       (tbind (deleteProcessGroup groupId) (\<lambda>_. Inr JUndef))
       (\<lambda>_ s. s)
       (pgroups_update (\<lambda>_. rendered))"

definition pgroup_ops :: "pgroup_st \<Rightarrow> (pgroup_st, jsv) act set" where
  "pgroup_ops s = {loadGroups} \<union> range handleCreatePGroup \<union> {handleUpdatePGroup i p | i p. True}
     \<union> range (handleDeletePGroup (pgroups s))"

interpretation pgroup_delete: rollback "pgroups_update (remove_by ''id'' groupId)"
  "pgroups_update (\<lambda>_. rendered)" "\<lambda>s. pgroups s = rendered"
  for groupId rendered
  by unfold_locales auto

lemma loadGroups_owes: "owes loading loadGroups"
  by (simp add: loadGroups_def owes_fin)

interpretation pgroup_spinner: spinner pgroup_ops ok loading for ok
proof
  fix m s
  assume "m \<in> pgroup_ops s"
  then show "settles loading m"
    by (auto simp: pgroup_ops_def owes_settles [OF loadGroups_owes] handleCreatePGroup_def handleUpdatePGroup_def handleDeletePGroup_def
        intro!: settles_optimistic settles_bnd)
qed

section \<open>Properties\<close>

text \<open>
  A process group whose deletion the server refuses is back in the list, at its old place, and
  the error reaches the caller; one whose deletion succeeds is gone and every other group stays,
  in order.
\<close>

theorem delete_pgroup_outcome:
  "run (logging f) (handleDeletePGroup (pgroups s) i) s [] =
    (case f (Req DELETE (''/process-groups/'' @ to_str i) JUndef JUndef) of
       Inl err \<Rightarrow> (Inl (intercept_error err), s, [Req DELETE (''/process-groups/'' @ to_str i) JUndef JUndef])
     | Inr _ \<Rightarrow> (Inr JUndef, s\<lparr>pgroups := [g \<leftarrow> pgroups s. \<not> strict_eq (fld g ''id'') i]\<rparr>,
                  [Req DELETE (''/process-groups/'' @ to_str i) JUndef JUndef]))"
  using pgroup_delete.undo_do [of s "pgroups s" i]
  by (auto simp: handleDeletePGroup_def deleteProcessGroup_def api_delete_def remove_by_def has_id_def
      split: sum.splits)

end
