(* ===== verification/ChainRulesPage.thy ===== *)
theory ChainRulesPage
  imports ChainRulesHook Texts
begin

text \<open>
  The process-chain screens of \<open>components/rules/\<close>: \<open>ProcessChainRulesTab.jsx\<close> (the rules, on the state of
  \<open>useProcessChainRules\<close>) and \<open>ProcessGroupsTab.jsx\<close> (the groups, on the state of \<open>useProcessGroups\<close>), each with its
  form; \<open>onNotice\<close> is \<open>showNotice\<close> of \<open>ProcessChainManager.jsx\<close>, whose notice is kept with each.
\<close>

definition quoted :: "jsv \<Rightarrow> string" where
  "quoted v = [CHR 0x27] @ to_str v @ [CHR 0x27]"

text \<open>\<open>try { await m; onNotice(ok) } catch (err) { onNotice(`${bad}${err.message}`, true) }\<close>\<close>

definition told :: "(string \<Rightarrow> bool \<Rightarrow> 's \<Rightarrow> 's) \<Rightarrow> ('s, jsv) act \<Rightarrow> string \<Rightarrow> string \<Rightarrow> ('s, jsv) act" where
  "told note m ok bad = catch (bnd m (\<lambda>_. Upd (note ok False) (Ret JUndef)))
     (\<lambda>err. Upd (note (bad @ to_str (fld err ''message'')) True) (Ret JUndef))"

section \<open>Rules\<close>

record chain_form =
  cf_name :: jsv
  cf_parent :: jsv
  cf_child :: jsv
  cf_action :: jsv
  cf_active :: jsv

record chainpage_st = chain_st +
  chNotice :: "(string \<times> bool) option"
  chOpen :: bool
  chEditing :: jsv
  chForm :: chain_form
  chFormError :: jsv
  chSaving :: bool

definition blank_chain :: chain_form where
  "blank_chain = \<lparr>cf_name = JStr '''', cf_parent = JStr '''', cf_child = JStr '''', cf_action = JStr ''alert'', cf_active = JBool True\<rparr>"

definition init_chainpage :: chainpage_st where
  "init_chainpage = \<lparr>loading = True, error = JNull, chainRules = [], chNotice = None, chOpen = False, chEditing = JNull,
     chForm = blank_chain, chFormError = JStr '''', chSaving = False\<rparr>"

definition chain_note :: "string \<Rightarrow> bool \<Rightarrow> chainpage_st \<Rightarrow> chainpage_st" where
  "chain_note msg isError = chNotice_update (\<lambda>_. Some (msg, isError))"

definition chain_rule_matches :: "string \<Rightarrow> jsv \<Rightarrow> bool res" where
  "chain_rule_matches search r =
     ror (low_has (fld r ''name'') search)
       (ror (low_has (js_or (fld (fld r ''parent_group'') ''name'') (JStr '''')) search)
       (ror (low_has (js_or (fld (fld r ''child_group'') ''name'') (JStr '''')) search)
         (low_has (fld r ''action'') search)))"

definition filteredChainRules :: "string \<Rightarrow> jsv list \<Rightarrow> jsv list res" where
  "filteredChainRules search rs = (if trim search = [] then Inr rs else rfilter (chain_rule_matches search) rs)"

definition group_id_at :: "nat \<Rightarrow> jsv list \<Rightarrow> jsv" where
  \<comment> \<open>\<open>groups[i]?.id\<close>\<close>
  "group_id_at i gs = (if i < length gs then fld (gs ! i) ''id'' else JUndef)"

definition open_chain_create :: "jsv list \<Rightarrow> chainpage_st \<Rightarrow> chainpage_st" where
  "open_chain_create gs s =
     (if gs = [] then s\<lparr>chFormError := JStr ''No process groups found. Please create at least one Process Group first.'',
        chOpen := True\<rparr>
      else s\<lparr>chEditing := JNull,
        chForm := blank_chain\<lparr>cf_parent := js_or (group_id_at 0 gs) (JStr ''''),
          cf_child := js_or (group_id_at 1 gs) (js_or (group_id_at 0 gs) (JStr ''''))\<rparr>,
        chFormError := JStr '''', chOpen := True\<rparr>)"

definition edit_chain_form :: "jsv \<Rightarrow> chain_form" where
  "edit_chain_form r = \<lparr>cf_name = fld r ''name'', cf_parent = fld r ''parent_group_id'', cf_child = fld r ''child_group_id'',
     cf_action = js_or (fld r ''action'') (JStr ''alert''), cf_active = dflt (fld r ''is_active'') (JBool True)\<rparr>"

definition open_chain_edit :: "jsv \<Rightarrow> chainpage_st \<Rightarrow> chainpage_st" where
  "open_chain_edit r s = s\<lparr>chEditing := r, chForm := edit_chain_form r, chFormError := JStr '''', chOpen := True\<rparr>"

definition chain_payload :: "string \<Rightarrow> chain_form \<Rightarrow> jsv" where
  "chain_payload name fm = JObj [(''name'', JStr name), (''parent_group_id'', cf_parent fm), (''child_group_id'', cf_child fm),
     (''action'', cf_action fm), (''is_active'', cf_active fm)]"

definition save_chain_rule :: "jsv \<Rightarrow> jsv \<Rightarrow> (chainpage_st, jsv) act" where
  \<comment> \<open>the try block, with the rule that is edited, if any\<close>
  "save_chain_rule editing payload = thn
     (if truthy editing
      then bnd (lift (get editing ''id'')) (\<lambda>i. bnd (handleUpdateChainRule i payload) (\<lambda>_.
        Upd (chain_note (''Updated process chain rule '' @ quoted (fld payload ''name'')) False) (Ret JUndef)))
      else bnd (handleCreateChainRule payload) (\<lambda>_.
        Upd (chain_note (''Created process chain rule '' @ quoted (fld payload ''name'')) False) (Ret JUndef)))
     (Upd (chOpen_update (\<lambda>_. False)) (Ret JUndef))"

definition chain_submit :: "chain_form \<Rightarrow> jsv \<Rightarrow> (chainpage_st, jsv) act" where
  "chain_submit fm editing = bnd (lift (trim_of (cf_name fm))) (\<lambda>name.
     if name = [] then Upd (chFormError_update (\<lambda>_. JStr ''Rule name is required.'')) (Ret JUndef)
     else if \<not> truthy (cf_parent fm)
       then Upd (chFormError_update (\<lambda>_. JStr ''Parent Process Group must be selected.'')) (Ret JUndef)
     else if \<not> truthy (cf_child fm)
       then Upd (chFormError_update (\<lambda>_. JStr ''Child Process Group must be selected.'')) (Ret JUndef)
     else Upd (chSaving_update (\<lambda>_. True)) (Upd (chFormError_update (\<lambda>_. JStr '''')) (fin (catch
       (save_chain_rule editing (chain_payload name fm))
       (\<lambda>err. Upd (chFormError_update (\<lambda>_. message_or err ''Failed to save process chain rule.'')) (Ret JUndef)))
      (chSaving_update (\<lambda>_. False)))))"

definition chain_toggle_rule :: "jsv list \<Rightarrow> jsv \<Rightarrow> (chainpage_st, jsv) act" where
  "chain_toggle_rule rendered r = told chain_note (handleToggleActive rendered (fld r ''id''))
     (''Rule '' @ quoted (fld r ''name'') @ '' is now '' @ (if \<not> truthy (fld r ''is_active'') then ''active'' else ''disabled''))
     ''Failed to toggle rule: ''"

definition chain_delete_rule :: "jsv list \<Rightarrow> jsv \<Rightarrow> bool \<Rightarrow> (chainpage_st, jsv) act" where
  "chain_delete_rule rendered r confirmed =
     (if \<not> confirmed then Ret JUndef
      else told chain_note (handleDeleteChainRule rendered (fld r ''id'')) (''Deleted rule '' @ quoted (fld r ''name''))
        ''Failed to delete rule: '')"

section \<open>Groups\<close>

record pg_form =
  pf_name :: jsv
  pf_desc :: jsv
  pf_patterns :: "jsv list"
  pf_input :: string

record pgpage_st = pgroup_st +
  pgNotice :: "(string \<times> bool) option"
  pgOpen :: bool
  pgEditing :: jsv
  pgForm :: pg_form
  pgFormError :: jsv
  pgSaving :: bool

definition blank_group :: pg_form where
  "blank_group = \<lparr>pf_name = JStr '''', pf_desc = JStr '''', pf_patterns = [], pf_input = []\<rparr>"

definition init_pgpage :: pgpage_st where
  "init_pgpage = \<lparr>loading = True, error = JNull, pgroups = [], pgNotice = None, pgOpen = False, pgEditing = JNull,
     pgForm = blank_group, pgFormError = JStr '''', pgSaving = False\<rparr>"

definition group_note :: "string \<Rightarrow> bool \<Rightarrow> pgpage_st \<Rightarrow> pgpage_st" where
  "group_note msg isError = pgNotice_update (\<lambda>_. Some (msg, isError))"

fun some_pattern_has :: "string \<Rightarrow> jsv list \<Rightarrow> bool res" where
  "some_pattern_has q [] = Inr False"
| "some_pattern_has q (p # ps) = ror (low_has p q) (some_pattern_has q ps)"

definition pgroup_matches :: "string \<Rightarrow> jsv \<Rightarrow> bool res" where
  "pgroup_matches search g =
     ror (low_has (fld g ''name'') search)
       (ror (if_truthy (fld g ''description'') (low_has (fld g ''description'') search))
         (if_truthy (fld g ''patterns'') (case fld g ''patterns'' of JArr ps \<Rightarrow> some_pattern_has search ps | _ \<Rightarrow> Inl type_error)))"

definition filteredPGroups :: "string \<Rightarrow> jsv list \<Rightarrow> jsv list res" where
  "filteredPGroups search gs = (if trim search = [] then Inr gs else rfilter (pgroup_matches search) gs)"

definition open_group_create :: "pgpage_st \<Rightarrow> pgpage_st" where
  "open_group_create s = s\<lparr>pgEditing := JNull, pgForm := blank_group, pgFormError := JStr '''', pgOpen := True\<rparr>"

definition open_group_edit :: "jsv \<Rightarrow> pgpage_st \<Rightarrow> pgpage_st" where
  "open_group_edit g s = s\<lparr>pgEditing := g,
     pgForm := \<lparr>pf_name = fld g ''name'', pf_desc = js_or (fld g ''description'') (JStr ''''),
       pf_patterns = elems (fld g ''patterns''), pf_input = []\<rparr>,
     pgFormError := JStr '''', pgOpen := True\<rparr>"

definition pattern_sep :: "char \<Rightarrow> bool" where
  "pattern_sep c \<longleftrightarrow> c = CHR '','' \<or> is_space c"

definition new_patterns :: "jsv list \<Rightarrow> string \<Rightarrow> jsv list" where
  \<comment> \<open>\<open>parts\<close>\<close>
  "new_patterns shown raw = map JStr (filter (\<lambda>p. p \<noteq> [] \<and> JStr p \<notin> set shown)
     (map (\<lambda>p. lower (trim p)) (split_runs pattern_sep raw)))"

definition handleAddPattern :: "pg_form \<Rightarrow> pgpage_st \<Rightarrow> pgpage_st" where
  \<comment> \<open>with the form of the rendering\<close>
  "handleAddPattern fm s =
     (let raw = trim (pf_input fm); parts = new_patterns (pf_patterns fm) raw in
      if raw = [] then s
      else if parts = [] \<and> JStr (lower raw) \<in> set (pf_patterns fm)
        then s\<lparr>pgFormError := JStr (''Pattern '' @ quoted (JStr raw) @ '' is already added.'')\<rparr>
      else s\<lparr>pgForm := (pgForm s)\<lparr>pf_patterns := pf_patterns (pgForm s) @ parts, pf_input := []\<rparr>, pgFormError := JStr ''''\<rparr>)"

definition handleKeyDownPattern :: "string \<Rightarrow> pg_form \<Rightarrow> pgpage_st \<Rightarrow> pgpage_st" where
  "handleKeyDownPattern key fm = (if key = ''Enter'' \<or> key = '','' then handleAddPattern fm else id)"

definition handleRemovePattern :: "nat \<Rightarrow> pgpage_st \<Rightarrow> pgpage_st" where
  "handleRemovePattern i s =
     s\<lparr>pgForm := (pgForm s)\<lparr>pf_patterns := take i (pf_patterns (pgForm s)) @ drop (Suc i) (pf_patterns (pgForm s))\<rparr>\<rparr>"

definition group_payload :: "string \<Rightarrow> string \<Rightarrow> jsv list \<Rightarrow> jsv" where
  "group_payload name desc pats = JObj [(''name'', JStr name), (''description'', JStr desc), (''patterns'', JArr pats)]"

definition save_pgroup :: "jsv \<Rightarrow> pg_form \<Rightarrow> string \<Rightarrow> (pgpage_st, jsv) act" where
  "save_pgroup editing fm name = bnd (lift (trim_of (pf_desc fm))) (\<lambda>desc.
     let payload = group_payload name desc (pf_patterns fm) in thn
       (if truthy editing
        then bnd (lift (get editing ''id'')) (\<lambda>i. bnd (handleUpdatePGroup i payload) (\<lambda>_.
          Upd (group_note (''Updated process group '' @ quoted (JStr name) @ '' successfully!'') False) (Ret JUndef)))
        else bnd (handleCreatePGroup payload) (\<lambda>_.
          Upd (group_note (''Created process group '' @ quoted (JStr name) @ '' successfully!'') False) (Ret JUndef)))
       (Upd (pgOpen_update (\<lambda>_. False)) (Ret JUndef)))"

definition group_submit :: "pg_form \<Rightarrow> jsv \<Rightarrow> (pgpage_st, jsv) act" where
  "group_submit fm editing = bnd (lift (trim_of (pf_name fm))) (\<lambda>name.
     if name = [] then Upd (pgFormError_update (\<lambda>_. JStr ''Group name is required.'')) (Ret JUndef)
     else if pf_patterns fm = []
       then Upd (pgFormError_update (\<lambda>_. JStr ''Please provide at least one process pattern.'')) (Ret JUndef)
     else Upd (pgSaving_update (\<lambda>_. True)) (Upd (pgFormError_update (\<lambda>_. JStr '''')) (fin (catch
       (save_pgroup editing fm name)
       (\<lambda>err. Upd (pgFormError_update (\<lambda>_. message_or err ''Failed to save process group.'')) (Ret JUndef)))
      (pgSaving_update (\<lambda>_. False)))))"

definition in_use_text :: "jsv \<Rightarrow> string" where
  "in_use_text g = ''Cannot delete '' @ quoted (fld g ''name'')
     @ '': It is currently referenced by active Process Chain Rules. Please remove or update the rules first.''"

definition group_delete :: "jsv list \<Rightarrow> jsv \<Rightarrow> bool \<Rightarrow> (pgpage_st, jsv) act" where
  "group_delete rendered g confirmed =
     (if \<not> confirmed then Ret JUndef
      else catch (bnd (handleDeletePGroup rendered (fld g ''id'')) (\<lambda>_.
          Upd (group_note (''Deleted process group '' @ quoted (fld g ''name'')) False) (Ret JUndef)))
        (\<lambda>err. let msg = js_or (fld err ''message'') (JStr '''') in
          bnd (lift (ror (has_text msg ''409'') (ror (has_text msg ''referenced'') (has_text msg ''rule'')))) (\<lambda>in_use.
            Upd (if in_use then group_note (in_use_text g) True
              else group_note (''Failed to delete process group: '' @ to_str msg) True) (Ret JUndef))))"

section \<open>Lemmas\<close>

definition clean_pattern :: "jsv \<Rightarrow> bool" where
  \<comment> \<open>one pattern as the form means it: some text in lower case, without separators\<close>
  "clean_pattern v \<longleftrightarrow> (\<exists>t. v = JStr t \<and> t \<noteq> [] \<and> lower t = t \<and> (\<forall>c\<in>set t. \<not> pattern_sep c))"

lemma sep_code: "pattern_sep c \<Longrightarrow> of_char c \<le> (44 :: nat)"
  by (auto simp: pattern_sep_def is_space_def)

lemma sep_lower: "pattern_sep (lower_char c) \<Longrightarrow> pattern_sep c"
proof (cases "65 \<le> (of_char c :: nat) \<and> (of_char c :: nat) \<le> 90")
  case True
  assume "pattern_sep (lower_char c)"
  then have "of_char (lower_char c) \<le> (44 :: nat)" by (rule sep_code)
  moreover have "of_char (lower_char c) = (of_char c :: nat) + 32"
    using True by (simp add: lower_char_def of_char_of)
  ultimately show ?thesis using True by simp
next
  case False
  assume "pattern_sep (lower_char c)"
  then show ?thesis using False by (auto simp: lower_char_def Let_def split: if_splits)
qed

lemma new_patterns_clean: "list_all clean_pattern (new_patterns shown raw)"
proof -
  have "\<not> pattern_sep c" if "p \<in> set (split_runs pattern_sep raw)" "c \<in> set (lower (trim p))" for p c
  proof -
    from that(2) obtain d where "d \<in> set (trim p)" "c = lower_char d" by (auto simp: lower_def)
    moreover then have "d \<in> set p" using set_trim by blast
    ultimately show ?thesis using split_runs_no_sep [OF that(1)] sep_lower by blast
  qed
  then show ?thesis
    by (auto simp: list_all_iff new_patterns_def clean_pattern_def)
qed

text \<open>The group form from its opening for a new group on, whatever is typed, added, with any rendering's form, and removed.\<close>

inductive form_reach :: "pgpage_st \<Rightarrow> bool" where
  opened: "form_reach (open_group_create s)"
| typed: "form_reach s \<Longrightarrow> form_reach (s\<lparr>pgForm := (pgForm s)\<lparr>pf_name := JStr n, pf_desc := JStr d, pf_input := i\<rparr>\<rparr>)"
| added: "form_reach s \<Longrightarrow> form_reach (handleAddPattern fm s)"
| removed: "form_reach s \<Longrightarrow> form_reach (handleRemovePattern i s)"

lemma form_reach_clean: "form_reach s \<Longrightarrow> list_all clean_pattern (pf_patterns (pgForm s)) \<and> pgEditing s = JNull"
proof (induction rule: form_reach.induct)
  case (added s fm)
  then show ?case by (simp add: handleAddPattern_def Let_def new_patterns_clean)
next
  case (removed s i)
  then show ?case
    by (auto simp: handleRemovePattern_def list_all_iff dest: in_set_takeD in_set_dropD)
qed (auto simp: open_group_create_def blank_group_def)

section \<open>Properties\<close>

text \<open>
  C30: whatever is typed into the form for a new process group, every pattern it collects is a non-empty text in lower case
  without commas and white space, and what is sent when the form is submitted is a new group with just these
  patterns, at least one; without a name or a pattern nothing is sent.
\<close>

theorem group_patterns_clean:
  assumes "form_reach s" and "pf_name (pgForm s) = JStr n" and "pf_desc (pgForm s) = JStr d"
  shows "list_all clean_pattern (pf_patterns (pgForm s))
    \<and> world_of (run (logging f) (group_submit (pgForm s) (pgEditing s)) s []) =
       (if trim n = [] then [] else if pf_patterns (pgForm s) = [] then []
        else [Req POST ''/process-groups/'' JUndef (group_payload (trim n) (trim d) (pf_patterns (pgForm s)))])"
proof -
  let ?q = "Req POST ''/process-groups/'' JUndef (group_payload (trim n) (trim d) (pf_patterns (pgForm s)))"
  from form_reach_clean [OF assms(1)] show ?thesis
    using assms(2,3)
    by (cases "f ?q") (auto simp: group_submit_def save_pgroup_def handleCreatePGroup_def createProcessGroup_def api_post_def
        run_simps Let_def split: sum.splits)
qed

lemma one_pattern:
  assumes "clean_pattern (JStr t)"
  shows "trim t = t \<and> new_patterns [] t = [JStr t]"
proof -
  from assms have t: "t \<noteq> []" "lower t = t" "\<forall>c\<in>set t. \<not> pattern_sep c" by (auto simp: clean_pattern_def)
  then have "trim t = t" by (intro trim_no_space) (auto simp: pattern_sep_def)
  with t show ?thesis by (simp add: new_patterns_def split_runs_plain)
qed

definition one_pattern_form :: pgpage_st where
  "one_pattern_form = handleAddPattern (blank_group\<lparr>pf_input := ''a''\<rparr>) (open_group_create init_pgpage)"

lemma clean_a: "clean_pattern (JStr ''a'')"
  by (simp add: clean_pattern_def pattern_sep_def is_space_def lower_def lower_char_def)

lemma one_pattern_form_is: "pgForm one_pattern_form = blank_group\<lparr>pf_patterns := [JStr ''a'']\<rparr>"
  using one_pattern [OF clean_a]
  by (simp add: one_pattern_form_def handleAddPattern_def open_group_create_def blank_group_def Let_def)

theorem group_patterns_clean_witness:
  "list_all clean_pattern (pf_patterns (pgForm one_pattern_form)) \<and> pf_patterns (pgForm one_pattern_form) \<noteq> []"
proof -
  have "form_reach one_pattern_form" unfolding one_pattern_form_def by (rule added) (rule opened)
  from group_patterns_clean [OF this, of "''''" "''''" "\<lambda>_. Inl JNull"] show ?thesis
    by (simp add: one_pattern_form_is blank_group_def)
qed

text \<open>
  A pattern pasted twice at once is added twice, although one that is already there is refused: the check looks at the
  patterns of the rendering only.
\<close>

theorem repeated_pattern_added:
  assumes "clean_pattern (JStr t)" and "JStr t \<notin> set (pf_patterns (pgForm s))" and "pf_input (pgForm s) = t @ CHR '','' # t"
  shows "pf_patterns (pgForm (handleAddPattern (pgForm s) s)) = pf_patterns (pgForm s) @ [JStr t, JStr t]"
proof -
  from assms(1) have t: "t \<noteq> []" "lower t = t" "\<forall>c\<in>set t. \<not> pattern_sep c" by (auto simp: clean_pattern_def)
  have "\<forall>c\<in>set t. \<not> is_space c" using t(3) by (simp add: pattern_sep_def)
  then have "trim t = t" and "trim (t @ CHR '','' # t) = t @ CHR '','' # t"
    by (simp_all add: trim_no_space is_space_def)
  moreover have "pattern_sep CHR '',''" by (simp add: pattern_sep_def)
  ultimately show ?thesis
    using t assms(2,3)
    by (simp add: handleAddPattern_def new_patterns_def split_runs_append split_runs_plain dropWhile_none Let_def)
qed

theorem repeated_pattern_added_witness:
  "pf_patterns (pgForm (handleAddPattern (blank_group\<lparr>pf_input := ''a,a''\<rparr>) (init_pgpage\<lparr>pgForm := blank_group\<lparr>pf_input := ''a,a''\<rparr>\<rparr>)))
     = [JStr ''a'', JStr ''a'']"
  using repeated_pattern_added [OF clean_a, of "init_pgpage\<lparr>pgForm := blank_group\<lparr>pf_input := ''a,a''\<rparr>\<rparr>"]
  by (simp add: blank_group_def)

text \<open>A rule as the manager stores it.\<close>

definition stored_chain :: "jsv \<Rightarrow> bool" where
  "stored_chain r \<longleftrightarrow> truthy r \<and> (\<exists>n a b. fld r ''name'' = JStr n \<and> trim n = n \<and> n \<noteq> [] \<and> fld r ''action'' = JStr a \<and> a \<noteq> []
     \<and> fld r ''is_active'' = JBool b) \<and> truthy (fld r ''parent_group_id'') \<and> truthy (fld r ''child_group_id'')"

definition update_chain_req :: "jsv \<Rightarrow> request" where
  "update_chain_req r = Req PUT (''/process-chain-rules/'' @ to_str (fld r ''id'')) JUndef
     (JObj (map (\<lambda>k. (k, fld r k)) [''name'', ''parent_group_id'', ''child_group_id'', ''action'', ''is_active'']))"

lemma submit_unchanged:
  assumes "stored_chain r"
  shows "run (logging f) (chain_submit (edit_chain_form r) r) t [] = (Inr JUndef,
    (case f (update_chain_req r) of
       Inl err \<Rightarrow> t\<lparr>chSaving := False, chFormError := message_or (intercept_error err) ''Failed to save process chain rule.''\<rparr>
     | Inr res \<Rightarrow> t\<lparr>chSaving := False, chFormError := JStr '''', chOpen := False,
         chNotice := Some (''Updated process chain rule '' @ quoted (fld r ''name''), False),
         chainRules := patch_by ''id'' (fld r ''id'') (\<lambda>x. spread2 x (fld res ''data'')) (chainRules t)\<rparr>),
    [update_chain_req r])"
proof -
  from assms(1) obtain n a b where r: "truthy r" "fld r ''name'' = JStr n" "trim n = n" "n \<noteq> []" "fld r ''action'' = JStr a"
    "a \<noteq> []" "fld r ''is_active'' = JBool b" "truthy (fld r ''parent_group_id'')" "truthy (fld r ''child_group_id'')"
    unfolding stored_chain_def by blast
  have i: "get r ''id'' = Inr (fld r ''id'')" using r(1) by (cases r) (auto simp: get_def)
  have "chain_submit (edit_chain_form r) r =
      Upd (chSaving_update (\<lambda>_. True)) (Upd (chFormError_update (\<lambda>_. JStr '''')) (fin (catch
        (save_chain_rule r (req_body (update_chain_req r)))
        (\<lambda>err. Upd (chFormError_update (\<lambda>_. message_or err ''Failed to save process chain rule.'')) (Ret JUndef)))
       (chSaving_update (\<lambda>_. False))))"
    using r by (simp add: chain_submit_def edit_chain_form_def chain_payload_def update_chain_req_def)
  then show ?thesis
    using r(1,2) by (simp add: save_chain_rule_def i handleUpdateChainRule_def updateProcessChainRule_def api_put_def
        update_chain_req_def run_simps chain_note_def split: sum.splits)
qed

text \<open>
  C31: opening a stored process-chain rule and submitting its form unchanged sends exactly the fields of the rule, to that
  rule; with the manager's consent the dialog closes and the rule is patched in its place, when it is refused the
  list is untouched and the dialog stays open with the reason.
\<close>

theorem chain_edit_roundtrip:
  assumes "stored_chain r"
  shows "case run (logging f) (chain_submit (edit_chain_form r) r) (open_chain_edit r s) [] of (v, s', asked) \<Rightarrow>
    v = Inr JUndef \<and> asked = [update_chain_req r] \<and> \<not> chSaving s' \<and>
    (case f (update_chain_req r) of
       Inl err \<Rightarrow> chOpen s' \<and> chainRules s' = chainRules s
         \<and> chFormError s' = message_or (intercept_error err) ''Failed to save process chain rule.''
     | Inr res \<Rightarrow> \<not> chOpen s'
         \<and> chainRules s' = patch_by ''id'' (fld r ''id'') (\<lambda>x. spread2 x (fld res ''data'')) (chainRules s))"
  by (simp add: submit_unchanged [OF assms] open_chain_edit_def split: sum.splits)

definition word_rule :: jsv where
  "word_rule = JObj [(''id'', jn 3), (''name'', JStr ''w''), (''parent_group_id'', jn 1), (''child_group_id'', jn 2),
     (''action'', JStr ''block''), (''is_active'', JBool False)]"

lemma stored_word_rule: "stored_chain word_rule"
proof -
  have "trim ''w'' = ''w''" by (rule trim_no_space) (simp add: is_space_def)
  then have "truthy word_rule \<and> fld word_rule ''name'' = JStr ''w'' \<and> trim ''w'' = ''w'' \<and> ''w'' \<noteq> []
      \<and> fld word_rule ''action'' = JStr ''block'' \<and> ''block'' \<noteq> [] \<and> fld word_rule ''is_active'' = JBool False"
    and "truthy (fld word_rule ''parent_group_id'') \<and> truthy (fld word_rule ''child_group_id'')"
    by (simp_all add: word_rule_def)
  then show ?thesis unfolding stored_chain_def by blast
qed

theorem chain_edit_roundtrip_witness:
  "chOpen (state_of (run (logging (\<lambda>_. Inl JNull)) (chain_submit (edit_chain_form word_rule) word_rule)
     (open_chain_edit word_rule init_chainpage) []))"
  using chain_edit_roundtrip [OF stored_word_rule, where f = "\<lambda>_. Inl JNull" and s = init_chainpage]
  by (simp split: prod.splits)

text \<open>
  While there are no process groups, the button for a new rule opens the dialog without forgetting the rule edited before:
  once groups are there, submitting it changes that rule.
\<close>

theorem create_without_groups_edits:
  assumes "stored_chain r" and "t = open_chain_create [] (open_chain_edit r s)"
  shows "chOpen t \<and> chEditing t = r
    \<and> world_of (run (logging f) (chain_submit (chForm t) (chEditing t)) t []) = [update_chain_req r]"
proof -
  have t: "chOpen t" "chEditing t = r" "chForm t = edit_chain_form r"
    by (simp_all add: assms(2) open_chain_create_def open_chain_edit_def)
  then show ?thesis by (simp add: submit_unchanged [OF assms(1)])
qed

theorem create_without_groups_edits_witness:
  "chEditing (open_chain_create [] (open_chain_edit word_rule init_chainpage)) = word_rule"
  using create_without_groups_edits [OF stored_word_rule refl, where f = "\<lambda>_. Inl JNull" and s = init_chainpage] by simp

end
