(* ===== verification/StoredHooks.thy ===== *)
theory StoredHooks
  imports HookBase
begin

text \<open>
  The hooks that fall back to built-in data: useSettings, useNotifications and useWhitelist of
  \<open>src/frontend/src/hooks/\<close>. They show defaults when the server has nothing, and keep local edits
  the server refused.
\<close>

section \<open>useSettings\<close>

definition DEFAULT_RISK :: jsv where
  "DEFAULT_RISK = JObj [(''incident_creation_threshold'', jn 50), (''auto_kill_threshold'', jn 85),
     (''auto_isolate'', jn 85), (''alert_with_buttons'', jn 70), (''alert'', jn 50), (''log'', jn 20)]"

definition DEFAULT_FILE :: jsv where
  "DEFAULT_FILE = JObj [(''file_changes_critical'', jn 100), (''file_changes_elevated'', jn 30)]"

definition DEFAULT_SETTINGS :: obj where
  "DEFAULT_SETTINGS = [(''risk_thresholds'', DEFAULT_RISK), (''file_changes_thresholds'', DEFAULT_FILE),
     (''auto_response_enabled'', JBool True), (''email_notifications_enabled'', JBool True),
     (''admin_email'', JStr ''admin@larp-soc.lan''), (''telemetry_interval_sec'', jn 5)]"

record settings_st = fetch_st +
  settings :: jsv
  saving :: bool

definition init_settings :: settings_st where
  "init_settings = \<lparr>loading = True, error = JNull, settings = JObj DEFAULT_SETTINGS, saving = False\<rparr>"

text \<open>\<open>newSettings[item.key] = item.value?.data ?? item.value\<close> for each row.\<close>

fun apply_rows :: "jsv list \<Rightarrow> obj \<Rightarrow> obj res" where
  "apply_rows [] ps = Inr ps"
| "apply_rows (item # items) ps =
     (if nullishp item then Inl type_error
      else apply_rows items (AList.update (to_str (fld item ''key''))
             (nullish (fld (fld item ''value'') ''data'') (fld item ''value'')) ps))"

definition merged_settings :: "jsv \<Rightarrow> jsv \<Rightarrow> jsv \<Rightarrow> jsv res" where
  "merged_settings allData riskT fileT =
     rbind (if truthy allData \<and> is_object allData
            then (if is_array allData then apply_rows (elems allData) DEFAULT_SETTINGS
                  else Inr (merge DEFAULT_SETTINGS (own_props allData)))
            else Inr DEFAULT_SETTINGS) (\<lambda>ps.
     Inr (JObj (AList.update ''file_changes_thresholds'' (js_or fileT DEFAULT_FILE)
           (AList.update ''risk_thresholds'' (js_or riskT DEFAULT_RISK) ps))))"

definition loadSettings :: "('z settings_st_scheme, jsv) act" where
  "loadSettings = Upd (loading_update (\<lambda>_. True))
     (fin (catch
        (bnd (promise_all [tcatch getSettings (\<lambda>_. Inr JNull),
                           tcatch getRiskThresholds (\<lambda>_. Inr DEFAULT_RISK),
                           tcatch getFileChangesThresholds (\<lambda>_. Inr DEFAULT_FILE)])
          (\<lambda>rs. bnd (lift (merged_settings (rs ! 0) (rs ! 1) (rs ! 2))) (\<lambda>new.
             Upd (settings_update (\<lambda>_. new)) (Upd (error_update (\<lambda>_. JNull)) (Ret JUndef)))))
        (\<lambda>_. Ret JUndef))
      (loading_update (\<lambda>_. False)))"

definition put_setting :: "string \<Rightarrow> jsv \<Rightarrow> 'z settings_st_scheme \<Rightarrow> 'z settings_st_scheme" where
  "put_setting k v = settings_update (\<lambda>prev. with_fld prev k v)"

text \<open>What the three edits share: the local write, the request, and no rollback.\<close>

definition save_locally :: "string \<Rightarrow> jsv \<Rightarrow> jsv task \<Rightarrow> ('z settings_st_scheme, jsv) act" where
  "save_locally k v t = Upd (saving_update (\<lambda>_. True)) (Upd (put_setting k v)
     (fin (catch (bnd (await t) (\<lambda>_. Ret JUndef)) (\<lambda>_. Ret JUndef)) (saving_update (\<lambda>_. False))))"

definition handleUpdateSettingKey :: "string \<Rightarrow> jsv \<Rightarrow> ('z settings_st_scheme, jsv) act" where
  "handleUpdateSettingKey key value = save_locally key value (updateSetting (JStr key) value)"

text \<open>\<open>rendered\<close> is the \<open>settings\<close> object the handler closed over.\<close>

definition handleUpdateRiskThresholds :: "jsv \<Rightarrow> jsv \<Rightarrow> ('z settings_st_scheme, jsv) act" where
  "handleUpdateRiskThresholds rendered newT =
     (let updated = spread2 (fld rendered ''risk_thresholds'') newT
      in save_locally ''risk_thresholds'' updated (updateRiskThresholds updated))"

definition handleUpdateFileChangesThresholds :: "jsv \<Rightarrow> jsv \<Rightarrow> ('z settings_st_scheme, jsv) act" where
  "handleUpdateFileChangesThresholds rendered newT =
     (let updated = spread2 (fld rendered ''file_changes_thresholds'') newT
      in save_locally ''file_changes_thresholds'' updated (updateFileChangesThresholds updated))"

definition settings_ops :: "settings_st \<Rightarrow> (settings_st, jsv) act set" where
  "settings_ops s = {loadSettings} \<union> {handleUpdateSettingKey k v | k v. True}
     \<union> range (handleUpdateRiskThresholds (settings s)) \<union> range (handleUpdateFileChangesThresholds (settings s))"

lemma save_locally_flags [simp]:
  "settles saving (save_locally k v t)" "settles loading (save_locally k v t)"
  unfolding save_locally_def
  by (auto simp: owes_fin put_setting_def intro!: settles_UpdI2 [where B = saving])
    (auto intro!: settles_fin settles_catch settles_bnd)

lemma loadSettings_flags [simp]: "settles loading loadSettings" "settles saving loadSettings"
  by (simp add: loadSettings_def) (auto simp: loadSettings_def intro!: settles_fin settles_catch settles_bnd)

interpretation settings_loading: spinner settings_ops ok loading for ok
  by unfold_locales (auto simp: settings_ops_def handleUpdateSettingKey_def handleUpdateRiskThresholds_def
      handleUpdateFileChangesThresholds_def Let_def)

interpretation settings_saving: spinner settings_ops ok saving for ok
  by unfold_locales (auto simp: settings_ops_def handleUpdateSettingKey_def handleUpdateRiskThresholds_def
      handleUpdateFileChangesThresholds_def Let_def)

section \<open>useNotifications\<close>

text \<open>The timestamps of the defaults are taken at module load: \<open>now_iso\<close> and two earlier times.\<close>

definition DEFAULT_CONFIGS :: "clock \<Rightarrow> jsv list" where
  "DEFAULT_CONFIGS c =
    [JObj [(''config_id'', JStr ''N-01''), (''channel'', JStr ''email''),
           (''recipient'', JStr ''admin@larp-soc.lan''), (''enabled'', JBool True),
           (''created_at'', JStr (now_iso c))],
     JObj [(''config_id'', JStr ''N-02''), (''channel'', JStr ''webhook''),
           (''recipient'', JStr ''https://hooks.slack.com/services/SOC/ALERT''), (''enabled'', JBool True),
           (''created_at'', JStr (now_iso c))]]"

definition DEFAULT_LOGS :: "string \<Rightarrow> string \<Rightarrow> jsv list" where
  "DEFAULT_LOGS hour_ago two_hours_ago =
    [JObj [(''log_id'', JStr ''LOG-501''), (''config_id'', JStr ''N-01''),
           (''event_type'', JStr ''CRITICAL_RANSOMWARE_BURST''), (''recipient'', JStr ''admin@larp-soc.lan''),
           (''status'', JStr ''DELIVERED''), (''sent_at'', JStr hour_ago)],
     JObj [(''log_id'', JStr ''LOG-502''), (''config_id'', JStr ''N-02''),
           (''event_type'', JStr ''AGENT_DEAD_ALERT''), (''recipient'', JStr ''https://hooks.slack.com/...''),
           (''status'', JStr ''DELIVERED''), (''sent_at'', JStr two_hours_ago)]]"

record notif_st = fetch_st +
  configs :: "jsv list"
  logs :: "jsv list"

text \<open>\<open>Array.isArray(v) && v.length > 0 ? v : d\<close>\<close>

definition nonempty_or :: "jsv \<Rightarrow> jsv list \<Rightarrow> jsv list" where
  "nonempty_or v d = (if elems v \<noteq> [] then elems v else d)"

definition loadNotifications :: "clock \<Rightarrow> jsv list \<Rightarrow> ('z notif_st_scheme, jsv) act" where
  "loadNotifications c default_logs = Upd (loading_update (\<lambda>_. True))
     (fin (catch
        (bnd (promise_all [tcatch getNotificationConfigs (\<lambda>_. Inr JNull),
                           tcatch getNotificationLogs (\<lambda>_. Inr JNull)])
          (\<lambda>rs. Upd (configs_update (\<lambda>_. nonempty_or (rs ! 0) (DEFAULT_CONFIGS c)))
             (Upd (logs_update (\<lambda>_. nonempty_or (rs ! 1) default_logs))
               (Upd (error_update (\<lambda>_. JNull)) (Ret JUndef)))))
        (\<lambda>_. Ret JUndef))
      (loading_update (\<lambda>_. False)))"

definition fallback_config :: "clock \<Rightarrow> jsv \<Rightarrow> jsv" where
  "fallback_config c d = with_fld (with_fld (with_fld (spread2 d (JObj []))
     ''config_id'' (JStr (''N-'' @ to_str (jn (now_ms c))))) ''enabled'' (JBool True))
     ''created_at'' (JStr (now_iso c))"

definition handleCreateConfig :: "clock \<Rightarrow> jsv \<Rightarrow> ('z notif_st_scheme, jsv) act" where
  "handleCreateConfig c configData = catch
     (bnd (await (createNotificationConfig configData)) (\<lambda>created.
        Upd (configs_update (\<lambda>prev. prev @ [js_or created configData])) (Ret (js_or created configData))))
     (\<lambda>_. Upd (configs_update (\<lambda>prev. prev @ [fallback_config c configData]))
        (Ret (fallback_config c configData)))"

definition notif_ops :: "clock \<Rightarrow> jsv list \<Rightarrow> notif_st \<Rightarrow> (notif_st, jsv) act set" where
  "notif_ops c default_logs s = {loadNotifications c default_logs} \<union> range (handleCreateConfig c)"

definition init_notif :: "clock \<Rightarrow> jsv list \<Rightarrow> notif_st" where
  "init_notif c default_logs = \<lparr>loading = True, error = JNull, configs = DEFAULT_CONFIGS c, logs = default_logs\<rparr>"

section \<open>useWhitelist\<close>

definition DEFAULT_WHITELIST :: "jsv list" where
  "DEFAULT_WHITELIST =
    [JObj [(''entry_id'', JStr ''W-01''), (''agent_id'', JStr ''client1''), (''process_name'', JStr ''sshd''),
           (''path'', JStr ''/usr/sbin/sshd''), (''reason'', JStr ''Authorized Admin Management Port 22'')],
     JObj [(''entry_id'', JStr ''W-02''), (''agent_id'', JStr ''client3''), (''process_name'', JStr ''prometheus''),
           (''path'', JStr ''/usr/local/bin/prometheus''), (''reason'', JStr ''Monitoring Telemetry Exporter'')]]"

record white_st = fetch_st +
  whitelist :: "jsv list"

definition init_white :: white_st where
  "init_white = \<lparr>loading = True, error = JNull, whitelist = DEFAULT_WHITELIST\<rparr>"

definition loadWhitelist :: "('z white_st_scheme, jsv) act" where
  "loadWhitelist = Upd (loading_update (\<lambda>_. True))
     (fin (catch
        (bnd (await getWhitelist) (\<lambda>data.
           Upd (whitelist_update (\<lambda>_. nonempty_or data DEFAULT_WHITELIST))
             (Upd (error_update (\<lambda>_. JNull)) (Ret JUndef))))
        (\<lambda>_. Upd (whitelist_update (\<lambda>_. DEFAULT_WHITELIST)) (Ret JUndef)))
      (loading_update (\<lambda>_. False)))"

definition fallback_entry :: "clock \<Rightarrow> jsv \<Rightarrow> jsv" where
  "fallback_entry c entry = with_fld (spread2 entry (JObj [])) ''entry_id''
     (JStr (''W-'' @ to_str (jn (now_ms c))))"

definition handleAddEntry :: "clock \<Rightarrow> jsv \<Rightarrow> ('z white_st_scheme, jsv) act" where
  "handleAddEntry c entry = catch
     (bnd (await (addWhitelistEntry entry)) (\<lambda>created.
        Upd (whitelist_update (\<lambda>prev. prev @ [js_or created entry])) (Ret (js_or created entry))))
     (\<lambda>_. Upd (whitelist_update (\<lambda>prev. prev @ [fallback_entry c entry])) (Ret (fallback_entry c entry)))"

definition entry_key :: "jsv \<Rightarrow> jsv" where
  "entry_key e = js_or (fld e ''entry_id'') (fld e ''id'')"

definition handleRemoveEntry :: "jsv \<Rightarrow> ('z white_st_scheme, jsv) act" where
  "handleRemoveEntry entryId =
     Upd (whitelist_update (filter (\<lambda>e. \<not> strict_eq (entry_key e) entryId)))
       (catch (bnd (await (removeWhitelistEntry entryId)) (\<lambda>_. Ret JUndef)) (\<lambda>_. Ret JUndef))"

definition white_ops :: "clock \<Rightarrow> white_st \<Rightarrow> (white_st, jsv) act set" where
  "white_ops c s = {loadWhitelist} \<union> range (handleAddEntry c) \<union> range handleRemoveEntry"

lemma stored_loads_settle [simp]: "settles loading (loadNotifications c d)" "settles loading loadWhitelist"
  by (simp_all add: loadNotifications_def loadWhitelist_def)

interpretation notif_loading: spinner "notif_ops c d" ok loading for c d ok
  by unfold_locales (auto simp: notif_ops_def handleCreateConfig_def
      intro!: settles_catch settles_bnd)

interpretation white_loading: spinner "white_ops c" ok loading for c ok
  by unfold_locales (auto simp: white_ops_def handleAddEntry_def handleRemoveEntry_def
      intro!: settles_catch settles_bnd)

section \<open>Never empty\<close>

definition notif_shown :: "notif_st \<Rightarrow> bool" where
  "notif_shown s \<longleftrightarrow> configs s \<noteq> [] \<and> logs s \<noteq> []"

lemma nonempty_or_nonempty [simp]: "d \<noteq> [] \<Longrightarrow> nonempty_or v d \<noteq> []"
  by (simp add: nonempty_or_def)

lemma DEFAULT_CONFIGS_nonempty [simp]: "DEFAULT_CONFIGS c \<noteq> []"
  by (simp add: DEFAULT_CONFIGS_def)

interpretation notif_hook: hook "notif_ops c (DEFAULT_LOGS h t)" ok notif_shown for c h t ok
proof
  fix s m
  have d: "DEFAULT_LOGS h t \<noteq> []" by (simp add: DEFAULT_LOGS_def)
  assume "m \<in> notif_ops c (DEFAULT_LOGS h t) s"
  then show "keeps ok notif_shown m"
    by (auto simp: notif_ops_def loadNotifications_def handleCreateConfig_def notif_shown_def d
        intro!: keeps_fin keeps_catch keeps_bnd)
qed

section \<open>Properties\<close>

text \<open>
  Saving a setting the server refuses. The handler resolves, the new value stays shown, no
  error is set and \<open>saving\<close> goes down: for the user the change was saved.
\<close>

theorem refused_setting_kept:
  "run (logging (\<lambda>_. Inl err)) (handleUpdateSettingKey k v) s [] =
    (Inr JUndef, s\<lparr>settings := with_fld (settings s) k v, saving := False\<rparr>,
     [Req PUT (''/settings/'' @ k) JUndef (JObj [(''value'', v)])])"
  by (simp add: handleUpdateSettingKey_def save_locally_def updateSetting_def api_put_def run_simps
      put_setting_def)

text \<open>
  Two threshold edits made from the same rendering lose the first one, in the state and in
  what is sent: the second PUT carries the rendered thresholds with the second edit only.
\<close>

theorem threshold_edit_lost:
  "\<exists>k1 k2 s1 s2. advance (handleUpdateRiskThresholds (settings s) e1) s = (s1, Some
       ([Req PUT ''/settings/risk_thresholds'' JUndef (spread2 (fld (settings s) ''risk_thresholds'') e1)], k1))
   \<and> advance (handleUpdateRiskThresholds (settings s) e2) s1 = (s2, Some
       ([Req PUT ''/settings/risk_thresholds'' JUndef (spread2 (fld (settings s) ''risk_thresholds'') e2)], k2))
   \<and> fld (settings s2) ''risk_thresholds'' = spread2 (fld (settings s) ''risk_thresholds'') e2"
  by (simp add: handleUpdateRiskThresholds_def save_locally_def updateRiskThresholds_def api_put_def ask_def
      put_setting_def Let_def)

text \<open>
  Loading the settings when the server returns an object. Whatever it holds and whatever the two
  threshold requests answer, no built-in key is missing afterwards, and the two threshold objects
  are the server's when it sent them and the built-in ones otherwise, never absent.
\<close>

theorem settings_always_complete:
  "\<exists>new. merged_settings (JObj ps) riskT fileT = Inr (JObj new)
     \<and> fst ` set DEFAULT_SETTINGS \<subseteq> fst ` set new
     \<and> lookup new ''risk_thresholds'' = js_or riskT DEFAULT_RISK
     \<and> lookup new ''file_changes_thresholds'' = js_or fileT DEFAULT_FILE
     \<and> truthy (lookup new ''risk_thresholds'') \<and> truthy (lookup new ''file_changes_thresholds'')"
proof -
  have "truthy DEFAULT_RISK" "truthy DEFAULT_FILE"
    by (simp_all add: DEFAULT_RISK_def DEFAULT_FILE_def)
  then show ?thesis
    by (auto simp: merged_settings_def lookup_update dom_update dom_merge js_or_default)
qed

text \<open>
  The notification page never shows an empty list of channels or of logs, in any
  interleaving and whatever the server answers.
\<close>

theorem notifications_never_empty:
  assumes "reach (notif_ops c (DEFAULT_LOGS h t)) ok
      (mounted (loadNotifications c (DEFAULT_LOGS h t)) (init_notif c (DEFAULT_LOGS h t))) (s, ps)"
  shows "configs s \<noteq> [] \<and> logs s \<noteq> []"
proof -
  have "notif_shown (init_notif c (DEFAULT_LOGS h t))"
    by (simp add: notif_shown_def init_notif_def DEFAULT_LOGS_def)
  then have "notif_shown (fst (s, ps))"
    by (intro notif_hook.reach_inv [OF assms]) (simp_all add: notif_ops_def)
  then show ?thesis by (simp add: notif_shown_def)
qed

definition notif_loaded :: "clock \<Rightarrow> notif_st" where
  "notif_loaded c = \<lparr>loading = False, error = JNull, configs = DEFAULT_CONFIGS c, logs = [JNull]\<rparr>"

lemma reach_notif_loaded:
  "reach (notif_ops c (DEFAULT_LOGS h t)) (\<lambda>_ _. True)
     (mounted (loadNotifications c (DEFAULT_LOGS h t)) (init_notif c (DEFAULT_LOGS h t))) (notif_loaded c, [])"
  by (rule reach_first_answer [where rs = "[Inl JNull, Inr (JObj [(''data'', JArr [JNull])])]"])
    (simp_all add: loadNotifications_def promise_all_def getNotificationConfigs_def getNotificationLogs_def
      list_or_empty_def api_get_def ask_def nonempty_or_def notif_loaded_def init_notif_def)

theorem notifications_never_empty_witness: "configs (notif_loaded stopped_clock) \<noteq> [] \<and> logs (notif_loaded stopped_clock) \<noteq> []"
  using notifications_never_empty [OF reach_notif_loaded] .

text \<open>
  Removing a whitelist entry. The entry is gone from the list whether or not the server
  accepted, every other entry stays, and the handler resolves without an error.
\<close>

theorem remove_entry_outcome:
  "run (logging f) (handleRemoveEntry i) s [] =
    (Inr JUndef, s\<lparr>whitelist := filter (\<lambda>e. \<not> strict_eq (entry_key e) i) (whitelist s)\<rparr>,
     [Req DELETE (''/whitelist/'' @ to_str i) JUndef JUndef])"
  by (cases "f (Req DELETE (''/whitelist/'' @ to_str i) JUndef JUndef)")
    (simp_all add: handleRemoveEntry_def removeWhitelistEntry_def api_delete_def run_simps)

end
