(* ===== verification/SettingsPage.thy ===== *)
theory SettingsPage
  imports StoredHooks FeedHooks Paging Texts
begin

text \<open>
  The settings screen: \<open>src/frontend/src/pages/Settings.jsx\<close> with the pages it embeds, \<open>Whitelist.jsx\<close>,
  \<open>Notifications.jsx\<close> and \<open>Reports.jsx\<close>. Each page state extends the state of its hook, so the handlers of the hook run on it
  unchanged; an argument \<open>p\<close> is the page as it was rendered when the handler was made.
\<close>

section \<open>Thresholds and automation\<close>

record setpage_st = settings_st +
  spTab :: jsv
  urlTab :: jsv
  incidentCreationThreshold :: jsv
  autoKillThreshold :: jsv
  autoIsolate :: jsv
  alertWithButtons :: jsv
  alertThreshold :: jsv
  logThreshold :: jsv
  fileCritical :: jsv
  fileElevated :: jsv
  autoResponse :: jsv
  notifyEmail :: jsv
  adminEmail :: jsv
  savedSuccess :: bool
  dockerContainers :: jsv
  dockerLoading :: bool
  dockerError :: jsv

definition queryTab :: "jsv \<Rightarrow> setpage_st \<Rightarrow> jsv" where
  "queryTab initialTab s = js_or (urlTab s) (js_or initialTab (JStr ''thresholds''))"

definition init_setpage :: "jsv \<Rightarrow> jsv \<Rightarrow> setpage_st" where
  "init_setpage url initialTab = \<lparr>loading = True, error = JNull, settings = JObj DEFAULT_SETTINGS, saving = False,
     spTab = js_or url (js_or initialTab (JStr ''thresholds'')), urlTab = url, incidentCreationThreshold = jn 50,
     autoKillThreshold = jn 85, autoIsolate = jn 85, alertWithButtons = jn 70, alertThreshold = jn 50, logThreshold = jn 20,
     fileCritical = jn 100, fileElevated = jn 30, autoResponse = JBool True, notifyEmail = JBool True,
     adminEmail = JStr ''admin@larp-soc.lan'', savedSuccess = False, dockerContainers = JArr [], dockerLoading = False,
     dockerError = JNull\<rparr>"

definition tab_effect :: "jsv \<Rightarrow> setpage_st \<Rightarrow> setpage_st" where
  "tab_effect initialTab s = (let q = queryTab initialTab s in if truthy q \<and> \<not> strict_eq q (spTab s) then s\<lparr>spTab := q\<rparr> else s)"

definition switchTab :: "string \<Rightarrow> setpage_st \<Rightarrow> setpage_st" where
  "switchTab tabId s = s\<lparr>spTab := JStr tabId, urlTab := JStr tabId\<rparr>"

definition fetchDocker :: "(setpage_st, jsv) act" where
  "fetchDocker = Upd (dockerLoading_update (\<lambda>_. True)) (Upd (dockerError_update (\<lambda>_. JNull))
     (fin (catch
        (bnd (await getDockerStatus) (\<lambda>data. bnd (lift (get data ''containers'')) (\<lambda>cs.
           Upd (dockerContainers_update (\<lambda>_. js_or cs (JArr []))) (Ret JUndef))))
        (\<lambda>err. Upd (dockerError_update (\<lambda>_. message_or err ''Failed to fetch container telemetry'')) (Ret JUndef)))
      (dockerLoading_update (\<lambda>_. False))))"

definition docker_effect :: "setpage_st \<Rightarrow> (setpage_st, jsv) act" where
  "docker_effect p = (if spTab p = JStr ''system'' then fetchDocker else Ret JUndef)"

definition fill_risk :: "setpage_st \<Rightarrow> setpage_st" where
  "fill_risk s = (let r = fld (settings s) ''risk_thresholds'' in
     if truthy (settings s) \<and> truthy r then
       s\<lparr>incidentCreationThreshold := nullish (fld r ''incident_creation_threshold'') (jn 50),
         autoKillThreshold := nullish (fld r ''auto_kill_threshold'') (jn 85),
         autoIsolate := nullish (fld r ''auto_isolate'') (jn 85),
         alertWithButtons := nullish (fld r ''alert_with_buttons'') (jn 70),
         alertThreshold := nullish (fld r ''alert'') (jn 50), logThreshold := nullish (fld r ''log'') (jn 20)\<rparr>
     else s)"

definition fill_files :: "setpage_st \<Rightarrow> setpage_st" where
  "fill_files s = (let f = fld (settings s) ''file_changes_thresholds'' in
     if truthy (settings s) \<and> truthy f then
       s\<lparr>fileCritical := nullish (fld f ''file_changes_critical'') (jn 100),
         fileElevated := nullish (fld f ''file_changes_elevated'') (jn 30)\<rparr>
     else s)"

definition fill_flags :: "setpage_st \<Rightarrow> setpage_st" where
  "fill_flags s = (let st = settings s in
     if truthy st then
       s\<lparr>autoResponse := nullish (fld st ''auto_response_enabled'') (JBool True),
         notifyEmail := nullish (fld st ''email_notifications_enabled'') (JBool True),
         adminEmail := js_or (fld st ''admin_email'') (JStr ''admin@larp-soc.lan'')\<rparr>
     else s)"

definition settings_effect :: "setpage_st \<Rightarrow> setpage_st" where
  \<comment> \<open>the effect of every new \<open>settings\<close> object\<close>
  "settings_effect s = fill_flags (fill_files (fill_risk s))"

definition typed_number :: "string \<Rightarrow> jsv" where
  \<comment> \<open>\<open>+e.target.value\<close>\<close>
  "typed_number t = JNum (to_num (JStr t))"

definition risk_payload :: "setpage_st \<Rightarrow> jsv" where
  "risk_payload p = JObj
     [(''incident_creation_threshold'', JNum (to_num (incidentCreationThreshold p))),
      (''auto_kill_threshold'', JNum (to_num (autoKillThreshold p))), (''auto_isolate'', JNum (to_num (autoIsolate p))),
      (''alert_with_buttons'', JNum (to_num (alertWithButtons p))), (''alert'', JNum (to_num (alertThreshold p))),
      (''log'', JNum (to_num (logThreshold p)))]"

definition file_payload :: "setpage_st \<Rightarrow> jsv" where
  "file_payload p = JObj [(''file_changes_critical'', JNum (to_num (fileCritical p))),
     (''file_changes_elevated'', JNum (to_num (fileElevated p)))]"

definition handleSaveAll :: "setpage_st \<Rightarrow> (setpage_st, jsv) act" where
  "handleSaveAll p =
     thn (handleUpdateRiskThresholds (settings p) (risk_payload p))
    (thn (handleUpdateFileChangesThresholds (settings p) (file_payload p))
    (thn (handleUpdateSettingKey ''auto_response_enabled'' (autoResponse p))
    (thn (handleUpdateSettingKey ''email_notifications_enabled'' (notifyEmail p))
    (thn (handleUpdateSettingKey ''admin_email'' (adminEmail p))
      (Upd (savedSuccess_update (\<lambda>_. True)) (Ret JUndef))))))"

definition saved_timer :: "setpage_st \<Rightarrow> setpage_st" where
  "saved_timer = savedSuccess_update (\<lambda>_. False)"

definition save_label :: "setpage_st \<Rightarrow> string" where
  "save_label s = (if saving s then ''Saving...'' else if savedSuccess s then ''Settings Saved'' else ''Save Changes'')"

section \<open>Exemptions\<close>

record whitepage_st = white_st +
  wlModal :: bool
  wlAgent :: string
  wlProcess :: string
  wlPath :: string
  wlReason :: string

definition scope_option :: "jsv \<Rightarrow> string \<times> string" where
  \<comment> \<open>value and label of an agent\<close>
  "scope_option a = (to_str (fld a ''id''),
     to_str (js_or (fld a ''name'') (fld a ''hostname'')) @ '' ('' @ to_str (js_or (fld a ''ip'') (fld a ''ip_address'')) @ '')'')"

definition whitelist_scopes :: "jsv list \<Rightarrow> (string \<times> string) list" where
  "whitelist_scopes ags = (''GLOBAL'', ''GLOBAL (All Agents)'') # map scope_option ags"

definition chosen_scope :: "string \<Rightarrow> string \<Rightarrow> (string \<times> string) list \<Rightarrow> string" where
  \<comment> \<open>\<open>agentId || (agentOptions[0]?.value || d)\<close>\<close>
  "chosen_scope agentId d opts = (if agentId \<noteq> [] then agentId
     else case opts of [] \<Rightarrow> d | (v, _) # _ \<Rightarrow> if v \<noteq> [] then v else d)"

definition filteredWhitelist :: "string \<Rightarrow> jsv list \<Rightarrow> jsv list res" where
  "filteredWhitelist search items =
     rfilter (\<lambda>item. if search = [] then Inr True
       else any_field item search [''agent_id'', ''process_name'', ''path'', ''reason'']) items"

definition exemption :: "jsv list \<Rightarrow> whitepage_st \<Rightarrow> jsv" where
  "exemption ags p = JObj [(''agent_id'', JStr (chosen_scope (wlAgent p) ''GLOBAL'' (whitelist_scopes ags))),
     (''process_name'', JStr (trim (wlProcess p))), (''path'', JStr (trim (wlPath p))), (''reason'', JStr (trim (wlReason p)))]"

definition handleAddSubmit :: "clock \<Rightarrow> jsv list \<Rightarrow> whitepage_st \<Rightarrow> (whitepage_st, jsv) act" where
  "handleAddSubmit c ags p = thn (handleAddEntry c (exemption ags p))
     (Upd (\<lambda>s. s\<lparr>wlModal := False, wlProcess := [], wlPath := [], wlReason := []\<rparr>) (Ret JUndef))"

section \<open>Channels and reports\<close>

record notifpage_st = notif_st +
  npModal :: bool
  npChannel :: string
  npRecipient :: string

definition notif_tabs :: "notifpage_st \<Rightarrow> (string \<times> nat) list" where
  "notif_tabs s = [(''configs'', length (configs s)), (''logs'', length (logs s))]"

definition handleCreateSubmit :: "clock \<Rightarrow> notifpage_st \<Rightarrow> (notifpage_st, jsv) act" where
  "handleCreateSubmit c p =
     (if trim (npRecipient p) = [] then Ret JUndef
      else thn (handleCreateConfig c (JObj [(''channel'', JStr (npChannel p)), (''recipient'', JStr (trim (npRecipient p)))]))
        (Upd (\<lambda>s. s\<lparr>npModal := False, npRecipient := []\<rparr>) (Ret JUndef)))"

record reportpage_st = reports_st +
  rpModal :: bool
  selectedMonth :: string
  selectedYear :: string

definition onGenerateSubmit :: "reportpage_st \<Rightarrow> (reportpage_st, jsv) act" where
  "onGenerateSubmit p = thn (handleGenerateReport (JObj [(''month'', JNum (str_num (selectedMonth p))),
       (''year'', JNum (str_num (selectedYear p)))]))
     (Upd (rpModal_update (\<lambda>_. False)) (Ret JUndef))"

section \<open>Lemmas\<close>

lemma run_save_locally [simp]:
  "run (logging f) (save_locally k v t) s w = (Inr JUndef, (put_setting k v s)\<lparr>saving := False\<rparr>, w @ requests [t])"
  by (cases "answer f t") (simp_all add: save_locally_def run_simps put_setting_def)

text \<open>What one press on "Save Changes" makes of the settings, and the requests it sends.\<close>

definition saved_settings :: "setpage_st \<Rightarrow> jsv \<Rightarrow> jsv" where
  "saved_settings p st =
     with_fld (with_fld (with_fld (with_fld (with_fld st
       ''risk_thresholds'' (spread2 (fld (settings p) ''risk_thresholds'') (risk_payload p)))
       ''file_changes_thresholds'' (spread2 (fld (settings p) ''file_changes_thresholds'') (file_payload p)))
       ''auto_response_enabled'' (autoResponse p)) ''email_notifications_enabled'' (notifyEmail p)) ''admin_email'' (adminEmail p)"

definition save_requests :: "setpage_st \<Rightarrow> request list" where
  "save_requests p =
     [Req PUT ''/settings/risk_thresholds'' JUndef (spread2 (fld (settings p) ''risk_thresholds'') (risk_payload p)),
      Req PUT ''/settings/file_changes_thresholds'' JUndef (spread2 (fld (settings p) ''file_changes_thresholds'') (file_payload p)),
      Req PUT ''/settings/auto_response_enabled'' JUndef (JObj [(''value'', autoResponse p)]),
      Req PUT ''/settings/email_notifications_enabled'' JUndef (JObj [(''value'', notifyEmail p)]),
      Req PUT ''/settings/admin_email'' JUndef (JObj [(''value'', adminEmail p)])]"

lemma run_save_all:
  "run (logging f) (handleSaveAll p) s w =
     (Inr JUndef, s\<lparr>settings := saved_settings p (settings s), saving := False, savedSuccess := True\<rparr>, w @ save_requests p)"
  by (simp add: handleSaveAll_def handleUpdateRiskThresholds_def handleUpdateFileChangesThresholds_def
      handleUpdateSettingKey_def updateRiskThresholds_def updateFileChangesThresholds_def updateSetting_def api_put_def
      Let_def run_thn put_setting_def saved_settings_def save_requests_def)

lemma spread2_own: "distinct (map fst (own_props y)) \<Longrightarrow> k \<in> fst ` set (own_props y) \<Longrightarrow> fld (spread2 x y) k = lookup (own_props y) k"
  by (simp add: spread2_def lookup_merge_distinct)

lemma saved_risk:
  "fld (spread2 x (risk_payload p)) ''incident_creation_threshold'' = JNum (to_num (incidentCreationThreshold p))"
  "fld (spread2 x (risk_payload p)) ''auto_kill_threshold'' = JNum (to_num (autoKillThreshold p))"
  "fld (spread2 x (risk_payload p)) ''auto_isolate'' = JNum (to_num (autoIsolate p))"
  "fld (spread2 x (risk_payload p)) ''alert_with_buttons'' = JNum (to_num (alertWithButtons p))"
  "fld (spread2 x (risk_payload p)) ''alert'' = JNum (to_num (alertThreshold p))"
  "fld (spread2 x (risk_payload p)) ''log'' = JNum (to_num (logThreshold p))"
  by (simp_all add: spread2_own risk_payload_def)

lemma saved_files:
  "fld (spread2 x (file_payload p)) ''file_changes_critical'' = JNum (to_num (fileCritical p))"
  "fld (spread2 x (file_payload p)) ''file_changes_elevated'' = JNum (to_num (fileElevated p))"
  by (simp_all add: spread2_own file_payload_def)

lemma truthy_spread2 [simp]: "truthy (spread2 x y)"
  by (simp add: spread2_def)

lemma own_with_fld [simp]: "own_props (with_fld v k x) = AList.update k x (own_props v)"
  by (simp add: with_fld_def)

lemma fld_saved_settings:
  "fld (saved_settings p st) ''risk_thresholds'' = spread2 (fld (settings p) ''risk_thresholds'') (risk_payload p)"
  "fld (saved_settings p st) ''file_changes_thresholds'' = spread2 (fld (settings p) ''file_changes_thresholds'') (file_payload p)"
  "fld (saved_settings p st) ''auto_response_enabled'' = autoResponse p"
  "fld (saved_settings p st) ''email_notifications_enabled'' = notifyEmail p"
  "fld (saved_settings p st) ''admin_email'' = adminEmail p"
  "truthy (saved_settings p st)"
  by (simp_all add: saved_settings_def lookup_update)

text \<open>The form after the effect of the saved settings, whatever it showed before.\<close>

lemma effect_of_saved:
  assumes "settings s = saved_settings p st"
  shows "settings_effect s = s\<lparr>incidentCreationThreshold := JNum (to_num (incidentCreationThreshold p)),
      autoKillThreshold := JNum (to_num (autoKillThreshold p)), autoIsolate := JNum (to_num (autoIsolate p)),
      alertWithButtons := JNum (to_num (alertWithButtons p)), alertThreshold := JNum (to_num (alertThreshold p)),
      logThreshold := JNum (to_num (logThreshold p)), fileCritical := JNum (to_num (fileCritical p)),
      fileElevated := JNum (to_num (fileElevated p)), autoResponse := nullish (autoResponse p) (JBool True),
      notifyEmail := nullish (notifyEmail p) (JBool True),
      adminEmail := js_or (adminEmail p) (JStr ''admin@larp-soc.lan'')\<rparr>"
proof -
  have "fill_risk s = s\<lparr>incidentCreationThreshold := JNum (to_num (incidentCreationThreshold p)),
      autoKillThreshold := JNum (to_num (autoKillThreshold p)), autoIsolate := JNum (to_num (autoIsolate p)),
      alertWithButtons := JNum (to_num (alertWithButtons p)), alertThreshold := JNum (to_num (alertThreshold p)),
      logThreshold := JNum (to_num (logThreshold p))\<rparr>" (is "_ = ?r")
    by (simp add: fill_risk_def assms fld_saved_settings saved_risk)
  moreover have "fill_files ?r = ?r\<lparr>fileCritical := JNum (to_num (fileCritical p)), fileElevated := JNum (to_num (fileElevated p))\<rparr>"
    (is "_ = ?f")
    by (simp add: fill_files_def assms fld_saved_settings saved_files)
  moreover have "settings ?f = saved_settings p st" by (simp add: assms)
  ultimately show ?thesis
    by (simp add: settings_effect_def fill_flags_def fld_saved_settings)
qed

section \<open>Properties\<close>

text \<open>
  Saving the settings page. It sends five requests one after the other, built from the page as it was rendered, and ends
  with the page marked as saved, the new values shown, \<open>saving\<close> down and \<open>error\<close> as before, whatever the manager answered to
  any of the five: a save that was refused as a whole is reported to the user as "Settings Saved".
\<close>

theorem save_all_reports_saved:
  "run (logging f) (handleSaveAll p) s [] =
     (Inr JUndef, s\<lparr>settings := saved_settings p (settings s), saving := False, savedSuccess := True\<rparr>, save_requests p)
   \<and> save_label (state_of (run (logging f) (handleSaveAll p) s [])) = ''Settings Saved''"
  by (simp add: run_save_all save_label_def)

text \<open>
  What the form shows survives saving: the effect of the saved settings puts the eleven fields back as they were, for a form
  whose eight thresholds are numbers, whose two switches are booleans and whose address is not empty.
\<close>

theorem settings_form_roundtrip:
  assumes "\<forall>v \<in> {incidentCreationThreshold p, autoKillThreshold p, autoIsolate p, alertWithButtons p, alertThreshold p,
      logThreshold p, fileCritical p, fileElevated p}. \<exists>n. v = JNum n"
    and "autoResponse p = JBool a" and "notifyEmail p = JBool b" and "adminEmail p = JStr (c # cs)"
  shows "settings_effect (state_of (run (logging f) (handleSaveAll p) p [])) =
    p\<lparr>settings := saved_settings p (settings p), saving := False, savedSuccess := True\<rparr>"
proof -
  let ?s = "p\<lparr>settings := saved_settings p (settings p), saving := False, savedSuccess := True\<rparr>"
  from assms(1) obtain n1 n2 n3 n4 n5 n6 n7 n8 where n: "incidentCreationThreshold p = JNum n1" "autoKillThreshold p = JNum n2"
      "autoIsolate p = JNum n3" "alertWithButtons p = JNum n4" "alertThreshold p = JNum n5" "logThreshold p = JNum n6"
      "fileCritical p = JNum n7" "fileElevated p = JNum n8"
    by auto
  have "settings ?s = saved_settings p (settings p)" by simp
  from effect_of_saved [OF this] show ?thesis
    by (simp add: run_save_all n assms(2-4))
qed

theorem settings_form_roundtrip_witness:
  "adminEmail (settings_effect (state_of (run (logging (\<lambda>_. Inl JNull)) (handleSaveAll (init_setpage JNull JUndef))
     (init_setpage JNull JUndef) []))) = JStr ''admin@larp-soc.lan''"
proof -
  let ?p = "init_setpage JNull JUndef"
  have "\<forall>v \<in> {incidentCreationThreshold ?p, autoKillThreshold ?p, autoIsolate ?p, alertWithButtons ?p, alertThreshold ?p,
      logThreshold ?p, fileCritical ?p, fileElevated ?p}. \<exists>n. v = JNum n"
    "autoResponse ?p = JBool True" "notifyEmail ?p = JBool True" "adminEmail ?p = JStr (CHR ''a'' # ''dmin@larp-soc.lan'')"
    by (simp_all add: init_setpage_def)
  from settings_form_roundtrip [OF this, of "\<lambda>_. Inl JNull"] show ?thesis by (simp add: init_setpage_def)
qed

text \<open>
  C23: settings that could not be loaded. While the manager answers no request, loading ends without an error, and the form
  shows the built-in thresholds as if they were the manager's; one press on "Save Changes", with the manager back, writes
  those built-in values over the thresholds the manager had.
\<close>

theorem unloaded_settings_overwrite:
  assumes "\<forall>path. \<exists>e. f (Req GET path JUndef JUndef) = Inl e"
    and "p = settings_effect (state_of (run (logging f) loadSettings (init_setpage url tab) []))"
  shows "error p = JNull \<and> take 2 (world_of (run (logging g) (handleSaveAll p) p [])) =
      [Req PUT ''/settings/risk_thresholds'' JUndef (JObj [(''auto_isolate'', jn 85), (''alert_with_buttons'', jn 70), (''alert'', jn 50),
         (''log'', jn 20), (''incident_creation_threshold'', jn 50), (''auto_kill_threshold'', jn 85)]),
       Req PUT ''/settings/file_changes_thresholds'' JUndef (JObj [(''file_changes_critical'', jn 100), (''file_changes_elevated'', jn 30)])]"
proof -
  let ?risk = "JObj [(''auto_isolate'', jn 85), (''alert_with_buttons'', jn 70), (''alert'', jn 50), (''log'', jn 20)]"
  from assms(1) obtain e1 e2 e3 where "f (Req GET ''/settings/'' JUndef JUndef) = Inl e1"
      "f (Req GET ''/settings/risk_thresholds'' JUndef JUndef) = Inl e2"
      "f (Req GET ''/settings/file_changes_thresholds'' JUndef JUndef) = Inl e3" by metis
  then have a: "answer f getSettings = Inr JNull" "answer f getRiskThresholds = Inr ?risk"
      "answer f getFileChangesThresholds = Inr DEFAULT_FILE"
    by (simp_all add: getSettings_def getRiskThresholds_def getFileChangesThresholds_def api_get_def DEFAULT_FILE_def)
  then have "state_of (run (logging f) loadSettings (init_setpage url tab) []) =
      (init_setpage url tab)\<lparr>loading := False, error := JNull, settings := JObj (AList.update ''risk_thresholds'' ?risk
        (AList.update ''file_changes_thresholds'' DEFAULT_FILE DEFAULT_SETTINGS))\<rparr>"
    by (simp add: loadSettings_def run_simps merged_settings_def DEFAULT_SETTINGS_def init_setpage_def DEFAULT_FILE_def)
  then have p: "p = (init_setpage url tab)\<lparr>loading := False, error := JNull, settings := JObj (AList.update ''risk_thresholds'' ?risk
        (AList.update ''file_changes_thresholds'' DEFAULT_FILE DEFAULT_SETTINGS))\<rparr>"
    unfolding assms(2)
    by (simp add: settings_effect_def fill_risk_def fill_files_def fill_flags_def init_setpage_def DEFAULT_FILE_def
        DEFAULT_SETTINGS_def)
  have "error p = JNull" by (simp add: p)
  have "risk_payload p = DEFAULT_RISK" and "file_payload p = DEFAULT_FILE"
    by (simp_all add: p risk_payload_def file_payload_def DEFAULT_RISK_def DEFAULT_FILE_def init_setpage_def)
  then have "take 2 (world_of (run (logging g) (handleSaveAll p) p [])) = [Req PUT ''/settings/risk_thresholds'' JUndef
       (JObj [(''auto_isolate'', jn 85), (''alert_with_buttons'', jn 70), (''alert'', jn 50),
         (''log'', jn 20), (''incident_creation_threshold'', jn 50), (''auto_kill_threshold'', jn 85)]),
       Req PUT ''/settings/file_changes_thresholds'' JUndef (JObj [(''file_changes_critical'', jn 100), (''file_changes_elevated'', jn 30)])]"
    by (simp add: run_save_all save_requests_def) (simp add: p spread2_def DEFAULT_RISK_def DEFAULT_FILE_def DEFAULT_SETTINGS_def)
  with \<open>error p = JNull\<close> show ?thesis by simp
qed

theorem unloaded_settings_overwrite_witness:
  "\<exists>s. error (settings_effect s) = JNull \<and> length (take 2 (world_of (run (logging (\<lambda>_. Inr JNull))
     (handleSaveAll (settings_effect s)) (settings_effect s) []))) = 2"
proof (intro exI)
  have "\<forall>path. \<exists>e. (\<lambda>_. Inl JNull) (Req GET path JUndef JUndef) = (Inl e :: response)" by simp
  from unloaded_settings_overwrite [OF this refl, of JNull JUndef "\<lambda>_. Inr JNull"]
  show "error (settings_effect (state_of (run (logging (\<lambda>_. Inl JNull)) loadSettings (init_setpage JNull JUndef) []))) = JNull
    \<and> length (take 2 (world_of (run (logging (\<lambda>_. Inr JNull))
        (handleSaveAll (settings_effect (state_of (run (logging (\<lambda>_. Inl JNull)) loadSettings (init_setpage JNull JUndef) []))))
        (settings_effect (state_of (run (logging (\<lambda>_. Inl JNull)) loadSettings (init_setpage JNull JUndef) []))) []))) = 2"
    by simp
qed

text \<open>
  A new exemption. It is sent once, and the entry is listed as active whatever the manager answers: under a made-up id when
  the manager refused it; the dialog closes and its fields are emptied either way.
\<close>

theorem exemption_outcome:
  "run (logging f) (handleAddSubmit c ags p) s [] =
     (Inr JUndef, s\<lparr>whitelist := whitelist s @ [case f (Req POST ''/whitelist/'' JUndef (exemption ags p)) of
          Inl _ \<Rightarrow> fallback_entry c (exemption ags p) | Inr res \<Rightarrow> js_or (fld res ''data'') (exemption ags p)],
        wlModal := False, wlProcess := [], wlPath := [], wlReason := []\<rparr>,
      [Req POST ''/whitelist/'' JUndef (exemption ags p)])"
  by (cases "f (Req POST ''/whitelist/'' JUndef (exemption ags p))")
    (simp_all add: handleAddSubmit_def handleAddEntry_def addWhitelistEntry_def api_post_def run_simps)

text \<open>
  Three fields of blanks pass the browser's check that no field is empty and are sent as three empty texts, with the scope of
  the empty selection: every agent.
\<close>

theorem blank_exemption:
  assumes "\<forall>c \<in> set (wlProcess p) \<union> set (wlPath p) \<union> set (wlReason p). is_space c" and "wlAgent p = []"
  shows "exemption ags p = JObj [(''agent_id'', JStr ''GLOBAL''), (''process_name'', JStr []), (''path'', JStr []), (''reason'', JStr [])]"
  using assms by (simp add: exemption_def trim_blank chosen_scope_def whitelist_scopes_def)

theorem blank_exemption_witness:
  "exemption [] \<lparr>loading = False, error = JNull, whitelist = [], wlModal = True, wlAgent = [], wlProcess = '' '', wlPath = '' '',
     wlReason = '' ''\<rparr> = JObj [(''agent_id'', JStr ''GLOBAL''), (''process_name'', JStr []), (''path'', JStr []), (''reason'', JStr [])]"
  by (rule blank_exemption) (simp_all add: is_space_def)

end
