(* ===== verification/ConsolePages.thy ===== *)
theory ConsolePages
  imports Json SettingsPage
begin

text \<open>
  Screens embedded in the hubs: \<open>src/frontend/src/pages/Commands.jsx\<close> (in the actions history), \<open>YaraRules.jsx\<close> (in the
  detection rules) and \<open>ThreatIntel.jsx\<close> (in the investigation), and \<open>Alerts.jsx\<close>, which no page imports. The YARA and threat
  screens call axios directly, without the interceptor of \<open>api.js\<close>: an answer is the response object, an error the error
  of axios.
\<close>

section \<open>Commands\<close>

record cmdpage_st = commands_st +
  cpSearch :: string
  cpStatus :: string
  cpPage :: int
  dispatchOpen :: bool
  targetAgent :: string
  commandType :: string
  paramsInput :: string

definition default_params :: string where
  "default_params = ''{'' @ json_quote ''reason'' @ '': '' @ json_quote ''Manual dispatch'' @ ''}''"

definition init_cmdpage :: cmdpage_st where
  "init_cmdpage = \<lparr>loading = True, error = JNull, commands = [], cpSearch = [], cpStatus = ''all'', cpPage = 1, dispatchOpen = False,
     targetAgent = [], commandType = ''isolate_agent'', paramsInput = default_params\<rparr>"

definition command_scopes :: "jsv list \<Rightarrow> (string \<times> string) list" where
  "command_scopes ags = (''ALL'', ''ALL AGENTS (Broadcast)'') # map scope_option ags"

definition status_is :: "string \<Rightarrow> jsv \<Rightarrow> bool res" where
  \<comment> \<open>\<open>x.status.toLowerCase() === f\<close>\<close>
  "status_is f x = rbind (get x ''status'') (\<lambda>v. rmap (\<lambda>l. l = JStr f) (to_lower v))"

definition command_matches :: "string \<Rightarrow> string \<Rightarrow> jsv \<Rightarrow> bool res" where
  "command_matches search status cmd =
     rbind (ror (Inr (status = ''all'')) (status_is status cmd)) (\<lambda>matchStatus.
     rbind (ror (Inr (search = [])) (ror (low_has (fld cmd ''id'') search)
         (ror (low_has (fld cmd ''agentId'') search) (low_has (fld cmd ''command'') search)))) (\<lambda>matchSearch.
       Inr (matchStatus \<and> matchSearch)))"

definition filteredCommands :: "string \<Rightarrow> string \<Rightarrow> jsv list \<Rightarrow> jsv list res" where
  "filteredCommands search status cmds = rfilter (command_matches search status) cmds"

definition command_pages :: "jsv list \<Rightarrow> int" where
  "command_pages xs = page_count 8 (length xs)"

definition command_view :: "int \<Rightarrow> jsv list \<Rightarrow> jsv list" where
  "command_view p xs = page_slice 8 p xs"

definition command_tab_count :: "string \<Rightarrow> jsv list \<Rightarrow> nat res" where
  "command_tab_count t cmds = (if t = ''all'' then Inr (length cmds) else rmap length (rfilter (status_is t) cmds))"

definition status_total :: "string \<Rightarrow> jsv list \<Rightarrow> nat" where
  \<comment> \<open>the four key figures\<close>
  "status_total t cmds = length (filter (\<lambda>c. fld c ''status'' = JStr t) cmds)"

definition parsed_params :: "string \<Rightarrow> jsv" where
  "parsed_params input = (case JSON_parse input of Inl _ \<Rightarrow> JObj [(''raw'', JStr input)] | Inr v \<Rightarrow> v)"

definition dispatch_body :: "jsv list \<Rightarrow> cmdpage_st \<Rightarrow> jsv" where
  "dispatch_body ags p = JObj [(''agent_id'', JStr (chosen_scope (targetAgent p) ''ALL'' (command_scopes ags))),
     (''command'', JStr (commandType p)), (''parameters'', parsed_params (paramsInput p))]"

definition onDispatchSubmit :: "clock \<Rightarrow> jsv list \<Rightarrow> cmdpage_st \<Rightarrow> (cmdpage_st, jsv) act" where
  "onDispatchSubmit c ags p = thn (handleCreateCommand c (dispatch_body ags p))
     (Upd (\<lambda>s. s\<lparr>dispatchOpen := False, paramsInput := default_params\<rparr>) (Ret JUndef))"

section \<open>axios without the interceptor\<close>

definition raw_await :: "request \<Rightarrow> ('s, jsv) act" where
  "raw_await q = Await [q] (\<lambda>rs. case rs of [] \<Rightarrow> Throw no_answer | r # _ \<Rightarrow> lift r)"

lemma run_raw_await [simp]: "run (logging f) (raw_await q) s w = (f q, s, w @ [q])"
  by (simp add: raw_await_def logging_def)

section \<open>YARA rules\<close>

record yara_st = load_st +
  yaraRules :: jsv
  yaraAgents :: jsv
  selectedRule :: jsv
  showAddModal :: bool
  showScanModal :: bool
  scanAgentId :: jsv
  scanPath :: jsv
  scanStatus :: jsv
  newRule :: jsv
  yaraAlerts :: "string list"

text \<open>\<open>xs.length > 0\<close> and \<open>xs[0]\<close> of an answer.\<close>

definition has_items :: "jsv \<Rightarrow> bool res" where
  "has_items v = rmap (\<lambda>n. num_lt (Fin 0) (to_num n)) (get v ''length'')"

definition first_item :: "jsv \<Rightarrow> jsv" where
  "first_item v = (case v of JArr (x # _) \<Rightarrow> x | JStr (c # _) \<Rightarrow> JStr [c] | JObj ps \<Rightarrow> lookup ps ''0'' | _ \<Rightarrow> JUndef)"

definition blank_rule :: "string \<Rightarrow> jsv" where
  "blank_rule template = JObj [(''name'', JStr ''''), (''category'', JStr ''malware''), (''severity'', JStr ''critical''),
     (''rule_content'', JStr template)]"

definition fetchYaraRules :: "jsv \<Rightarrow> (yara_st, jsv) act" where
  \<comment> \<open>with the selected rule of the rendering\<close>
  "fetchYaraRules sel = Upd (loading_update (\<lambda>_. True)) (fin (catch
     (bnd (raw_await (Req GET ''/api/v1/yara'' JUndef JUndef)) (\<lambda>res. let d = fld res ''data'' in
        Upd (yaraRules_update (\<lambda>_. d)) (bnd (lift (has_items d)) (\<lambda>some.
          if some \<and> \<not> truthy sel then Upd (selectedRule_update (\<lambda>_. first_item d)) (Ret JUndef) else Ret JUndef))))
     (\<lambda>_. Ret JUndef))
    (loading_update (\<lambda>_. False)))"

definition fetchYaraAgents :: "(yara_st, jsv) act" where
  "fetchYaraAgents = catch
     (bnd (raw_await (Req GET ''/api/v1/agents'' JUndef JUndef)) (\<lambda>res. let d = fld res ''data'' in
        Upd (yaraAgents_update (\<lambda>_. js_or d (JArr []))) (bnd (lift (has_items d)) (\<lambda>some.
          if some then Upd (scanAgentId_update (\<lambda>_. fld (first_item d) ''id'')) (Ret JUndef) else Ret JUndef))))
     (\<lambda>_. Ret JUndef)"

definition yara_alert :: "string \<Rightarrow> yara_st \<Rightarrow> yara_st" where
  "yara_alert t = yaraAlerts_update (\<lambda>ts. ts @ [t])"

definition raw_detail :: "string \<Rightarrow> jsv \<Rightarrow> string" where
  \<comment> \<open>\<open>err.response?.data?.k || err.message\<close>\<close>
  "raw_detail k err = to_str (js_or (fld (fld (fld err ''response'') ''data'') k) (fld err ''message''))"

definition handleCreateRule :: "string \<Rightarrow> yara_st \<Rightarrow> (yara_st, jsv) act" where
  "handleCreateRule template p = catch
     (bnd (raw_await (Req POST ''/api/v1/yara'' JUndef (newRule p))) (\<lambda>_.
        Upd (\<lambda>s. s\<lparr>showAddModal := False, newRule := blank_rule template\<rparr>) (fetchYaraRules (selectedRule p))))
     (\<lambda>err. Upd (yara_alert (''Error creating rule: '' @ raw_detail ''error'' err)) (Ret JUndef))"

definition handleDeleteRule :: "yara_st \<Rightarrow> jsv \<Rightarrow> bool \<Rightarrow> (yara_st, jsv) act" where
  "handleDeleteRule p ruleId confirmed = (if \<not> confirmed then Ret JUndef else catch
     (bnd (raw_await (Req DELETE (''/api/v1/yara/'' @ to_str ruleId) JUndef JUndef)) (\<lambda>_. fetchYaraRules (selectedRule p)))
     (\<lambda>err. Upd (yara_alert (''Error deleting rule: '' @ to_str (fld err ''message''))) (Ret JUndef)))"

definition toggled :: "jsv \<Rightarrow> jsv \<Rightarrow> jsv res" where
  \<comment> \<open>\<open>xs.map((r) => r.id === x.id ? { ...r, enabled: !r.enabled } : r)\<close>\<close>
  "toggled xs x = (if is_array xs then Inr (JArr (patch_by ''id'' (fld x ''id'')
       (\<lambda>r. with_fld r ''enabled'' (JBool (\<not> truthy (fld r ''enabled'')))) (elems xs))) else Inl type_error)"

definition toggle_body :: "jsv \<Rightarrow> jsv" where
  "toggle_body x = JObj [(''enabled'', JBool (\<not> truthy (fld x ''enabled'')))]"

definition handleToggleRule :: "yara_st \<Rightarrow> jsv \<Rightarrow> (yara_st, jsv) act" where
  "handleToggleRule p rule = catch
     (bnd (raw_await (Req PUT (''/api/v1/yara/'' @ to_str (fld rule ''id'')) JUndef (toggle_body rule))) (\<lambda>_.
        bnd (lift (toggled (yaraRules p) rule)) (\<lambda>new. Upd (yaraRules_update (\<lambda>_. new)) (Ret JUndef))))
     (\<lambda>err. Upd (yara_alert (''Failed to update rule: '' @ to_str (fld err ''message''))) (Ret JUndef))"

definition handleTriggerScan :: "yara_st \<Rightarrow> (yara_st, jsv) act" where
  "handleTriggerScan p = Upd (scanStatus_update (\<lambda>_. JStr ''dispatching'')) (catch
     (bnd (raw_await (Req POST ''/api/v1/yara/scan'' JUndef
         (JObj [(''agent_id'', scanAgentId p), (''target_path'', scanPath p), (''recursive'', JBool True)]))) (\<lambda>_.
        Upd (scanStatus_update (\<lambda>_. JStr ''success'')) (Ret JUndef)))
     (\<lambda>err. Upd (yara_alert (''Scan trigger failed: '' @ raw_detail ''detail'' err))
        (Upd (scanStatus_update (\<lambda>_. JStr ''error'')) (Ret JUndef))))"

definition scan_timer :: "yara_st \<Rightarrow> yara_st" where
  \<comment> \<open>1.5 seconds after a scan was accepted\<close>
  "scan_timer s = s\<lparr>showScanModal := False, scanStatus := JNull\<rparr>"

section \<open>Threat intelligence\<close>

record ti_st = intel_st +
  tiTab :: string
  indicatorType :: jsv
  indicatorValue :: string
  feeds :: jsv
  feedsLoading :: bool
  syncingFeedId :: jsv
  showAddFeed :: bool
  newFeed :: jsv
  indicators :: jsv
  totalIndicators :: jsv
  indicatorSearch :: string
  filterType :: string
  tiPage :: nat
  tiAlerts :: "string list"

definition blank_feed :: jsv where
  "blank_feed = JObj [(''name'', JStr ''''), (''url'', JStr ''''), (''feed_type'', JStr ''ip''), (''interval_hours'', jn 6)]"

definition init_ti :: ti_st where
  "init_ti = \<lparr>loading = False, error = JNull, intelResult = JNull, tiTab = ''indicators'', indicatorType = JStr ''ip'',
     indicatorValue = ''185.220.101.5'', feeds = JArr [], feedsLoading = False, syncingFeedId = JNull, showAddFeed = False,
     newFeed = blank_feed, indicators = JArr [], totalIndicators = jn 0, indicatorSearch = [], filterType = [], tiPage = 0,
     tiAlerts = []\<rparr>"

definition fetchFeeds :: "(ti_st, jsv) act" where
  "fetchFeeds = Upd (feedsLoading_update (\<lambda>_. True)) (fin (catch
     (bnd (raw_await (Req GET ''/api/v1/threat-intel/feeds'' JUndef JUndef)) (\<lambda>res.
        Upd (feeds_update (\<lambda>_. fld res ''data'')) (Ret JUndef)))
     (\<lambda>_. Ret JUndef))
    (feedsLoading_update (\<lambda>_. False)))"

definition indicator_params :: "ti_st \<Rightarrow> jsv" where
  "indicator_params p = JObj ([(''skip'', jn (of_nat (tiPage p) * 20)), (''limit'', jn 20)]
     @ (if indicatorSearch p \<noteq> [] then [(''query'', JStr (indicatorSearch p))] else [])
     @ (if filterType p \<noteq> [] then [(''indicator_type'', JStr (filterType p))] else []))"

definition indicator_req :: "ti_st \<Rightarrow> request" where
  "indicator_req p = Req GET ''/api/v1/threat-intel/indicators'' (JObj [(''params'', indicator_params p)]) JUndef"

definition fetchIndicators :: "ti_st \<Rightarrow> (ti_st, jsv) act" where
  "fetchIndicators p = catch
     (bnd (raw_await (indicator_req p)) (\<lambda>res. let d = fld res ''data'' in
        bnd (lift (get d ''items'')) (\<lambda>is.
          Upd (indicators_update (\<lambda>_. js_or is (JArr [])))
         (Upd (totalIndicators_update (\<lambda>_. js_or (fld d ''total'') (jn 0))) (Ret JUndef)))))
     (\<lambda>_. Ret JUndef)"

definition ti_effect :: "ti_st \<Rightarrow> (ti_st, jsv) act" where
  \<comment> \<open>of the tab, the page and the type, not of the search text\<close>
  "ti_effect p = (if tiTab p = ''feeds'' then fetchFeeds else if tiTab p = ''indicators'' then fetchIndicators p else Ret JUndef)"

definition handleLookupSubmit :: "ti_st \<Rightarrow> (ti_st, jsv) act" where
  "handleLookupSubmit p = (if trim (indicatorValue p) = [] then Ret JUndef
     else checkIndicator (indicatorType p) (JStr (trim (indicatorValue p))))"

definition ti_alert :: "string \<Rightarrow> ti_st \<Rightarrow> ti_st" where
  "ti_alert t = tiAlerts_update (\<lambda>ts. ts @ [t])"

definition sync_feeds :: "jsv \<Rightarrow> string \<Rightarrow> string \<Rightarrow> (ti_st, jsv) act" where
  "sync_feeds mark path msg = Upd (syncingFeedId_update (\<lambda>_. mark)) (fin (catch
     (bnd (raw_await (Req POST path JUndef JUndef)) (\<lambda>_. fetchFeeds))
     (\<lambda>err. Upd (ti_alert (msg @ raw_detail ''detail'' err)) (Ret JUndef)))
    (syncingFeedId_update (\<lambda>_. JNull)))"

definition handleSyncFeed :: "jsv \<Rightarrow> (ti_st, jsv) act" where
  "handleSyncFeed feedId = sync_feeds feedId (''/api/v1/threat-intel/feeds/'' @ to_str feedId @ ''/sync'') ''Error syncing feed: ''"

definition handleSyncAll :: "(ti_st, jsv) act" where
  "handleSyncAll = sync_feeds (JStr ''all'') ''/api/v1/threat-intel/sync-all'' ''Error syncing feeds: ''"

definition handleToggleFeed :: "ti_st \<Rightarrow> jsv \<Rightarrow> (ti_st, jsv) act" where
  "handleToggleFeed p feed = catch
     (bnd (raw_await (Req PUT (''/api/v1/threat-intel/feeds/'' @ to_str (fld feed ''id'')) JUndef (toggle_body feed))) (\<lambda>_.
        bnd (lift (toggled (feeds p) feed)) (\<lambda>new. Upd (feeds_update (\<lambda>_. new)) (Ret JUndef))))
     (\<lambda>err. Upd (ti_alert (''Failed to update feed: '' @ to_str (fld err ''message''))) (Ret JUndef))"

definition handleCreateFeed :: "ti_st \<Rightarrow> (ti_st, jsv) act" where
  \<comment> \<open>the reload is started and not awaited\<close>
  "handleCreateFeed p = catch
     (bnd (raw_await (Req POST ''/api/v1/threat-intel/feeds'' JUndef (newFeed p))) (\<lambda>_.
        Upd (\<lambda>s. s\<lparr>showAddFeed := False, newFeed := blank_feed\<rparr>) fetchFeeds))
     (\<lambda>err. Upd (ti_alert (''Failed to add feed: '' @ raw_detail ''detail'' err)) (Ret JUndef))"

definition next_disabled :: "ti_st \<Rightarrow> bool" where
  "next_disabled s \<longleftrightarrow> num_le (to_num (totalIndicators s)) (Fin (of_nat (tiPage s + 1) * 20))"

definition previous_page :: "ti_st \<Rightarrow> ti_st" where
  "previous_page s = (if tiPage s = 0 then s else s\<lparr>tiPage := tiPage s - 1\<rparr>)"

definition next_page :: "ti_st \<Rightarrow> ti_st" where
  "next_page s = (if next_disabled s then s else s\<lparr>tiPage := tiPage s + 1\<rparr>)"

section \<open>Alerts\<close>

definition alert_range :: "string \<Rightarrow> jsnum" where
  "alert_range t = (if t = ''today'' then Fin 86400000 else if t = ''7d'' then Fin 604800000
     else if t = ''30d'' then Fin 2592000000 else NaN)"

definition severity_is :: "string \<Rightarrow> jsv \<Rightarrow> bool res" where
  \<comment> \<open>\<open>e.severity && e.severity.toLowerCase() === f\<close>\<close>
  "severity_is f e = rbind (get e ''severity'') (\<lambda>v. if_truthy v (rmap (\<lambda>l. l = JStr f) (to_lower v)))"

definition alert_matches :: "clock \<Rightarrow> string \<Rightarrow> string \<Rightarrow> string \<Rightarrow> jsv \<Rightarrow> bool res" where
  "alert_matches c severity period search e =
     rbind (ror (Inr (severity = ''all'')) (severity_is severity e)) (\<lambda>mSev.
     rbind (get e ''timestamp'') (\<lambda>t.
     let eTime = if truthy t then date_ms c t else Fin (now_ms c);
         mTime = (period = ''all'' \<or> num_lt (num_sub (Fin (now_ms c)) eTime) (alert_range period)) in
     rbind (ror (Inr (search = [])) (ror (has_text (fld e ''type'') search)
         (ror (if_truthy (fld e ''sourceIp'') (has_text (fld e ''sourceIp'') search))
           (if_truthy (fld e ''description'') (has_text (fld e ''description'') search))))) (\<lambda>mSearch.
       Inr (mSev \<and> mTime \<and> mSearch))))"

definition filteredAlerts :: "clock \<Rightarrow> string \<Rightarrow> string \<Rightarrow> string \<Rightarrow> jsv list \<Rightarrow> jsv list res" where
  "filteredAlerts c severity period search es = rfilter (alert_matches c severity period search) es"

definition alert_tab_count :: "string \<Rightarrow> jsv list \<Rightarrow> nat res" where
  "alert_tab_count t es = (if t = ''all'' then Inr (length es) else rmap length (rfilter (severity_is t) es))"

section \<open>Lemmas\<close>

lemma command_view_slice: "command_view = page_slice 8"
  by (intro ext) (simp add: command_view_def)

interpretation command_pager: pager 8 command_view command_pages
  unfolding command_view_slice command_pages_def by (rule pager_page_slice) simp

lemma default_params_parsed: "parsed_params default_params = JObj [(''reason'', JStr ''Manual dispatch'')]"
  by code_simp

text \<open>Switching twice from one rendering: each handler writes the list it was rendered with, changed in its own row.\<close>

lemma advance_toggle:
  "advance (handleToggleRule p rule) s = (s, Some ([Req PUT (''/api/v1/yara/'' @ to_str (fld rule ''id'')) JUndef (toggle_body rule)],
     (\<lambda>rs. catch (bnd (case rs of [] \<Rightarrow> Throw no_answer | r # _ \<Rightarrow> lift r) (\<lambda>_. bnd (lift (toggled (yaraRules p) rule))
       (\<lambda>new. Upd (yaraRules_update (\<lambda>_. new)) (Ret JUndef))))
       (\<lambda>err. Upd (yara_alert (''Failed to update rule: '' @ to_str (fld err ''message''))) (Ret JUndef)))))"
  by (simp add: handleToggleRule_def raw_await_def)

section \<open>Properties\<close>

text \<open>
  Dispatching a command. Accepted, the mapped command is put in front of the list; refused, nothing is added and no error is
  shown; in both cases the form closes and its parameters are reset, and a target that was not chosen means every agent.
\<close>

theorem dispatch_outcome:
  "run (logging f) (onDispatchSubmit c ags p) s [] =
     (Inr JUndef, s\<lparr>commands := (case answer f (createCommand c (dispatch_body ags p)) of
          Inl _ \<Rightarrow> commands s | Inr cmd \<Rightarrow> cmd # commands s),
        dispatchOpen := False, paramsInput := default_params\<rparr>,
      [Req POST ''/commands/'' JUndef (dispatch_body ags p)])
   \<and> (targetAgent p = [] \<longrightarrow> fld (dispatch_body ags p) ''agent_id'' = JStr ''ALL'')"
proof -
  have "requests [createCommand c b] = [Req POST ''/commands/'' JUndef b]" for b
    by (simp add: createCommand_def api_post_def)
  then show ?thesis
    by (cases "answer f (createCommand c (dispatch_body ags p))")
      (simp_all add: onDispatchSubmit_def handleCreateCommand_def run_simps dispatch_body_def chosen_scope_def command_scopes_def)
qed

text \<open>
  Searching the indicators keeps the page. Against a manager that answers with the part of the \<open>n\<close> matches the request
  names, a search made on a later page than the matches have shows no indicator although there are some, and the button
  to go on is disabled.
\<close>

theorem search_keeps_page:
  assumes "f (indicator_req p) = Inr (JObj [(''data'', JObj [(''items'', JArr (take 20 (drop (tiPage p * 20) ms))),
      (''total'', jn (of_nat (length ms)))])])"
    and "length ms \<le> tiPage p * 20" and "ms \<noteq> []"
  shows "state_of (run (logging f) (fetchIndicators p) p []) = p\<lparr>indicators := JArr [], totalIndicators := jn (of_nat (length ms))\<rparr>
    \<and> next_disabled (state_of (run (logging f) (fetchIndicators p) p []))"
proof -
  from assms(2) have "(of_nat (length ms) :: rat) \<le> of_nat (tiPage p * 20)" by (simp only: of_nat_le_iff)
  then have "(of_nat (length ms) :: rat) \<le> (of_nat (tiPage p) + 1) * 20" by simp
  with assms show ?thesis
    by (simp add: fetchIndicators_def run_simps Let_def next_disabled_def add.commute)
qed

theorem search_keeps_page_witness:
  "indicators (state_of (run (logging (\<lambda>_. Inr (JObj [(''data'', JObj [(''items'', JArr []), (''total'', jn 1)])])))
     (fetchIndicators (init_ti\<lparr>tiPage := 1, indicatorSearch := ''tor''\<rparr>)) (init_ti\<lparr>tiPage := 1, indicatorSearch := ''tor''\<rparr>) []))
   = JArr []"
  using search_keeps_page [where ms = "[JNull]" and p = "init_ti\<lparr>tiPage := 1, indicatorSearch := ''tor''\<rparr>"
      and f = "\<lambda>_. Inr (JObj [(''data'', JObj [(''items'', JArr []), (''total'', jn 1)])])"]
  by simp

text \<open>
  Two YARA rules switched one after the other, the second before the manager has answered the first. The manager accepts
  both, but the list ends as if only the second had been switched: the first one's row shows the state it no longer has.
\<close>

theorem toggle_race_loses_first:
  assumes "yaraRules p = JArr rs"
  shows "\<exists>k1 k2. advance (handleToggleRule p r1) p =
      (p, Some ([Req PUT (''/api/v1/yara/'' @ to_str (fld r1 ''id'')) JUndef (toggle_body r1)], k1))
   \<and> advance (handleToggleRule p r2) p = (p, Some ([Req PUT (''/api/v1/yara/'' @ to_str (fld r2 ''id'')) JUndef (toggle_body r2)], k2))
   \<and> (\<forall>a b. advance (k2 [Inr b]) (fst (advance (k1 [Inr a]) p)) =
        (p\<lparr>yaraRules := JArr (patch_by ''id'' (fld r2 ''id'') (\<lambda>r. with_fld r ''enabled'' (JBool (\<not> truthy (fld r ''enabled'')))) rs)\<rparr>, None))"
  using assms by (simp add: advance_toggle toggled_def)

definition two_rules :: yara_st where
  "two_rules = \<lparr>loading = False, yaraRules = JArr [JObj [(''id'', jn 1), (''enabled'', JBool True)],
       JObj [(''id'', jn 2), (''enabled'', JBool True)]], yaraAgents = JArr [], selectedRule = JNull, showAddModal = False,
     showScanModal = False, scanAgentId = JStr [], scanPath = JStr [], scanStatus = JNull, newRule = JNull, yaraAlerts = []\<rparr>"

theorem toggle_race_loses_first_witness:
  "\<exists>(k1 :: response list \<Rightarrow> (yara_st, jsv) act) (k2 :: response list \<Rightarrow> (yara_st, jsv) act). \<forall>a b. yaraRules (fst (advance (k2 [Inr b]) (fst (advance (k1 [Inr a]) two_rules)))) =
     JArr [JObj [(''id'', jn 1), (''enabled'', JBool True)], JObj [(''id'', jn 2), (''enabled'', JBool False)]]"
proof -
  let ?r = "\<lambda>n. JObj [(''id'', jn n), (''enabled'', JBool True)]"
  have "yaraRules two_rules = JArr [?r 1, ?r 2]" by (simp add: two_rules_def)
  from toggle_race_loses_first [OF this, of "?r 1" "?r 2"] obtain k1 k2 :: "response list \<Rightarrow> (yara_st, jsv) act" where
    "\<forall>a b. advance (k2 [Inr b]) (fst (advance (k1 [Inr a]) two_rules)) = (two_rules\<lparr>yaraRules := JArr (patch_by ''id'' (fld (?r 2) ''id'')
       (\<lambda>r. with_fld r ''enabled'' (JBool (\<not> truthy (fld r ''enabled'')))) [?r 1, ?r 2])\<rparr>, None)" by blast
  then have "\<forall>a b. yaraRules (fst (advance (k2 [Inr b]) (fst (advance (k1 [Inr a]) two_rules)))) =
     JArr [?r 1, JObj [(''id'', jn 2), (''enabled'', JBool False)]]"
    by (simp add: has_id_def with_fld_def)
  then show ?thesis by blast
qed

end
