(* ===== verification/HealthScore.thy ===== *)
theory HealthScore
  imports Paging
begin

text \<open>
  \<open>src/frontend/src/components/dashboard/\<close>: the posture gauge (HealthScoreGauge.jsx) and the list of
  recent threats (RecentThreats.jsx), as functions of the agents and incidents they are given and of the
  clock. A \<open>null\<close> incident makes the component throw, so the results are in \<open>res\<close>.
\<close>

section \<open>Levels\<close>

datatype level = Safe | Warning | Critical

fun level_rank :: "level \<Rightarrow> nat" where
  "level_rank Safe = 0"
| "level_rank Warning = 1"
| "level_rank Critical = 2"

lemma level_rank_inj: "level_rank a = level_rank b \<longleftrightarrow> a = b"
  by (cases a; cases b) auto

instantiation level :: linorder
begin

definition less_eq_level :: "level \<Rightarrow> level \<Rightarrow> bool" where
  "less_eq_level a b \<longleftrightarrow> level_rank a \<le> level_rank b"

definition less_level :: "level \<Rightarrow> level \<Rightarrow> bool" where
  "less_level a b \<longleftrightarrow> level_rank a < level_rank b"

instance
  by standard (auto simp: less_eq_level_def less_level_def level_rank_inj)

end

section \<open>Agents and incidents\<close>

definition status_text :: "jsv \<Rightarrow> string" where
  \<comment> \<open>\<open>String(x.status || '').toLowerCase()\<close>\<close>
  "status_text x = lower (to_str (js_or (fld x ''status'') (JStr '''')))"

definition agent_alive :: "clock \<Rightarrow> jsv \<Rightarrow> bool" where
  "agent_alive c agent =
     (if \<not> truthy agent then False
      else let status = status_text agent in
        if status \<in> {''dead'', ''offline'', ''inactive''} then False
        else if status \<in> {''active'', ''online'', ''isolated'', ''quarantine''} then True
        else if truthy (fld agent ''last_seen'')
          then num_lt (num_sub (Fin (now_ms c)) (date_ms c (fld agent ''last_seen''))) (Fin (5 * 60 * 1000))
        else False)"

text \<open>\<open>new Map(agents.map((a) => [a.id, isAgentAlive(a)]))\<close>: a later agent overrides an earlier one.\<close>

definition alive_map :: "clock \<Rightarrow> jsv list \<Rightarrow> jsv \<Rightarrow> bool option" where
  "alive_map c agents = map_of (rev (map (\<lambda>a. (fld a ''id'', agent_alive c a)) agents))"

definition on_live_agent :: "clock \<Rightarrow> jsv list \<Rightarrow> jsv \<Rightarrow> bool" where
  "on_live_agent c agents incident =
     (let agentId = fld incident ''agent_id'' in
      if \<not> truthy agentId then False
      else case alive_map c agents agentId of None \<Rightarrow> False | Some alive \<Rightarrow> alive)"

definition score_of :: "jsv \<Rightarrow> jsnum" where
  "score_of i = (case nullish (fld i ''risk_score'') (nullish (fld i ''riskScore'') (fld i ''score'')) of
     JNum n \<Rightarrow> n | _ \<Rightarrow> Fin 0)"

definition created_ms :: "clock \<Rightarrow> jsv \<Rightarrow> jsnum" where
  "created_ms c i = date_ms c (js_or (fld i ''created_at'') (js_or (fld i ''createdAt'') (fld i ''timestamp'')))"

definition DAY_MS :: rat where
  "DAY_MS = 24 * 60 * 60 * 1000"

definition is_recent :: "clock \<Rightarrow> jsv \<Rightarrow> bool" where
  "is_recent c i = (if created_ms c i = NaN then False
     else num_lt (num_sub (Fin (now_ms c)) (created_ms c i)) (Fin DAY_MS))"

definition is_resolved :: "jsv \<Rightarrow> bool" where
  "is_resolved i \<longleftrightarrow> status_text i \<in> {''resolved'', ''false_positive'', ''reverted'', ''closed''}"

definition counts_critical :: "clock \<Rightarrow> jsv list \<Rightarrow> jsv \<Rightarrow> bool res" where
  "counts_critical c agents i = non_null i
     (\<not> is_resolved i \<and> \<not> num_lt (score_of i) (Fin 85) \<and> is_recent c i \<and> on_live_agent c agents i)"

definition counts_medium :: "clock \<Rightarrow> jsv list \<Rightarrow> jsv \<Rightarrow> bool res" where
  "counts_medium c agents i = non_null i
     (\<not> is_resolved i \<and> \<not> (num_lt (score_of i) (Fin 30) \<or> num_le (Fin 85) (score_of i))
      \<and> is_recent c i \<and> on_live_agent c agents i)"

section \<open>The gauge\<close>

text \<open>Priorities, not a sum: criticals first, then mediums, then offline agents.\<close>

definition health :: "nat \<Rightarrow> nat \<Rightarrow> nat \<Rightarrow> int \<times> level" where
  "health criticals mediums offline =
     (if 0 < criticals then (max 0 (40 - int criticals * 15), Critical)
      else if 3 \<le> mediums then (min 100 55, Warning)
      else if 2 \<le> offline then (min 100 70, Warning)
      else (100, Safe))"

record gauge =
  healthScore :: int
  level :: level
  unresolvedCritical :: "jsv list"
  unresolvedMedium :: "jsv list"
  aliveAgents :: nat
  offlineAgents :: nat

definition health_gauge :: "clock \<Rightarrow> jsv \<Rightarrow> jsv \<Rightarrow> gauge res" where
  "health_gauge c agents incidents =
     (let ags = elems agents; incs = elems incidents in
      rbind (rfilter (counts_critical c ags) incs) (\<lambda>crit.
      rbind (rfilter (counts_medium c ags) incs) (\<lambda>med.
        let alive = length (filter (agent_alive c) ags); offline = length ags - alive;
            (score, lvl) = health (length crit) (length med) offline
        in Inr \<lparr>healthScore = score, level = lvl, unresolvedCritical = crit, unresolvedMedium = med,
                aliveAgents = alive, offlineAgents = offline\<rparr>)))"

section \<open>Recent threats\<close>

definition is_threat :: "clock \<Rightarrow> jsv list \<Rightarrow> jsv \<Rightarrow> bool res" where
  "is_threat c agents i = non_null i
     (\<not> (num_lt (score_of i) (Fin 30) \<or> is_resolved i)
      \<and> fld i ''agent_id'' \<in> (\<lambda>a. fld a ''id'') ` set (filter (agent_alive c) agents)
      \<and> \<not> (created_ms c i \<noteq> NaN \<and> num_lt (Fin DAY_MS) (num_sub (Fin (now_ms c)) (created_ms c i))))"

definition threat_ms :: "clock \<Rightarrow> jsv \<Rightarrow> jsnum" where
  "threat_ms c i = date_ms c (js_or (fld i ''created_at'') (fld i ''createdAt''))"

definition recent_threats :: "clock \<Rightarrow> jsv \<Rightarrow> jsv \<Rightarrow> jsv list res" where
  "recent_threats c agents incidents =
     rmap (\<lambda>xs. js_slice 0 5 (js_sort (by_desc (threat_ms c)) xs))
       (rfilter (is_threat c (elems agents)) (elems incidents))"

definition threat_severity :: "jsv \<Rightarrow> string" where
  "threat_severity i = (if num_le (Fin 85) (score_of i) then ''critical''
     else if num_le (Fin 50) (score_of i) then ''high'' else ''medium'')"

section \<open>What the gauge computes\<close>

definition level_of_score :: "int \<Rightarrow> level" where
  "level_of_score s = (if s \<le> 25 then Critical else if s \<le> 70 then Warning else Safe)"

lemma health_level: "snd (health n m k) = level_of_score (fst (health n m k))"
  by (simp add: health_def level_of_score_def)

lemma health_bounds: "0 \<le> fst (health n m k) \<and> fst (health n m k) \<le> 100"
  by (simp add: health_def)

lemma health_mono:
  "n \<le> n' \<Longrightarrow> m \<le> m' \<Longrightarrow> k \<le> k' \<Longrightarrow>
   snd (health n m k) \<le> snd (health n' m' k') \<and> fst (health n' m' k') \<le> fst (health n m k)"
  by (auto simp: health_def less_eq_level_def)

lemma health_gauge_cases:
  assumes "health_gauge c agents incidents = Inr g"
  shows "(healthScore g, level g) =
      health (length (unresolvedCritical g)) (length (unresolvedMedium g)) (offlineAgents g)"
    and "aliveAgents g + offlineAgents g = length (elems agents)"
    and "set (unresolvedCritical g) \<subseteq> {i \<in> set (elems incidents). counts_critical c (elems agents) i = Inr True}"
    and "set (unresolvedMedium g) \<subseteq> {i \<in> set (elems incidents). counts_medium c (elems agents) i = Inr True}"
proof -
  let ?alive = "length (filter (agent_alive c) (elems agents))"
  obtain crit med where c: "rfilter (counts_critical c (elems agents)) (elems incidents) = Inr crit"
    and m: "rfilter (counts_medium c (elems agents)) (elems incidents) = Inr med"
    using assms unfolding health_gauge_def Let_def rbind_eq_Inr by blast
  obtain sc lv where h: "health (length crit) (length med) (length (elems agents) - ?alive) = (sc, lv)"
    by fastforce
  with assms c m have g: "g = \<lparr>healthScore = sc, level = lv, unresolvedCritical = crit, unresolvedMedium = med,
      aliveAgents = ?alive, offlineAgents = length (elems agents) - ?alive\<rparr>"
    by (simp add: health_gauge_def Let_def)
  show "(healthScore g, level g) =
      health (length (unresolvedCritical g)) (length (unresolvedMedium g)) (offlineAgents g)"
    using h by (simp add: g)
  show "aliveAgents g + offlineAgents g = length (elems agents)"
    by (simp add: g)
  show "set (unresolvedCritical g) \<subseteq> {i \<in> set (elems incidents). counts_critical c (elems agents) i = Inr True}"
    "set (unresolvedMedium g) \<subseteq> {i \<in> set (elems incidents). counts_medium c (elems agents) i = Inr True}"
    using rfilter_subset [OF c] rfilter_subset [OF m] by (simp_all add: g)
qed

lemma health_gauge_total:
  assumes "\<And>i. i \<in> set (elems incidents) \<Longrightarrow> \<not> nullishp i"
  shows "\<exists>g. health_gauge c agents incidents = Inr g"
proof -
  have total: "\<exists>ys. rfilter p (elems incidents) = Inr ys" if "\<And>i. \<not> nullishp i \<Longrightarrow> \<exists>b. p i = Inr b" for p :: "jsv \<Rightarrow> bool res"
  proof -
    have "p i = Inr (p i = Inr True)" if "i \<in> set (elems incidents)" for i
      using \<open>\<And>i. \<not> nullishp i \<Longrightarrow> \<exists>b. p i = Inr b\<close> [OF assms [OF that]] by auto
    then show ?thesis
      using rfilter_total [where p = p and q = "\<lambda>i. p i = Inr True" and xs = "elems incidents"] by blast
  qed
  obtain crit med where "rfilter (counts_critical c (elems agents)) (elems incidents) = Inr crit"
    and "rfilter (counts_medium c (elems agents)) (elems incidents) = Inr med"
    using total [of "counts_critical c (elems agents)"] total [of "counts_medium c (elems agents)"]
    by (auto simp: counts_critical_def counts_medium_def)
  then show ?thesis by (simp add: health_gauge_def Let_def split: prod.split)
qed

text \<open>An incident without an \<open>agent_id\<close> is never on a live agent.\<close>

lemma not_on_live_agent: "fld i ''agent_id'' = JUndef \<Longrightarrow> \<not> on_live_agent c agents i"
  by (simp add: on_live_agent_def)

lemma gauge_blind:
  assumes "health_gauge c agents incidents = Inr g"
    and "\<And>i. i \<in> set (elems incidents) \<Longrightarrow> fld i ''agent_id'' = JUndef"
  shows "unresolvedCritical g = [] \<and> unresolvedMedium g = [] \<and> level g \<noteq> Critical"
proof -
  have "counts_critical c (elems agents) i \<noteq> Inr True \<and> counts_medium c (elems agents) i \<noteq> Inr True"
    if "i \<in> set (elems incidents)" for i
    using not_on_live_agent [OF assms(2) [OF that]]
    by (simp add: counts_critical_def counts_medium_def non_null_def)
  with health_gauge_cases [OF assms(1)] have "unresolvedCritical g = []" "unresolvedMedium g = []"
    by (auto simp: subset_iff) (metis list.set_intros(1) neq_Nil_conv)+
  with health_gauge_cases(1) [OF assms(1)] show ?thesis
    by (auto simp: health_def split: if_splits)
qed

section \<open>Properties\<close>

text \<open>
  The gauge is consistent. The score is between 0 and 100 and determines the colour shown
  (25 or less is critical, up to 70 a warning, otherwise safe), every agent is counted either
  alive or offline, and only unresolved incidents of a score of at least 85 count as critical.
\<close>

theorem gauge_consistent:
  assumes "health_gauge c agents incidents = Inr g"
  shows "0 \<le> healthScore g \<and> healthScore g \<le> 100 \<and> level g = level_of_score (healthScore g)
    \<and> aliveAgents g + offlineAgents g = length (elems agents)
    \<and> list_all (\<lambda>i. \<not> is_resolved i \<and> \<not> num_lt (score_of i) (Fin 85)) (unresolvedCritical g)"
proof -
  note facts = health_gauge_cases [OF assms]
  have "list_all (\<lambda>i. \<not> is_resolved i \<and> \<not> num_lt (score_of i) (Fin 85)) (unresolvedCritical g)"
    using facts(3) by (auto simp: list_all_iff counts_critical_def non_null_def split: if_splits)
  moreover have "healthScore g = fst (health (length (unresolvedCritical g)) (length (unresolvedMedium g)) (offlineAgents g))"
    and "level g = snd (health (length (unresolvedCritical g)) (length (unresolvedMedium g)) (offlineAgents g))"
    using facts(1) by (metis fst_conv, metis snd_conv)
  ultimately show ?thesis
    using facts(2) health_bounds health_level by metis
qed

definition demo_clock :: clock where
  "demo_clock = \<lparr>now_ms = 1000, now_iso = ''now'', date_parse = (\<lambda>_. Fin 0)\<rparr>"

theorem gauge_consistent_witness:
  "\<exists>g. health_gauge demo_clock (JArr [JObj [(''id'', JStr ''a''), (''status'', JStr ''online'')]])
     (JArr [JObj [(''agent_id'', JStr ''a''), (''risk_score'', jn 90), (''status'', JStr ''open''),
                  (''created_at'', JStr ''t'')]]) = Inr g
   \<and> healthScore g = 25 \<and> level g = level_of_score (healthScore g)"
proof -
  let ?a = "JArr [JObj [(''id'', JStr ''a''), (''status'', JStr ''online'')]]"
  let ?i = "JArr [JObj [(''agent_id'', JStr ''a''), (''risk_score'', jn 90), (''status'', JStr ''open''),
                  (''created_at'', JStr ''t'')]]"
  obtain g where g: "health_gauge demo_clock ?a ?i = Inr g" and score: "healthScore g = 25"
    by (simp add: health_gauge_def counts_critical_def counts_medium_def is_resolved_def status_text_def
        lower_def lower_char_def score_of_def is_recent_def created_ms_def date_ms_def demo_clock_def DAY_MS_def
        on_live_agent_def alive_map_def agent_alive_def health_def Let_def)
  then show ?thesis using gauge_consistent [OF g] by blast
qed

text \<open>
  The gauge is monotone. More critical incidents, more medium ones or more offline agents
  never give a better colour or a higher score.
\<close>

theorem gauge_monotone:
  "snd (health n m k) \<le> snd (health (n + a) (m + b) (k + d))
    \<and> fst (health (n + a) (m + b) (k + d)) \<le> fst (health n m k)"
  by (rule health_mono) simp_all

end
