(* ===== verification/IncidentsHook.thy ===== *)
theory IncidentsHook
  imports HookBase
begin

text \<open>
  \<open>src/frontend/src/hooks/useIncidents.js\<close>: the mapped incidents, reloaded after every operation and
  on the dashboard socket's messages. The invariant of the hook is the shape the mapper gives an
  incident, which the health gauge depends on.
\<close>

record incidents_st = fetch_st +
  incidents :: "jsv list"
  incidentBusy :: bool

definition init_incidents :: incidents_st where
  "init_incidents = \<lparr>loading = True, error = JNull, incidents = [], incidentBusy = False\<rparr>"

definition loadIncidents :: "clock \<Rightarrow> bool \<Rightarrow> ('z incidents_st_scheme, jsv) act" where
  "loadIncidents c showLoading =
     Upd (if showLoading then loading_update (\<lambda>_. True) else id)
       (fin (catch
          (bnd (await (getIncidents c)) (\<lambda>data.
             Upd (incidents_update (\<lambda>_. elems data)) (Upd (error_update (\<lambda>_. JNull)) (Ret JUndef))))
          (\<lambda>err. Upd (error_update (\<lambda>_. message_or err ''Failed to fetch security incidents''))
             (Ret JUndef)))
        (if showLoading then loading_update (\<lambda>_. False) else id))"

text \<open>The callback given to \<open>useDashboardSocket\<close>; \<open>None\<close> is "no reload".\<close>

definition on_dashboard_message :: "clock \<Rightarrow> jsv \<Rightarrow> ('z incidents_st_scheme, jsv) act" where
  "on_dashboard_message c msg =
     (if truthy msg \<and> (strict_eq (fld msg ''type'') (JStr ''INCIDENT_CREATED'')
          \<or> strict_eq (fld msg ''type'') (JStr ''TELEMETRY_RISK'')
          \<or> strict_eq (fld msg ''type'') (JStr ''INCIDENT_UPDATED''))
      then loadIncidents c False else Ret JUndef)"

definition incident_busy :: "('z incidents_st_scheme, jsv) act \<Rightarrow> ('z incidents_st_scheme, jsv) act" where
  "incident_busy m = Upd (incidentBusy_update (\<lambda>_. True)) (fin m (incidentBusy_update (\<lambda>_. False)))"

definition merge_incident :: "jsv \<Rightarrow> jsv \<Rightarrow> 'z incidents_st_scheme \<Rightarrow> 'z incidents_st_scheme" where
  \<comment> \<open>\<open>prev.map((inc) => (inc.id === id ? { ...inc, ...updated } : inc))\<close>\<close>
  "merge_incident i updated = incidents_update (patch_by ''id'' i (\<lambda>inc. spread2 inc updated))"

definition handleAssign :: "clock \<Rightarrow> jsv \<Rightarrow> jsv \<Rightarrow> ('z incidents_st_scheme, jsv) act" where
  "handleAssign c i assignee = incident_busy
     (bnd (await (assignIncident c i assignee)) (\<lambda>updated.
        Upd (merge_incident i updated) (thn (loadIncidents c False) (Ret updated))))"

definition handleUpdateStatus :: "clock \<Rightarrow> jsv \<Rightarrow> jsv \<Rightarrow> ('z incidents_st_scheme, jsv) act" where
  "handleUpdateStatus c i status = incident_busy
     (bnd (await (updateIncidentStatus c i status)) (\<lambda>updated.
        Upd (merge_incident i updated) (thn (loadIncidents c False) (Ret updated))))"

definition handleAddNote :: "clock \<Rightarrow> jsv \<Rightarrow> jsv \<Rightarrow> jsv \<Rightarrow> ('z incidents_st_scheme, jsv) act" where
  "handleAddNote c i content user =
     bnd (await (addIncidentNote i content (dflt user (JStr ''admin'')))) (\<lambda>note.
       thn (loadIncidents c False) (Ret note))"

definition handleExecuteAction ::
  "clock \<Rightarrow> jsv \<Rightarrow> jsv \<Rightarrow> jsv \<Rightarrow> jsv \<Rightarrow> ('z incidents_st_scheme, jsv) act" where
  "handleExecuteAction c i actionType params user = incident_busy
     (bnd (await (executeIncidentAction i actionType (dflt params (JObj [])) (dflt user (JStr ''admin''))))
        (\<lambda>res. thn (loadIncidents c False) (Ret res)))"

definition incidents_ops :: "clock \<Rightarrow> incidents_st \<Rightarrow> (incidents_st, jsv) act set" where
  "incidents_ops c s = {loadIncidents c True} \<union> range (on_dashboard_message c)
     \<union> {handleAssign c i a | i a. True} \<union> {handleUpdateStatus c i st | i st. True}
     \<union> {handleAddNote c i t u | i t u. True} \<union> {handleExecuteAction c i t ps u | i t ps u. True}"

section \<open>The flags\<close>

lemma loadIncidents_flags [simp]:
  "settles loading (loadIncidents c b)" "settles incidentBusy (loadIncidents c b)"
  unfolding loadIncidents_def
  by (cases b; simp; fail | auto intro!: settles_fin settles_catch settles_bnd)+

lemma incident_busy_flags [simp]:
  "settles incidentBusy (incident_busy m)" "settles loading m \<Longrightarrow> settles loading (incident_busy m)"
  unfolding incident_busy_def by (auto intro!: settles_fin)

lemma incidents_settle:
  assumes "m \<in> incidents_ops c s"
  shows "settles loading m" "settles incidentBusy m"
proof -
  show "settles loading m"
    using assms
    by (auto simp: incidents_ops_def on_dashboard_message_def handleAssign_def handleUpdateStatus_def
        handleAddNote_def handleExecuteAction_def merge_incident_def
        intro!: settles_bnd settles_thn incident_busy_flags(2))
  have adding: "settles incidentBusy (handleAddNote c i t u)" for i t u
    by (auto simp: handleAddNote_def intro!: settles_bnd settles_thn)
  show "settles incidentBusy m"
    using assms adding
    by (auto simp: incidents_ops_def on_dashboard_message_def handleAssign_def handleUpdateStatus_def
        handleExecuteAction_def)
qed

interpretation incidents_loading: spinner "incidents_ops c" ok loading for c ok
  by unfold_locales (rule incidents_settle)

interpretation incidents_busy: spinner "incidents_ops c" ok incidentBusy for c ok
  by unfold_locales (rule incidents_settle)

section \<open>The shape of the incidents shown\<close>

text \<open>Camel case only: none of the manager's own field names survive the mapper.\<close>

definition mapped_shape :: "jsv \<Rightarrow> bool" where
  "mapped_shape x \<longleftrightarrow> (x = JNull \<or> (\<exists>ps. x = JObj ps)) \<and>
     list_all (\<lambda>k. k \<notin> fst ` set (own_props x)) [''agent_id'', ''risk_score'', ''score'', ''agent_hostname'',
       ''rules_count'', ''rules'']"

definition incidents_mapped :: "incidents_st \<Rightarrow> bool" where
  "incidents_mapped s \<longleftrightarrow> (\<forall>x\<in>set (incidents s). mapped_shape x)"

lemma mapped_shape_mapIncident: "mapIncident c inc = Inr m \<Longrightarrow> mapped_shape m"
  by (auto simp: mapIncident_def rbind_eq_Inr mapped_shape_def split: if_splits)

lemma mapped_shape_spread2: "mapped_shape x \<Longrightarrow> mapped_shape y \<Longrightarrow> mapped_shape (spread2 x y)"
  by (simp add: mapped_shape_def spread2_def dom_merge)

lemma mapped_shape_fld:
  assumes "mapped_shape x"
  shows "fld x ''agent_id'' = JUndef" "fld x ''risk_score'' = JUndef" "fld x ''score'' = JUndef"
    "fld x ''agent_hostname'' = JUndef" "fld x ''rules_count'' = JUndef" "fld x ''rules'' = JUndef"
proof -
  have none: "k \<notin> fst ` set ps \<Longrightarrow> lookup ps k = JUndef" for ps k
    by (simp add: lookup_def map_of_eq_None_iff [symmetric])
  show "fld x ''agent_id'' = JUndef" "fld x ''risk_score'' = JUndef" "fld x ''score'' = JUndef"
    "fld x ''agent_hostname'' = JUndef" "fld x ''rules_count'' = JUndef" "fld x ''rules'' = JUndef"
    using assms by (auto simp: mapped_shape_def none)
qed

lemma gives_getIncidents: "task_gives (\<lambda>d. \<forall>x\<in>set (elems d). mapped_shape x) (getIncidents c)"
  by (auto simp: task_gives_def getIncidents_def map_list_def rbind_eq_Inr rmap_def
      split: if_splits dest!: rmapM_set intro: mapped_shape_mapIncident)

lemma gives_transitions:
  "task_gives mapped_shape (updateIncidentStatus c i st)" "task_gives mapped_shape (assignIncident c i a)"
proof -
  have *: "rcatch (rbind r (mapIncident c)) (\<lambda>_. Inr d) = Inr x \<Longrightarrow> mapped_shape d \<Longrightarrow> mapped_shape x"
    for r d x
    by (cases "rbind r (mapIncident c)") (auto simp: rbind_eq_Inr intro: mapped_shape_mapIncident)
  show "task_gives mapped_shape (updateIncidentStatus c i st)" "task_gives mapped_shape (assignIncident c i a)"
    unfolding task_gives_def updateIncidentStatus_def assignIncident_def answer_tcatch answer_tbind
    by (intro allI impI, erule *, simp add: mapped_shape_def)+
qed

lemma merge_incident_mapped:
  "mapped_shape u \<Longrightarrow> incidents_mapped s \<Longrightarrow> incidents_mapped (merge_incident i u s)"
  by (auto simp: incidents_mapped_def merge_incident_def patch_by_def mapped_shape_spread2)

lemma loadIncidents_mapped: "keeps ok incidents_mapped (loadIncidents c b)"
  unfolding loadIncidents_def keeps.simps
  by (intro conjI keeps_fin keeps_catch keeps_await_bnd [OF gives_getIncidents])
    (auto simp: incidents_mapped_def)

interpretation incidents_hook: hook "incidents_ops c" ok incidents_mapped for c ok
proof
  fix s m
  assume "incidents_mapped s" and "m \<in> incidents_ops c s"
  then show "keeps ok incidents_mapped m"
    by (auto simp: incidents_ops_def on_dashboard_message_def loadIncidents_mapped handleAssign_def
        handleUpdateStatus_def handleAddNote_def handleExecuteAction_def incident_busy_def merge_incident_mapped
        intro!: keeps_fin keeps_await_bnd [OF gives_transitions(1)] keeps_await_bnd [OF gives_transitions(2)]
          keeps_bnd keeps_thn)
      (auto simp: incidents_mapped_def)
qed

section \<open>Properties\<close>

text \<open>
  C36: in every interleaving of the hook's operations, socket messages and server answers, from
  mounting on, no incident in the state has a field \<open>agent_id\<close>, \<open>risk_score\<close> or \<open>score\<close>: the mapper
  renames them to camel case, and neither a merge of an update nor the optimistic answer of a
  failed one brings them back.
\<close>

theorem incidents_shape_reachable:
  assumes "reach (incidents_ops c) ok (mounted (loadIncidents c True) init_incidents) (s, ps)"
    and "x \<in> set (incidents s)"
  shows "fld x ''agent_id'' = JUndef \<and> fld x ''risk_score'' = JUndef \<and> fld x ''score'' = JUndef"
proof -
  have "incidents_mapped init_incidents" and "loadIncidents c True \<in> incidents_ops c init_incidents"
    by (simp_all add: incidents_mapped_def init_incidents_def incidents_ops_def)
  from incidents_hook.reach_inv [OF assms(1) this(2,1)] assms(2) show ?thesis
    by (auto simp: incidents_mapped_def dest: mapped_shape_fld)
qed

definition raw_incident :: jsv where
  "raw_incident = JObj [(''id'', jn 7), (''title'', JStr ''t''), (''severity'', JStr ''CRITICAL''),
     (''status'', JStr ''OPEN''), (''agent_id'', JStr ''a1''), (''risk_score'', jn 95),
     (''created_at'', JStr ''d''), (''updated_at'', JStr ''d'')]"

definition shown_incident :: "clock \<Rightarrow> jsv" where
  "shown_incident c = (case mapIncident c raw_incident of Inr m \<Rightarrow> m | Inl _ \<Rightarrow> JNull)"

lemma map_raw_incident: "mapIncident c raw_incident = Inr (shown_incident c)"
  by (simp add: shown_incident_def mapIncident_def raw_incident_def lower_or_def)

lemma shown_incident_fields:
  "fld (shown_incident c) ''agentId'' = JStr ''a1''" "fld (shown_incident c) ''riskScore'' = jn 95"
  "fld (shown_incident c) ''severity'' = JStr ''critical''" "fld (shown_incident c) ''status'' = JStr ''open''"
  by (simp_all add: shown_incident_def mapIncident_def raw_incident_def lower_or_def lower_def lower_char_def
      char_of_def bit_0)

definition incident_answer :: response where
  "incident_answer = Inr (JObj [(''data'', JArr [raw_incident])])"

definition one_incident :: "clock \<Rightarrow> incidents_st" where
  "one_incident c = \<lparr>loading = False, error = JNull, incidents = [shown_incident c], incidentBusy = False\<rparr>"

lemma reach_one_incident:
  "reach (incidents_ops c) (\<lambda>_ _. True) (mounted (loadIncidents c True) init_incidents) (one_incident c, [])"
  by (rule reach_first_answer [where rs = "[incident_answer]"])
    (simp_all add: loadIncidents_def init_incidents_def getIncidents_def api_get_def ask_def
      incident_answer_def map_list_def map_raw_incident one_incident_def)

theorem incidents_shape_reachable_witness: "fld (shown_incident stopped_clock) ''agent_id'' = JUndef"
  using incidents_shape_reachable [OF reach_one_incident, of "shown_incident stopped_clock" stopped_clock]
  by (simp add: one_incident_def)

text \<open>
  A status change the server refuses is reported as done. With every request failing, the
  handler resolves with the requested status, and the incident is shown with it; only the text of
  the failed reload is left in \<open>error\<close>.
\<close>

theorem refused_status_reported_done:
  "run (logging (\<lambda>_. Inl err)) (handleUpdateStatus c i st) s [] =
    (Inr (JObj [(''id'', i), (''status'', st), (''updatedAt'', JStr (now_iso c))]),
     s\<lparr>incidentBusy := False,
       error := message_or (intercept_error err) ''Failed to fetch security incidents'',
       incidents := patch_by ''id'' i
         (\<lambda>x. spread2 x (JObj [(''id'', i), (''status'', st), (''updatedAt'', JStr (now_iso c))]))
         (incidents s)\<rparr>,
     [case status_suffix st of
        Some sfx \<Rightarrow> Req POST (''/incidents/'' @ to_str i @ sfx) JUndef JUndef
      | None \<Rightarrow> Req PATCH (''/incidents/'' @ to_str i) JUndef (JObj [(''status'', st)]),
      Req GET ''/incidents/'' JUndef JUndef])"
  by (cases "status_suffix st")
    (simp_all add: handleUpdateStatus_def incident_busy_def updateIncidentStatus_def api_post_def
      api_patch_def api_get_def run_simps merge_incident_def loadIncidents_def getIncidents_def)

end
