(* ===== verification/DashboardPage.thy ===== *)
theory DashboardPage
  imports HealthScore IncidentsHook FeedHooks
begin

text \<open>
  \<open>src/frontend/src/pages/Dashboard.jsx\<close>: what the dashboard loads, the banner for an urgent incident
  with its one-click isolation, and the numbers of its cards. It hands its agents and incidents to
  the gauge and the threat list of \<open>HealthScore\<close>. \<open>loadDash\<close> is the poll; the reload that a
  successful isolation starts without awaiting it is another start of that operation.
\<close>

record dash_st = load_st +
  dashError :: jsv
  dashAgents :: "jsv list"
  dashIncidents :: "jsv list"
  dashEvents :: "jsv list"
  isolatingId :: jsv
  dashToasts :: "toast list"

definition init_dash :: dash_st where
  "init_dash = \<lparr>loading = True, dashError = JNull, dashAgents = [], dashIncidents = [], dashEvents = [],
     isolatingId = JNull, dashToasts = []\<rparr>"

definition loadDash :: "clock \<Rightarrow> (dash_st, jsv) act" where
  "loadDash c = fin (catch
      (bnd (promise_all [getAgents, getIncidents c, getEvents c]) (\<lambda>rs.
         Upd (dashAgents_update (\<lambda>_. elems (rs ! 0)))
           (Upd (dashIncidents_update (\<lambda>_. elems (rs ! 1)))
             (Upd (dashEvents_update (\<lambda>_. elems (rs ! 2)))
               (Upd (dashError_update (\<lambda>_. JNull)) (Ret JUndef))))))
      (\<lambda>err. Upd (dashError_update (\<lambda>_. err)) (Ret JUndef)))
    (loading_update (\<lambda>_. False))"

text \<open>The socket callback; a \<open>null\<close> message throws, and the socket hook swallows it.\<close>

definition on_dash_message :: "clock \<Rightarrow> jsv \<Rightarrow> (dash_st, jsv) act" where
  "on_dash_message c msg =
     (if nullishp msg then Throw type_error
      else let evt = js_or (fld msg ''event'') (fld msg ''type'') in
        if evt \<in> JStr ` {''heartbeat'', ''dead_agent'', ''TELEMETRY_RISK'', ''INCIDENT_CREATED''}
        then loadDash c else Ret JUndef)"

section \<open>The urgent incident\<close>

definition urgent :: "jsv \<Rightarrow> bool res" where
  "urgent i = non_null i
     (fld i ''status'' \<in> JStr ` {''open'', ''investigating'', ''new''}
      \<and> (num_le (Fin 70) (to_num (js_or (fld i ''risk_score'') (jn 0)))
         \<or> fld i ''severity'' = JStr ''critical'' \<or> fld i ''severity'' = JStr ''high''))"

fun rfind :: "('a \<Rightarrow> bool res) \<Rightarrow> 'a list \<Rightarrow> 'a option res" where
  "rfind p [] = Inr None"
| "rfind p (x # xs) = rbind (p x) (\<lambda>b. if b then Inr (Some x) else rfind p xs)"

definition criticalActiveIncident :: "dash_st \<Rightarrow> jsv option res" where
  "criticalActiveIncident s = rfind urgent (dashIncidents s)"

definition banner_target :: "jsv \<Rightarrow> jsv" where
  \<comment> \<open>the argument of the banner's button: \<open>i.agent_id || i.agent_hostname\<close>\<close>
  "banner_target i = js_or (fld i ''agent_id'') (fld i ''agent_hostname'')"

text \<open>\<open>confirmed\<close> is what \<open>window.confirm\<close> answers.\<close>

definition handleQuickIsolate :: "jsv \<Rightarrow> bool \<Rightarrow> (dash_st, jsv) act" where
  "handleQuickIsolate agentId confirmed =
     (if \<not> truthy agentId then Ret JUndef
      else if \<not> confirmed then Ret JUndef
      else Upd (isolatingId_update (\<lambda>_. agentId))
        (fin (catch
           (bnd (await (isolateAgent agentId)) (\<lambda>_.
              Upd (dashToasts_update (\<lambda>ts. ts @ [Toast_ok (''Da phat lenh co lap agent '' @ to_str agentId @ '' thanh cong!'')]))
                (Ret JUndef)))
           (\<lambda>err. Upd (dashToasts_update (\<lambda>ts. ts @ [Toast_error (''Co lap that bai: '' @
                to_str (js_or (fld err ''message'') (JStr ''Loi mang'')))])) (Ret JUndef)))
         (isolatingId_update (\<lambda>_. JNull))))"

definition dash_ops :: "clock \<Rightarrow> dash_st \<Rightarrow> (dash_st, jsv) act set" where
  "dash_ops c s = {loadDash c} \<union> range (on_dash_message c) \<union> {handleQuickIsolate i b | i b. True}"

section \<open>The cards\<close>

definition totalOnline :: "dash_st \<Rightarrow> nat" where
  "totalOnline s = length (filter (\<lambda>a. fld a ''status'' \<in> JStr ` {''online'', ''active'', ''ACTIVE''}) (dashAgents s))"

definition isolatedAgents :: "dash_st \<Rightarrow> nat" where
  "isolatedAgents s = length (filter (\<lambda>a. fld a ''status'' = JStr ''isolated'' \<or> truthy (fld a ''is_isolated'')) (dashAgents s))"

definition blockedIps :: "dash_st \<Rightarrow> nat" where
  "blockedIps s = length (filter (\<lambda>e. fld e ''type'' = JStr ''block_ip'') (dashEvents s))"

definition unresolvedIncidents :: "dash_st \<Rightarrow> nat" where
  "unresolvedIncidents s = length (filter (\<lambda>i. fld i ''status'' \<noteq> JStr ''resolved'' \<and> fld i ''status'' \<noteq> JStr ''closed'')
     (dashIncidents s))"

text \<open>\<open>day\<close> is \<open>toDateString\<close>, which depends on the time zone.\<close>

definition alertsToday :: "(jsnum \<Rightarrow> string) \<Rightarrow> clock \<Rightarrow> dash_st \<Rightarrow> nat" where
  "alertsToday day c s = length (filter (\<lambda>e. day (date_ms c (fld e ''timestamp'')) = day (Fin (now_ms c))) (dashEvents s))"

section \<open>Invariant\<close>

definition dash_mapped :: "dash_st \<Rightarrow> bool" where
  "dash_mapped s \<longleftrightarrow> (\<forall>x\<in>set (dashIncidents s). mapped_shape x)"

text \<open>What \<open>Promise.all\<close> returns in its second place is what \<open>getIncidents\<close> returned.\<close>

lemma gather_gives:
  assumes "gather (t # u # ts) rs = Inr ys" and "task_gives Q u"
  shows "Q (ys ! 1)"
proof -
  have hd: "\<exists>y zs. gather (u # ts) rs = Inr (y # zs) \<and> Q y" if "gather (u # ts) rs = Inr zs'" for rs zs'
  proof (cases u)
    case (Now r)
    with that assms(2) show ?thesis by (auto simp: rbind_eq_Inr rmap_def task_gives_def)
  next
    case (Ask q h)
    with that assms(2) show ?thesis
      by (cases rs) (auto simp: rbind_eq_Inr rmap_def task_gives_def elim: allE [of _ "\<lambda>_. hd rs"])
  qed
  obtain rs' y zs where "ys = y # zs" and "gather (u # ts) rs' = Inr zs"
    using assms(1) by (cases t; cases rs) (auto simp: rbind_eq_Inr rmap_def)
  with hd [of rs' zs] show ?thesis by auto
qed

lemma loadDash_mapped: "keeps ok dash_mapped (loadDash c)"
proof -
  have "mapped_shape x"
    if "gather [getAgents, getIncidents c, getEvents c] rs = Inr ys" "x \<in> set (elems (ys ! 1))" for rs ys x
    using gather_gives [OF that(1) gives_getIncidents] that(2) by blast
  then show ?thesis
    unfolding loadDash_def promise_all_def
    by (intro keeps_fin keeps_catch) (auto simp: dash_mapped_def lift_def split: sum.splits)
qed

interpretation dash_hook: hook "dash_ops c" ok dash_mapped for c ok
proof
  fix s m
  assume "dash_mapped s" and "m \<in> dash_ops c s"
  then show "keeps ok dash_mapped m"
    by (auto simp: dash_ops_def loadDash_mapped on_dash_message_def handleQuickIsolate_def Let_def
        intro!: keeps_fin keeps_catch keeps_bnd)
      (auto simp: dash_mapped_def)
qed

lemma loadDash_owes: "owes loading (loadDash c)"
  by (simp add: loadDash_def owes_fin)

interpretation dash_loading: spinner "dash_ops c" ok loading for c ok
  by unfold_locales
    (auto simp: dash_ops_def owes_settles [OF loadDash_owes] on_dash_message_def handleQuickIsolate_def Let_def
      intro!: settles_fin settles_catch settles_bnd)

lemma dash_reach_mapped:
  assumes "reach (dash_ops c) ok (mounted (loadDash c) init_dash) (s, ps)" and "x \<in> set (dashIncidents s)"
  shows "mapped_shape x"
proof -
  have "dash_mapped (fst (s, ps))"
    by (rule dash_hook.reach_inv [OF assms(1)]) (simp_all add: dash_ops_def dash_mapped_def init_dash_def)
  with assms(2) show ?thesis by (simp add: dash_mapped_def)
qed

lemma rfind_Some: "rfind p xs = Inr (Some x) \<Longrightarrow> x \<in> set xs \<and> p x = Inr True"
  by (induction xs) (auto simp: rbind_eq_Inr split: if_splits)

section \<open>Properties\<close>

text \<open>
  C7: the dashboard's gauge is blind. In every reachable state of the dashboard, whatever agents
  and incidents the manager reports and however the requests interleave, the gauge counts no
  critical and no medium incident and never shows the critical level: it looks for \<open>agent_id\<close>,
  which the incident mapper has renamed to \<open>agentId\<close>.
\<close>

theorem dashboard_gauge_blind:
  assumes "reach (dash_ops c) ok (mounted (loadDash c) init_dash) (s, ps)"
    and "health_gauge c' (JArr (dashAgents s)) (JArr (dashIncidents s)) = Inr g"
  shows "unresolvedCritical g = [] \<and> unresolvedMedium g = [] \<and> level g \<noteq> Critical"
  using dash_reach_mapped [OF assms(1)] mapped_shape_fld(1)
  by (intro gauge_blind [OF assms(2)]) simp

definition demo_agent :: jsv where
  "demo_agent = (case mapAgent (JObj [(''id'', JStr ''a1''), (''status'', JStr ''online'')]) of
     Inr a \<Rightarrow> a | Inl _ \<Rightarrow> JNull)"

lemma map_demo_agent: "mapAgent (JObj [(''id'', JStr ''a1''), (''status'', JStr ''online'')]) = Inr demo_agent"
  by (simp add: demo_agent_def mapAgent_def)

lemma demo_agent_id: "fld demo_agent ''id'' = JStr ''a1''"
  by (simp add: demo_agent_def mapAgent_def)

definition dash_demo :: "clock \<Rightarrow> dash_st" where
  "dash_demo c = init_dash\<lparr>loading := False, dashAgents := [demo_agent], dashIncidents := [shown_incident c]\<rparr>"

lemma reach_dash_demo:
  "reach (dash_ops c) (\<lambda>_ _. True) (mounted (loadDash c) init_dash) (dash_demo c, [])"
  by (rule reach_first_answer [where rs = "[Inr (JObj [(''data'',
        JArr [JObj [(''id'', JStr ''a1''), (''status'', JStr ''online'')]])]),
        incident_answer, Inr (JObj [(''data'', JArr [])])]"])
    (simp_all add: loadDash_def promise_all_def getAgents_def getIncidents_def getEvents_def api_get_def ask_def
      incident_answer_def map_list_def map_raw_incident map_demo_agent init_dash_def dash_demo_def)

lemma shown_not_null: "\<not> nullishp (shown_incident c)"
  using shown_incident_fields(1) [of c] by (auto simp: nullishp_def)

theorem dashboard_gauge_blind_witness:
  "\<exists>g. health_gauge stopped_clock (JArr (dashAgents (dash_demo stopped_clock))) (JArr (dashIncidents (dash_demo stopped_clock))) = Inr g
     \<and> level g \<noteq> Critical"
proof -
  obtain g where g: "health_gauge stopped_clock (JArr (dashAgents (dash_demo stopped_clock))) (JArr (dashIncidents (dash_demo stopped_clock))) = Inr g"
    using health_gauge_total [of "JArr (dashIncidents (dash_demo stopped_clock))" stopped_clock "JArr (dashAgents (dash_demo stopped_clock))"]
    by (auto simp: dash_demo_def shown_not_null)
  with dashboard_gauge_blind [OF reach_dash_demo g] show ?thesis by blast
qed

text \<open>
  For the same reason the dashboard's list of recent threats is always empty, as long as every
  agent has an id.
\<close>

theorem dashboard_threats_empty:
  assumes "reach (dash_ops c) ok (mounted (loadDash c) init_dash) (s, ps)"
    and "JUndef \<notin> (\<lambda>a. fld a ''id'') ` set (dashAgents s)"
    and "recent_threats c' (JArr (dashAgents s)) (JArr (dashIncidents s)) = Inr xs"
  shows "xs = []"
proof -
  obtain ys where ys: "rfilter (is_threat c' (dashAgents s)) (dashIncidents s) = Inr ys"
    and xs: "xs = js_slice 0 5 (js_sort (by_desc (threat_ms c')) ys)"
    using assms(3) by (auto simp: recent_threats_def rmap_def rbind_eq_Inr)
  have "is_threat c' (dashAgents s) i \<noteq> Inr True" if "i \<in> set (dashIncidents s)" for i
    using mapped_shape_fld(1) [OF dash_reach_mapped [OF assms(1) that]] assms(2)
    by (auto simp: is_threat_def non_null_def)
  with rfilter_subset [OF ys] have "ys = []"
    by (cases ys) auto
  then show ?thesis by (simp add: xs js_slice_def)
qed

theorem dashboard_threats_empty_witness:
  "\<exists>xs. recent_threats stopped_clock (JArr (dashAgents (dash_demo stopped_clock))) (JArr (dashIncidents (dash_demo stopped_clock))) = Inr xs \<and> xs = []"
proof -
  have ids: "JUndef \<notin> (\<lambda>a. fld a ''id'') ` set (dashAgents (dash_demo stopped_clock))"
    by (simp add: dash_demo_def demo_agent_id)
  obtain xs where xs: "recent_threats stopped_clock (JArr (dashAgents (dash_demo stopped_clock))) (JArr (dashIncidents (dash_demo stopped_clock))) = Inr xs"
    using shown_not_null by (auto simp: recent_threats_def dash_demo_def is_threat_def)
  show ?thesis
    using dashboard_threats_empty [OF reach_dash_demo ids xs] xs by blast
qed

text \<open>
  The banner's one-click isolation does nothing. When the banner shows an urgent incident, its
  button is wired to an undefined agent: the click sends no request and changes no state,
  confirmed or not.
\<close>

theorem banner_isolation_dead:
  assumes "reach (dash_ops c) ok (mounted (loadDash c) init_dash) (s, ps)"
    and "criticalActiveIncident s = Inr (Some i)"
  shows "banner_target i = JUndef
    \<and> run srv (handleQuickIsolate (banner_target i) confirmed) s w = (Inr JUndef, s, w)"
proof -
  have "mapped_shape i"
    using rfind_Some [of urgent "dashIncidents s" i] assms(2)
    by (intro dash_reach_mapped [OF assms(1)]) (simp add: criticalActiveIncident_def)
  then have "banner_target i = JUndef"
    by (simp add: banner_target_def mapped_shape_fld)
  then show ?thesis by (simp add: handleQuickIsolate_def)
qed

theorem banner_isolation_dead_witness:
  "run (logging (\<lambda>_. Inl (JObj []))) (handleQuickIsolate (banner_target (shown_incident stopped_clock)) True) (dash_demo stopped_clock) [] =
     (Inr JUndef, dash_demo stopped_clock, [])"
proof -
  have "urgent (shown_incident stopped_clock) = Inr True"
    using shown_not_null shown_incident_fields
    by (simp add: urgent_def image_iff)
  then have "criticalActiveIncident (dash_demo stopped_clock) = Inr (Some (shown_incident stopped_clock))"
    by (simp add: criticalActiveIncident_def dash_demo_def)
  from banner_isolation_dead [OF reach_dash_demo this, of "logging (\<lambda>_. Inl (JObj []))" True "[]"] show ?thesis
    by (rule conjunct2)
qed

end
