(* ===== verification/DetectionRulesHook.thy ===== *)
theory DetectionRulesHook
  imports HookBase
begin

text \<open>
  \<open>src/frontend/src/hooks/useDetectionRules.js\<close>: the detection rules with their optimistic edits.
  A handler is given the rendered list it closed over (\<open>rendered\<close>), which may be older than the state
  its functional updates act on.
\<close>

record det_st = fetch_st +
  rules :: "jsv list"

definition init_det :: det_st where
  "init_det = \<lparr>loading = True, error = JNull, rules = []\<rparr>"

definition loadRules :: "('z det_st_scheme, jsv) act" where
  "loadRules = Upd (loading_update (\<lambda>_. True))
     (fin (catch
        (bnd (await getDetectionRules) (\<lambda>data.
           Upd (rules_update (\<lambda>_. elems data)) (Upd (error_update (\<lambda>_. JNull)) (Ret JUndef))))
        (\<lambda>err. Upd (error_update (\<lambda>_. message_or err ''Failed to load detection rules''))
           (Upd (rules_update (\<lambda>_. [])) (Ret JUndef))))
      (loading_update (\<lambda>_. False)))"

definition set_field :: "string \<Rightarrow> jsv \<Rightarrow> jsv \<Rightarrow> 'z det_st_scheme \<Rightarrow> 'z det_st_scheme" where
  \<comment> \<open>\<open>setRules((prev) => prev.map((r) => (r.rule_id === id ? { ...r, [p]: v } : r)))\<close>\<close>
  "set_field p ruleId v = rules_update (patch_by ''rule_id'' ruleId (\<lambda>r. with_fld r p v))"

definition handleToggleRule :: "jsv list \<Rightarrow> jsv \<Rightarrow> ('z det_st_scheme, jsv) act" where
  "handleToggleRule rendered ruleId =
     (case find_by ''rule_id'' ruleId rendered of
        None \<Rightarrow> Ret JUndef
      | Some target \<Rightarrow>
          let newStatus = JBool (\<not> truthy (fld target ''enabled'')) in
          optimistic (set_field ''enabled'' ruleId newStatus)
            (tbind (updateDetectionRule ruleId (JObj [(''enabled'', newStatus)])) (\<lambda>_. Inr JUndef))
            (\<lambda>_ s. s)
            (set_field ''enabled'' ruleId (fld target ''enabled'')))"

text \<open>
  The two numeric edits differ in the field only. Without a target the value to go back to is 1.
\<close>

definition update_numeric :: "string \<Rightarrow> jsv list \<Rightarrow> jsv \<Rightarrow> jsv \<Rightarrow> ('z det_st_scheme, jsv) act" where
  "update_numeric p rendered ruleId newValue =
     (let n = parse_float newValue in
      if n = NaN then Ret JUndef
      else let old = (case find_by ''rule_id'' ruleId rendered of Some t \<Rightarrow> fld t p | None \<Rightarrow> jn 1) in
        optimistic (set_field p ruleId (JNum n))
          (tbind (updateDetectionRule ruleId (JObj [(p, JNum n)])) (\<lambda>_. Inr JUndef))
          (\<lambda>_ s. s)
          (set_field p ruleId old))"

definition handleUpdateWeight :: "jsv list \<Rightarrow> jsv \<Rightarrow> jsv \<Rightarrow> ('z det_st_scheme, jsv) act" where
  "handleUpdateWeight = update_numeric ''weight''"

definition handleUpdateBaseScore :: "jsv list \<Rightarrow> jsv \<Rightarrow> jsv \<Rightarrow> ('z det_st_scheme, jsv) act" where
  "handleUpdateBaseScore = update_numeric ''base_score''"

definition handleUpdateRule :: "jsv \<Rightarrow> jsv \<Rightarrow> ('z det_st_scheme, jsv) act" where
  "handleUpdateRule ruleId payload =
     bnd (await (updateDetectionRule ruleId payload)) (\<lambda>updated.
       Upd (rules_update (patch_by ''rule_id'' ruleId (\<lambda>r. spread2 r (js_or updated payload))))
         (Ret updated))"

definition handleCreateRule :: "jsv \<Rightarrow> ('z det_st_scheme, jsv) act" where
  "handleCreateRule ruleData =
     bnd (await (createDetectionRule ruleData)) (\<lambda>created.
       Upd (rules_update (\<lambda>prev. prev @ [js_or created ruleData])) (Ret (js_or created ruleData)))"

definition handleDeleteRule :: "jsv list \<Rightarrow> jsv \<Rightarrow> ('z det_st_scheme, jsv) act" where
  "handleDeleteRule rendered ruleId =
     optimistic (rules_update (remove_by ''rule_id'' ruleId))
       (tbind (deleteDetectionRule ruleId) (\<lambda>_. Inr JUndef))
       (\<lambda>_ s. s)
       (rules_update (\<lambda>_. rendered))"

text \<open>The handlers a rendered hook offers, each closed over the list it was rendered with.\<close>

definition det_ops :: "det_st \<Rightarrow> (det_st, jsv) act set" where
  "det_ops s = {loadRules} \<union> range (handleToggleRule (rules s))
     \<union> {handleUpdateWeight (rules s) i v | i v. True} \<union> {handleUpdateBaseScore (rules s) i v | i v. True}
     \<union> {handleUpdateRule i p | i p. True} \<union> range handleCreateRule
     \<union> range (handleDeleteRule (rules s))"

section \<open>Optimistic edits\<close>

lemma set_field_undo:
  assumes "keyed ''rule_id'' (rules s)" and "carries p (rules s)" and "p \<noteq> ''rule_id''"
    and "find_by ''rule_id'' ruleId (rules s) = Some t"
  shows "set_field p ruleId (fld t p) (set_field p ruleId v s) = s"
  using patch_field_undo [OF assms(1,2) _ assms(4)] assms(3) by (simp add: set_field_def)

interpretation det_field: rollback "set_field p ruleId v" "set_field p ruleId old"
  "\<lambda>s. keyed ''rule_id'' (rules s) \<and> carries p (rules s) \<and> p \<noteq> ''rule_id'' \<and>
     (\<exists>t. find_by ''rule_id'' ruleId (rules s) = Some t \<and> fld t p = old)"
  for p ruleId v old
  by unfold_locales (auto intro: set_field_undo)

interpretation det_delete: rollback "rules_update (remove_by ''rule_id'' ruleId)"
  "rules_update (\<lambda>_. rendered)" "\<lambda>s. rules s = rendered"
  for ruleId rendered
  by unfold_locales auto

section \<open>The loading flag\<close>

lemma loadRules_owes: "owes loading loadRules"
  by (simp add: loadRules_def owes_fin)

lemma set_field_loading [simp]: "loading (set_field p i v s) = loading s"
  by (simp add: set_field_def)

interpretation det_spinner: spinner det_ops ok loading for ok
proof
  fix m s
  assume "m \<in> det_ops s"
  then show "settles loading m"
    by (auto simp: det_ops_def owes_settles [OF loadRules_owes] handleToggleRule_def
        handleUpdateWeight_def handleUpdateBaseScore_def update_numeric_def handleUpdateRule_def
        handleCreateRule_def handleDeleteRule_def Let_def
        intro!: settles_optimistic settles_bnd split: option.splits)
qed

section \<open>The error shown\<close>

definition det_error_ok :: "det_st \<Rightarrow> bool" where
  "det_error_ok s \<longleftrightarrow> null_or_text (error s)"

lemma loadRules_keeps: "keeps ok det_error_ok loadRules"
proof -
  have plain: "plain_task getDetectionRules" by (simp add: getDetectionRules_def)
  show ?thesis
    unfolding loadRules_def
    by (auto simp: det_error_ok_def message_or_text plain throws_await
        intro!: keeps_fin keeps_catch_throws [where Q = plain_error] keeps_bnd throws_bnd)
qed

interpretation det_hook: hook det_ops ok det_error_ok for ok
proof
  fix s m
  assume "det_error_ok s" and "m \<in> det_ops s"
  then show "keeps ok det_error_ok m"
    by (auto simp: det_ops_def loadRules_keeps handleToggleRule_def handleUpdateWeight_def
        handleUpdateBaseScore_def update_numeric_def handleUpdateRule_def handleCreateRule_def
        handleDeleteRule_def Let_def det_error_ok_def set_field_def
        intro!: keeps_optimistic keeps_bnd split: option.splits)
qed

section \<open>Properties\<close>

text \<open>
  C27: toggling a rule whose request the server refuses leaves the whole hook state as it was (the
  optimistic change is undone), passes the error on and has sent exactly one PUT, with the
  negated flag.
\<close>

theorem toggle_rule_failure_restores:
  assumes "keyed ''rule_id'' (rules s)" and "carries ''enabled'' (rules s)"
    and "find_by ''rule_id'' i (rules s) = Some t" and "f (Req PUT (''/rules/detection/'' @ to_str i) JUndef
       (JObj [(''enabled'', JBool (\<not> truthy (fld t ''enabled'')))])) = Inl err"
  shows "run (logging f) (handleToggleRule (rules s) i) s [] =
    (Inl (intercept_error err), s, [Req PUT (''/rules/detection/'' @ to_str i) JUndef
       (JObj [(''enabled'', JBool (\<not> truthy (fld t ''enabled'')))])])"
  using assms(3,4)
    det_field.undo_do [of s "''enabled''" i "fld t ''enabled''" "JBool (\<not> truthy (fld t ''enabled''))"]
    assms(1,2)
  by (simp add: handleToggleRule_def updateDetectionRule_def api_put_def Let_def)

definition rule_a :: jsv where
  "rule_a = JObj [(''rule_id'', JStr ''R1''), (''enabled'', JBool True), (''weight'', jn 2)]"

definition rule_b :: jsv where
  "rule_b = JObj [(''rule_id'', JStr ''R2''), (''enabled'', JBool False), (''weight'', jn 1)]"

definition two_rules :: det_st where
  "two_rules = init_det\<lparr>rules := [rule_a, rule_b]\<rparr>"

theorem toggle_rule_failure_restores_witness:
  "state_of (run (logging (\<lambda>_. Inl (JObj []))) (handleToggleRule (rules two_rules) (JStr ''R1'')) two_rules [])
     = two_rules"
proof -
  have k: "keyed ''rule_id'' (rules two_rules)" "carries ''enabled'' (rules two_rules)"
    by (simp_all add: two_rules_def init_det_def rule_a_def rule_b_def keyed_def carries_def)
  have t: "find_by ''rule_id'' (JStr ''R1'') (rules two_rules) = Some rule_a"
    by (simp add: two_rules_def init_det_def rule_a_def find_by_def has_id_def)
  show ?thesis
    using toggle_rule_failure_restores [OF k t, of "\<lambda>_. Inl (JObj [])" "JObj []"] by simp
qed

text \<open>
  When a delete fails, the rollback writes back the list that was rendered when the delete was
  clicked. Whatever happened to the rules while the request was pending (here: any state \<open>s'\<close>) is
  overwritten.
\<close>

theorem delete_rollback_overwrites:
  "\<exists>q k. advance (handleDeleteRule rendered i) s = (s\<lparr>rules := remove_by ''rule_id'' i (rules s)\<rparr>, Some ([q], k))
     \<and> q = Req DELETE (''/rules/detection/'' @ to_str i) JUndef JUndef
     \<and> (\<forall>s' err. advance (k [Inl err]) s' = (s'\<lparr>rules := rendered\<rparr>, None))"
  by (simp add: handleDeleteRule_def optimistic_def deleteDetectionRule_def api_delete_def ask_def)

text \<open>
  In every interleaving of the hook's handlers, from mounting on and whatever the server answers,
  the spinner is only shown while a request is pending that will take it down; with nothing
  pending it is down.
\<close>

theorem det_idle_not_loading:
  assumes "reach det_ops ok (mounted loadRules init_det) (s, [])"
  shows "\<not> loading s"
  using det_spinner.idle_not_busy [OF assms] loadRules_owes by blast

definition answered :: "response" where
  "answered = Inr (JObj [(''data'', JArr [rule_a])])"

lemma load_answered:
  "reach det_ops (\<lambda>_ _. True) (mounted loadRules init_det)
     (\<lparr>loading = False, error = JNull, rules = [rule_a]\<rparr>, [])"
  by (rule reach_first_answer [where rs = "[answered]"])
    (simp_all add: loadRules_def init_det_def getDetectionRules_def list_of_def api_get_def ask_def
      answered_def)

theorem det_idle_not_loading_witness: "\<not> loading \<lparr>loading = False, error = JNull, rules = [rule_a]\<rparr>"
  using det_idle_not_loading [OF load_answered] .

end
