(* ===== verification/DetectionRulesPage.thy ===== *)
theory DetectionRulesPage
  imports DetectionRulesHook Paging Json
begin

text \<open>
  \<open>src/frontend/src/pages/DetectionRules.jsx\<close>: the search and the grouping by category, the inline weight
  fields, and the form that edits a rule with its configuration as JSON text.
\<close>

section \<open>The page\<close>

record rule_form =
  rf_id :: jsv
  rf_name :: jsv
  rf_desc :: jsv
  rf_category :: jsv
  rf_weight :: jsv
  rf_base :: jsv
  rf_enabled :: jsv
  rf_config :: string

record detpage_st = det_st +
  actionNotice :: "(string \<times> bool) option"
  modalOpen :: bool
  formError :: jsv
  editRule :: jsv
  ruleForm :: rule_form
  viewingRule :: jsv
  detailOpen :: bool

definition blank_rule :: rule_form where
  "blank_rule = \<lparr>rf_id = JStr '''', rf_name = JStr '''', rf_desc = JStr '''', rf_category = JStr ''os'', rf_weight = jn 1,
     rf_base = jn 1, rf_enabled = JBool True, rf_config = ''{}''\<rparr>"

definition init_detpage :: detpage_st where
  "init_detpage = \<lparr>loading = True, error = JNull, rules = [], actionNotice = None, modalOpen = False, formError = JStr '''',
     editRule = JNull, ruleForm = blank_rule, viewingRule = JNull, detailOpen = False\<rparr>"

definition showNotice :: "string \<Rightarrow> bool \<Rightarrow> detpage_st \<Rightarrow> detpage_st" where
  "showNotice msg isError = actionNotice_update (\<lambda>_. Some (msg, isError))"

text \<open>\<open>(r.category || 'os')\<close> in lower and upper case.\<close>

definition rule_matches :: "string \<Rightarrow> string \<Rightarrow> jsv \<Rightarrow> bool res" where
  "rule_matches search categoryFilter r =
     rbind (if search = [] then Inr True else any_field r search [''rule_id'', ''name'', ''description'']) (\<lambda>matchSearch.
     rbind (get r ''category'') (\<lambda>v. rbind (to_lower (js_or v (JStr ''os''))) (\<lambda>rCategory.
       Inr (matchSearch \<and> (categoryFilter = ''All'' \<or> rCategory = JStr (lower categoryFilter))))))"

definition filteredDetRules :: "string \<Rightarrow> string \<Rightarrow> jsv list \<Rightarrow> jsv list res" where
  "filteredDetRules search categoryFilter rs = rfilter (rule_matches search categoryFilter) rs"

definition category_of :: "jsv \<Rightarrow> jsv res" where
  "category_of r = to_upper (js_or (fld r ''category'') (JStr ''os''))"

definition add_to_group :: "string \<Rightarrow> jsv \<Rightarrow> (string \<times> jsv list) list \<Rightarrow> (string \<times> jsv list) list" where
  "add_to_group cat r gs = (case map_of gs cat of
     None \<Rightarrow> gs @ [(cat, [r])] | Some rs \<Rightarrow> AList.update cat (rs @ [r]) gs)"

text \<open>The groups in the order their categories come up.\<close>

fun group_rules :: "jsv list \<Rightarrow> (string \<times> jsv list) list \<Rightarrow> (string \<times> jsv list) list res" where
  "group_rules [] gs = Inr gs"
| "group_rules (r # rs) gs = rbind (category_of r) (\<lambda>cat. group_rules rs (add_to_group (to_str cat) r gs))"

definition groupedRules :: "jsv list \<Rightarrow> (string \<times> jsv list) list res" where
  "groupedRules rs = group_rules rs []"

section \<open>Opening the form\<close>

definition openCreateModal :: "detpage_st \<Rightarrow> detpage_st" where
  "openCreateModal s = s\<lparr>editRule := JNull,
     ruleForm := blank_rule\<lparr>rf_id := JStr (''custom_rule_'' @ nat_str (length (rules s) + 1)), rf_config := ''{'' @ new_line 0 @ ''}''\<rparr>,
     formError := JStr '''', modalOpen := True\<rparr>"

definition edit_rule_form :: "jsv \<Rightarrow> rule_form" where
  "edit_rule_form r = \<lparr>rf_id = fld r ''rule_id'', rf_name = js_or (fld r ''name'') (JStr ''''),
     rf_desc = js_or (fld r ''description'') (JStr ''''), rf_category = js_or (fld r ''category'') (JStr ''os''),
     rf_weight = dflt (fld r ''weight'') (jn 1), rf_base = dflt (fld r ''base_score'') (jn 1),
     rf_enabled = dflt (fld r ''enabled'') (JBool True),
     rf_config = JSON_stringify (js_or (fld r ''config'') (JObj []))\<rparr>"

definition openEditModal :: "jsv \<Rightarrow> detpage_st \<Rightarrow> detpage_st" where
  "openEditModal r s = s\<lparr>editRule := r, ruleForm := edit_rule_form r, formError := JStr '''', modalOpen := True\<rparr>"

definition openDetailModal :: "jsv \<Rightarrow> detpage_st \<Rightarrow> detpage_st" where
  "openDetailModal r s = s\<lparr>viewingRule := r, detailOpen := True\<rparr>"

section \<open>Handlers\<close>

definition reported :: "(detpage_st, jsv) act \<Rightarrow> string \<Rightarrow> string \<Rightarrow> (detpage_st, jsv) act" where
  \<comment> \<open>\<open>try { await m; showNotice(ok) } catch (err) { showNotice(`${bad}${err.message}`, true) }\<close>\<close>
  "reported m ok bad = catch (bnd m (\<lambda>_. Upd (showNotice ok False) (Ret JUndef)))
     (\<lambda>err. Upd (showNotice (bad @ to_str (fld err ''message'')) True) (Ret JUndef))"

definition handleToggle :: "jsv list \<Rightarrow> jsv \<Rightarrow> (detpage_st, jsv) act" where
  "handleToggle rendered i =
     reported (handleToggleRule rendered i) (''Updated rule status for '' @ to_str i) ''Failed to toggle rule: ''"

definition handleSaveWeight :: "jsv list \<Rightarrow> jsv \<Rightarrow> jsv \<Rightarrow> (detpage_st, jsv) act" where
  "handleSaveWeight rendered i v = reported (handleUpdateWeight rendered i v)
     (''Updated risk weight for '' @ to_str i @ '' to '' @ to_str v) ''Failed to update weight: ''"

definition handleSaveBaseScore :: "jsv list \<Rightarrow> jsv \<Rightarrow> jsv \<Rightarrow> (detpage_st, jsv) act" where
  "handleSaveBaseScore rendered i v = reported (handleUpdateBaseScore rendered i v)
     (''Updated base score for '' @ to_str i @ '' to '' @ to_str v) ''Failed to update base score: ''"

definition handleDelete :: "jsv list \<Rightarrow> jsv \<Rightarrow> bool \<Rightarrow> (detpage_st, jsv) act" where
  "handleDelete rendered i confirmed =
     (if \<not> confirmed then Ret JUndef
      else reported (handleDeleteRule rendered i)
        (''Deleted detection rule '' @ [CHR 0x27] @ to_str i @ [CHR 0x27]) ''Failed to delete rule: '')"

definition weight_or_1 :: "jsv \<Rightarrow> jsv" where
  "weight_or_1 v = js_or (JNum (parse_float v)) (jn 1)"

definition parsed_config :: "rule_form \<Rightarrow> jsv res" where
  "parsed_config fm = (if rf_config fm = [] then Inr (JObj []) else JSON_parse (rf_config fm))"

definition rule_payload :: "rule_form \<Rightarrow> jsv \<Rightarrow> jsv" where
  "rule_payload fm config = JObj
     [(''rule_id'', rf_id fm), (''name'', rf_name fm), (''description'', rf_desc fm), (''enabled'', rf_enabled fm),
      (''weight'', weight_or_1 (rf_weight fm)), (''base_score'', weight_or_1 (rf_base fm)),
      (''category'', rf_category fm), (''config'', config)]"

definition handleFormSubmit :: "rule_form \<Rightarrow> jsv \<Rightarrow> (detpage_st, jsv) act" where
  \<comment> \<open>with the form and the edited rule of the rendering\<close>
  "handleFormSubmit fm edited = Upd (formError_update (\<lambda>_. JStr ''''))
     (case parsed_config fm of
        Inl _ \<Rightarrow> Upd (formError_update (\<lambda>_. JStr ''Invalid JSON in Rule Configuration field'')) (Ret JUndef)
      | Inr config \<Rightarrow> catch
          (thn (if truthy edited
                then bnd (handleUpdateRule (rf_id fm) (rule_payload fm config)) (\<lambda>_. Upd (showNotice
                  (''Updated detection rule '' @ [CHR 0x27] @ to_str (rf_id fm) @ [CHR 0x27]) False) (Ret JUndef))
                else bnd (handleCreateRule (rule_payload fm config)) (\<lambda>_. Upd (showNotice
                  (''Created new detection rule '' @ [CHR 0x27] @ to_str (rf_id fm) @ [CHR 0x27]) False) (Ret JUndef)))
            (Upd (modalOpen_update (\<lambda>_. False)) (Ret JUndef)))
          (\<lambda>err. Upd (formError_update (\<lambda>_. message_or err ''Failed to save rule'')) (Ret JUndef)))"

text \<open>\<open>WeightInput\<close>: leaving the field saves when the number changed; \<open>!==\<close> holds between two \<open>NaN\<close>.\<close>

definition handleBlur :: "jsv \<Rightarrow> jsv \<Rightarrow> jsv option" where
  "handleBlur shown initialWeight =
     (if \<not> strict_eq (JNum (parse_float shown)) (JNum (parse_float initialWeight)) then Some shown else None)"

section \<open>Lemmas\<close>

text \<open>The grouping invariant: the groups hold the rules seen so far, each under its category.\<close>

definition in_own_group :: "(string \<times> jsv list) list \<Rightarrow> bool" where
  "in_own_group gs \<longleftrightarrow> distinct (map fst gs) \<and>
     (\<forall>(c, rs) \<in> set gs. rs \<noteq> [] \<and> (\<forall>r\<in>set rs. \<exists>k. category_of r = Inr k \<and> c = to_str k))"

definition grouped_rules :: "(string \<times> jsv list) list \<Rightarrow> jsv multiset" where
  "grouped_rules gs = sum_list (map (\<lambda>g. mset (snd g)) gs)"

lemma update_group:
  "distinct (map fst gs) \<Longrightarrow> map_of gs c = Some rs \<Longrightarrow>
     grouped_rules (AList.update c (rs @ [r]) gs) = add_mset r (grouped_rules gs)"
  by (induction gs) (auto simp: grouped_rules_def split: if_splits)

lemma add_to_group_inv:
  assumes "in_own_group gs" and "category_of r = Inr k"
  shows "in_own_group (add_to_group (to_str k) r gs) \<and> grouped_rules (add_to_group (to_str k) r gs) = add_mset r (grouped_rules gs)"
proof (cases "map_of gs (to_str k)")
  case None
  then have "to_str k \<notin> fst ` set gs" by (simp add: map_of_eq_None_iff)
  with assms None show ?thesis
    by (auto simp: in_own_group_def add_to_group_def grouped_rules_def)
next
  case (Some rs)
  have d: "distinct (map fst gs)" using assms(1) by (simp add: in_own_group_def)
  have rs: "(to_str k, rs) \<in> set gs" using Some by (rule map_of_SomeD)
  have "distinct (map fst (AList.update (to_str k) (rs @ [r]) gs))"
    using d by (rule distinct_update)
  moreover have "q = (to_str k, rs @ [r]) \<or> q \<in> set gs" if "q \<in> set (AList.update (to_str k) (rs @ [r]) gs)" for q
    using that by (induction gs) (auto split: if_splits)
  moreover have "snd q \<noteq> [] \<and> (\<forall>x\<in>set (snd q). \<exists>k'. category_of x = Inr k' \<and> fst q = to_str k')"
    if "q = (to_str k, rs @ [r]) \<or> q \<in> set gs" for q
    using that
  proof
    assume "q = (to_str k, rs @ [r])"
    with assms rs show ?thesis by (auto simp: in_own_group_def)
  next
    assume "q \<in> set gs"
    with assms(1) show ?thesis by (cases q) (auto simp: in_own_group_def)
  qed
  ultimately have "in_own_group (AList.update (to_str k) (rs @ [r]) gs)"
    unfolding in_own_group_def case_prod_beta by blast
  with Some update_group [OF d Some] show ?thesis by (simp add: add_to_group_def)
qed

lemma group_rules_inv:
  "group_rules rs gs = Inr hs \<Longrightarrow> in_own_group gs \<Longrightarrow> in_own_group hs \<and> grouped_rules hs = grouped_rules gs + mset rs"
proof (induction rs arbitrary: gs)
  case (Cons r rs)
  then obtain k where k: "category_of r = Inr k" "group_rules rs (add_to_group (to_str k) r gs) = Inr hs"
    by (auto simp: rbind_eq_Inr)
  from add_to_group_inv [OF Cons.prems(2) k(1)] Cons.IH [OF k(2)] show ?case by simp
qed simp

text \<open>The groups in one comprehension: the categories in the order they come up, each with its rules in the order of the list.\<close>

definition by_category :: "(string \<times> jsv) list \<Rightarrow> (string \<times> jsv list) list" where
  "by_category ps = map (\<lambda>c. (c, map snd (filter (\<lambda>p. fst p = c) ps))) (rev (remdups (rev (map fst ps))))"

lemma map_of_keys: "map_of (map (\<lambda>k. (k, f k)) ks) c = (if c \<in> set ks then Some (f c) else None)"
  by (induction ks) auto

lemma by_category_snoc: "add_to_group c r (by_category ps) = by_category (ps @ [(c, r)])"
proof (cases "c \<in> fst ` set ps")
  case True
  let ?cs = "rev (remdups (rev (map fst ps)))"
  have upd: "AList.update c v (map (\<lambda>k. (k, f k)) ks) = map (\<lambda>k. (k, if k = c then v else f k)) ks"
    if "distinct ks" "c \<in> set ks" for v f ks
    using that by (induction ks) (auto simp: map_idI)
  have "map_of (by_category ps) c = Some (map snd (filter (\<lambda>p. fst p = c) ps))"
    using True by (auto simp: by_category_def map_of_keys)
  moreover have "c \<in> set ?cs" using True by auto
  ultimately show ?thesis
    using True by (auto simp: add_to_group_def by_category_def upd)
next
  case False
  then have "map_of (by_category ps) c = None" by (simp add: by_category_def map_of_keys)
  moreover have "filter (\<lambda>p. fst p = c) ps = []" using False by (force simp: filter_empty_conv)
  ultimately have "map_of (by_category ps) c = None" and "filter (\<lambda>p. fst p = c) ps = []" by blast+
  with False show ?thesis
    by (auto simp: add_to_group_def by_category_def)
qed

lemma group_rules_by_category:
  "group_rules rs (by_category ps) = rbind (rmapM category_of rs) (\<lambda>cs. Inr (by_category (ps @ zip (map to_str cs) rs)))"
  by (induction rs arbitrary: ps) (auto simp: by_category_snoc rbind_def split: sum.splits)

section \<open>Properties\<close>

text \<open>
  Grouping loses and repeats nothing: when it does not fail, every filtered rule is in exactly one group, as often as
  it was in the list, every group carries the category of all its rules, no category has two groups and no group
  is empty.
\<close>

theorem grouping_partition:
  assumes "groupedRules rs = Inr gs"
  shows "mset (concat (map snd gs)) = mset rs \<and> distinct (map fst gs)
    \<and> (\<forall>(c, xs) \<in> set gs. xs \<noteq> [] \<and> (\<forall>r\<in>set xs. \<exists>k. category_of r = Inr k \<and> c = to_str k))"
proof -
  have "in_own_group gs \<and> grouped_rules gs = mset rs"
    using group_rules_inv [OF assms [unfolded groupedRules_def]] by (simp add: in_own_group_def grouped_rules_def)
  moreover have "grouped_rules gs = mset (concat (map snd gs))"
    by (simp add: grouped_rules_def mset_concat comp_def)
  ultimately show ?thesis by (simp add: in_own_group_def)
qed

text \<open>
  C18: the incremental grouping of the page, a map of lists filled rule by rule, is the grouping written in one comprehension:
  the categories in the order in which they first come up, each with exactly its rules in the order of the list; it fails
  where the category of some rule cannot be read, with that error.
\<close>

theorem grouping_reference:
  "groupedRules rs = rbind (rmapM category_of rs) (\<lambda>cs. Inr (by_category (zip (map to_str cs) rs)))"
  using group_rules_by_category [of rs "[]"] by (simp add: groupedRules_def by_category_def)

definition os_rule :: "string \<Rightarrow> jsv" where
  "os_rule i = JObj [(''rule_id'', JStr i), (''category'', JStr ''os''), (''weight'', jn 2)]"

theorem grouping_partition_witness:
  "\<exists>gs. groupedRules [os_rule ''a'', os_rule ''b''] = Inr gs \<and> length (concat (map snd gs)) = 2"
proof -
  have g: "groupedRules [os_rule ''a'', os_rule ''b''] = Inr [(upper ''os'', [os_rule ''a'', os_rule ''b''])]"
    by (simp add: groupedRules_def category_of_def os_rule_def add_to_group_def)
  from grouping_partition [OF g] have "size (mset (concat (map snd [(upper ''os'', [os_rule ''a'', os_rule ''b''])]))) =
      size (mset [os_rule ''a'', os_rule ''b''])" by presburger
  with g show ?thesis by auto
qed

text \<open>The rule the form proposes as the k-th.\<close>

definition numbered :: "nat \<Rightarrow> jsv" where
  "numbered k = os_rule (''custom_rule_'' @ nat_str k)"

text \<open>
  Of n rules numbered by the form any but the last is deleted: the form for a new rule then proposes the identifier of
  the last one, which is taken.
\<close>

theorem proposed_id_taken:
  assumes "1 \<le> i" and "i < n" and "rules s = map numbered (remove1 i [1..<Suc n])"
  shows "rf_id (ruleForm (openCreateModal s)) = fld (numbered n) ''rule_id'' \<and> numbered n \<in> set (rules s)"
proof -
  have "i \<in> set [1..<Suc n]" using assms(1,2) by auto
  then have len: "length (rules s) + 1 = n"
    using assms by (simp add: length_remove1 del: upt_Suc)
  have "n \<in> set (remove1 i [1..<Suc n])" using assms(1,2) by simp
  with assms(3) have "numbered n \<in> set (rules s)" by (simp del: upt_Suc)
  moreover have "rf_id (ruleForm (openCreateModal s)) = fld (numbered n) ''rule_id''"
    unfolding openCreateModal_def len by (simp add: numbered_def os_rule_def)
  ultimately show ?thesis by blast
qed

theorem proposed_id_taken_witness:
  "numbered 2 \<in> set (rules (init_detpage\<lparr>rules := [numbered 2]\<rparr>))
   \<and> rf_id (ruleForm (openCreateModal (init_detpage\<lparr>rules := [numbered 2]\<rparr>))) = fld (numbered 2) ''rule_id''"
  using proposed_id_taken [of 1 2 "init_detpage\<lparr>rules := [numbered 2]\<rparr>"]
  by (simp add: upt_rec numeral_2_eq_2)

text \<open>A stored rule: texts that are not empty, numbers of at most 17 decimals, a configuration with a JSON form.\<close>

definition stored_rule :: "jsv \<Rightarrow> bool" where
  "stored_rule r \<longleftrightarrow> (\<exists>n d k w b e ps. fld r ''name'' = JStr n \<and> n \<noteq> [] \<and> fld r ''description'' = JStr d \<and> d \<noteq> []
     \<and> fld r ''category'' = JStr k \<and> k \<noteq> [] \<and> fld r ''weight'' = jn w \<and> decimal 17 w \<and> fld r ''base_score'' = jn b \<and> decimal 17 b
     \<and> fld r ''enabled'' = JBool e \<and> fld r ''config'' = JObj ps \<and> json_ok (JObj ps))"


definition weightless_rule :: jsv where
  "weightless_rule = JObj [(''rule_id'', JStr ''r''), (''name'', JStr ''n''), (''description'', JStr ''d''), (''category'', JStr ''os''),
     (''weight'', jn 0), (''base_score'', jn 5), (''enabled'', JBool True), (''config'', JObj [(''ports'', JArr [jn 22])])]"


text \<open>
  Saving an edited rule. A configuration that is not JSON is refused without a request; a refusal of the manager
  is shown in the form, which stays open with the list as it was; otherwise the form closes and the rule is replaced by
  what the manager answered.
\<close>

theorem rule_save_outcome:
  assumes "truthy edited"
  shows "case run (logging f) (handleFormSubmit fm edited) s [] of (r, s', asked) \<Rightarrow> r = Inr JUndef \<and>
    (case parsed_config fm of
       Inl _ \<Rightarrow> asked = [] \<and> s' = s\<lparr>formError := JStr ''Invalid JSON in Rule Configuration field''\<rparr>
     | Inr config \<Rightarrow> (let q = Req PUT (''/rules/detection/'' @ to_str (rf_id fm)) JUndef (rule_payload fm config) in asked = [q] \<and>
         (case f q of
            Inl err \<Rightarrow> s' = s\<lparr>formError := message_or (intercept_error err) ''Failed to save rule''\<rparr>
          | Inr res \<Rightarrow> \<not> modalOpen s' \<and> formError s' = JStr '''' \<and> rules s' = patch_by ''rule_id'' (rf_id fm)
              (\<lambda>r. spread2 r (js_or (fld res ''data'') (rule_payload fm config))) (rules s))))"
proof (cases "parsed_config fm")
  case (Inl e)
  then show ?thesis by (simp add: handleFormSubmit_def)
next
  case (Inr config)
  with assms show ?thesis
    by (simp add: handleFormSubmit_def handleUpdateRule_def updateDetectionRule_def api_put_def run_simps showNotice_def
        Let_def split: sum.splits)
qed

theorem rule_save_outcome_witness:
  "modalOpen (state_of (run (logging (\<lambda>_. Inl JNull)) (handleFormSubmit (blank_rule\<lparr>rf_config := ''{''\<rparr>) (os_rule ''a''))
     (openEditModal (os_rule ''a'') init_detpage) []))"
proof -
  have bad: "JSON_parse ''{'' = Inl syntax_error"
    by (simp add: JSON_parse_def json_ws_def eval_nat_numeral)
  have edited: "truthy (os_rule ''a'')" by (simp add: os_rule_def)
  from rule_save_outcome [OF edited, where f = "\<lambda>_. Inl JNull" and fm = "blank_rule\<lparr>rf_config := ''{''\<rparr>"
      and s = "openEditModal (os_rule ''a'') init_detpage"]
  show ?thesis
    by (simp add: parsed_config_def bad openEditModal_def split: prod.splits)
qed

end
