(* ===== verification/GroupsUI.thy ===== *)
theory GroupsUI
  imports GroupsHook FeedHooks
begin

text \<open>
  \<open>src/frontend/src/components/groups/\<close>: the detail modal of an agent grp with its batch isolation and
  rollback, its tabs (members, actions, policies, audit trail), the confirmation that asks for the group's name,
  and the dropdown that adds agents. Vietnamese texts are written without diacritics.
\<close>

section \<open>The detail modal\<close>

datatype notice = Notice (notice_text: string) (notice_type: string)

record gdetail_st =
  activeTab :: string
  groupDetail :: jsv
  gdLoading :: bool
  gdBusy :: bool
  refreshTrigger :: nat
  isolateOpen :: bool
  rollbackOpen :: bool
  gdToast :: "notice option"
  gdRefreshes :: nat

definition init_gdetail :: "jsv \<Rightarrow> gdetail_st" where
  "init_gdetail grp = \<lparr>activeTab = ''members'', groupDetail = js_or grp JNull, gdLoading = False, gdBusy = False,
     refreshTrigger = 0, isolateOpen = False, rollbackOpen = False, gdToast = None, gdRefreshes = 0\<rparr>"

definition showGdToast :: "string \<Rightarrow> string \<Rightarrow> gdetail_st \<Rightarrow> gdetail_st" where
  "showGdToast message typ = gdToast_update (\<lambda>_. Some (Notice message typ))"

definition toast_expires :: "string \<Rightarrow> gdetail_st \<Rightarrow> gdetail_st" where
  \<comment> \<open>the timer of \<open>showToast(message, _, duration)\<close>\<close>
  "toast_expires message = gdToast_update (\<lambda>cur. case cur of None \<Rightarrow> None
     | Some t \<Rightarrow> if notice_text t = message then None else cur)"

text \<open>\<open>group\<close> is the modal's property, the grp the page last opened.\<close>

definition fetchDetail :: "jsv \<Rightarrow> (gdetail_st, jsv) act" where
  "fetchDetail grp =
     (if \<not> truthy (fld grp ''id'') then Ret JUndef
      else fin (catch
          (Upd (gdLoading_update (\<lambda>_. True)) (bnd (await (getGroup (fld grp ''id'')))
             (\<lambda>data. Upd (groupDetail_update (\<lambda>_. data)) (Ret JUndef))))
          (\<lambda>_. Ret JUndef))
        (gdLoading_update (\<lambda>_. False)))"

definition open_detail :: "jsv \<Rightarrow> (gdetail_st, jsv) act" where
  "open_detail grp =
     (if \<not> truthy (fld grp ''id'') then Ret JUndef
      else Upd (activeTab_update (\<lambda>_. ''members'')) (Upd (gdToast_update (\<lambda>_. None)) (fetchDetail grp)))"

definition currentGroup :: "jsv \<Rightarrow> gdetail_st \<Rightarrow> jsv" where
  "currentGroup grp s = js_or (groupDetail s) grp"

definition group_members :: "jsv \<Rightarrow> jsv" where
  "group_members g = js_or (fld g ''members'') (JArr [])"

definition handleMemberChange :: "jsv \<Rightarrow> (gdetail_st, jsv) act" where
  "handleMemberChange grp = thn (fetchDetail grp)
     (Upd (refreshTrigger_update Suc) (Upd (gdRefreshes_update Suc) (Ret JUndef)))"

text \<open>\<open>res.actions?.find((a) => a.error)?.error || ''\<close>\<close>

fun find_error :: "jsv list \<Rightarrow> jsv res" where
  "find_error [] = Inr JUndef"
| "find_error (a # as) = rbind (get a ''error'') (\<lambda>e. if truthy e then Inr e else find_error as)"

definition first_error :: "jsv \<Rightarrow> jsv res" where
  "first_error res =
     (let as = fld res ''actions'' in
      if nullishp as then Inr (JStr '''')
      else if is_array as then rmap (\<lambda>e. js_or e (JStr '''')) (find_error (elems as))
      else Inl type_error)"

text \<open>\<open>/(\d+)s remaining/i\<close>\<close>

fun secs_remaining :: "string \<Rightarrow> string option" where
  "secs_remaining [] = None"
| "secs_remaining (ch # s) =
     (let d = takeWhile is_digit (ch # s); r = dropWhile is_digit (ch # s)
      in if d \<noteq> [] \<and> lower (take 11 r) = ''s remaining'' then Some d else secs_remaining s)"

definition all_failed :: "jsv \<Rightarrow> bool" where
  "all_failed res \<longleftrightarrow> truthy res \<and> num_lt (Fin 0) (to_num (fld res ''failed'')) \<and>
     strict_eq (fld res ''succeeded'') (jn 0)"

definition failure_notice :: "jsv \<Rightarrow> notice res" where
  \<comment> \<open>\<open>match\<close> is a method of strings only\<close>
  "failure_notice e = (case e of
       JStr t \<Rightarrow> Inr (case secs_remaining t of
           Some d \<Rightarrow> Notice (''Agent dang trong cooldown. Con '' @ d @ '' giay.'') ''warning''
         | None \<Rightarrow> Notice (''Co lap that bai: '' @ t) ''error'')
     | _ \<Rightarrow> Inl type_error)"

definition isolation_notice :: "jsv \<Rightarrow> jsv \<Rightarrow> notice res" where
  "isolation_notice current res =
     (if all_failed res then rbind (first_error res) failure_notice
      else Inr (Notice (''Da co lap thanh cong nhom '' @ to_str (fld current ''name'') @ ''!'') ''success''))"

definition isolation_error :: "jsv \<Rightarrow> notice res" where
  "isolation_error err =
     (let detail = js_or (fld (fld (fld err ''response'') ''data'') ''error'')
            (js_or (fld (fld (fld err ''response'') ''data'') ''detail'') (js_or (fld err ''message'') (JStr ''''))) in
      rbind (ror (Inr (strict_eq (fld (fld err ''response'') ''status'') (jn 429))) (low_has detail ''cooldown'')) (\<lambda>cooldown.
        if \<not> cooldown then Inr (Notice (''Loi co lap nhom: '' @ to_str detail) ''error'')
        else (case detail of
            JStr t \<Rightarrow> Inr (Notice (''Agent dang trong cooldown. Con '' @
              (case secs_remaining t of Some d \<Rightarrow> d | None \<Rightarrow> ''vai'') @ '' giay.'') ''warning'')
          | _ \<Rightarrow> Inl type_error)))"

definition show_notice :: "notice \<Rightarrow> gdetail_st \<Rightarrow> gdetail_st" where
  "show_notice n = showGdToast (notice_text n) (notice_type n)"

definition handleConfirmIsolate :: "jsv \<Rightarrow> jsv \<Rightarrow> jsv \<Rightarrow> jsv \<Rightarrow> (gdetail_st, jsv) act" where
  "handleConfirmIsolate grp current reason autoRollbackSeconds =
     Upd (gdBusy_update (\<lambda>_. True))
      (Upd (showGdToast (''Dang co lap nhom '' @ to_str (fld current ''name'') @ ''...'') ''info'')
        (fin (catch
          (bnd (await (executeGroupAction (fld current ''id'') (JObj [(''action_type'', JStr ''isolate''),
               (''action_params'', JObj [(''reason'', reason)]), (''auto_rollback_seconds'', autoRollbackSeconds)])
               JUndef JUndef)) (\<lambda>res.
           bnd (lift (isolation_notice current res)) (\<lambda>n.
             Upd (show_notice n) (Upd (isolateOpen_update (\<lambda>_. False)) (handleMemberChange grp)))))
          (\<lambda>err. bnd (lift (isolation_error err)) (\<lambda>n. Upd (show_notice n) (Ret JUndef))))
        (gdBusy_update (\<lambda>_. False))))"

definition handleConfirmRollback :: "jsv \<Rightarrow> jsv \<Rightarrow> jsv \<Rightarrow> (gdetail_st, jsv) act" where
  "handleConfirmRollback grp current reason =
     Upd (gdBusy_update (\<lambda>_. True))
      (Upd (showGdToast (''Dang hoan nguyen toan bo actions cua nhom '' @ to_str (fld current ''name'') @ ''...'') ''info'')
        (fin (catch
          (bnd (await (undoAllGroupActions (fld current ''id'')
               (js_or reason (JStr (''Rollback all actions for group '' @ to_str (fld current ''name'')))))) (\<lambda>_.
             Upd (showGdToast (''Da hoan nguyen toan bo actions nhom '' @ to_str (fld current ''name'') @ ''!'') ''success'')
               (Upd (rollbackOpen_update (\<lambda>_. False)) (handleMemberChange grp))))
          (\<lambda>err. Upd (showGdToast (''Loi hoan nguyen nhom: '' @ to_str
               (js_or (fld (fld (fld err ''response'') ''data'') ''detail'') (js_or (fld err ''message'') (JStr '''')))) ''error'')
             (Ret JUndef)))
        (gdBusy_update (\<lambda>_. False))))"

section \<open>The confirmation of an isolation\<close>

definition isolate_allowed :: "jsv \<Rightarrow> string \<Rightarrow> string \<Rightarrow> bool \<Rightarrow> bool" where
  "isolate_allowed grp confirmName reason busy \<longleftrightarrow>
     trim confirmName = trim (to_str (js_or (fld grp ''name'') (JStr ''''))) \<and> trim reason \<noteq> [] \<and> \<not> busy \<and>
     num_lt (Fin 0) (to_num (fld (group_members grp) ''length''))"

definition isolate_confirmed :: "jsv \<Rightarrow> string \<Rightarrow> string \<Rightarrow> jsv \<Rightarrow> bool \<Rightarrow> (jsv \<times> jsv) option" where
  \<comment> \<open>\<open>handleSubmit\<close> of \<open>IsolateGroupConfirmModal\<close>: the reason and the rollback time handed on\<close>
  "isolate_confirmed grp confirmName reason autoRollbackSecs busy =
     (if isolate_allowed grp confirmName reason busy
      then Some (JStr (trim reason), js_or (JNum (to_num autoRollbackSecs)) (jn 300)) else None)"

section \<open>The tabs\<close>

record gtab_st = fetch_st +
  tabItems :: "jsv list"
  tabBusy :: bool
  tabRefreshes :: nat

definition init_gtab :: gtab_st where
  "init_gtab = \<lparr>loading = False, error = JNull, tabItems = [], tabBusy = False, tabRefreshes = 0\<rparr>"

definition fetchTabActions :: "clock \<Rightarrow> jsv \<Rightarrow> (gtab_st, jsv) act" where
  "fetchTabActions c groupId =
     (if \<not> truthy groupId then Ret JUndef
      else Upd (loading_update (\<lambda>_. True)) (fin (catch
        (bnd (getGroupActions c groupId) (\<lambda>data.
           Upd (tabItems_update (\<lambda>_. elems data)) (Upd (error_update (\<lambda>_. JNull)) (Ret JUndef))))
        (\<lambda>err. Upd (error_update (\<lambda>_. message_or err ''Khong the tai lich su hanh dong cua nhom'')) (Ret JUndef)))
       (loading_update (\<lambda>_. False))))"

definition tab_undo :: "clock \<Rightarrow> jsv \<Rightarrow> jsv task \<Rightarrow> string \<Rightarrow> (gtab_st, jsv) act" where
  \<comment> \<open>the common shape of the two handlers of the actions tab\<close>
  "tab_undo c groupId t msg =
     Upd (tabBusy_update (\<lambda>_. True)) (fin (catch
       (bnd (await t) (\<lambda>_. thn (fetchTabActions c groupId) (Upd (tabRefreshes_update Suc) (Ret JUndef))))
       (\<lambda>err. Upd (error_update (\<lambda>_. detail_or err msg)) (Throw err)))
      (tabBusy_update (\<lambda>_. False)))"

definition handleUndoSingle :: "clock \<Rightarrow> jsv \<Rightarrow> jsv \<Rightarrow> jsv \<Rightarrow> (gtab_st, jsv) act" where
  "handleUndoSingle c groupId actionId reason =
     tab_undo c groupId (undoAction actionId reason) ''Khong the hoan nguyen hanh dong''"

definition handleTabUndoAll :: "clock \<Rightarrow> jsv \<Rightarrow> jsv \<Rightarrow> (gtab_st, jsv) act" where
  "handleTabUndoAll c groupId reason =
     tab_undo c groupId (undoAllGroupActions groupId reason) ''Khong the hoan nguyen toan bo hanh dong cua nhom''"

definition audit_entry :: "jsv \<Rightarrow> jsv \<Rightarrow> jsv" where
  \<comment> \<open>\<open>{ ...entry, agent_id: act.agent_id, action_type: .., action_status: .. }\<close>\<close>
  "audit_entry act entry = with_fld (with_fld (with_fld entry ''agent_id'' (fld act ''agent_id''))
     ''action_type'' (fld act ''action_type'')) ''action_status'' (fld act ''status'')"

definition audit_of :: "jsv \<Rightarrow> jsv list task" where
  "audit_of act = tcatch (tbind (getActionAuditLogs (fld act ''id'')) (\<lambda>es. Inr (map (audit_entry act) (elems es))))
     (\<lambda>_. Inr [])"

definition entry_time :: "clock \<Rightarrow> jsv \<Rightarrow> jsnum" where
  "entry_time c e = date_ms c (js_or (fld e ''created_at'') (jn 0))"

definition fetchAuditTrail :: "clock \<Rightarrow> jsv \<Rightarrow> (gtab_st, jsv) act" where
  "fetchAuditTrail c groupId =
     (if \<not> truthy groupId then Ret JUndef
      else Upd (loading_update (\<lambda>_. True)) (fin (catch
        (bnd (getGroupActions c groupId) (\<lambda>acts.
           if elems acts = [] then Upd (tabItems_update (\<lambda>_. [])) (Upd (loading_update (\<lambda>_. False)) (Ret JUndef))
           else bnd (promise_all (map audit_of (elems acts))) (\<lambda>results.
             Upd (tabItems_update (\<lambda>_. js_sort (by_desc (entry_time c)) (concat results)))
               (Upd (error_update (\<lambda>_. JNull)) (Ret JUndef)))))
        (\<lambda>err. Upd (error_update (\<lambda>_. message_or err ''Khong the tai lich su audit cua nhom'')) (Ret JUndef)))
       (loading_update (\<lambda>_. False))))"

text \<open>\<open>(a, b) => (b.priority || 0) - (a.priority || 0)\<close>; the elements are objects.\<close>

definition applies_to_group :: "jsv \<Rightarrow> jsv \<Rightarrow> bool" where
  "applies_to_group groupId p \<longleftrightarrow> strict_eq (fld p ''target_group_id'') groupId \<or> nullishp (fld p ''target_group_id'')"

definition group_priority :: "jsv \<Rightarrow> jsnum" where
  "group_priority p = to_num (js_or (fld p ''priority'') (jn 0))"

definition fetchTabPolicies :: "jsv \<Rightarrow> (gtab_st, jsv) act" where
  "fetchTabPolicies groupId =
     (if \<not> truthy groupId then Ret JUndef
      else Upd (loading_update (\<lambda>_. True)) (fin (catch
        (bnd (await (listPolicies (JObj [(''group_id'', groupId)]))) (\<lambda>data.
           Upd (tabItems_update (\<lambda>_. js_sort (by_desc group_priority) (filter (applies_to_group groupId) (elems data))))
             (Upd (error_update (\<lambda>_. JNull)) (Ret JUndef))))
        (\<lambda>err. Upd (error_update (\<lambda>_. message_or err ''Khong the tai danh sach chinh sach'')) (Ret JUndef)))
       (loading_update (\<lambda>_. False))))"

section \<open>Members\<close>

record gmember_st =
  pickedId :: jsv
  memberError :: jsv
  pickOpen :: bool
  pickSearch :: string

text \<open>\<open>after\<close> is the parent's callback, the modal's \<open>handleMemberChange\<close>, which does not throw.\<close>

definition handleRemove :: "jsv \<Rightarrow> jsv \<Rightarrow> bool \<Rightarrow> (gmember_st, jsv) act \<Rightarrow> (gmember_st, jsv) act" where
  "handleRemove grp agentId confirmed after =
     (if \<not> confirmed then Ret JUndef
      else Upd (memberError_update (\<lambda>_. JStr '''')) (Upd (pickedId_update (\<lambda>_. agentId)) (fin (catch
        (bnd (lift (get grp ''id'')) (\<lambda>i. bnd (await (removeAgentFromGroup i agentId)) (\<lambda>_. after)))
        (\<lambda>err. Upd (memberError_update (\<lambda>_. detail_or err ''Khong the xoa agent khoi nhom'')) (Ret JUndef)))
       (pickedId_update (\<lambda>_. JNull)))))"

definition member_ids :: "jsv list \<Rightarrow> jsv list" where
  "member_ids ms = map (\<lambda>m. js_or (fld m ''agent_id'') (fld m ''id'')) ms"

definition availableAgents :: "jsv list \<Rightarrow> jsv list \<Rightarrow> jsv list" where
  "availableAgents ms all = filter (\<lambda>a. fld a ''id'' \<notin> set (member_ids ms)) all"

definition agent_matches :: "string \<Rightarrow> jsv \<Rightarrow> bool res" where
  "agent_matches q a =
     rbind (low_has (fld a ''id'') q) (\<lambda>matchId.
     rbind (low_has (js_or (fld a ''hostname'') (JStr '''')) q) (\<lambda>matchHost.
     rbind (low_has (js_or (fld a ''ip'') (js_or (fld a ''ip_address'') (JStr ''''))) q) (\<lambda>matchIp.
       Inr (matchId \<or> matchHost \<or> matchIp))))"

definition offeredAgents :: "string \<Rightarrow> jsv list \<Rightarrow> jsv list \<Rightarrow> jsv list res" where
  "offeredAgents searchTerm ms all =
     (if trim searchTerm = [] then Inr (availableAgents ms all)
      else rfilter (agent_matches searchTerm) (availableAgents ms all))"

definition handleSelectAgent :: "jsv \<Rightarrow> jsv \<Rightarrow> jsv \<Rightarrow> (gmember_st, jsv) act \<Rightarrow> (gmember_st, jsv) act" where
  "handleSelectAgent groupId agent adding onAdded =
     (if truthy adding then Ret JUndef
      else Upd (memberError_update (\<lambda>_. JStr '''')) (Upd (pickedId_update (\<lambda>_. fld agent ''id'')) (fin (catch
        (bnd (await (addAgentToGroup groupId (JArr [fld agent ''id'']))) (\<lambda>_.
           Upd (pickOpen_update (\<lambda>_. False)) (Upd (pickSearch_update (\<lambda>_. [])) onAdded)))
        (\<lambda>err. Upd (memberError_update (\<lambda>_. detail_or err ''Failed to add agent'')) (Ret JUndef)))
       (pickedId_update (\<lambda>_. JNull)))))"

section \<open>Lemmas\<close>

lemma fetchDetail_run:
  "truthy (fld g ''id'') \<Longrightarrow> run (logging f) (fetchDetail g) s w =
    (Inr JUndef, (case f (Req GET (''/groups/'' @ to_str (fld g ''id'')) JUndef JUndef) of
        Inl _ \<Rightarrow> s\<lparr>gdLoading := False\<rparr>
      | Inr res \<Rightarrow> s\<lparr>gdLoading := False, groupDetail := fld res ''data''\<rparr>),
     w @ [Req GET (''/groups/'' @ to_str (fld g ''id'')) JUndef JUndef])"
  by (simp add: fetchDetail_def getGroup_def api_get_def run_simps split: sum.splits)

lemma executeGroupAction_request:
  "answer f (executeGroupAction i (JObj ps) JUndef JUndef) =
     settle (f (Req POST (''/groups/'' @ to_str i @ ''/actions'') JUndef (group_action_payload (JObj ps) JUndef JUndef)))"
  "requests [executeGroupAction i (JObj ps) JUndef JUndef] =
     [Req POST (''/groups/'' @ to_str i @ ''/actions'') JUndef (group_action_payload (JObj ps) JUndef JUndef)]"
  by (simp_all add: executeGroupAction_def api_post_def)

definition isolate_body :: "jsv \<Rightarrow> jsv \<Rightarrow> jsv" where
  "isolate_body reason secs = group_action_payload (JObj [(''action_type'', JStr ''isolate''),
     (''action_params'', JObj [(''reason'', reason)]), (''auto_rollback_seconds'', secs)]) JUndef JUndef"

definition isolate_request :: "jsv \<Rightarrow> jsv \<Rightarrow> jsv \<Rightarrow> request" where
  "isolate_request g reason secs =
     Req POST (''/groups/'' @ to_str (fld g ''id'') @ ''/actions'') JUndef (isolate_body reason secs)"

section \<open>Properties\<close>

text \<open>
  C8: an isolation can hit another group than the one opened. The modal keeps the detail of the group it showed before; when
  the detail of the newly opened group cannot be read, the confirmed isolation is sent to the previous group.
\<close>

theorem isolation_hits_previous_group:
  assumes "truthy (groupDetail s)" and "truthy (fld g ''id'')"
    and "f (Req GET (''/groups/'' @ to_str (fld g ''id'')) JUndef JUndef) = Inl err"
  shows "take 2 (world_of (run (logging f) (thn (open_detail g)
      (Look (\<lambda>t. handleConfirmIsolate g (currentGroup g t) reason secs))) s [])) =
    [Req GET (''/groups/'' @ to_str (fld g ''id'')) JUndef JUndef, isolate_request (groupDetail s) reason secs]"
proof -
  define t where "t = s\<lparr>activeTab := ''members'', gdToast := None, gdLoading := False\<rparr>"
  let ?q = "Req GET (''/groups/'' @ to_str (fld g ''id'')) JUndef JUndef"
  have opened: "run (logging f) (open_detail g) s [] = (Inr JUndef, t, [?q])"
    using assms(2,3) by (simp add: open_detail_def fetchDetail_run t_def)
  have same: "currentGroup g t = groupDetail s"
    using assms(1) by (simp add: currentGroup_def t_def)
  have "\<exists>qs. world_of (run (logging f) (handleConfirmIsolate g (groupDetail s) reason secs) t [?q]) =
      [?q, isolate_request (groupDetail s) reason secs] @ qs"
    using assms(2)
    by (cases "f (isolate_request (groupDetail s) reason secs)")
      (auto simp: handleConfirmIsolate_def run_simps executeGroupAction_request handleMemberChange_def fetchDetail_run
        isolate_request_def isolate_body_def split: sum.splits prod.splits)
  then show ?thesis
    by (auto simp: run_thn opened same)
qed

definition group_named :: "string \<Rightarrow> jsv" where
  "group_named i = JObj [(''id'', JStr i), (''name'', JStr i), (''members'', JArr [JObj [(''agent_id'', JStr ''a'')]])]"

theorem isolation_hits_previous_group_witness:
  "req_path (hd (tl (world_of (run (logging (\<lambda>_. Inl JNull)) (thn (open_detail (group_named ''new''))
      (Look (\<lambda>t. handleConfirmIsolate (group_named ''new'') (currentGroup (group_named ''new'') t) JNull (jn 300))))
      (init_gdetail (group_named ''old'')) [])))) = ''/groups/old/actions''"
proof -
  have hd2: "take 2 xs = [a, b] \<Longrightarrow> hd (tl xs) = b" for a b and xs :: "request list"
    by (cases xs rule: list.exhaust; cases "tl xs") auto
  have "take 2 (world_of (run (logging (\<lambda>_. Inl JNull)) (thn (open_detail (group_named ''new''))
      (Look (\<lambda>t. handleConfirmIsolate (group_named ''new'') (currentGroup (group_named ''new'') t) JNull (jn 300))))
      (init_gdetail (group_named ''old'')) [])) =
    [Req GET (''/groups/'' @ to_str (fld (group_named ''new'') ''id'')) JUndef JUndef,
     isolate_request (groupDetail (init_gdetail (group_named ''old''))) JNull (jn 300)]"
    by (rule isolation_hits_previous_group) (simp_all add: group_named_def init_gdetail_def)
  from hd2 [OF this] show ?thesis
    by (simp add: isolate_request_def init_gdetail_def group_named_def)
qed

text \<open>The error of the first member that has one, the empty text when none has.\<close>

definition first_reason :: "obj list \<Rightarrow> string" where
  "first_reason pss = (case List.find (\<lambda>ps. truthy (lookup ps ''error'')) pss of
     Some ps \<Rightarrow> to_str (lookup ps ''error'') | None \<Rightarrow> [])"

definition text_errors :: "obj list \<Rightarrow> bool" where
  "text_errors pss \<longleftrightarrow> (\<forall>ps\<in>set pss. truthy (lookup ps ''error'') \<longrightarrow> (\<exists>t. lookup ps ''error'' = JStr t))"

lemma find_error_first:
  "text_errors pss \<Longrightarrow> rmap (\<lambda>e. js_or e (JStr [])) (find_error (map JObj pss)) = Inr (JStr (first_reason pss))"
proof (induction pss)
  case Nil
  show ?case by (simp add: first_reason_def)
next
  case (Cons ps pss)
  show ?case
  proof (cases "truthy (lookup ps ''error'')")
    case True
    with Cons.prems obtain t where "lookup ps ''error'' = JStr t" by (auto simp: text_errors_def)
    with True show ?thesis by (simp add: first_reason_def js_or_def)
  next
    case False
    with Cons show ?thesis by (simp add: first_reason_def text_errors_def)
  qed
qed

text \<open>
  C24: the outcome of a confirmed group isolation that the manager answers with its counts and the list of its actions (objects
  whose errors, where they have one, are texts). The confirmation closes, the parent is refreshed and the busy flag is down. The
  message claims success except when some member failed and none succeeded: a partial failure is announced as a success. A total
  failure shows the first error, or the seconds of the cooldown when that error tells them.
\<close>

theorem isolate_group_outcome:
  assumes "truthy d" and "fld d ''actions'' = JArr (map JObj pss)" and "text_errors pss"
    and "fld d ''failed'' = jn n" and "fld d ''succeeded'' = jn m"
    and "f (isolate_request cur reason secs) = Inr res" and "fld res ''data'' = d"
  shows "case run (logging f) (handleConfirmIsolate g cur reason secs) s [] of (r, s', asked) \<Rightarrow>
    r = Inr JUndef \<and> hd asked = isolate_request cur reason secs
    \<and> \<not> gdBusy s' \<and> \<not> isolateOpen s' \<and> gdRefreshes s' = Suc (gdRefreshes s) \<and>
    gdToast s' = Some (if \<not> (0 < n \<and> m = 0)
      then Notice (''Da co lap thanh cong nhom '' @ to_str (fld cur ''name'') @ ''!'') ''success''
      else (case secs_remaining (first_reason pss) of
          Some t \<Rightarrow> Notice (''Agent dang trong cooldown. Con '' @ t @ '' giay.'') ''warning''
        | None \<Rightarrow> Notice (''Co lap that bai: '' @ first_reason pss) ''error''))"
proof -
  define n0 where "n0 = (if \<not> (0 < n \<and> m = 0)
      then Notice (''Da co lap thanh cong nhom '' @ to_str (fld cur ''name'') @ ''!'') ''success''
      else (case secs_remaining (first_reason pss) of
          Some t \<Rightarrow> Notice (''Agent dang trong cooldown. Con '' @ t @ '' giay.'') ''warning''
        | None \<Rightarrow> Notice (''Co lap that bai: '' @ first_reason pss) ''error''))"
  have "isolation_notice cur d = Inr n0"
    using assms(1-5) find_error_first [OF assms(3)]
    by (auto simp: isolation_notice_def all_failed_def first_error_def failure_notice_def n0_def)
  moreover have "answer f (executeGroupAction (fld cur ''id'') (JObj [(''action_type'', JStr ''isolate''),
      (''action_params'', JObj [(''reason'', reason)]), (''auto_rollback_seconds'', secs)]) JUndef JUndef) = Inr d"
    using assms(6,7) by (simp add: executeGroupAction_request isolate_request_def isolate_body_def)
  ultimately show ?thesis
    unfolding n0_def [symmetric]
    by (cases "truthy (fld g ''id'')")
      (auto simp: handleConfirmIsolate_def run_simps handleMemberChange_def show_notice_def showGdToast_def fetchDetail_run
        fetchDetail_def executeGroupAction_request isolate_request_def isolate_body_def split: sum.splits)
qed

text \<open>Two members, one isolated, one unreachable.\<close>

definition half_failed :: jsv where
  "half_failed = JObj [(''failed'', jn 1), (''succeeded'', jn 1), (''actions'', JArr (map JObj
     [[(''agent_id'', JStr ''a1''), (''status'', JStr ''applied''), (''error'', JNull)],
      [(''agent_id'', JStr ''a2''), (''status'', JStr ''failed''), (''error'', JStr ''offline'')]]))]"

theorem isolate_group_outcome_witness:
  "map_option notice_type (gdToast (state_of (run (logging (\<lambda>_. Inr (JObj [(''data'', half_failed)])))
     (handleConfirmIsolate (group_named ''g'') (group_named ''g'') JNull (jn 300)) (init_gdetail JNull) []))) = Some ''success''"
  using isolate_group_outcome [where d = half_failed and n = 1 and m = 1
      and pss = "[[(''agent_id'', JStr ''a1''), (''status'', JStr ''applied''), (''error'', JNull)],
        [(''agent_id'', JStr ''a2''), (''status'', JStr ''failed''), (''error'', JStr ''offline'')]]"
      and f = "\<lambda>_. Inr (JObj [(''data'', half_failed)])" and res = "JObj [(''data'', half_failed)]"
      and cur = "group_named ''g''" and g = "group_named ''g''" and reason = JNull and secs = "jn 300" and s = "init_gdetail JNull"]
  by (auto simp: half_failed_def text_errors_def split: prod.splits)

text \<open>
  C25: a group isolation is only handed on when the group's name was typed, a reason given, the group has
  members and no action is running; but it is never permanent: the rollback time handed on is never 0, which the dialog offers as "no
  automatic rollback", an entered 0 becomes 300 seconds.
\<close>

theorem isolation_never_permanent:
  assumes "isolate_confirmed g typed reason secs busy = Some (r, t)"
  shows "trim typed = trim (to_str (js_or (fld g ''name'') (JStr ''''))) \<and> r = JStr (trim reason) \<and> trim reason \<noteq> []
    \<and> num_lt (Fin 0) (to_num (fld (js_or (fld g ''members'') (JArr [])) ''length'')) \<and> \<not> busy
    \<and> truthy t \<and> t = (if to_num secs = Fin 0 then jn 300 else if to_num secs = NaN then jn 300 else JNum (to_num secs))"
proof -
  have "t = js_or (JNum (to_num secs)) (jn 300)" and "isolate_allowed g typed reason busy" and "r = JStr (trim reason)"
    using assms by (auto simp: isolate_confirmed_def split: if_splits)
  then show ?thesis
    by (cases "to_num secs") (auto simp: isolate_allowed_def group_members_def js_or_def [of "JNum _"])
qed

theorem isolation_never_permanent_witness:
  "map_option snd (isolate_confirmed (group_named ''g'') ''g'' ''r'' (jn 0) False) = Some (jn 300)"
proof -
  have "isolate_confirmed (group_named ''g'') ''g'' ''r'' (jn 0) False = Some (JStr ''r'', jn 300)"
    by (simp add: isolate_confirmed_def isolate_allowed_def group_named_def trim_def is_space_def group_members_def)
  from isolation_never_permanent [OF this] this show ?thesis by simp
qed

text \<open>What the audit tab can read of the actions, in their order.\<close>

definition readable_entries :: "(request \<Rightarrow> response) \<Rightarrow> jsv \<Rightarrow> jsv list" where
  "readable_entries f act = (case f (Req GET (''/actions/'' @ to_str (fld act ''id'') @ ''/audit'') JUndef JUndef) of
     Inl _ \<Rightarrow> [] | Inr res \<Rightarrow> map (audit_entry act) (elems (fld res ''data'')))"

lemma audit_of_answer: "answer f (audit_of a) = Inr (readable_entries f a)"
  by (simp add: audit_of_def readable_entries_def getActionAuditLogs_def api_get_def split: sum.splits)

lemma audit_entries: "rmapM (answer f) (map audit_of as) = Inr (map (readable_entries f) as)"
  by (induction as) (simp_all add: audit_of_answer)

text \<open>
  The audit trail of a group loses nothing that can be read: once its actions are known, the entries shown are
  exactly the entries of all those actions, each with its action's agent, type and status, newest first and in the
  actions' order where times are equal; an unreadable log only costs its own entries.
\<close>

theorem audit_trail_complete:
  assumes "truthy groupId" and "run (logging f) (getGroupActions c groupId) (s\<lparr>loading := True\<rparr>) [] = (Inr (JArr acts), s\<lparr>loading := True\<rparr>, asked)"
    and "\<And>a e. a \<in> set acts \<Longrightarrow> e \<in> set (readable_entries f a) \<Longrightarrow> entry_time c e = Fin (g e)"
  shows "case run (logging f) (fetchAuditTrail c groupId) s [] of (r, s', _) \<Rightarrow>
    r = Inr JUndef \<and> \<not> loading s' \<and> tabItems s' = sort_key (\<lambda>e. - g e) (concat (map (readable_entries f) acts))"
proof -
  have "js_sort (by_desc (entry_time c)) (concat (map (readable_entries f) acts)) =
      sort_key (\<lambda>e. - g e) (concat (map (readable_entries f) acts))"
    by (rule js_sort_by_desc) (use assms(3) in auto)
  with assms(1,2) show ?thesis
    by (cases "acts = []") (simp_all add: fetchAuditTrail_def run_simps audit_entries)
qed

theorem audit_trail_complete_witness:
  "tabItems (state_of (run (logging (\<lambda>_. Inl JNull)) (fetchAuditTrail stopped_clock (JStr ''g'')) init_gtab [])) = []"
proof -
  have "run (logging (\<lambda>_. Inl JNull)) (getGroupActions stopped_clock (JStr ''g'')) (init_gtab\<lparr>loading := True\<rparr>) [] =
      (Inr (JArr []), init_gtab\<lparr>loading := True\<rparr>, [Req GET ''/groups/g'' JUndef JUndef])"
    by (simp add: getGroupActions_def getGroup_def api_get_def run_simps)
  from audit_trail_complete [OF _ this, where g = "\<lambda>_. 0"] show ?thesis
    by (auto split: prod.splits)
qed

end
