(* ===== verification/HistoryScreen.thy ===== *)
theory HistoryScreen
  imports ActionsPage FeedHooks
begin

text \<open>
  The rest of \<open>src/frontend/src/pages/ActionsHistory.jsx\<close>: its key figures, tabs and options, the lists its filters choose from,
  the page it shows after a filter was changed or the list was polled, its footer, the bar over the selection and its banner.
\<close>

record history_st = apage_st +
  agentsList :: "jsv list"
  metaMounted :: bool
  toastState :: "(string \<times> string) option"
  auditLogActionId :: jsv

section \<open>Figures and tabs\<close>

definition count_actions :: "(jsv \<Rightarrow> bool) \<Rightarrow> jsv list \<Rightarrow> nat res" where
  "count_actions p acts = rmap length (rfilter (\<lambda>a. rmap (\<lambda>_. p a) (get a ''status'')) acts)"

definition status_is :: "string \<Rightarrow> jsv \<Rightarrow> bool" where
  "status_is st a \<longleftrightarrow> fld a ''status'' = JStr st"

text \<open>Value and count of each tab; the key figures are those of the first four.\<close>

definition filterTabs :: "jsv list \<Rightarrow> (string \<times> nat) list res" where
  "filterTabs acts =
     rbind (count_actions (status_is ''applied'') acts) (\<lambda>applied.
     rbind (count_actions (status_is ''reverted'') acts) (\<lambda>reverted.
     rbind (count_actions (status_is ''failed'') acts) (\<lambda>failed.
     rbind (count_actions (\<lambda>a. truthy (fld a ''auto_rollback_at'')) acts) (\<lambda>timed.
       Inr [(''all'', length acts), (''applied'', applied), (''reverted'', reverted), (''failed'', failed), (''with_rollback'', timed)]))))"

definition typeOptions :: "string list" where
  "typeOptions = [''all'', ''isolate'', ''block_ip'', ''kill'', ''quarantine'']"

definition agentOptions :: "jsv list \<Rightarrow> (jsv \<times> string) list res" where
  "agentOptions ags = rmap ((#) (JStr ''all'', ''Tat ca Agents'')) (rmapM (\<lambda>ag. rmap (\<lambda>i. (i,
     to_str (js_or (fld ag ''hostname'') i) @ '' ('' @ to_str (js_or (fld ag ''ip'') i) @ '')'')) (get ag ''id'')) ags)"

definition groupOptions :: "jsv list \<Rightarrow> (jsv \<times> string) list res" where
  "groupOptions gs = rmap ((#) (JStr ''all'', ''Tat ca Nhom'')) (rmapM (\<lambda>g. rmap (\<lambda>i. (i, to_str (fld g ''name'') @ '' (''
     @ to_str (nullish (fld g ''agent_count'') (js_or (fld (fld g ''agents'') ''length'') (jn 0))) @ '' may)'')) (get g ''id'')) gs)"

section \<open>Effects\<close>

text \<open>\<open>Promise.all\<close> of two reads, each with its own \<open>catch\<close>; nothing is stored after the page was left.\<close>

definition or_none :: "jsv task \<Rightarrow> jsv task" where
  "or_none t = tcatch t (\<lambda>_. Inr (JArr []))"

definition fetchMetadata :: "(history_st, jsv) act" where
  "fetchMetadata = catch
     (bnd (promise_all [or_none getAgents, or_none listGroups]) (\<lambda>rs.
        Upd (\<lambda>s. if metaMounted s then s\<lparr>agentsList := elems (rs ! 0), groupsList := elems (rs ! 1)\<rparr> else s) (Ret JUndef)))
     (\<lambda>_. Ret JUndef)"

definition leave_history :: "history_st \<Rightarrow> history_st" where
  "leave_history s = s\<lparr>metaMounted := False\<rparr>"

text \<open>Every filter ends in the effect that goes back to the first page.\<close>

definition to_first_page :: "history_st \<Rightarrow> history_st" where
  "to_first_page s = s\<lparr>currentPage := 1\<rparr>"

definition choose_tab :: "string \<Rightarrow> history_st \<Rightarrow> history_st" where
  "choose_tab v s = to_first_page (s\<lparr>activeTab := v\<rparr>)"

definition choose_type :: "string \<Rightarrow> history_st \<Rightarrow> history_st" where
  "choose_type v s = to_first_page (s\<lparr>actionType := v\<rparr>)"

definition choose_agent :: "string \<Rightarrow> history_st \<Rightarrow> history_st" where
  "choose_agent v s = to_first_page (s\<lparr>agentFilter := v\<rparr>)"

definition choose_group :: "string \<Rightarrow> history_st \<Rightarrow> history_st" where
  "choose_group v s = to_first_page (s\<lparr>groupFilter := v\<rparr>)"

definition choose_search :: "string \<Rightarrow> history_st \<Rightarrow> history_st" where
  "choose_search v s = to_first_page (s\<lparr>searchTerm := v\<rparr>)"

text \<open>The banner beside the library's toast, and its timer: five seconds later it takes away a banner of the same text.\<close>

definition raise_banner :: "string \<Rightarrow> string \<Rightarrow> history_st \<Rightarrow> history_st" where
  "raise_banner msg type s = s\<lparr>shownToasts := shownToasts s @ [(msg, if type = ''error'' then ''error'' else ''success'')],
     toastState := Some (msg, type)\<rparr>"

definition banner_timer :: "string \<Rightarrow> history_st \<Rightarrow> history_st" where
  "banner_timer msg s = s\<lparr>toastState := (case toastState s of
     Some (m, type) \<Rightarrow> if m = msg then None else Some (m, type) | None \<Rightarrow> None)\<rparr>"

section \<open>Footer and selection bar\<close>

definition history_footer :: "int \<Rightarrow> jsv list \<Rightarrow> nat \<Rightarrow> (int \<times> int \<times> nat \<times> nat option) option" where
  \<comment> \<open>from, to, of how many, filtered from how many\<close>
  "history_footer page filtered n_all = (if filtered = [] then None
     else Some ((page - 1) * 20 + 1, min (page * 20) (int (length filtered)), length filtered,
       if length filtered \<noteq> n_all then Some n_all else None))"

definition selection_bar :: "apage_st \<Rightarrow> nat option" where
  "selection_bar s = (if selectedIds s \<noteq> [] then Some (length (selectedIds s)) else None)"

definition open_bulk :: "apage_st \<Rightarrow> apage_st" where
  "open_bulk s = s\<lparr>bulkModalOpen := True\<rparr>"

definition view_log :: "jsv \<Rightarrow> history_st \<Rightarrow> history_st" where
  "view_log i s = s\<lparr>auditLogActionId := i\<rparr>"

section \<open>Properties\<close>

lemma low_str_empty [simp]: "low_str (JStr s) = Inr (lower s)"
  by (cases s) (auto simp: low_str_def lower_def)

definition only_tab :: "apage_st \<Rightarrow> bool" where
  "only_tab s \<longleftrightarrow> actionType s = ''all'' \<and> agentFilter s = ''all'' \<and> groupFilter s = ''all'' \<and> trim (searchTerm s) = []"

lemma only_tab_matches:
  "only_tab s \<Longrightarrow> action_matches s a = tab_matches (activeTab s) a"
  by (cases "tab_matches (activeTab s) a")
    (auto simp: only_tab_def action_matches_def type_matches_def agent_matches_def group_matches_def search_matches_def rand_def)

text \<open>
  The number on a tab is the number of actions under it: with the other filters at rest, choosing the tab leaves exactly as many
  actions as it says.
\<close>

lemma tab_number:
  assumes "only_tab s" and "list_all (\<lambda>a. \<exists>ps. a = JObj ps) (actions s)"
    and "filterTabs (actions s) = Inr tabs" and "(v, n) \<in> set tabs"
  shows "rmap length (filteredActions (s\<lparr>activeTab := v\<rparr>)) = Inr n"
proof -
  let ?q = "\<lambda>v a. if v \<in> {''applied'', ''reverted'', ''failed''} then fld a ''status'' = JStr v
      else v = ''with_rollback'' \<longrightarrow> truthy (fld a ''auto_rollback_at'')"
  have "filteredActions (s\<lparr>activeTab := v\<rparr>) = Inr (filter (?q v) (actions s))"
    unfolding filteredActions_def
  proof (subst rfilter_total [where q = "?q v"])
    fix a assume "a \<in> set (actions (s\<lparr>activeTab := v\<rparr>))"
    with assms(2) obtain ps where "a = JObj ps" by (auto simp: list_all_iff)
    moreover have "only_tab (s\<lparr>activeTab := v\<rparr>)" using assms(1) by (simp add: only_tab_def)
    ultimately show "action_matches (s\<lparr>activeTab := v\<rparr>) a = Inr (?q v a)"
      by (auto simp: only_tab_matches tab_matches_def)
  qed simp
  moreover have "count_actions p (actions s) = Inr (length (filter p (actions s)))" for p
    using assms(2) unfolding count_actions_def by (subst rfilter_total [where q = p]) (auto simp: list_all_iff)
  ultimately show ?thesis
    using assms(3,4) by (auto simp: filterTabs_def status_is_def [abs_def])
qed

text \<open>The footer is right on every page that exists: it counts the rows of the table above it.\<close>

lemma footer_counts_rows:
  assumes "filteredActions s = Inr xs" and "xs \<noteq> []" and "1 \<le> currentPage s" and "currentPage s \<le> actionPages xs"
    and "history_footer (currentPage s) xs n_all = Some (from', to', rest)" and "paginatedActions s = Inr rows"
  shows "int (length rows) = to' - from' + 1"
proof -
  obtain p where p: "currentPage s = int p + 1"
    using assms(3) by (metis zle_iff_zadd add.commute)
  have "p * 20 < length xs"
  proof (cases "p = 0")
    case False
    then have "1 < page_count 20 (length xs)" using assms(4) p by (simp add: actionPages_count)
    with page_count_tight [of 20 "length xs"] have "(nat (page_count 20 (length xs)) - 1) * 20 < length xs" by simp
    moreover have "p \<le> nat (page_count 20 (length xs)) - 1" using assms(4) p by (simp add: actionPages_count)
    ultimately show ?thesis by (meson le_less_trans mult_le_mono1)
  qed (use assms(2) in simp)
  moreover have "rows = take 20 (drop (p * 20) xs)"
    using assms(1,6) page_slice_nat [of 20 p xs]
    by (simp add: paginatedActions_def page_slice_def p Let_def algebra_simps)
  ultimately show ?thesis
    using assms(2,5) by (auto simp: history_footer_def p min_def)
qed

text \<open>
  The page is only reset by a filter, not by the poll: when undone or expired actions leave the list, the last page can be gone.
  The table is then empty, and the footer counts backwards.
\<close>

lemma shrunk_list_empties_page:
  assumes "filteredActions s = Inr (replicate 15 x)" and "currentPage s = 2"
  shows "paginatedActions s = Inr [] \<and> history_footer (currentPage s) (replicate 15 x) 15 = Some (21, 15, 15, None)"
  using assms by (simp add: paginatedActions_def history_footer_def js_slice_def slice_bound_def Let_def)

text \<open>
  The dialog of the bulk undo lists the selected actions that are still in the list; confirming it undoes every selected id, also
  those the poll has taken away or shows as undone.
\<close>

lemma bulk_undoes_unlisted:
  assumes "selectedIds s = x # xs" and "i \<in> set (x # xs)"
  shows "undo_req (JStr r) i \<in> set (snd (snd (run (logging f) (handleConfirmBulkUndo c p (selectedIds s) (JStr r)) s [])))"
proof -
  let ?m = "handleBulkUndo c p (x # xs) (JStr r) (\<lambda>i n. bulkProgress_update (\<lambda>_. Some (i, n)))"
  obtain sc fl qs s1 where "run (logging f) ?m (s\<lparr>bulkProgress := Some (0, length (x # xs))\<rparr>) [] =
      (Inr (bulk_result (sc, fl, map (undo_entry f (JStr r)) (x # xs))), s1, map (undo_req (JStr r)) (x # xs) @ qs)"
    using run_handleBulkUndo [of f c p x xs r "\<lambda>i n. bulkProgress_update (\<lambda>_. Some (i, n))"
        "s\<lparr>bulkProgress := Some (0, length (x # xs))\<rparr>"] by blast
  with assms show ?thesis
    by (auto simp: handleConfirmBulkUndo_def run_simps)
qed

text \<open>An answer that arrives after the page was left changes nothing.\<close>

lemma left_page_unchanged: "\<not> metaMounted s \<Longrightarrow> fst (snd (run (logging f) fetchMetadata s [])) = s"
  by (auto simp: fetchMetadata_def run_simps split: sum.splits)

end
