(* ===== verification/IncidentDetail.thy ===== *)
theory IncidentDetail
  imports FeedHooks Json
begin

text \<open>
  The storyboard of one incident: \<open>components/incidents/IncidentDetailModal.jsx\<close> with its header (\<open>HeroBanner\<close>), its
  tabs (\<open>ActionSuggestions\<close>, \<open>NetworkCorrelation\<close>, \<open>ProcessAncestry\<close>, \<open>StoryTimeline\<close>, \<open>IncidentNotes\<close>) and
  \<open>components/agents/AgentSecurityContext.jsx\<close>. Every button of the tabs ends in the modal's \<open>handleAction\<close>. Vietnamese
  texts are written without diacritics; the texts of the cards are not modelled, their actions are.
\<close>

section \<open>The modal\<close>

datatype banner = Banner (banner_text: string) (banner_type: string)

record incmodal_st =
  detailedIncident :: jsv
  actionLoading :: bool
  actionToast :: "banner option"
  imToasts :: "toast list"
  closeOpen :: bool
  closeLabel :: jsv
  closeReason :: jsv
  closeBusy :: bool
  agentRefreshes :: nat
  imRefreshes :: nat

definition init_incmodal :: "jsv \<Rightarrow> incmodal_st" where
  "init_incmodal inc = \<lparr>detailedIncident = inc, actionLoading = False, actionToast = None, imToasts = [], closeOpen = False,
     closeLabel = JStr '''', closeReason = JStr '''', closeBusy = False, agentRefreshes = 0, imRefreshes = 0\<rparr>"

text \<open>A toast of the library and the modal's own banner, shown together.\<close>

definition tell_ok :: "string \<Rightarrow> incmodal_st \<Rightarrow> incmodal_st" where
  "tell_ok m s = s\<lparr>imToasts := imToasts s @ [Toast_ok m], actionToast := Some (Banner m ''success'')\<rparr>"

definition tell_error :: "string \<Rightarrow> incmodal_st \<Rightarrow> incmodal_st" where
  "tell_error m s = s\<lparr>imToasts := imToasts s @ [Toast_error m], actionToast := Some (Banner m ''error'')\<rparr>"

definition banner_expires :: "incmodal_st \<Rightarrow> incmodal_st" where
  \<comment> \<open>the timer of \<open>showToast\<close>, which clears whatever banner is up\<close>
  "banner_expires = actionToast_update (\<lambda>_. None)"

definition load_incident :: "clock \<Rightarrow> jsv \<Rightarrow> (incmodal_st, jsv) act" where
  \<comment> \<open>the effect of the incident's id\<close>
  "load_incident c incident =
     (if \<not> truthy (fld incident ''id'') then Ret JUndef
      else catch (bnd (await (getIncident c (fld incident ''id''))) (\<lambda>d. Upd (detailedIncident_update (\<lambda>_. d)) (Ret JUndef)))
        (\<lambda>_. Upd (detailedIncident_update (\<lambda>_. incident)) (Ret JUndef)))"

definition isIsolated :: "jsv list \<Rightarrow> jsv \<Rightarrow> bool" where
  "isIsolated ags inc = (case List.find (\<lambda>a. strict_eq (fld a ''id'') (fld inc ''agentId'')) ags of
     Some a \<Rightarrow> truthy (fld a ''is_isolated'') \<or> fld a ''status'' = JStr ''ISOLATED'' \<or> fld a ''status'' = JStr ''isolated''
   | None \<Rightarrow> fld inc ''status'' = JStr ''contained'')"

definition reread :: "clock \<Rightarrow> jsv \<Rightarrow> (incmodal_st, jsv) act" where
  "reread c i = bnd (await (getIncident c i)) (\<lambda>updated. Upd (detailedIncident_update (\<lambda>_. updated)) (Ret JUndef))"

text \<open>The handlers close over the incident and the busy flag they were rendered with.\<close>

definition handleAction :: "clock \<Rightarrow> jsv \<Rightarrow> bool \<Rightarrow> string \<Rightarrow> jsv \<Rightarrow> (incmodal_st, jsv) act" where
  "handleAction c inc busy actionType params =
     (if \<not> truthy (fld inc ''id'') \<or> busy then Ret JUndef
      else Upd (actionLoading_update (\<lambda>_. True)) (fin (catch
        (bnd (await (executeIncidentAction (fld inc ''id'') (JStr actionType) params JUndef)) (\<lambda>res.
         bnd (lift (get res ''message'')) (\<lambda>m.
           Upd (tell_ok (to_str (js_or m (JStr (''Thuc thi thanh cong: '' @ actionType)))))
             (Upd (agentRefreshes_update Suc) (Upd (imRefreshes_update Suc) (reread c (fld inc ''id'')))))))
        (\<lambda>err. Upd (tell_error (to_str (message_or err (''Loi khi thuc hien '' @ actionType)))) (Ret JUndef)))
       (actionLoading_update (\<lambda>_. False))))"

definition handleStatusChange :: "clock \<Rightarrow> jsv \<Rightarrow> bool \<Rightarrow> string \<Rightarrow> (incmodal_st, jsv) act" where
  "handleStatusChange c inc busy newStatus =
     (if \<not> truthy (fld inc ''id'') \<or> busy then Ret JUndef
      else Upd (actionLoading_update (\<lambda>_. True)) (fin (catch
        (bnd (await (updateIncidentStatus c (fld inc ''id'') (JStr newStatus))) (\<lambda>_.
           Upd (tell_ok (''Da chuyen trang thai su co sang: '' @ upper newStatus))
             (Upd (imRefreshes_update Suc) (reread c (fld inc ''id'')))))
        (\<lambda>err. Upd (tell_error (''Khong the cap nhat trang thai: '' @ to_str (fld err ''message''))) (Ret JUndef)))
       (actionLoading_update (\<lambda>_. False))))"

definition handleOpenCloseModal :: "jsv \<Rightarrow> incmodal_st \<Rightarrow> incmodal_st" where
  "handleOpenCloseModal inc s = s\<lparr>closeLabel := js_or (fld inc ''label'') (JStr ''''),
     closeReason := js_or (fld inc ''labelReason'') (js_or (fld inc ''label_reason'') (JStr '''')), closeOpen := True\<rparr>"

text \<open>\<open>closeReason\<close> is a string; so it stays in the text field.\<close>

definition isCloseValid :: "jsv \<Rightarrow> string \<Rightarrow> bool" where
  "isCloseValid label reason \<longleftrightarrow> truthy label \<and> 10 \<le> length (trim reason)"

definition handleConfirmClose :: "clock \<Rightarrow> jsv \<Rightarrow> jsv \<Rightarrow> string \<Rightarrow> bool \<Rightarrow> (incmodal_st, jsv) act" where
  "handleConfirmClose c inc label reason busy =
     (if \<not> isCloseValid label reason \<or> busy then Ret JUndef
      else Upd (closeBusy_update (\<lambda>_. True)) (fin (catch
        (bnd (lift (get inc ''id'')) (\<lambda>i. bnd (await (closeIncident c i (JObj [(''label'', label), (''label_reason'', JStr (trim reason)),
              (''labeled_by'', JStr ''current_user'')]))) (\<lambda>_.
           Upd (tell_ok ''Incident closed. Label saved for AI feedback.'') (Upd (closeOpen_update (\<lambda>_. False))
             (Upd (imRefreshes_update Suc) (reread c i))))))
        (\<lambda>err. Upd (tell_error (''Loi khi dong incident: '' @ to_str (fld err ''message''))) (Ret JUndef)))
       (closeBusy_update (\<lambda>_. False))))"

section \<open>What the tabs offer\<close>

text \<open>An offered action: its type and its parameters, as the button hands them to \<open>onAction\<close>.\<close>

datatype offer = Offer (offer_id: string) (offer_action: string) (offer_params: jsv)

definition known_culprit :: "jsv \<Rightarrow> jsv" where
  \<comment> \<open>\<open>ActionSuggestions\<close>\<close>
  "known_culprit inc = js_or (fld inc ''culpritProcess'') (JObj [(''name'', JStr ''key_test.exe''), (''pid'', jn 4128)])"

definition first_indicator :: "jsv \<Rightarrow> jsv" where
  "first_indicator inc = (case elems (js_or (fld inc ''networkIndicators'') (JArr [])) of [] \<Rightarrow> JUndef | x # _ \<Rightarrow> x)"

definition target_ip :: "jsv \<Rightarrow> jsv res" where
  "target_ip inc =
     (let ip = fld (first_indicator inc) ''dst_ip'' in
      if truthy ip then Inr ip
      else if nullishp (fld inc ''description'') then Inr JNull
      else rmap (\<lambda>b. if b then JStr ''192.168.10.55'' else JNull) (has_text (fld inc ''description'') ''4444''))"

definition kill_params :: "jsv \<Rightarrow> jsv" where
  "kill_params culprit = JObj [(''pid'', fld culprit ''pid''), (''process_name'', fld culprit ''name'')]"

definition suggestions :: "jsv \<Rightarrow> bool \<Rightarrow> offer list res" where
  "suggestions inc isolated = rmap (\<lambda>targetIp.
     (if isolated then [] else [Offer ''isolate_host'' ''isolate'' (JObj [])])
     @ (if truthy (fld (known_culprit inc) ''pid'') then [Offer ''kill_tree'' ''kill_process_tree'' (kill_params (known_culprit inc))] else [])
     @ (if truthy targetIp then [Offer ''block_ip'' ''block_ip'' (JObj [(''ip'', targetIp)])] else [])) (target_ip inc)"

text \<open>The panel of the suggestions tells its parent to refresh by an action of that name.\<close>

definition panel_refresh :: "clock \<Rightarrow> jsv \<Rightarrow> bool \<Rightarrow> (incmodal_st, jsv) act" where
  "panel_refresh c inc busy = handleAction c inc busy ''refresh'' (JObj [])"

definition banner_culprit :: "jsv \<Rightarrow> jsv" where
  "banner_culprit inc = js_or (fld inc ''culpritProcess'') (JObj [(''name'', JStr ''suspicious_process''), (''pid'', jn 4128),
     (''exe_path'', JStr (''C:'' @ [CHR 0x5C] @ ''Users'' @ [CHR 0x5C] @ ''AppData'' @ [CHR 0x5C] @ ''Local'' @ [CHR 0x5C] @ ''Temp''
        @ [CHR 0x5C] @ ''key_test.exe''))])"

definition banner_offers :: "jsv \<Rightarrow> bool \<Rightarrow> offer list" where
  "banner_offers inc isolated =
     [if isolated then Offer ''undo_isolate'' ''unisolate'' JUndef else Offer ''isolate_host'' ''isolate'' JUndef]
     @ (if truthy (fld (banner_culprit inc) ''pid'') then [Offer ''kill_tree'' ''kill_process_tree'' (kill_params (banner_culprit inc))] else [])"

definition generateNarrative :: "jsv \<Rightarrow> bool \<Rightarrow> string" where
  "generateNarrative inc isolated =
     (let parent = js_or (fld inc ''parentProcess'') (JObj [(''name'', JStr ''cmd.exe''), (''pid'', jn 3500)]);
          culprit = banner_culprit inc; agent = to_str (fld inc ''agentId'') in
      ''Tien trinh `'' @ to_str (js_or (fld culprit ''name'') (JStr ''key_test.exe'')) @ ''` (PID ''
      @ to_str (js_or (fld culprit ''pid'') (JStr ''N/A'')) @ '') duoc khoi chay boi `''
      @ to_str (js_or (fld parent ''name'') (JStr ''cmd.exe'')) @ ''`, hoat dong tu thu muc bat thuong (Temp). ''
      @ ''He thong phan tich rui ro kich hoat diem de doa '' @ to_str (js_or (fld inc ''riskScore'') (jn 50)) @ ''/100. ''
      @ (if isolated then ''Chinh sach an ninh tu dong da CO LAP MANG may tram '' @ agent @ '' de ngan chan lay lan.''
         else ''Khuyen nghi co lap may tram '' @ agent @ '' hoac tieu diet cay tien trinh ngay lap tuc.''))"

text \<open>\<open>/T\d{4}(?:\.\d{3})?/g\<close>: the techniques named in a text, from left to right, without repetitions.\<close>

fun technique_at :: "string \<Rightarrow> string option" where
  "technique_at (t # a # b # c # d # s) =
     (if t = CHR ''T'' \<and> list_all is_digit [a, b, c, d] then
        (case s of p # x # y # z # _ \<Rightarrow>
           if p = CHR ''.'' \<and> list_all is_digit [x, y, z] then Some [t, a, b, c, d, p, x, y, z] else Some [t, a, b, c, d]
         | _ \<Rightarrow> Some [t, a, b, c, d])
      else None)"
| "technique_at _ = None"

function techniques :: "string \<Rightarrow> string list" where
  "techniques [] = []"
| "techniques (c # s) = (case technique_at (c # s) of
     Some m \<Rightarrow> m # techniques (drop (length m - 1) s) | None \<Rightarrow> techniques s)"
  by pat_completeness auto
termination
  by (relation "measure length") auto

definition mitre_text :: "jsv \<Rightarrow> string" where
  "mitre_text inc = to_str (js_or (fld inc ''title'') (JStr '''')) @ '' '' @ to_str (js_or (fld inc ''description'') (JStr '''')) @ '' ''
     @ json_str (js_or (fld inc ''details'') (JObj []))"

definition fallback_technique :: "string \<Rightarrow> string" where
  "fallback_technique t = (if str_includes (lower t) ''msbuild'' then ''T1127.001''
     else if str_includes (lower t) ''c2'' \<or> str_includes (lower t) ''beacon'' then ''T1071'' else ''T1059'')"

definition mitre_ids :: "jsv \<Rightarrow> jsv list" where
  \<comment> \<open>the ids of \<open>mitreTags\<close>; an element of \<open>mitre_techniques\<close> is a string or carries its id\<close>
  "mitre_ids inc =
     (if elems (fld inc ''mitreTags'') \<noteq> [] then map (\<lambda>t. fld t ''id'') (elems (fld inc ''mitreTags''))
      else if elems (fld inc ''mitre_techniques'') \<noteq> []
        then map (\<lambda>t. case t of JStr i \<Rightarrow> t | _ \<Rightarrow> fld t ''id'') (elems (fld inc ''mitre_techniques''))
      else let found = remdups (rev (techniques (mitre_text inc))) in
        if found \<noteq> [] then map JStr (rev found) else [JStr (fallback_technique (mitre_text inc))])"

text \<open>\<open>NetworkCorrelation\<close>: each row reads \<open>culprit.name\<close>, whatever \<open>culprit\<close> is.\<close>

definition related_culprit :: "jsv \<Rightarrow> jsv" where
  "related_culprit inc = js_or (fld inc ''culpritProcess'') (js_or (fld inc ''culprit_process'') JNull)"

definition network_row :: "jsv \<Rightarrow> jsv \<Rightarrow> (bool \<times> jsv \<times> jsv) res" where
  \<comment> \<open>whether it is the culprit's, the process shown, the address its button blocks\<close>
  "network_row culprit item = rbind (get item ''process_name'') (\<lambda>p. rbind (get culprit ''name'') (\<lambda>n.
     Inr (strict_eq p n \<or> strict_eq (fld item ''dst_port'') (jn 4444), js_or p n, fld item ''dst_ip'')))"

definition network_rows :: "jsv \<Rightarrow> (bool \<times> jsv \<times> jsv) list res" where
  "network_rows inc = rmapM (network_row (related_culprit inc)) (elems (js_or (fld inc ''networkIndicators'') (JArr [])))"

section \<open>Ancestry, timeline, notes\<close>

record ancestry_st = load_st +
  incData :: jsv

definition load_ancestry :: "jsv \<Rightarrow> (ancestry_st, jsv) act" where
  "load_ancestry incident =
     (if \<not> truthy (fld incident ''id'') then Ret JUndef
      else if \<not> truthy (fld incident ''culpritProcess'') \<and> \<not> truthy (fld incident ''culprit_process'')
          \<and> \<not> truthy (fld incident ''parentProcess'') \<and> \<not> truthy (fld incident ''parent_process'')
      then Upd (loading_update (\<lambda>_. True)) (fin (catch
          (bnd (await (api_get (''/incidents/'' @ to_str (fld incident ''id'')))) (\<lambda>res.
             Upd (if truthy res then incData_update (\<lambda>_. res) else id) (Ret JUndef)))
          (\<lambda>_. Ret JUndef)) (loading_update (\<lambda>_. False)))
      else Upd (incData_update (\<lambda>_. incident)) (Ret JUndef))"

definition related_parent :: "jsv \<Rightarrow> jsv" where
  "related_parent inc = js_or (fld inc ''parentProcess'') (js_or (fld inc ''parent_process'') JNull)"

definition ancestry_entry :: "string \<Rightarrow> string \<Rightarrow> jsv \<Rightarrow> (string \<times> jsv) list" where
  \<comment> \<open>the fields the two links of the chain share\<close>
  "ancestry_entry level d p =
     [(''level'', JStr level), (''name'', js_or (fld p ''name'') (js_or (fld p ''process_name'') (JStr d))),
      (''pid'', js_or (fld p ''pid'') (JStr ''N/A'')),
      (''path'', js_or (fld p ''exe_path'') (js_or (fld p ''exe'') (js_or (fld p ''path'') (JStr '''')))),
      (''cmdline'', js_or (fld p ''cmdline'') (JStr ''''))]"

definition ancestryChain :: "jsv \<Rightarrow> jsv list" where
  "ancestryChain inc =
     (let parent = related_parent inc; culprit = related_culprit inc in
      (if truthy parent then [JObj (ancestry_entry ''Parent Process'' ''parent'' parent @ [(''role'', JStr ''parent'')])] else [])
      @ (if truthy culprit then [JObj (ancestry_entry ''Malicious Culprit'' ''culprit'' culprit
           @ [(''sha256'', js_or (fld culprit ''sha256'') (JStr '''')), (''role'', JStr ''culprit'')])] else []))"

definition ancestry_kill :: "jsv \<Rightarrow> bool \<Rightarrow> offer option" where
  \<comment> \<open>the kill button is enabled for a known pid only\<close>
  "ancestry_kill inc busy =
     (let culprit = related_culprit inc in
      if busy \<or> \<not> truthy (fld culprit ''pid'') then None
      else Some (Offer ''kill_tree'' ''kill_process_tree'' (JObj [(''pid'', fld culprit ''pid''), (''process_name'',
        js_or (fld culprit ''name'') (js_or (fld culprit ''process_name'') (JStr ''process'')))])))"

record story_st = load_st +
  timeline :: "jsv list"
  expandedIndices :: "nat list"

definition fetchTimelineData :: "jsv \<Rightarrow> (story_st, jsv) act" where
  "fetchTimelineData incidentId =
     (if \<not> truthy incidentId then Ret JUndef
      else Upd (loading_update (\<lambda>_. True)) (fin (catch
        (bnd (await (getIncidentTimeline incidentId)) (\<lambda>items. Upd (timeline_update (\<lambda>_. elems items)) (Ret JUndef)))
        (\<lambda>_. Upd (timeline_update (\<lambda>_. [])) (Ret JUndef))) (loading_update (\<lambda>_. False))))"

definition toggleExpand :: "nat \<Rightarrow> story_st \<Rightarrow> story_st" where
  "toggleExpand idx = expandedIndices_update (\<lambda>prev. if idx \<in> set prev then filter (\<lambda>i. i \<noteq> idx) prev else prev @ [idx])"

record notes_st = load_st +
  noteItems :: "jsv list"
  newContent :: string
  submitting :: bool

definition fetchNotes :: "jsv \<Rightarrow> (notes_st, jsv) act" where
  "fetchNotes incidentId =
     (if \<not> truthy incidentId then Ret JUndef
      else Upd (loading_update (\<lambda>_. True)) (fin (catch
        (bnd (await (getIncidentNotes incidentId)) (\<lambda>items. Upd (noteItems_update (\<lambda>_. elems items)) (Ret JUndef)))
        (\<lambda>_. Upd (noteItems_update (\<lambda>_. [])) (Ret JUndef))) (loading_update (\<lambda>_. False))))"

definition handleNoteSubmit :: "jsv \<Rightarrow> string \<Rightarrow> bool \<Rightarrow> (notes_st, jsv) act" where
  "handleNoteSubmit incidentId content busy =
     (if trim content = [] \<or> busy then Ret JUndef
      else Upd (submitting_update (\<lambda>_. True)) (fin (catch
        (bnd (await (addIncidentNote incidentId (JStr (trim content)) (JStr ''analyst''))) (\<lambda>_.
           Upd (newContent_update (\<lambda>_. [])) (fetchNotes incidentId)))
        (\<lambda>_. Ret JUndef)) (submitting_update (\<lambda>_. False))))"

record context_st = load_st +
  agentIncidents :: "jsv list"

definition fetchAgentIncidents :: "clock \<Rightarrow> jsv \<Rightarrow> (context_st, jsv) act" where
  "fetchAgentIncidents c agent =
     (if \<not> truthy (fld agent ''id'') then Ret JUndef
      else Upd (loading_update (\<lambda>_. True)) (fin (catch
        (bnd (await (getIncidents c)) (\<lambda>all. bnd (lift (rfilter (\<lambda>inc.
             rmap (\<lambda>v. strict_eq v (fld agent ''id'')) (get inc ''agentId'')) (elems all))) (\<lambda>mine.
           Upd (agentIncidents_update (\<lambda>_. mine)) (Ret JUndef))))
        (\<lambda>_. Ret JUndef)) (loading_update (\<lambda>_. False))))"

definition activeIncidents :: "jsv list \<Rightarrow> jsv list" where
  "activeIncidents is = filter (\<lambda>i. fld i ''status'' \<notin> {JStr ''resolved'', JStr ''closed'', JStr ''false_positive''}) is"

section \<open>Lemmas\<close>

lemma reread_run:
  "run (logging f) (reread c i) s w = (let q = Req GET (''/incidents/'' @ to_str i) JUndef JUndef in
     case rbind (settle (f q)) (mapIncident c) of
       Inl e \<Rightarrow> (Inl e, s, w @ [q])
     | Inr d \<Rightarrow> (Inr JUndef, s\<lparr>detailedIncident := d\<rparr>, w @ [q]))"
  by (simp add: reread_def getIncident_def api_get_def run_simps Let_def split: sum.splits)

lemma technique_starts: "technique_at s = Some m \<Longrightarrow> length m = 5 \<or> length m = 9"
  by (induction s rule: technique_at.induct) (auto split: if_splits list.splits)

section \<open>Properties\<close>

text \<open>
  C9: an incident without a culprit process is offered the killing of a made-up one. Whatever the incident, the
  header and the suggestions both offer to kill the tree of process 4128, and pressing the button sends that
  request to the incident's machine.
\<close>

theorem made_up_process_killed:
  assumes "\<not> truthy (fld inc ''culpritProcess'')" and "truthy (fld inc ''id'')" and "suggestions inc isolated = Inr offers"
  defines "params \<equiv> kill_params (known_culprit inc)"
  shows "Offer ''kill_tree'' ''kill_process_tree'' params \<in> set offers
    \<and> (\<exists>p. Offer ''kill_tree'' ''kill_process_tree'' p \<in> set (banner_offers inc isolated) \<and> fld p ''pid'' = jn 4128)
    \<and> fld params ''pid'' = jn 4128
    \<and> hd (world_of (run (logging f) (handleAction c inc False ''kill_process_tree'' params) s [])) =
        Req POST (''/incidents/'' @ to_str (fld inc ''id'') @ ''/action'') JUndef
          (JObj [(''action_type'', JStr ''kill_process_tree''), (''params'', params), (''user'', JStr ''admin'')])"
proof -
  let ?q = "Req POST (''/incidents/'' @ to_str (fld inc ''id'') @ ''/action'') JUndef
      (JObj [(''action_type'', JStr ''kill_process_tree''), (''params'', params), (''user'', JStr ''admin'')])"
  have params: "params = JObj [(''pid'', jn 4128), (''process_name'', JStr ''key_test.exe'')]"
    using assms(1) by (simp add: params_def kill_params_def known_culprit_def)
  have "hd (world_of (run (logging f) (handleAction c inc False ''kill_process_tree'' params) s [])) = ?q"
    using assms(2) by (cases "f ?q")
      (auto simp: handleAction_def executeIncidentAction_def api_post_def run_simps reread_run params get_def Let_def
        split: sum.splits)
  moreover have "Offer ''kill_tree'' ''kill_process_tree'' params \<in> set offers"
    using assms(1,3) by (auto simp: suggestions_def rmap_def rbind_eq_Inr params_def known_culprit_def)
  moreover have "Offer ''kill_tree'' ''kill_process_tree'' (kill_params (banner_culprit inc)) \<in> set (banner_offers inc isolated)"
    "fld (kill_params (banner_culprit inc)) ''pid'' = jn 4128"
    using assms(1) by (simp_all add: banner_offers_def banner_culprit_def kill_params_def)
  ultimately show ?thesis
    using params by auto
qed

definition bare_incident :: jsv where
  "bare_incident = JObj [(''id'', jn 7), (''description'', JStr ''login failures''), (''culpritProcess'', JNull),
     (''networkIndicators'', JArr [JObj [(''dst_ip'', JStr ''10.0.0.9'')]])]"

theorem made_up_process_killed_witness:
  "req_method (hd (world_of (run (logging (\<lambda>_. Inl JNull)) (handleAction stopped_clock bare_incident False ''kill_process_tree''
     (kill_params (known_culprit bare_incident))) (init_incmodal bare_incident) []))) = POST"
proof -
  have "\<exists>offers. suggestions bare_incident False = Inr offers"
    by (simp add: suggestions_def target_ip_def first_indicator_def bare_incident_def)
  then obtain offers where "suggestions bare_incident False = Inr offers" by blast
  from made_up_process_killed [OF _ _ this, of "\<lambda>_. Inl JNull" stopped_clock "init_incmodal bare_incident"] show ?thesis
    by (simp add: bare_incident_def)
qed

text \<open>
  The network tab of an incident that has connections but no culprit process cannot be rendered: the first row throws.
\<close>

theorem network_tab_throws:
  assumes "mapIncident c raw = Inr inc" and "\<not> truthy (fld raw ''culprit_process'')" and "truthy raw"
    and "fld raw ''network_indicators'' = JArr (JObj x # xs)"
  shows "network_rows inc = Inl type_error"
proof -
  from assms obtain sev st where "inc = JObj [(''id'', fld raw ''id''),
          (''title'', js_or (fld raw ''title'') (js_or (fld raw ''name'') (JStr (''Incident #'' @ to_str (fld raw ''id''))))),
          (''description'', js_or (fld raw ''description'') (JStr ''No detailed description provided.'')),
          (''severity'', sev), (''status'', st),
          (''assignedTo'', js_or (fld raw ''assigned_to'') (js_or (fld raw ''assignedTo'') (JStr ''Unassigned''))),
          (''agentId'', js_or (fld raw ''agent_id'') (js_or (fld raw ''agentId'') (JStr ''N/A''))),
          (''riskScore'', if fld raw ''risk_score'' \<noteq> JUndef then fld raw ''risk_score'' else js_or (fld raw ''riskScore'') (jn 0)),
          (''notes'', js_or (fld raw ''notes'') (JStr '''')),
          (''resolvedAt'', js_or (fld raw ''resolved_at'') (js_or (fld raw ''resolvedAt'') JNull)),
          (''label'', js_or (fld raw ''label'') JNull),
          (''labelReason'', js_or (fld raw ''label_reason'') (js_or (fld raw ''labelReason'') (JStr ''''))),
          (''labeledBy'', js_or (fld raw ''labeled_by'') (js_or (fld raw ''labeledBy'') (JStr ''''))),
          (''labeledAt'', js_or (fld raw ''labeled_at'') (js_or (fld raw ''labeledAt'') JNull)),
          (''createdAt'', js_or (fld raw ''created_at'') (js_or (fld raw ''createdAt'') (JStr (now_iso c)))),
          (''updatedAt'', js_or (fld raw ''updated_at'') (js_or (fld raw ''updatedAt'') (JStr (now_iso c)))),
          (''culpritProcess'', JNull), (''parentProcess'', js_or (fld raw ''parent_process'') JNull),
          (''networkIndicators'', JArr (JObj x # xs)), (''factorsBreakdown'', as_list (fld raw ''factors_breakdown''))]"
    by (auto simp: mapIncident_def rbind_eq_Inr as_list_def split: if_splits)
  then show ?thesis
    by (simp add: network_rows_def related_culprit_def network_row_def)
qed

definition connected_incident :: jsv where
  "connected_incident = JObj [(''id'', jn 7), (''network_indicators'', JArr [JObj [(''dst_ip'', JStr ''10.0.0.9'')]])]"

theorem network_tab_throws_witness:
  "\<exists>inc. mapIncident stopped_clock connected_incident = Inr inc \<and> network_rows inc = Inl type_error"
proof -
  have "\<exists>inc. mapIncident stopped_clock connected_incident = Inr inc"
    by (simp add: mapIncident_def connected_incident_def lower_or_def)
  then obtain inc where inc: "mapIncident stopped_clock connected_incident = Inr inc" by blast
  with network_tab_throws [OF inc] show ?thesis
    by (simp add: connected_incident_def)
qed

text \<open>
  The outcome of an action from the storyboard, against any answers. A refused action is told as an error and nothing is
  refreshed; an accepted one is told as a success, the lists are refreshed and the incident is read again, and when
  only that read fails the last word is an error although the action was carried out. The buttons are free again in
  every case.
\<close>

theorem action_outcome:
  fixes inc :: jsv and act_name :: string and params :: jsv
  assumes "truthy (fld inc ''id'')" and "params \<noteq> JUndef"
  defines "q \<equiv> Req POST (''/incidents/'' @ to_str (fld inc ''id'') @ ''/action'') JUndef
      (JObj [(''action_type'', JStr act_name), (''params'', params), (''user'', JStr ''admin'')])"
    and "again \<equiv> Req GET (''/incidents/'' @ to_str (fld inc ''id'')) JUndef JUndef"
  shows "case run (logging f) (handleAction c inc False act_name params) s [] of (r, s', asked) \<Rightarrow>
    r = Inr JUndef \<and> \<not> actionLoading s' \<and>
    (case f q of
       Inl err \<Rightarrow> asked = [q] \<and> imRefreshes s' = imRefreshes s \<and> detailedIncident s' = detailedIncident s \<and>
         imToasts s' = imToasts s @ [Toast_error (to_str (message_or (intercept_error err) (''Loi khi thuc hien '' @ act_name)))]
     | Inr res \<Rightarrow> if nullishp (fld res ''data'') then asked = [q] \<and> imToasts s' = imToasts s @ [Toast_error ''TypeError'']
         else asked = [q, again] \<and> imRefreshes s' = Suc (imRefreshes s) \<and>
           (let told = Toast_ok (to_str (js_or (fld (fld res ''data'') ''message'') (JStr (''Thuc thi thanh cong: '' @ act_name)))) in
            case rbind (settle (f again)) (mapIncident c) of
              Inl e \<Rightarrow> detailedIncident s' = detailedIncident s \<and>
                imToasts s' = imToasts s @ [told, Toast_error (to_str (message_or e (''Loi khi thuc hien '' @ act_name)))]
            | Inr d \<Rightarrow> detailedIncident s' = d \<and> imToasts s' = imToasts s @ [told]))"
proof -
  have te: "to_str (message_or type_error t) = ''TypeError''" for t
    by (simp add: message_or_def type_error_def)
  have asks: "requests [executeIncidentAction (fld inc ''id'') (JStr act_name) params JUndef] = [q]"
    "answer f (executeIncidentAction (fld inc ''id'') (JStr act_name) params JUndef) = settle (f q)"
    using assms(2) by (simp_all add: executeIncidentAction_def api_post_def q_def)
  show ?thesis
  proof (cases "f q")
    case (Inl err)
    with assms(1) show ?thesis
      by (simp add: handleAction_def run_simps asks tell_error_def)
  next
    case (Inr res)
    with assms(1) show ?thesis
      by (auto simp: handleAction_def run_simps asks tell_error_def tell_ok_def get_def te reread_run Let_def again_def
          split: sum.splits)
  qed
qed

theorem action_outcome_witness:
  "\<not> actionLoading (state_of (run (logging (\<lambda>_. Inl JNull)) (handleAction stopped_clock bare_incident False ''isolate'' (JObj []))
     (init_incmodal bare_incident) []))"
  using action_outcome [where inc = bare_incident and params = "JObj []" and act_name = "''isolate''" and f = "\<lambda>_. Inl JNull"
      and c = stopped_clock and s = "init_incmodal bare_incident"]
  by (simp add: bare_incident_def split: prod.splits)

text \<open>
  Closing an incident needs a label and a reason of ten characters: otherwise nothing is sent and nothing changes. What is
  sent carries them; when the manager refuses it, the dialog stays open.
\<close>

theorem close_outcome:
  assumes "truthy (fld inc ''id'')"
  shows "case run (logging f) (handleConfirmClose c inc label reason False) s [] of (r, s', asked) \<Rightarrow>
    r = Inr JUndef \<and>
    (if truthy label \<and> 10 \<le> length (trim reason)
     then hd asked = Req PATCH (''/incidents/'' @ to_str (fld inc ''id'')) JUndef (JObj [(''status'', JStr ''closed''), (''label'', label),
            (''label_reason'', JStr (trim reason)), (''labeled_by'', JStr ''current_user'')])
       \<and> \<not> closeBusy s' \<and> (case f (hd asked) of Inr _ \<Rightarrow> True | Inl err \<Rightarrow> closeOpen s' = closeOpen s \<and> asked = [hd asked])
     else s' = s \<and> asked = [])"
proof (cases "truthy label \<and> 10 \<le> length (trim reason)")
  case False
  then show ?thesis by (auto simp: handleConfirmClose_def isCloseValid_def)
next
  case True
  have "get inc ''id'' = Inr (fld inc ''id'')"
    using assms by (cases inc) (auto simp: get_def)
  with True show ?thesis
    by (auto simp: handleConfirmClose_def isCloseValid_def closeIncident_def api_patch_def run_simps tell_ok_def tell_error_def
        reread_run Let_def split: sum.splits)
qed

theorem close_outcome_witness:
  "world_of (run (logging (\<lambda>_. Inl JNull)) (handleConfirmClose stopped_clock bare_incident (JStr ''benign'') ''short'' False)
     (init_incmodal bare_incident) []) = []"
proof -
  have short: "length (trim ''short'') = 5" by (simp add: trim_def is_space_def)
  from close_outcome [where inc = bare_incident and f = "\<lambda>_. Inl JNull" and label = "JStr ''benign''" and reason = "''short''"
      and c = stopped_clock and s = "init_incmodal bare_incident"]
  show ?thesis
    by (simp add: bare_incident_def short split: prod.splits)
qed

text \<open>
  What the suggestion panel calls a refresh is sent to the manager as a response action of that name on the incident.
\<close>

theorem refresh_is_an_action:
  assumes "truthy (fld inc ''id'')"
  shows "hd (world_of (run (logging f) (panel_refresh c inc False) s [])) =
    Req POST (''/incidents/'' @ to_str (fld inc ''id'') @ ''/action'') JUndef
      (JObj [(''action_type'', JStr ''refresh''), (''params'', JObj []), (''user'', JStr ''admin'')])"
proof -
  let ?q = "Req POST (''/incidents/'' @ to_str (fld inc ''id'') @ ''/action'') JUndef
      (JObj [(''action_type'', JStr ''refresh''), (''params'', JObj []), (''user'', JStr ''admin'')])"
  show ?thesis
    using assms by (cases "f ?q")
      (auto simp: panel_refresh_def handleAction_def executeIncidentAction_def api_post_def run_simps reread_run get_def Let_def
        split: sum.splits)
qed

theorem refresh_is_an_action_witness:
  "req_path (hd (world_of (run (logging (\<lambda>_. Inl JNull)) (panel_refresh stopped_clock bare_incident False) (init_incmodal JNull) [])))
     = ''/incidents/7/action''"
proof -
  have "truthy (fld bare_incident ''id'')" by (simp add: bare_incident_def)
  from refresh_is_an_action [OF this, of "\<lambda>_. Inl JNull" stopped_clock "init_incmodal JNull"] show ?thesis
    by (simp add: bare_incident_def pos_str_def nat_str.simps digit_char_def)
qed

end
