(* ===== verification/IncidentsPage.thy ===== *)
theory IncidentsPage
  imports IncidentsHook FeedHooks Paging
begin

text \<open>
  \<open>src/frontend/src/pages/Incidents.jsx\<close> with \<open>components/ui/FilterTabs.jsx\<close>: the counters, the filter
  tabs, the filters and the pages of the incident queue, the weekly chart, the pages of the alert queue,
  and the assign and status handlers. The page's state extends the hook's.

  A day is the number of days since 1970-01-01 (UTC), where the code uses its ISO date string; the two
  sort alike in the years 0 to 9999. The labels and colours of the chart are left out.
\<close>

record incpage_st = incidents_st +
  incSearch :: string
  incStatus :: jsv
  incSeverity :: string
  incAgent :: string
  incTime :: string
  incPage :: int
  selectedIncident :: jsv
  assignTarget :: jsv
  assigneeInput :: string
  incToasts :: "toast list"

section \<open>Counters and tabs\<close>

record kpis =
  kTotal :: nat
  openCount :: nat
  containedCount :: nat
  resolvedCount :: nat
  falsePositiveCount :: nat
  closedCount :: nat

definition count_status :: "string list \<Rightarrow> jsv list \<Rightarrow> nat res" where
  "count_status sts incs = rmap length (rfilter (\<lambda>i. rmap (\<lambda>v. v \<in> JStr ` set sts) (get i ''status'')) incs)"

definition kpis_of :: "jsv list \<Rightarrow> kpis res" where
  "kpis_of incs =
     rbind (count_status [''open'', ''investigating''] incs) (\<lambda>o_n.
     rbind (count_status [''contained''] incs) (\<lambda>c_n.
     rbind (count_status [''resolved''] incs) (\<lambda>r_n.
     rbind (count_status [''false_positive''] incs) (\<lambda>f_n.
     rbind (count_status [''closed''] incs) (\<lambda>x_n.
       Inr \<lparr>kTotal = length incs, openCount = o_n, containedCount = c_n, resolvedCount = r_n,
            falsePositiveCount = f_n, closedCount = x_n\<rparr>)))))"

definition status_tab :: "string \<Rightarrow> string \<Rightarrow> nat \<Rightarrow> jsv" where
  "status_tab i label n = JObj [(''id'', JStr i), (''label'', JStr (label @ '' ('' @ nat_str n @ '')''))]"

definition statusTabs :: "kpis \<Rightarrow> jsv list" where
  "statusTabs k =
     [status_tab ''all'' ''All'' (kTotal k), status_tab ''open'' ''Open / Active'' (openCount k),
      status_tab ''contained'' ''Contained'' (containedCount k), status_tab ''resolved'' ''Resolved'' (resolvedCount k),
      status_tab ''false_positive'' ''False Positive'' (falsePositiveCount k),
      status_tab ''closed'' ''Closed'' (closedCount k)]"

text \<open>\<open>FilterTabs\<close> calls \<open>onChange(tab.value)\<close>; the page sets the filter to it and goes to page 1.\<close>

definition tab_value :: "jsv \<Rightarrow> jsv" where
  "tab_value tab = fld tab ''value''"

definition click_tab :: "jsv \<Rightarrow> incpage_st \<Rightarrow> incpage_st" where
  "click_tab tab s = s\<lparr>incStatus := tab_value tab, incPage := 1\<rparr>"

section \<open>The incident queue\<close>

definition status_matches :: "jsv \<Rightarrow> jsv \<Rightarrow> bool res" where
  "status_matches f inc =
     (if f = JStr ''open'' then rmap (\<lambda>v. v = JStr ''open'' \<or> v = JStr ''investigating'') (get inc ''status'')
      else if f \<noteq> JStr ''all'' then rmap (\<lambda>v. strict_eq v f) (get inc ''status'')
      else Inr True)"

definition time_matches :: "clock \<Rightarrow> string \<Rightarrow> jsv \<Rightarrow> bool res" where
  "time_matches c f inc =
     (if f = ''all'' then Inr True
      else rbind (get inc ''createdAt'') (\<lambda>v.
        let age = num_sub (Fin (now_ms c)) (date_ms c v) in
        Inr (if f = ''today'' then num_le age (Fin 86400000)
             else if f = ''7days'' then num_le age (Fin (7 * 86400000))
             else if f = ''30days'' then num_le age (Fin (30 * 86400000))
             else True)))"

definition incident_matches :: "clock \<Rightarrow> incpage_st \<Rightarrow> jsv \<Rightarrow> bool res" where
  "incident_matches c s inc =
     rbind (ror (Inr (lower (incSearch s) = []))
        (any_field inc (incSearch s) [''id'', ''title'', ''agentId'', ''description''])) (\<lambda>matchSearch.
     rbind (status_matches (incStatus s) inc) (\<lambda>matchStatus.
     rbind (picked (incSeverity s) inc ''severity'') (\<lambda>matchSeverity.
     rbind (picked (incAgent s) inc ''agentId'') (\<lambda>matchAgent.
     rbind (time_matches c (incTime s) inc) (\<lambda>matchTime.
       Inr (matchSearch \<and> matchStatus \<and> matchSeverity \<and> matchAgent \<and> matchTime))))))"

definition filteredIncidents :: "clock \<Rightarrow> incpage_st \<Rightarrow> jsv list res" where
  "filteredIncidents c s = rfilter (incident_matches c s) (incidents s)"

definition incidentPages :: "jsv list \<Rightarrow> int" where
  "incidentPages xs = page_count 8 (length xs)"

definition paginatedIncidents :: "clock \<Rightarrow> incpage_st \<Rightarrow> jsv list res" where
  "paginatedIncidents c s = rmap (js_slice ((incPage s - 1) * 8) ((incPage s - 1) * 8 + 8)) (filteredIncidents c s)"

text \<open>The buttons under the table, given the rendered number of pages; \<open>None\<close> is a disabled button.\<close>

definition previous_page :: "incpage_st \<Rightarrow> incpage_st option" where
  "previous_page s = (if incPage s = 1 then None else Some (s\<lparr>incPage := max (incPage s - 1) 1\<rparr>))"

definition next_page :: "int \<Rightarrow> incpage_st \<Rightarrow> incpage_st option" where
  "next_page pages s = (if incPage s = pages then None else Some (s\<lparr>incPage := min (incPage s + 1) pages\<rparr>))"

section \<open>The alert queue\<close>

text \<open>The search text is lowered first, so a source address is compared with the lowered text.\<close>

definition alert_matches :: "string \<Rightarrow> string \<Rightarrow> jsv \<Rightarrow> bool res" where
  "alert_matches sev q e =
     rbind (ror (Inr (sev = ''all''))
        (rbind (get e ''severity'') (\<lambda>v. if_truthy v (rmap (\<lambda>l. l = JStr (lower sev)) (to_lower v))))) (\<lambda>matchSev.
     rbind (ror (Inr (lower q = []))
           (ror (field_match e q ''type'')
           (ror (field_match e q ''agentId'')
           (ror (rbind (get e ''sourceIp'') (\<lambda>v. if_truthy v (has_text v (lower q))))
                (field_match e q ''description''))))) (\<lambda>matchSearch.
       Inr (matchSev \<and> matchSearch)))"

definition filteredEvents :: "string \<Rightarrow> string \<Rightarrow> jsv list \<Rightarrow> jsv list res" where
  "filteredEvents sev q es = rfilter (alert_matches sev q) es"

definition shown_alerts :: "int \<Rightarrow> jsv list \<Rightarrow> jsv list" where
  "shown_alerts alertPage es = js_slice ((alertPage - 1) * 10) (alertPage * 10) es"

definition next_alerts :: "int \<Rightarrow> jsv list \<Rightarrow> int option" where
  \<comment> \<open>\<open>disabled={alertPage * 10 >= filteredEvents.length}\<close>\<close>
  "next_alerts alertPage es = (if int (length es) \<le> alertPage * 10 then None else Some (alertPage + 1))"

section \<open>The chart\<close>

definition range_error :: jsv where
  "range_error = JObj [(''name'', JStr ''RangeError''), (''message'', JStr ''Invalid time value'')]"

definition day_of :: "clock \<Rightarrow> jsv \<Rightarrow> int res" where
  \<comment> \<open>\<open>new Date(v).toISOString().split('T')[0]\<close>\<close>
  "day_of c v = (case date_ms c v of NaN \<Rightarrow> Inl range_error | Fin ms \<Rightarrow> Inr \<lfloor>ms / 86400000\<rfloor>)"

definition chart_keys :: "string list" where
  "chart_keys = [''open'', ''contained'', ''resolved'', ''false_positive'', ''closed'']"

type_synonym bucket = "(string \<times> nat) list"

definition empty_bucket :: bucket where
  "empty_bucket = map (\<lambda>k. (k, 0)) chart_keys"

text \<open>\<open>dates\<close> and \<open>dateMap\<close>: the week up to today, then the days of the incidents.\<close>

definition chart_week :: "clock \<Rightarrow> int list" where
  "chart_week c = map (\<lambda>i. \<lfloor>(now_ms c - of_nat i * 86400000) / 86400000\<rfloor>) (rev [0..<7])"

definition bump :: "string \<Rightarrow> bucket \<Rightarrow> bucket" where
  "bump st b = map (\<lambda>(k, n). (k, if k = st then n + 1 else n)) b"

definition chart_status :: "jsv \<Rightarrow> string" where
  "chart_status inc = (if fld inc ''status'' = JStr ''investigating'' then ''open'' else to_str (fld inc ''status''))"

definition chart_step ::
  "clock \<Rightarrow> jsv \<Rightarrow> int list \<times> (int \<times> bucket) list \<Rightarrow> (int list \<times> (int \<times> bucket) list) res" where
  "chart_step c inc acc =
     rbind (get inc ''createdAt'') (\<lambda>created.
       if \<not> truthy created then Inr acc
       else rbind (day_of c created) (\<lambda>d.
         let (dates, dm) = acc;
             (dates, dm) = (if map_of dm d = None
               then (if d \<in> set dates then dates else dates @ [d], dm @ [(d, empty_bucket)]) else (dates, dm))
         in Inr (dates, map (\<lambda>(d', b). (d', if d' = d then bump (chart_status inc) b else b)) dm)))"

fun chart_fold ::
  "clock \<Rightarrow> jsv list \<Rightarrow> int list \<times> (int \<times> bucket) list \<Rightarrow> (int list \<times> (int \<times> bucket) list) res" where
  "chart_fold c [] acc = Inr acc"
| "chart_fold c (inc # incs) acc = rbind (chart_step c inc acc) (chart_fold c incs)"

definition chart_init :: "clock \<Rightarrow> int list \<times> (int \<times> bucket) list" where
  "chart_init c = (chart_week c, map (\<lambda>d. (d, empty_bucket)) (chart_week c))"

text \<open>\<open>dates.map((d) => dateMap[d][key] || 0)\<close> over the sorted dates.\<close>

definition bucket_get :: "(int \<times> bucket) list \<Rightarrow> string \<Rightarrow> int \<Rightarrow> nat" where
  "bucket_get dm key d = (case map_of dm d of None \<Rightarrow> 0 | Some b \<Rightarrow> (case map_of b key of None \<Rightarrow> 0 | Some n \<Rightarrow> n))"

definition chart_series :: "jsv \<Rightarrow> int list \<times> (int \<times> bucket) list \<Rightarrow> (string \<times> nat list) list" where
  "chart_series statusFilter acc =
     (let dates = sort (fst acc);
          keys = (if statusFilter = JStr ''all'' then chart_keys
                  else [if statusFilter = JStr ''investigating'' then ''open'' else to_str statusFilter])
      in map (\<lambda>key. (key, map (bucket_get (snd acc) key) dates)) keys)"

definition chartData :: "clock \<Rightarrow> jsv \<Rightarrow> jsv list \<Rightarrow> (string \<times> nat list) list res" where
  "chartData c statusFilter incs = rmap (chart_series statusFilter) (chart_fold c incs (chart_init c))"

section \<open>Handlers\<close>

definition inc_toast :: "toast \<Rightarrow> incpage_st \<Rightarrow> incpage_st" where
  "inc_toast t = incToasts_update (\<lambda>ts. ts @ [t])"

text \<open>The handlers are given the values of the rendering they belong to.\<close>

definition openAssignModal :: "jsv \<Rightarrow> incpage_st \<Rightarrow> incpage_st" where
  "openAssignModal inc s = s\<lparr>assignTarget := inc,
     assigneeInput := (if fld inc ''assignedTo'' \<noteq> JStr ''Unassigned'' then to_str (fld inc ''assignedTo'') else [])\<rparr>"

definition submitAssign :: "clock \<Rightarrow> jsv \<Rightarrow> string \<Rightarrow> (incpage_st, jsv) act" where
  "submitAssign c target input =
     (if \<not> truthy target \<or> trim input = [] then Ret JUndef
      else catch
        (bnd (handleAssign c (fld target ''id'') (JStr (trim input))) (\<lambda>_.
           Upd (inc_toast (Toast_ok (''Da phan cong incident cho '' @ trim input)))
             (Upd (assignTarget_update (\<lambda>_. JNull)) (Ret JUndef))))
        (\<lambda>err. Upd (inc_toast (Toast_error (''Phan cong that bai: '' @ to_str (fld err ''message'')))) (Ret JUndef)))"

definition onQuickStatusChange :: "clock \<Rightarrow> jsv \<Rightarrow> jsv \<Rightarrow> string \<Rightarrow> (incpage_st, jsv) act" where
  "onQuickStatusChange c selected_inc incId newStatus = catch
     (bnd (handleUpdateStatus c incId (JStr newStatus)) (\<lambda>_.
        Upd (inc_toast (Toast_ok (''Da cap nhat trang thai thanh '' @ newStatus)))
          (if truthy selected_inc \<and> strict_eq (fld selected_inc ''id'') incId
           then Upd (selectedIncident_update (\<lambda>prev. if truthy prev
                  then with_fld prev ''status'' (JStr newStatus) else JNull)) (Ret JUndef)
           else Ret JUndef)))
     (\<lambda>err. Upd (inc_toast (Toast_error (''Cap nhat trang thai that bai: '' @ to_str (fld err ''message'')))) (Ret JUndef))"

section \<open>Lemmas\<close>

interpretation incident_pager: pager 8 "page_slice 8" incidentPages
  unfolding incidentPages_def by (rule pager_page_slice) simp

lemma paginated_page:
  "filteredIncidents c s = Inr xs \<Longrightarrow> paginatedIncidents c s = Inr (page_slice 8 (incPage s) xs)"
  by (simp add: paginatedIncidents_def page_slice_def algebra_simps)

lemma rfilter_none: "(\<And>x. x \<in> set xs \<Longrightarrow> p x = Inr False) \<Longrightarrow> rfilter p xs = Inr []"
  using rfilter_total [of xs p "\<lambda>_. False"] by simp

lemma mapped_object:
  "mapIncident c r = Inr m \<Longrightarrow> truthy r \<Longrightarrow> \<exists>ps t. m = JObj ps \<and> lookup ps ''status'' = JStr t"
  by (auto simp: mapIncident_def rbind_eq_Inr dest!: lower_or_string)

lemma tab_value_undefined: "tab \<in> set (statusTabs k) \<Longrightarrow> tab_value tab = JUndef"
  by (auto simp: statusTabs_def status_tab_def tab_value_def)

lemma time_matches_obj: "\<exists>b. time_matches c f (JObj ps) = Inr b"
  by (auto simp: time_matches_def Let_def)

lemma count_status_objs:
  "list_all (\<lambda>i. \<exists>ps. i = JObj ps) incs \<Longrightarrow>
   count_status sts incs = Inr (length (filter (\<lambda>i. fld i ''status'' \<in> JStr ` set sts) incs))"
  unfolding count_status_def
  by (subst rfilter_total [where q = "\<lambda>i. fld i ''status'' \<in> JStr ` set sts"]) (auto simp: list_all_iff)

text \<open>With the other filters at their defaults only the status counts.\<close>

definition only_status :: "incpage_st \<Rightarrow> bool" where
  "only_status s \<longleftrightarrow> incSearch s = [] \<and> incSeverity s = ''all'' \<and> incAgent s = ''all'' \<and> incTime s = ''all''"

lemma filtered_only_status:
  assumes "only_status s" and "list_all (\<lambda>i. \<exists>ps. i = JObj ps) (incidents s)"
    and "\<And>i. i \<in> set (incidents s) \<Longrightarrow> status_matches (incStatus s) i = Inr (q i)"
  shows "filteredIncidents c s = Inr (filter q (incidents s))"
  unfolding filteredIncidents_def
  using assms
  by (intro rfilter_total)
    (auto simp: list_all_iff only_status_def incident_matches_def time_matches_def picked_def lower_def)

section \<open>The chart counts\<close>

text \<open>\<open>dates\<close> and the keys of \<open>dateMap\<close> stay the same list of different days; every bucket has the five keys.\<close>

definition chart_ok :: "int list \<times> (int \<times> bucket) list \<Rightarrow> bool" where
  "chart_ok acc \<longleftrightarrow> fst acc = map fst (snd acc) \<and> distinct (fst acc)
     \<and> list_all (\<lambda>(d, b). map fst b = chart_keys) (snd acc)"

definition weight :: "bucket \<Rightarrow> nat" where
  "weight b = sum_list (map snd b)"

definition total_weight :: "(int \<times> bucket) list \<Rightarrow> nat" where
  "total_weight dm = sum_list (map (weight \<circ> snd) dm)"

definition counted_in_chart :: "jsv \<Rightarrow> bool" where
  "counted_in_chart inc \<longleftrightarrow> truthy (fld inc ''createdAt'') \<and> chart_status inc \<in> set chart_keys"

lemma chart_keys_distinct: "distinct chart_keys"
  by (simp add: chart_keys_def)

lemma empty_bucket_facts [simp]: "map fst empty_bucket = chart_keys" "weight empty_bucket = 0"
  by (simp_all add: empty_bucket_def weight_def comp_def)

lemma map_fst_bump [simp]: "map fst (bump st b) = map fst b"
  by (induction b) (auto simp: bump_def)

lemma weight_bump: "distinct (map fst b) \<Longrightarrow> weight (bump st b) = weight b + (if st \<in> set (map fst b) then 1 else 0)"
  by (induction b) (auto simp: bump_def weight_def image_iff)

lemma chart_init_ok: "chart_ok (chart_init c)"
proof -
  have "(now_ms c - of_nat i * 86400000) / 86400000 = now_ms c / 86400000 - of_int (int i)" for i
    by (simp add: field_simps)
  then have "\<lfloor>(now_ms c - of_nat i * 86400000) / 86400000\<rfloor> = \<lfloor>now_ms c / 86400000\<rfloor> - int i" for i
    by (simp only: floor_diff_of_int)
  then have "distinct (chart_week c)"
    by (simp add: chart_week_def distinct_map inj_on_def del: upt_rec_numeral)
  then show ?thesis
    by (simp add: chart_ok_def chart_init_def comp_def list_all_iff)
qed

lemma total_weight_init [simp]: "total_weight (snd (chart_init c)) = 0"
  by (simp add: total_weight_def chart_init_def comp_def)

text \<open>Counting one status on a day that has a bucket.\<close>

lemma total_weight_bump:
  assumes "distinct (map fst dm)" and "d \<in> set (map fst dm)"
    and "list_all (\<lambda>(d, b). map fst b = chart_keys) dm"
  shows "total_weight (map (\<lambda>(d', b). (d', if d' = d then bump st b else b)) dm) =
    total_weight dm + (if st \<in> set chart_keys then 1 else 0)"
  using assms
proof (induction dm)
  case (Cons x dm)
  obtain d' b where x: "x = (d', b)" by fastforce
  show ?case
  proof (cases "d' = d")
    case True
    then have "map (\<lambda>(d', b). (d', if d' = d then bump st b else b)) dm = dm"
      using Cons.prems(1) x by (intro map_idI) (auto simp: image_iff)
    then show ?thesis
      using Cons.prems x True weight_bump [of b st] chart_keys_distinct
      by (simp add: total_weight_def)
  next
    case False
    then show ?thesis
      using Cons x by (simp add: total_weight_def)
  qed
qed simp

lemma chart_ok_map:
  "chart_ok (dates, dm) \<Longrightarrow> distinct (map fst dm) \<and> list_all (\<lambda>(d, b). map fst b = chart_keys) dm"
  by (auto simp: chart_ok_def)

lemma chart_step_ok:
  assumes "chart_ok acc" and "chart_step c inc acc = Inr acc'"
  shows "chart_ok acc'"
    and "total_weight (snd acc') = total_weight (snd acc) + (if counted_in_chart inc then 1 else 0)"
proof -
  obtain dates dm where acc: "acc = (dates, dm)" by fastforce
  have "chart_ok acc' \<and> total_weight (snd acc') = total_weight (snd acc) + (if counted_in_chart inc then 1 else 0)"
  proof (cases "truthy (fld inc ''createdAt'')")
    case False
    with assms show ?thesis
      by (auto simp: chart_step_def get_def counted_in_chart_def split: if_splits)
  next
    case True
    with assms(2) acc obtain d where d: "day_of c (fld inc ''createdAt'') = Inr d"
      by (auto simp: chart_step_def get_def rbind_eq_Inr split: if_splits)
    let ?dm = "if map_of dm d = None then dm @ [(d, empty_bucket)] else dm"
    let ?dates = "if map_of dm d = None then dates @ [d] else dates"
    have new: "d \<notin> set dates" if "map_of dm d = None"
      using that assms(1) acc by (auto simp: chart_ok_def map_of_eq_None_iff)
    have ok: "chart_ok (?dates, ?dm)"
      using assms(1) acc new by (auto simp: chart_ok_def)
    have okd: "distinct (map fst ?dm)" "list_all (\<lambda>(d, b). map fst b = chart_keys) ?dm"
      using chart_ok_map [OF ok] by blast+
    have here: "d \<in> set (map fst ?dm)"
      by (auto simp: map_of_eq_None_iff)
    have acc': "acc' = (?dates, map (\<lambda>(d', b). (d', if d' = d then bump (chart_status inc) b else b)) ?dm)"
      using assms(2) True d acc new
      by (auto simp: chart_step_def get_def Let_def split: if_splits)
    have "total_weight ?dm = total_weight dm"
      by (simp add: total_weight_def)
    moreover have "total_weight (snd acc') = total_weight ?dm + (if chart_status inc \<in> set chart_keys then 1 else 0)"
      unfolding acc' snd_conv
      by (rule total_weight_bump [OF okd(1) here okd(2)])
    moreover have "chart_ok acc'"
      using ok unfolding acc' chart_ok_def by (auto simp: list_all_iff comp_def case_prod_beta)
    ultimately show ?thesis
      using True acc by (simp add: counted_in_chart_def)
  qed
  then show "chart_ok acc'"
    and "total_weight (snd acc') = total_weight (snd acc) + (if counted_in_chart inc then 1 else 0)"
    by blast+
qed

lemma chart_fold_ok:
  "chart_ok acc \<Longrightarrow> chart_fold c incs acc = Inr acc' \<Longrightarrow>
   chart_ok acc' \<and> total_weight (snd acc') = total_weight (snd acc) + length (filter counted_in_chart incs)"
proof (induction incs arbitrary: acc)
  case (Cons inc incs)
  then obtain acc1 where 1: "chart_step c inc acc = Inr acc1" and 2: "chart_fold c incs acc1 = Inr acc'"
    by (auto simp: rbind_eq_Inr)
  from Cons.IH [OF chart_step_ok(1) [OF Cons.prems(1) 1] 2] chart_step_ok(2) [OF Cons.prems(1) 1] show ?case
    by simp
qed simp

definition bget :: "bucket \<Rightarrow> string \<Rightarrow> nat" where
  "bget b key = (case map_of b key of None \<Rightarrow> 0 | Some n \<Rightarrow> n)"

lemma sum_bget: "distinct (map fst b) \<Longrightarrow> sum_list (map (bget b) (map fst b)) = weight b"
proof -
  assume "distinct (map fst b)"
  then have "map (bget b \<circ> fst) b = map snd b"
    by (intro map_cong) (auto simp: bget_def)
  then show ?thesis by (simp only: weight_def map_map)
qed

lemma sum_over_sorted: "sum_list (map (g :: int \<Rightarrow> nat) (sort ds)) = sum_list (map g ds)"
  by (metis mset_map mset_sort sum_mset_sum_list)

lemma sum_series:
  assumes "chart_ok (dates, dm)"
  shows "sum_list (map (\<lambda>key. sum_list (map (bucket_get dm key) (sort dates))) chart_keys) = total_weight dm"
proof -
  have dates: "dates = map fst dm" and dist: "distinct (map fst dm)"
    and keys: "\<And>d b. (d, b) \<in> set dm \<Longrightarrow> map fst b = chart_keys"
    using assms by (auto simp: chart_ok_def list_all_iff)
  have "map (bucket_get dm key) dates = map (\<lambda>x. bget (snd x) key) dm" for key
    using dist by (auto simp: dates bucket_get_def bget_def)
  then have "sum_list (map (\<lambda>key. sum_list (map (bucket_get dm key) (sort dates))) chart_keys) =
      sum_list (map (\<lambda>key. sum_list (map (\<lambda>x. bget (snd x) key) dm)) chart_keys)"
    by (simp add: sum_over_sorted)
  also have "\<dots> = sum_list (map (\<lambda>x. sum_list (map (bget (snd x)) chart_keys)) dm)"
    by (induction dm) (simp_all add: sum_list_addf)
  also have "\<dots> = total_weight dm"
  proof -
    have "sum_list (map (bget (snd x)) chart_keys) = weight (snd x)" if "x \<in> set dm" for x
      using that sum_bget [of "snd x"] keys [of "fst x" "snd x"] chart_keys_distinct by simp
    then show ?thesis unfolding total_weight_def comp_def by (metis (no_types, lifting) map_cong)
  qed
  finally show ?thesis .
qed

lemma chart_fold_dates: "chart_fold c incs acc = Inr acc' \<Longrightarrow> length (fst acc) \<le> length (fst acc')"
proof (induction incs arbitrary: acc)
  case (Cons inc incs)
  then obtain acc1 where 1: "chart_step c inc acc = Inr acc1" and 2: "chart_fold c incs acc1 = Inr acc'"
    by (auto simp: rbind_eq_Inr)
  have "length (fst acc) \<le> length (fst acc1)"
    using 1 by (cases acc) (auto simp: chart_step_def get_def rbind_eq_Inr Let_def split: if_splits)
  with Cons.IH [OF 2] show ?case by simp
qed simp

lemma concat_sum: "sum_list (concat xss) = sum_list (map sum_list xss)" for xss :: "nat list list"
  by (induction xss) auto

section \<open>The handlers\<close>

lemma loadIncidents_returns:
  "\<exists>s' w'. run srv (loadIncidents c b) s w = (Inr JUndef, s', w') \<and> incToasts s' = incToasts s"
proof -
  let ?s = "(if b then loading_update (\<lambda>_. True) else id) s"
  obtain r w' where "run srv (await (getIncidents c)) ?s w = (r, ?s, w')"
    using run_await_outcome [of srv "getIncidents c" ?s w] by blast
  then show ?thesis
    by (cases r; cases b) (simp_all add: loadIncidents_def run_simps)
qed

lemma rcatch_default: "\<exists>x. rcatch r (\<lambda>_. Inr d) = Inr x"
  by (cases r) auto

lemma updateIncidentStatus_succeeds: "outcome (updateIncidentStatus c i st) r \<Longrightarrow> \<exists>x. r = Inr x"
  unfolding outcome_def updateIncidentStatus_def answer_tcatch using rcatch_default by metis

lemma handleUpdateStatus_returns:
  "\<exists>x s' w'. run srv (handleUpdateStatus c i st) s w = (Inr x, s', w') \<and> incToasts s' = incToasts s"
proof -
  let ?s = "s\<lparr>incidentBusy := True\<rparr>"
  obtain x w1 where upd: "run srv (await (updateIncidentStatus c i st)) ?s w = (Inr x, ?s, w1)"
    using run_await_outcome [of srv "updateIncidentStatus c i st" ?s w] updateIncidentStatus_succeeds by blast
  obtain s2 w2 where "run srv (loadIncidents c False) (merge_incident i x ?s) w1 = (Inr JUndef, s2, w2)"
    and "incToasts s2 = incToasts (merge_incident i x ?s)"
    using loadIncidents_returns [of srv c False "merge_incident i x ?s" w1] by blast
  with upd show ?thesis
    by (simp add: handleUpdateStatus_def incident_busy_def run_simps merge_incident_def)
qed

section \<open>Properties\<close>

text \<open>
  C6: while no search is typed, clicking a status tab empties the incident table. The tabs carry an \<open>id\<close> but \<open>FilterTabs\<close> passes
  on \<open>value\<close>, so the filter becomes \<open>undefined\<close>, which no mapped incident's status equals: whatever tab is
  clicked ("All" included), nothing is shown.
\<close>

theorem status_tab_hides_all:
  assumes "rmapM (mapIncident c) raws = Inr (incidents s)" and "list_all truthy raws"
    and "kpis_of (incidents s) = Inr k" and "tab \<in> set (statusTabs k)" and "incSearch s = []"
  shows "filteredIncidents c' (click_tab tab s) = Inr []"
proof -
  have "incident_matches c' (click_tab tab s) m = Inr False" if "m \<in> set (incidents s)" for m
  proof -
    from rmapM_set [OF assms(1) that] assms(2) obtain r where "mapIncident c r = Inr m" "truthy r"
      by (auto simp: list_all_iff)
    then obtain ps t where m: "m = JObj ps" "lookup ps ''status'' = JStr t"
      using mapped_object by blast
    obtain b where "time_matches c' (incTime s) (JObj ps) = Inr b"
      using time_matches_obj by blast
    with m show ?thesis
      using assms(5) tab_value_undefined [OF assms(4)]
      by (simp add: incident_matches_def click_tab_def status_matches_def lower_def)
  qed
  then show ?thesis
    unfolding filteredIncidents_def by (intro rfilter_none) (simp add: click_tab_def)
qed

definition one_open :: incpage_st where
  "one_open = \<lparr>loading = False, error = JNull, incidents = [shown_incident stopped_clock], incidentBusy = False,
     incSearch = [], incStatus = JStr ''all'', incSeverity = ''all'', incAgent = ''all'', incTime = ''all'', incPage = 1,
     selectedIncident = JNull, assignTarget = JNull, assigneeInput = [], incToasts = []\<rparr>"

lemma one_open_object: "\<exists>ps. shown_incident stopped_clock = JObj ps"
  using mapped_object [OF map_raw_incident [of stopped_clock]] by (auto simp: raw_incident_def)

lemma one_open_kpis:
  "kpis_of (incidents one_open) = Inr \<lparr>kTotal = 1, openCount = 1, containedCount = 0, resolvedCount = 0,
     falsePositiveCount = 0, closedCount = 0\<rparr>"
proof -
  have "list_all (\<lambda>i. \<exists>ps. i = JObj ps) (incidents one_open)"
    using one_open_object by (simp add: one_open_def)
  then show ?thesis
    by (simp add: kpis_of_def count_status_objs) (simp add: one_open_def shown_incident_fields image_iff)
qed

theorem status_tab_hides_all_witness:
  "filteredIncidents stopped_clock (click_tab (status_tab ''all'' ''All'' 1) one_open) = Inr []"
proof -
  have "rmapM (mapIncident stopped_clock) [raw_incident] = Inr (incidents one_open)"
    by (simp add: map_raw_incident one_open_def)
  moreover have "list_all truthy [raw_incident]" by (simp add: raw_incident_def)
  ultimately show ?thesis
    by (rule status_tab_hides_all [OF _ _ one_open_kpis]) (simp_all add: statusTabs_def one_open_def)
qed

text \<open>
  The number on every status tab is the number of incidents whose status the tab stands for: it is
  what the table would show if the filter were set to the tab's \<open>id\<close> and no other filter were active.
\<close>

theorem tab_counts_exact:
  assumes "only_status s" and "list_all (\<lambda>i. \<exists>ps. i = JObj ps) (incidents s)"
    and "kpis_of (incidents s) = Inr k"
  shows "map (\<lambda>tab. rmap length (filteredIncidents c (s\<lparr>incStatus := fld tab ''id''\<rparr>))) (statusTabs k) =
    map Inr [kTotal k, openCount k, containedCount k, resolvedCount k, falsePositiveCount k, closedCount k]"
proof -
  let ?objs = "\<lambda>q. Inr (filter q (incidents s))"
  have only: "only_status (s\<lparr>incStatus := v\<rparr>)" for v
    using assms(1) by (simp add: only_status_def)
  have objs: "list_all (\<lambda>i. \<exists>ps. i = JObj ps) (incidents (s\<lparr>incStatus := v\<rparr>))" for v
    using assms(2) by simp
  have all: "filteredIncidents c (s\<lparr>incStatus := JStr ''all''\<rparr>) = Inr (incidents s)"
    by (subst filtered_only_status [OF only objs, where q = "\<lambda>_. True"]) (simp_all add: status_matches_def)
  have opened: "filteredIncidents c (s\<lparr>incStatus := JStr ''open''\<rparr>) =
      ?objs (\<lambda>i. fld i ''status'' \<in> JStr ` set [''open'', ''investigating''])"
    using assms(2)
    by (subst filtered_only_status [OF only objs, where q = "\<lambda>i. fld i ''status'' \<in> JStr ` set [''open'', ''investigating'']"])
      (auto simp: status_matches_def list_all_iff)
  have one: "filteredIncidents c (s\<lparr>incStatus := JStr t\<rparr>) = ?objs (\<lambda>i. fld i ''status'' \<in> JStr ` set [t])"
    if "t \<noteq> ''all''" "t \<noteq> ''open''" for t
    using assms(2) that
    by (subst filtered_only_status [OF only objs, where q = "\<lambda>i. fld i ''status'' \<in> JStr ` set [t]"])
      (auto simp: status_matches_def list_all_iff)
  show ?thesis
    using assms(3)
    by (auto simp: kpis_of_def count_status_objs [OF assms(2)] statusTabs_def status_tab_def all opened one)
qed

theorem tab_counts_exact_witness:
  "map (\<lambda>tab. rmap length (filteredIncidents stopped_clock (one_open\<lparr>incStatus := fld tab ''id''\<rparr>)))
     (statusTabs \<lparr>kTotal = 1, openCount = 1, containedCount = 0, resolvedCount = 0,
        falsePositiveCount = 0, closedCount = 0\<rparr>) = map Inr [1, 1, 0, 0, 0, 0]"
proof -
  have "only_status one_open" and "list_all (\<lambda>i. \<exists>ps. i = JObj ps) (incidents one_open)"
    using one_open_object by (simp_all add: one_open_def only_status_def)
  from tab_counts_exact [OF this one_open_kpis] show ?thesis by simp
qed

text \<open>
  The incident chart counts every incident once. Over all five curves and all days the points add up
  to the number of incidents with a creation date and one of the six known statuses; every curve has
  one point per day, and the days are different and include the last seven.
\<close>

theorem chart_counts_once:
  "case chartData c (JStr ''all'') incs of
     Inl e \<Rightarrow> e \<in> {range_error, type_error}
   | Inr series \<Rightarrow> map fst series = chart_keys
       \<and> sum_list (concat (map snd series)) = length (filter counted_in_chart incs)
       \<and> (\<exists>n\<ge>7. list_all (\<lambda>pts. length pts = n) (map snd series))"
proof (cases "chart_fold c incs (chart_init c)")
  case (Inl e)
  have "e \<in> {range_error, type_error}" if "chart_fold c incs acc = Inl e" for acc
    using that
    by (induction incs arbitrary: acc)
      (auto simp: rbind_def chart_step_def get_def day_of_def Let_def split: sum.splits if_splits jsnum.splits prod.splits)
  with Inl show ?thesis by (simp add: chartData_def)
next
  case (Inr acc)
  obtain dates dm where acc: "acc = (dates, dm)" by fastforce
  from chart_fold_ok [OF chart_init_ok Inr] acc
  have ok: "chart_ok (dates, dm)" and "total_weight dm = length (filter counted_in_chart incs)"
    by simp_all
  moreover have "7 \<le> length (fst acc)"
    using chart_fold_dates [OF Inr] by (simp add: chart_init_def chart_week_def)
  ultimately show ?thesis
    using Inr acc sum_series [OF ok]
    by (auto simp: chartData_def chart_series_def Let_def comp_def concat_sum list_all_iff intro: exI [of _ "length dates"])
qed

text \<open>
  The quick status change always reports success. Whatever the server answers to the change and to the
  reload, exactly one toast is shown and it says the status was updated, because the request's error is
  turned into a made-up incident before the page can see it.
\<close>

theorem quick_status_always_succeeds:
  "incToasts (state_of (run srv (onQuickStatusChange c sel_inc i st) s w)) =
     incToasts s @ [Toast_ok (''Da cap nhat trang thai thanh '' @ st)]"
proof -
  obtain x s1 w1 where "run srv (handleUpdateStatus c i (JStr st)) s w = (Inr x, s1, w1)" and "incToasts s1 = incToasts s"
    using handleUpdateStatus_returns [of srv c i "JStr st" s w] by blast
  then show ?thesis
    by (simp add: onQuickStatusChange_def run_simps inc_toast_def)
qed

end
