(* ===== verification/ProcessTreeHook.thy ===== *)
theory ProcessTreeHook
  imports HookBase
begin

text \<open>
  \<open>src/frontend/src/hooks/useProcessTree.js\<close>: the process tree of the selected agent, its suspicious
  processes, and the two kill operations with their optimistic removal and the refresh that a
  timer starts 1.5 s later. The timer is part of the state: \<open>killTimer\<close> is the agent it will
  refresh, and its expiry is an operation like the others.
\<close>

section \<open>Removing a node\<close>

definition same_pid :: "jsv \<Rightarrow> jsv \<Rightarrow> bool" where
  \<comment> \<open>\<open>Number(a.pid) === Number(pid)\<close>\<close>
  "same_pid pid a \<longleftrightarrow> strict_eq (JNum (to_num (fld a ''pid''))) (JNum (to_num pid))"

lemma size_lookup: "size (lookup ps k) \<le> size (JObj ps)"
  by (induction ps) auto

lemma size_fld_children: "size (fld n ''children'') \<le> size n"
proof (cases n)
  case (JObj ps)
  then show ?thesis using size_lookup [of ps] by simp
qed (simp_all add: fld_def)

lemma size_elem: "n \<in> set ns \<Longrightarrow> size n < size (JArr ns)"
  by (induction ns) auto

lemma size_child:
  assumes "n \<in> set ns"
  shows "size (fld n ''children'') < size (JArr ns)"
  using size_elem [OF assms] size_fld_children [of n] by linarith

lemma size_child_elems: "n \<in> set (elems v) \<Longrightarrow> size (fld n ''children'') < size v"
  by (cases v) (simp_all add: size_child del: jsv.size)

function filterTreeNodes :: "jsv \<Rightarrow> jsv \<Rightarrow> jsv list" where
  "filterTreeNodes nodes targetPid =
     map (\<lambda>node. with_fld node ''children'' (JArr (filterTreeNodes (fld node ''children'') targetPid)))
       (filter (\<lambda>node. truthy node \<and> \<not> same_pid targetPid node) (elems nodes))"
  by pat_completeness auto
termination
  by (relation "measure (\<lambda>(v, _). size v)") (auto simp: size_child_elems)

declare filterTreeNodes.simps [simp del]

text \<open>All the pids of a forest, in preorder.\<close>

function tree_pids :: "jsv \<Rightarrow> jsnum list" where
  "tree_pids nodes =
     concat (map (\<lambda>n. to_num (fld n ''pid'') # tree_pids (fld n ''children'')) (filter truthy (elems nodes)))"
  by pat_completeness auto
termination
  by (relation "measure size") (auto simp: size_child_elems)

declare tree_pids.simps [simp del]

section \<open>The hook\<close>

record ptree_st = fetch_st +
  selectedAgentId :: jsv
  processTree :: jsv
  suspiciousProcesses :: "jsv list"
  killing :: bool
  actionSuccess :: jsv
  killTimer :: "jsv option"

definition init_ptree :: "jsv \<Rightarrow> ptree_st" where
  "init_ptree agentId = \<lparr>loading = False, error = JNull, selectedAgentId = agentId, processTree = JNull,
     suspiciousProcesses = [], killing = False, actionSuccess = JNull, killTimer = None\<rparr>"

definition ptree_fetch :: "jsv \<Rightarrow> bool \<Rightarrow> ('z ptree_st_scheme, jsv) act" where
  "ptree_fetch target showLoading =
     (if \<not> truthy target then Ret JUndef
      else Upd (if showLoading then loading_update (\<lambda>_. True) else id)
       (Upd (error_update (\<lambda>_. JNull))
        (fin (catch
           (bnd (promise_all [tcatch (getProcessTree target) (\<lambda>_. Inr JNull),
                              tcatch (getSuspiciousProcesses target) (\<lambda>_. Inr (JArr []))])
             (\<lambda>rs. Upd (processTree_update (\<lambda>_. rs ! 0))
                (Upd (suspiciousProcesses_update (\<lambda>_. elems (rs ! 1))) (Ret JUndef))))
           (\<lambda>err. Upd (error_update (\<lambda>_. message_or err ''Failed to fetch process tree telemetry''))
              (Ret JUndef)))
         (if showLoading then loading_update (\<lambda>_. False) else id))))"

text \<open>The socket callback: a process list or a risk update of the selected agent refreshes.\<close>

definition on_process_message :: "jsv \<Rightarrow> jsv \<Rightarrow> (ptree_st, jsv) act" where
  "on_process_message sel msg =
     (if truthy msg \<and> (strict_eq (fld msg ''type'') (JStr ''PROCESS_LIST'')
          \<or> strict_eq (fld msg ''type'') (JStr ''TELEMETRY_RISK''))
         \<and> (\<not> truthy sel
            \<or> strict_eq (js_or (fld (fld msg ''payload'') ''agent_id'') (fld msg ''agent_id'')) sel)
      then ptree_fetch sel False else Ret JUndef)"

definition prune :: "jsv \<Rightarrow> jsv \<Rightarrow> jsv" where
  \<comment> \<open>the updater of \<open>setProcessTree\<close>: a \<open>{ tree }\<close> object, a forest or a single root\<close>
  "prune pid prev =
     (if \<not> truthy prev then prev
      else let roots = js_or (fld prev ''tree'') (if is_array prev then prev else JArr [prev]);
               updated = JArr (filterTreeNodes roots pid)
           in if truthy (fld prev ''tree'') then with_fld prev ''tree'' updated else updated)"

definition drop_killed :: "jsv \<Rightarrow> 'z ptree_st_scheme \<Rightarrow> 'z ptree_st_scheme" where
  "drop_killed pid s = s\<lparr>suspiciousProcesses := filter (\<lambda>p. \<not> same_pid pid p) (suspiciousProcesses s),
     processTree := prune pid (processTree s)\<rparr>"

text \<open>What the two kill handlers share; \<open>setTimeout\<close> replaces a timer that has not expired.\<close>

definition kill_with :: "jsv \<Rightarrow> jsv task \<Rightarrow> jsv \<Rightarrow> string \<Rightarrow> string \<Rightarrow> ('z ptree_st_scheme, jsv) act" where
  "kill_with target t pid done_msg fail_msg =
     (if \<not> truthy target \<or> \<not> truthy pid then Ret JUndef
      else Upd (killing_update (\<lambda>_. True)) (Upd (error_update (\<lambda>_. JNull))
        (Upd (actionSuccess_update (\<lambda>_. JNull))
         (catch
           (bnd (await t) (\<lambda>_. Upd (drop_killed pid)
              (Upd (actionSuccess_update (\<lambda>_. JStr done_msg))
                (Upd (killTimer_update (\<lambda>_. Some target)) (Ret (JBool True))))))
           (\<lambda>err. Upd (error_update (\<lambda>_. detail_or err fail_msg))
              (Upd (killing_update (\<lambda>_. False)) (Throw err)))))))"

definition handleKillProcess :: "jsv \<Rightarrow> jsv \<Rightarrow> jsv \<Rightarrow> ('z ptree_st_scheme, jsv) act" where
  "handleKillProcess sel agentId pid =
     kill_with (js_or sel agentId) (killProcess (js_or sel agentId) pid (JBool False)) pid
       (''Kill signal dispatched for PID '' @ to_str pid) (''Failed to kill process PID '' @ to_str pid)"

definition handleKillProcessTree :: "jsv \<Rightarrow> jsv \<Rightarrow> jsv \<Rightarrow> jsv \<Rightarrow> ('z ptree_st_scheme, jsv) act" where
  "handleKillProcessTree sel agentId pid processName =
     kill_with (js_or sel agentId) (killProcessTree (js_or sel agentId) pid (dflt processName JNull)) pid
       (''Kill Tree signal dispatched for PID '' @ to_str pid @ '' ('' @
          to_str (js_or (dflt processName JNull) (JStr ''process tree'')) @ '')'')
       (''Failed to kill process tree PID '' @ to_str pid)"

text \<open>The timer expires.\<close>

definition kill_timer_fires :: "(ptree_st, jsv) act" where
  "kill_timer_fires = Look (\<lambda>s. case killTimer s of
       None \<Rightarrow> Ret JUndef
     | Some target \<Rightarrow> Upd (killTimer_update (\<lambda>_. None))
         (fin (ptree_fetch target False) (killing_update (\<lambda>_. False))))"

definition select_agent :: "jsv \<Rightarrow> (ptree_st, jsv) act" where
  "select_agent i = Upd (selectedAgentId_update (\<lambda>_. i)) (Ret JUndef)"

definition clear_messages :: "(ptree_st, jsv) act set" where
  "clear_messages = {Upd (actionSuccess_update (\<lambda>_. JNull)) (Ret JUndef),
                     Upd (error_update (\<lambda>_. JNull)) (Ret JUndef)}"

definition ptree_ops :: "jsv \<Rightarrow> ptree_st \<Rightarrow> (ptree_st, jsv) act set" where
  "ptree_ops agentId s = {ptree_fetch (selectedAgentId s) b | b. True}
     \<union> range (on_process_message (selectedAgentId s)) \<union> range (handleKillProcess (selectedAgentId s) agentId)
     \<union> {handleKillProcessTree (selectedAgentId s) agentId i n | i n. True} \<union> {kill_timer_fires}
     \<union> range select_agent \<union> clear_messages"

section \<open>Pruning the tree\<close>

lemma fld_pid_with_children: "fld (with_fld n ''children'' c) ''pid'' = fld n ''pid''"
  by (simp add: lookup_own_props is_digit_def)

lemma same_pid_with_children [simp]: "same_pid pid (with_fld n ''children'' c) = same_pid pid n"
  by (simp add: same_pid_def lookup_own_props is_digit_def)

lemma with_fld_twice: "with_fld (with_fld v k x) k y = with_fld v k y"
proof -
  have "AList.update k y (AList.update k x ps) = AList.update k y ps" for ps
    by (induction ps) auto
  then show ?thesis by (simp add: with_fld_def)
qed

lemma tree_pids_filter:
  "tree_pids (JArr (filterTreeNodes v pid)) =
    concat (map (\<lambda>n. to_num (fld n ''pid'') # tree_pids (JArr (filterTreeNodes (fld n ''children'') pid)))
      (filter (\<lambda>n. truthy n \<and> \<not> same_pid pid n) (elems v)))"
  by (subst tree_pids.simps, subst filterTreeNodes.simps)
    (simp add: filter_map comp_def fld_pid_with_children del: fld_with_fld, simp)

lemma in_tree_pids:
  "x \<in> set (tree_pids v) \<longleftrightarrow> (\<exists>n\<in>set (elems v). truthy n \<and>
     (x = to_num (fld n ''pid'') \<or> x \<in> set (tree_pids (fld n ''children''))))"
  by (subst tree_pids.simps) auto

lemma in_tree_pids_filter:
  "x \<in> set (tree_pids (JArr (filterTreeNodes v pid))) \<longleftrightarrow>
    (\<exists>n\<in>set (elems v). truthy n \<and> \<not> same_pid pid n \<and>
      (x = to_num (fld n ''pid'') \<or> x \<in> set (tree_pids (JArr (filterTreeNodes (fld n ''children'') pid)))))"
  by (subst tree_pids_filter) auto

lemma same_pid_Fin: "to_num pid = Fin p \<Longrightarrow> same_pid pid n \<longleftrightarrow> to_num (fld n ''pid'') = Fin p"
  unfolding same_pid_def by (cases "to_num (fld n ''pid'')") auto

lemma filterTreeNodes_removes:
  "to_num pid = Fin p \<Longrightarrow> Fin p \<notin> set (tree_pids (JArr (filterTreeNodes v pid)))"
proof (induction v pid rule: filterTreeNodes.induct)
  case (1 v pid)
  have "Fin p \<noteq> to_num (fld n ''pid'')" if "\<not> same_pid pid n" for n
    using that same_pid_Fin [OF 1(2)] by metis
  moreover have "Fin p \<notin> set (tree_pids (JArr (filterTreeNodes (fld n ''children'') pid)))"
    if "n \<in> set (elems v)" "truthy n" "\<not> same_pid pid n" for n
    using that 1 by simp
  ultimately show ?case
    by (subst in_tree_pids_filter) blast
qed

lemma filterTreeNodes_keeps:
  "to_num pid = Fin p \<Longrightarrow> Fin p \<notin> set (tree_pids v) \<Longrightarrow>
   tree_pids (JArr (filterTreeNodes v pid)) = tree_pids v"
proof (induction v pid rule: filterTreeNodes.induct)
  case (1 v pid)
  have other: "\<not> same_pid pid n \<and> Fin p \<notin> set (tree_pids (fld n ''children''))"
    if "n \<in> set (elems v)" "truthy n" for n
    using 1(3) that same_pid_Fin [OF 1(2), of n] in_tree_pids [THEN iffD2, of v "Fin p"] by metis
  have kept: "filter (\<lambda>n. truthy n \<and> \<not> same_pid pid n) (elems v) = filter truthy (elems v)"
    using other by (intro filter_cong) auto
  have IH: "tree_pids (JArr (filterTreeNodes (fld n ''children'') pid)) = tree_pids (fld n ''children'')"
    if "n \<in> set (elems v)" "truthy n" for n
    using that other 1(1) [OF _ 1(2)] by simp
  show ?case
    by (subst tree_pids_filter, subst (2) tree_pids.simps, unfold kept)
      (rule arg_cong [of _ _ concat], rule map_cong, simp_all add: IH)
qed

lemma tree_pids_filter_subset: "set (tree_pids (JArr (filterTreeNodes v pid))) \<subseteq> set (tree_pids v)"
proof (induction v pid rule: filterTreeNodes.induct)
  case (1 v pid)
  then have IH: "set (tree_pids (JArr (filterTreeNodes (fld n ''children'') pid))) \<subseteq> set (tree_pids (fld n ''children''))"
    if "n \<in> set (elems v)" "truthy n" "\<not> same_pid pid n" for n
    using that by simp
  show ?case
  proof
    fix x
    assume "x \<in> set (tree_pids (JArr (filterTreeNodes v pid)))"
    from in_tree_pids_filter [THEN iffD1, OF this] IH show "x \<in> set (tree_pids v)"
      by (subst in_tree_pids) blast
  qed
qed

lemma filterTreeNodes_idem: "filterTreeNodes (JArr (filterTreeNodes v pid)) pid = filterTreeNodes v pid"
proof (induction v pid rule: filterTreeNodes.induct)
  case (1 v pid)
  show ?case
    by (subst (1 2) filterTreeNodes.simps)
      (subst (2) filterTreeNodes.simps, auto simp: with_fld_twice 1 filter_map comp_def)
qed

section \<open>The flags\<close>

lemma ptree_fetch_loading [simp]: "settles loading (ptree_fetch i b)"
proof (cases b)
  case True
  then show ?thesis
    unfolding ptree_fetch_def by (auto intro!: settles_UpdI2 owes_fin)
next
  case False
  then show ?thesis
    unfolding ptree_fetch_def by (auto intro!: settles_fin settles_catch settles_bnd)
qed

text \<open>
  \<open>killing\<close> spins from the click to the end of the refresh; between the server's answer and the
  refresh it is the pending timer that will take it down.
\<close>

definition stuck_killing :: "'z ptree_st_scheme \<Rightarrow> bool" where
  "stuck_killing s \<longleftrightarrow> killing s \<and> killTimer s = None"

lemma stuck_killing_update [simp]:
  "stuck_killing (error_update f s) = stuck_killing s" "stuck_killing (loading_update g s) = stuck_killing s"
  "stuck_killing (processTree_update f s) = stuck_killing s"
  "stuck_killing (suspiciousProcesses_update h s) = stuck_killing s"
  "stuck_killing (actionSuccess_update f s) = stuck_killing s"
  "stuck_killing (selectedAgentId_update f s) = stuck_killing s"
  "stuck_killing (drop_killed pid s) = stuck_killing s"
  "\<not> stuck_killing (killing_update (\<lambda>_. False) s)" "\<not> stuck_killing (killTimer_update (\<lambda>_. Some i) s)"
  by (simp_all add: stuck_killing_def drop_killed_def)

lemma ptree_fetch_killing [simp]: "settles stuck_killing (ptree_fetch i b)"
  unfolding ptree_fetch_def by (auto intro!: settles_fin settles_catch settles_bnd)

lemma kill_with_killing [simp]: "settles stuck_killing (kill_with target t pid a b)"
  unfolding kill_with_def
  by (auto intro!: settles_UpdI2 owes_catch_both)

lemma kill_timer_killing: "settles stuck_killing kill_timer_fires"
  by (auto simp: kill_timer_fires_def owes_fin intro!: settles_UpdI2 split: option.splits)

lemma ptree_settles_killing: "m \<in> ptree_ops agentId s \<Longrightarrow> settles stuck_killing m"
  unfolding ptree_ops_def
  by (auto simp: on_process_message_def handleKillProcess_def handleKillProcessTree_def kill_timer_killing
      select_agent_def clear_messages_def)

lemma kill_with_loading [simp]: "settles loading (kill_with target t pid a b)"
  unfolding kill_with_def by (auto intro!: settles_catch settles_bnd simp: drop_killed_def)

lemma ptree_settles_loading: "m \<in> ptree_ops agentId s \<Longrightarrow> settles loading m"
  unfolding ptree_ops_def
  by (auto simp: on_process_message_def handleKillProcess_def handleKillProcessTree_def kill_timer_fires_def
      select_agent_def clear_messages_def intro!: settles_fin split: option.splits)

interpretation ptree_loading: spinner "ptree_ops agentId" ok loading for agentId ok
  by unfold_locales (rule ptree_settles_loading)

interpretation ptree_killing: spinner "ptree_ops agentId" ok stuck_killing for agentId ok
  by unfold_locales (rule ptree_settles_killing)

section \<open>Properties\<close>

text \<open>
  C38: the optimistic pruning. After \<open>filterTreeNodes\<close> the killed pid occurs nowhere in the forest,
  however deep; only pids that were there remain; pruning twice is pruning once; and a forest
  without the pid keeps all its processes, in order.
\<close>

theorem filterTreeNodes_prunes:
  assumes "to_num pid = Fin p"
  shows "Fin p \<notin> set (tree_pids (JArr (filterTreeNodes v pid)))
    \<and> set (tree_pids (JArr (filterTreeNodes v pid))) \<subseteq> set (tree_pids v)
    \<and> filterTreeNodes (JArr (filterTreeNodes v pid)) pid = filterTreeNodes v pid
    \<and> (Fin p \<in> set (tree_pids v) \<or> tree_pids (JArr (filterTreeNodes v pid)) = tree_pids v)"
  using filterTreeNodes_removes [OF assms] tree_pids_filter_subset filterTreeNodes_idem
    filterTreeNodes_keeps [OF assms] by blast

definition proc :: "rat \<Rightarrow> jsv list \<Rightarrow> jsv" where
  "proc i cs = JObj [(''pid'', jn i), (''children'', JArr cs)]"

theorem filterTreeNodes_prunes_witness:
  "Fin 4 \<notin> set (tree_pids (JArr (filterTreeNodes (JArr [proc 1 [proc 4 [], proc 5 []]]) (JStr ''4''))))"
proof -
  have n: "to_num (JStr ''4'') = Fin 4"
    by (simp add: str_num_def trim_def is_space_def scan_signed_def scan_unsigned_def is_digit_def
        digits_val_def digit_val_def Let_def)
  show ?thesis using filterTreeNodes_prunes [OF n] by blast
qed

text \<open>
  Killing a process. One POST asks for that process only (no tree). When it is accepted, the pid
  leaves the suspicious list and the tree at once, the message says the signal was dispatched,
  and \<open>killing\<close> stays up with the refresh timer set; when it is refused nothing is pruned, the
  error shown is the interceptor's message and the handler throws it.
\<close>

theorem kill_process_outcome:
  assumes "truthy sel" and "truthy pid"
  shows "run (logging f) (handleKillProcess sel agentId pid) s [] =
    (case f (Req POST (''/process/'' @ to_str sel @ ''/process/'' @ to_str pid @ ''/kill'') JUndef
         (JObj [(''reason'', JStr ''Manual analyst action''), (''kill_tree'', JBool False)])) of
       Inl err \<Rightarrow> (Inl (intercept_error err),
         s\<lparr>killing := False, actionSuccess := JNull,
           error := message_or (intercept_error err) (''Failed to kill process PID '' @ to_str pid)\<rparr>,
         [Req POST (''/process/'' @ to_str sel @ ''/process/'' @ to_str pid @ ''/kill'') JUndef
           (JObj [(''reason'', JStr ''Manual analyst action''), (''kill_tree'', JBool False)])])
     | Inr _ \<Rightarrow> (Inr (JBool True),
         s\<lparr>killing := True, error := JNull, killTimer := Some sel,
           actionSuccess := JStr (''Kill signal dispatched for PID '' @ to_str pid),
           suspiciousProcesses := filter (\<lambda>p. \<not> same_pid pid p) (suspiciousProcesses s),
           processTree := prune pid (processTree s)\<rparr>,
         [Req POST (''/process/'' @ to_str sel @ ''/process/'' @ to_str pid @ ''/kill'') JUndef
           (JObj [(''reason'', JStr ''Manual analyst action''), (''kill_tree'', JBool False)])]))"
  using assms
  by (simp add: handleKillProcess_def kill_with_def killProcess_def api_post_def run_simps kill_body_def
      detail_or_plain drop_killed_def split: sum.splits)

theorem kill_process_outcome_witness:
  "killing (state_of (run (logging (\<lambda>_. Inr JNull))
     (handleKillProcess (JStr ''a1'') JNull (jn 4)) (init_ptree JNull) []))"
  using kill_process_outcome [of "JStr ''a1''" "jn 4" "\<lambda>_. Inr JNull" JNull "init_ptree JNull"] by simp

text \<open>
  C26: the kill spinner never sticks. In every interleaving of fetches, kills, timer expiries and
  socket messages, whenever no request is pending, \<open>killing\<close> is either down or about to be taken
  down by a refresh timer that is still set.
\<close>

theorem killing_never_sticks:
  assumes "reach (ptree_ops agentId) ok (mounted (ptree_fetch agentId True) (init_ptree agentId)) (s, [])"
  shows "\<not> killing s \<or> (\<exists>target. killTimer s = Some target)"
proof -
  have "\<not> stuck_killing s"
    using ptree_killing.idle_not_busy [OF assms]
    by (simp add: init_ptree_def stuck_killing_def)
  then show ?thesis by (auto simp: stuck_killing_def)
qed

definition ptree_loaded :: ptree_st where
  "ptree_loaded = (init_ptree (JStr ''a1''))\<lparr>processTree := JArr []\<rparr>"

lemma reach_ptree_loaded:
  "reach (ptree_ops (JStr ''a1'')) (\<lambda>_ _. True)
     (mounted (ptree_fetch (JStr ''a1'') True) (init_ptree (JStr ''a1''))) (ptree_loaded, [])"
  by (rule reach_first_answer [where rs = "[Inr (JObj [(''data'', JArr [])]), Inr (JObj [(''data'', JArr [])])]"])
    (simp_all add: ptree_fetch_def promise_all_def getProcessTree_def getSuspiciousProcesses_def api_get_def
      ask_def unwrap_data_def fld_def ptree_loaded_def init_ptree_def)

theorem killing_never_sticks_witness: "\<not> killing ptree_loaded"
  using killing_never_sticks [OF reach_ptree_loaded] by (simp add: ptree_loaded_def init_ptree_def)

end
