(* ===== verification/ProcessPage.thy ===== *)
theory ProcessPage
  imports ProcessTreeHook FeedHooks
begin

text \<open>
  \<open>src/frontend/src/pages/ProcessTree.jsx\<close> with its \<open>components/process/\<close>: the list of agents to choose
  from, one per host name; the kill dialog, whose confirmation goes through the page's own
  \<open>killProcess\<close> call and then through the hook's; and which rows of the tree offer a kill.
  The page's state extends the hook's.
\<close>

section \<open>One agent per host\<close>

text \<open>\<open>(v || '').toLowerCase()\<close> for a field the mapper makes a string.\<close>

definition low_text :: "jsv \<Rightarrow> string" where
  "low_text v = (case v of JStr s \<Rightarrow> lower s | _ \<Rightarrow> [])"

definition is_active :: "jsv \<Rightarrow> bool" where
  "is_active a \<longleftrightarrow> low_text (fld a ''status'') \<in> {''active'', ''online''}"

definition host_key :: "jsv \<Rightarrow> string" where
  "host_key a = to_str (js_or (fld a ''hostname'') (fld a ''id''))"

definition seen_at :: "jsv \<Rightarrow> jsv" where
  "seen_at a = js_or (fld a ''last_seen'') (fld a ''created_at'')"

definition seen_later :: "clock \<Rightarrow> jsv \<Rightarrow> jsv \<Rightarrow> bool" where
  "seen_later c a e \<longleftrightarrow> truthy (seen_at a) \<and>
     (\<not> truthy (seen_at e) \<or> num_lt (date_ms c (seen_at e)) (date_ms c (seen_at a)))"

definition preferred :: "clock \<Rightarrow> jsv \<Rightarrow> jsv \<Rightarrow> jsv" where
  \<comment> \<open>the agent kept for a host that has \<open>e\<close> when \<open>a\<close> comes\<close>
  "preferred c e a = (if is_active a \<and> \<not> is_active e then a
     else if \<not> is_active a \<and> is_active e then e
     else if seen_later c a e then a else e)"

definition keep_agent :: "clock \<Rightarrow> jsv \<Rightarrow> (string \<times> jsv) list \<Rightarrow> (string \<times> jsv) list" where
  "keep_agent c a m = (case map_of m (host_key a) of
     None \<Rightarrow> m @ [(host_key a, a)]
   | Some e \<Rightarrow> AList.update (host_key a) (preferred c e a) m)"

definition dedupedAgents :: "clock \<Rightarrow> jsv list \<Rightarrow> jsv list" where
  "dedupedAgents c ags = map snd (fold (keep_agent c) ags [])"

section \<open>Killing from the dialog\<close>

record ppage_st = ptree_st +
  pageToasts :: "toast list"
  modalOpen :: bool
  modalLoading :: bool
  modalError :: jsv

text \<open>\<open>/(\d+)s remaining/\<close>: the first run of digits that \<open>s remaining\<close> follows.\<close>

fun cooldown_left :: "string \<Rightarrow> string option" where
  "cooldown_left [] = None"
| "cooldown_left (ch # s) =
     (let d = takeWhile is_digit (ch # s); r = dropWhile is_digit (ch # s)
      in if d \<noteq> [] \<and> take 11 r = ''s remaining'' then Some d else cooldown_left s)"

definition kill_failed_text :: "jsv \<Rightarrow> string" where
  "kill_failed_text err =
     (if strict_eq (fld (fld err ''response'') ''status'') (jn 429)
      then ''Agent dang cooldown. Con '' @ (case cooldown_left (to_str (js_or
             (fld (fld (fld err ''response'') ''data'') ''detail'') (JStr ''''))) of
               Some d \<Rightarrow> d | None \<Rightarrow> ''unknown'') @ ''s''
      else ''Kill failed: '' @ detail_text err)"

text \<open>\<open>sel\<close> is the page's agent, \<open>hook_sel\<close> the one the hook was rendered with.\<close>

definition handleKill :: "jsv \<Rightarrow> jsv \<Rightarrow> jsv \<Rightarrow> jsv \<Rightarrow> bool \<Rightarrow> (ppage_st, jsv) act" where
  "handleKill sel hook_sel pid reason killTree = catch
     (bnd (await (killProcess sel pid (JObj [(''reason'', reason), (''killTree'', JBool killTree)]))) (\<lambda>r.
        Upd (pageToasts_update (\<lambda>ts. ts @ [Toast_ok (''Da gui lenh '' @
              to_str (js_or (fld r ''action_type'') (JStr (if killTree then ''kill_tree'' else ''kill_process''))) @
              '' cho PID '' @ to_str pid)]))
          (Upd (error_update (\<lambda>_. JNull))
            (thn (if killTree then handleKillProcessTree hook_sel sel pid JUndef
                  else handleKillProcess hook_sel sel pid) (Ret JUndef)))))
     (\<lambda>err. Upd (pageToasts_update (\<lambda>ts. ts @ [Toast_error (kill_failed_text err)])) (Throw err))"

text \<open>The dialog: closed only on success.\<close>

definition handleConfirm :: "jsv \<Rightarrow> jsv \<Rightarrow> jsv \<Rightarrow> jsv \<Rightarrow> bool \<Rightarrow> (ppage_st, jsv) act" where
  "handleConfirm sel hook_sel pid reason killTree = Look (\<lambda>s.
     if modalLoading s then Ret JUndef
     else Upd (modalLoading_update (\<lambda>_. True)) (Upd (modalError_update (\<lambda>_. JNull))
       (fin (catch
          (bnd (handleKill sel hook_sel pid (js_or reason (JStr ''Manual analyst action'')) killTree) (\<lambda>_.
             Upd (modalOpen_update (\<lambda>_. False)) (Ret JUndef)))
          (\<lambda>err. Upd (modalError_update (\<lambda>_. detail_or err ''Kill failed'')) (Ret JUndef)))
        (modalLoading_update (\<lambda>_. False)))))"

section \<open>Which rows offer a kill\<close>

definition any_in :: "string \<Rightarrow> string list \<Rightarrow> bool" where
  "any_in name subs \<longleftrightarrow> list_ex (\<lambda>q. str_includes (lower name) q) subs"

text \<open>\<open>PPL_REGEX\<close> and \<open>USER_REGEX\<close>, both case-insensitive; \<open>^\[?System\<close> is a prefix.\<close>

definition is_protected :: "string \<Rightarrow> bool" where
  "is_protected name \<longleftrightarrow>
     any_in name [''csrss.exe'', ''wininit.exe'', ''winlogon.exe'', ''services.exe'', ''smss.exe'', ''lsass.exe'']
     \<or> prefix ''system'' (lower name) \<or> prefix ''[system'' (lower name)"

definition is_user_process :: "string \<Rightarrow> bool" where
  "is_user_process name \<longleftrightarrow>
     any_in name [''notepad.exe'', ''msedge.exe'', ''chrome.exe'', ''firefox.exe'', ''code.exe'', ''electron.exe'',
                  ''powershell.exe'', ''cmd.exe'']"

definition node_name :: "jsv \<Rightarrow> string" where
  "node_name node = to_str (js_or (fld node ''name'') (JStr ''''))"

definition showActions :: "bool \<Rightarrow> jsv \<Rightarrow> bool" where
  "showActions allowKillAll node \<longleftrightarrow> \<not> is_protected (node_name node) \<and>
     ((truthy (fld node ''is_suspicious'') \<or> is_user_process (node_name node)) \<or> allowKillAll)"

section \<open>The agents kept\<close>

lemma fst_keep_agent: "fst ` set (keep_agent c a m) = insert (host_key a) (fst ` set m)"
proof (cases "map_of m (host_key a)")
  case (Some e)
  then have "host_key a \<in> fst ` set m" by (force dest: map_of_SomeD)
  with Some show ?thesis by (auto simp: keep_agent_def dom_update)
qed (simp add: keep_agent_def)

definition kept_ok :: "jsv list \<Rightarrow> (string \<times> jsv) list \<Rightarrow> bool" where
  "kept_ok seen m \<longleftrightarrow> distinct (map fst m) \<and> fst ` set m = host_key ` set seen \<and>
     (\<forall>(k, a)\<in>set m. host_key a = k \<and> a \<in> set seen \<and>
        (is_active a \<or> (\<forall>b\<in>set seen. host_key b = k \<longrightarrow> \<not> is_active b)))"

lemma preferred_cases: "preferred c e a \<in> {e, a}"
  by (simp add: preferred_def)

lemma preferred_active: "is_active (preferred c e a) \<longleftrightarrow> is_active e \<or> is_active a"
  by (auto simp: preferred_def)

lemma kept_ok_step:
  assumes "kept_ok seen m"
  shows "kept_ok (seen @ [a]) (keep_agent c a m)"
proof (cases "map_of m (host_key a)")
  case None
  then have new: "host_key a \<notin> fst ` set m" by (simp add: map_of_eq_None_iff)
  with assms have "host_key a \<notin> host_key ` set seen" by (simp add: kept_ok_def)
  then have "\<forall>b\<in>set seen. host_key b \<noteq> host_key a" by (metis imageI)
  with None new assms show ?thesis
    by (auto simp: kept_ok_def keep_agent_def)
next
  case (Some e)
  then have e: "(host_key a, e) \<in> set m" by (rule map_of_SomeD)
  let ?m = "AList.update (host_key a) (preferred c e a) m"
  have dist: "distinct (map fst ?m)"
    using assms by (simp add: kept_ok_def distinct_update)
  have keys: "fst ` set ?m = host_key ` set (seen @ [a])"
    using assms e by (force simp: kept_ok_def dom_update)
  have "host_key b = k \<and> b \<in> set (seen @ [a]) \<and>
      (is_active b \<or> (\<forall>d\<in>set (seen @ [a]). host_key d = k \<longrightarrow> \<not> is_active d))"
    if "(k, b) \<in> set ?m" for k b
  proof (cases "k = host_key a")
    case True
    with that dist have "b = preferred c e a"
      by (metis map_of_eq_Some_iff option.inject update_Some_unfold update_conv fun_upd_same)
    with True e assms preferred_cases [of c e a] preferred_active [of c e a] show ?thesis
      by (fastforce simp: kept_ok_def)
  next
    case False
    with that dist have "(k, b) \<in> set m"
      by (metis map_of_eq_Some_iff update_conv fun_upd_other map_of_SomeD)
    with False assms show ?thesis by (auto simp: kept_ok_def)
  qed
  with dist keys Some show ?thesis
    by (auto simp: kept_ok_def keep_agent_def)
qed

lemma kept_ok_fold: "kept_ok seen m \<Longrightarrow> kept_ok (seen @ as) (fold (keep_agent c) as m)"
proof (induction as arbitrary: seen m)
  case (Cons a as)
  from Cons.IH [OF kept_ok_step [OF Cons.prems, of a c]] show ?case by simp
qed simp

section \<open>Properties\<close>

text \<open>
  The agent selector offers every host exactly once, with one of the agents reported for it, and
  with an active one whenever the host has an active agent.
\<close>

theorem dedupe_prefers_active:
  "distinct (map host_key (dedupedAgents c ags))
    \<and> host_key ` set (dedupedAgents c ags) = host_key ` set ags
    \<and> set (dedupedAgents c ags) \<subseteq> set ags
    \<and> list_all (\<lambda>a. is_active a = list_ex (\<lambda>b. host_key b = host_key a \<and> is_active b) ags)
        (dedupedAgents c ags)"
proof -
  let ?m = "fold (keep_agent c) ags []"
  have ok: "kept_ok ags ?m"
    using kept_ok_fold [of "[]" "[]" ags c] by (simp add: kept_ok_def)
  have keys: "map host_key (map snd ?m) = map fst ?m"
    using ok by (auto simp: kept_ok_def)
  then have img: "host_key ` snd ` set ?m = fst ` set ?m"
    by (metis image_set)
  have "distinct (map host_key (dedupedAgents c ags))"
    unfolding dedupedAgents_def keys using ok by (simp add: kept_ok_def)
  moreover have "list_all (\<lambda>a. is_active a = list_ex (\<lambda>b. host_key b = host_key a \<and> is_active b) ags)
      (dedupedAgents c ags)" and "set (dedupedAgents c ags) \<subseteq> set ags"
    using ok by (auto simp: dedupedAgents_def kept_ok_def list_all_iff list_ex_iff)
  ultimately show ?thesis
    using ok img by (simp add: dedupedAgents_def kept_ok_def)
qed

text \<open>
  The cooldown message is unreachable. The page looks for status 429 in \<open>err.response\<close>, but
  every error a request is rejected with has lost its response in the interceptor, so the text
  is always the generic one.
\<close>

theorem cooldown_text_unreachable:
  "kill_failed_text (intercept_error err) = ''Kill failed: '' @ to_str (fld (intercept_error err) ''message'')"
  by (simp add: kill_failed_text_def detail_text_def intercept_error_def)

text \<open>
  Confirming a kill sends it twice. With a server that accepts everything, one confirmation makes
  two POSTs to the same kill endpoint: the page's with the analyst's reason, then the hook's
  with the default one.
\<close>

theorem kill_sent_twice:
  assumes "truthy sel" and "truthy pid"
  defines "path \<equiv> ''/process/'' @ to_str sel @ ''/process/'' @ to_str pid @ ''/kill''"
  shows "world_of (run (logging (\<lambda>_. Inr r)) (handleKill sel sel pid (JStr (x # xs)) killTree) s []) =
    [Req POST path JUndef (JObj [(''reason'', JStr (x # xs)), (''kill_tree'', JBool killTree)]),
     Req POST path JUndef (JObj [(''reason'', JStr ''Manual analyst action''), (''kill_tree'', JBool killTree)])]"
  using assms
  by (cases killTree)
    (simp_all add: handleKill_def handleKillProcess_def handleKillProcessTree_def kill_with_def killProcess_def
      killProcessTree_def kill_body_def api_post_def run_simps)

definition page0 :: ppage_st where
  "page0 = \<lparr>loading = False, error = JNull, selectedAgentId = JStr ''a1'', processTree = JNull,
     suspiciousProcesses = [], killing = False, actionSuccess = JNull, killTimer = None, pageToasts = [],
     modalOpen = True, modalLoading = False, modalError = JNull\<rparr>"

theorem kill_sent_twice_witness:
  "length (world_of (run (logging (\<lambda>_. Inr JNull)) (handleKill (JStr ''a1'') (JStr ''a1'') (jn 4) (JStr ''bad'') False)
     page0 [])) = 2"
  using kill_sent_twice [of "JStr ''a1''" "jn 4" JNull "CHR ''b''" "''ad''" False page0] by simp

text \<open>A server with the manager's cooldown: the first kill is accepted, the next one is refused.\<close>

definition cooldown_server :: "nat \<Rightarrow> request \<Rightarrow> response \<times> nat" where
  "cooldown_server n q = (if n = 0 then Inr (JObj [(''data'', JObj [])])
     else Inl (JObj [(''response'', JObj [(''status'', jn 429),
            (''data'', JObj [(''detail'', JStr ''cooldown 30s remaining'')])])]), Suc n)"

text \<open>
  Against a server with a cooldown the second request makes a successful kill look failed: the
  user gets a success toast and then "Kill failed", the dialog stays open with the error, and the
  row is not pruned.
\<close>

theorem kill_reported_failed:
  "run cooldown_server (handleConfirm (JStr ''a1'') (JStr ''a1'') (JStr (y # ys)) (JStr (x # xs)) False) page0 0 =
    (Inr JUndef,
     page0\<lparr>error := JStr ''cooldown 30s remaining'', modalError := JStr ''cooldown 30s remaining'',
       pageToasts := [Toast_ok (''Da gui lenh kill_process cho PID '' @ (y # ys)),
                      Toast_error ''Kill failed: cooldown 30s remaining'']\<rparr>, 2)"
  by (simp add: handleConfirm_def handleKill_def handleKillProcess_def kill_with_def killProcess_def kill_body_def
      api_post_def ask_def run_simps cooldown_server_def page0_def kill_failed_text_def detail_text_def detail_or_def
      message_or_def intercept_error_def unwrap_data_def)

end
