(* ===== verification/TreeView.thy ===== *)
theory TreeView
  imports ProcessPage DashboardPage ActionsPage
begin

text \<open>
  The view of \<open>src/frontend/src/pages/ProcessTree.jsx\<close> and \<open>components/process/TreeNode.jsx\<close>: which agent is shown (the address,
  the default and the drop-down list compete for it), which nodes of the tree are unfolded, and which rows that shows. A set of
  pids is a list without regard to order. The nodes of a tree are taken to be non-null where the code reads a field of them
  unguarded.
\<close>

section \<open>The agent\<close>

definition is_named :: "string \<Rightarrow> jsv \<Rightarrow> bool res" where
  \<comment> \<open>by its id or its host name, in any case\<close>
  "is_named q a =
     ror (rbind (get a ''id'') (\<lambda>v. rmap (\<lambda>w. w = JStr (lower q)) (to_lower v)))
         (let h = fld a ''hostname'' in if truthy h then rmap (\<lambda>w. w = JStr (lower q)) (to_lower h) else Inr False)"

definition query_match :: "jsv \<Rightarrow> jsv list \<Rightarrow> jsv option res" where
  "query_match q ags = (if truthy q then rfind (is_named (to_str q)) ags else Inr None)"

definition query_effect :: "jsv \<Rightarrow> jsv list \<Rightarrow> jsv \<Rightarrow> jsv option res" where
  \<comment> \<open>the agent it sets, if any, given the \<open>selectedAgent\<close> of the rendering\<close>
  "query_effect q ags sel = rmap (\<lambda>m. case m of
      Some a \<Rightarrow> if strict_eq (fld a ''id'') sel then None else Some (fld a ''id'')
    | None \<Rightarrow> None) (query_match q ags)"

definition first_active :: "jsv list \<Rightarrow> jsv" where
  "first_active ags = (case List.find is_active ags of Some a \<Rightarrow> a | None \<Rightarrow> hd ags)"

definition default_effect :: "jsv \<Rightarrow> jsv list \<Rightarrow> jsv \<Rightarrow> jsv option res" where
  "default_effect q ags sel =
     (if ags = [] \<or> truthy sel \<and> list_ex (\<lambda>a. strict_eq (fld a ''id'') sel) ags then Inr None
      else rmap (\<lambda>m. Some (fld (case m of Some a \<Rightarrow> a | None \<Rightarrow> first_active ags) ''id'')) (query_match q ags))"

definition select_pass :: "jsv \<Rightarrow> jsv list \<Rightarrow> jsv \<Rightarrow> jsv res" where
  \<comment> \<open>both effects after one rendering; the later setter wins\<close>
  "select_pass q ags sel = rbind (query_effect q ags sel) (\<lambda>x. rbind (default_effect q ags sel) (\<lambda>y.
     Inr (case y of Some v \<Rightarrow> v | None \<Rightarrow> (case x of Some v \<Rightarrow> v | None \<Rightarrow> sel))))"

definition agent_option :: "jsv \<Rightarrow> jsv \<times> string" where
  \<comment> \<open>with a green or a white disc\<close>
  "agent_option a = (fld a ''id'',
     to_str (js_or (fld a ''name'') (js_or (fld a ''hostname'') (fld a ''id''))) @ '' ('' @
     to_str (js_or (fld a ''ip'') (js_or (fld a ''ip_address'') (JStr ''N/A''))) @ '')'' @
     (if is_active a then [CHR 0x20, CHR 0xF0, CHR 0x9F, CHR 0x9F, CHR 0xA2] else [CHR 0x20, CHR 0xE2, CHR 0x9A, CHR 0xAA]))"

section \<open>The tree\<close>

record tree_st =
  expandedPids :: "jsv list"
  treeTab :: string
  killTarget :: jsv

definition init_tree :: tree_st where
  "init_tree = \<lparr>expandedPids = [], treeTab = ''all'', killTarget = JNull\<rparr>"

definition tree_roots :: "jsv \<Rightarrow> jsv" where
  "tree_roots t = js_or (fld t ''tree'') (if is_array t then t else JArr [t])"

fun first_some :: "'a option list \<Rightarrow> 'a option" where
  "first_some [] = None"
| "first_some (Some x # xs) = Some x"
| "first_some (None # xs) = first_some xs"

function path_to :: "jsv \<Rightarrow> jsv \<Rightarrow> jsv list option" where
  \<comment> \<open>\<open>expandPath\<close>: the pids it adds, the innermost first\<close>
  "path_to target nodes = first_some (map (\<lambda>n.
     if strict_eq (fld n ''pid'') target then Some []
     else map_option (\<lambda>ps. ps @ [fld n ''pid'']) (path_to target (fld n ''children''))) (elems nodes))"
  by pat_completeness auto
termination
  by (relation "measure (\<lambda>(_, v). size v)") (auto simp: size_child_elems)

declare path_to.simps [simp del]

definition important :: "jsv \<Rightarrow> bool" where
  "important n \<longleftrightarrow> any_in (node_name n)
     [''explorer.exe'', ''notepad.exe'', ''msedge.exe'', ''chrome.exe'', ''code.exe'']"

function wanted :: "nat \<Rightarrow> jsv \<Rightarrow> jsv list" where
  \<comment> \<open>\<open>walk\<close>\<close>
  "wanted depth nodes = concat (map (\<lambda>n.
     (if depth < 2 \<or> important n \<or> truthy (fld n ''is_suspicious'') then [fld n ''pid''] else [])
     @ wanted (Suc depth) (fld n ''children'')) (elems nodes))"
  by pat_completeness auto
termination
  by (relation "measure (\<lambda>(_, v). size v)") (auto simp: size_child_elems)

declare wanted.simps [simp del]

definition focus :: "jsv \<Rightarrow> jsv \<Rightarrow> jsv list" where
  "focus queryPid roots = (if truthy queryPid then
     (let t = JNum (to_num queryPid) in (case path_to t roots of Some ps \<Rightarrow> ps | None \<Rightarrow> []) @ [t]) else [])"

definition expand_effect :: "jsv \<Rightarrow> jsv \<Rightarrow> jsv \<Rightarrow> tree_st \<Rightarrow> tree_st" where
  "expand_effect tree sel queryPid s = (let roots = tree_roots tree in
     if \<not> truthy tree \<or> \<not> truthy sel \<or> \<not> is_array roots then s
     else s\<lparr>expandedPids := new_set (expandedPids s @ focus queryPid roots @ wanted 0 roots),
       treeTab := (if truthy queryPid then ''all'' else treeTab s)\<rparr>)"

definition tree_toggle :: "jsv \<Rightarrow> tree_st \<Rightarrow> tree_st" where
  "tree_toggle pid = expandedPids_update (set_toggle pid)"

function collected :: "jsv \<Rightarrow> jsv list" where
  \<comment> \<open>\<open>collect\<close>\<close>
  "collected nodes = concat (map (\<lambda>n. fld n ''pid'' # collected (fld n ''children''))
     (filter (\<lambda>n. truthy n \<and> truthy (fld n ''pid'')) (elems nodes)))"
  by pat_completeness auto
termination
  by (relation "measure size") (auto simp: size_child_elems)

declare collected.simps [simp del]

definition expandAll :: "jsv \<Rightarrow> tree_st \<Rightarrow> tree_st" where
  "expandAll tree = expandedPids_update (\<lambda>_. new_set (collected (tree_roots tree)))"

definition collapseAll :: "tree_st \<Rightarrow> tree_st" where
  "collapseAll = expandedPids_update (\<lambda>_. [])"

definition openKillModal :: "jsv \<Rightarrow> bool \<Rightarrow> tree_st \<Rightarrow> tree_st" where
  "openKillModal p isTreeMode = killTarget_update (\<lambda>_. spread [p, JObj [(''defaultKillTree'', JBool isTreeMode)]])"

function shown_pids :: "jsv list \<Rightarrow> jsv \<Rightarrow> jsv list" where
  \<comment> \<open>the rows, from top to bottom\<close>
  "shown_pids ex nodes = concat (map (\<lambda>n. fld n ''pid'' #
     (if fld n ''pid'' \<in> set ex then shown_pids ex (fld n ''children'') else [])) (filter truthy (elems nodes)))"
  by pat_completeness auto
termination
  by (relation "measure (\<lambda>(_, v). size v)") (auto simp: size_child_elems)

declare shown_pids.simps [simp del]

definition rendered_rows :: "jsv \<Rightarrow> tree_st \<Rightarrow> jsv list" where
  "rendered_rows tree s = (if truthy tree then shown_pids (expandedPids s) (tree_roots tree) else [])"

section \<open>What is shown\<close>

lemma find_in: "List.find P xs = Some x \<Longrightarrow> x \<in> set xs"
  by (auto simp: find_Some_iff)

lemma first_active_mem: "ags \<noteq> [] \<Longrightarrow> first_active ags \<in> set ags"
  by (auto simp: first_active_def dest: find_in split: option.splits)

lemma select_pass_address:
  assumes "query_match q ags = Inr (Some a)"
  shows "select_pass q ags sel = Inr (fld a ''id'')"
  using assms strict_eq_imp_eq [of "fld a ''id''" sel]
  by (cases "ags = []") (auto simp: select_pass_def query_effect_def default_effect_def query_match_def split: if_splits)

lemma select_pass_no_address:
  assumes "query_match q ags = Inr None"
  shows "select_pass q ags sel =
    Inr (if ags = [] \<or> truthy sel \<and> list_ex (\<lambda>a. strict_eq (fld a ''id'') sel) ags then sel else fld (first_active ags) ''id'')"
  using assms by (auto simp: select_pass_def query_effect_def default_effect_def)

lemma first_some_mem: "first_some xs = Some y \<Longrightarrow> Some y \<in> set xs"
  by (induction xs rule: first_some.induct) auto

lemma first_some_None: "first_some (map f xs) = None \<longleftrightarrow> (\<forall>x\<in>set xs. f x = None)"
proof (induction xs)
  case (Cons x xs)
  then show ?case by (cases "f x") auto
qed simp

lemma fld_pid_truthy: "fld v ''pid'' = JNum x \<Longrightarrow> truthy v"
  by (cases v) (auto simp: fld_def)

lemma children_truthy: "elems (fld v ''children'') \<noteq> [] \<Longrightarrow> truthy v"
  by (cases v) (auto simp: fld_def)

text \<open>The pids of a forest, in preorder.\<close>

function forest_pids :: "jsv \<Rightarrow> jsv list" where
  "forest_pids nodes = concat (map (\<lambda>n. fld n ''pid'' # forest_pids (fld n ''children'')) (filter truthy (elems nodes)))"
  by pat_completeness auto
termination
  by (relation "measure size") (auto simp: size_child_elems)

declare forest_pids.simps [simp del]

lemma path_None:
  "path_to t nodes = None \<longleftrightarrow>
    (\<forall>n\<in>set (elems nodes). \<not> strict_eq (fld n ''pid'') t \<and> path_to t (fld n ''children'') = None)"
  by (subst path_to.simps) (simp add: first_some_None cong: conj_cong)

lemma forest_pid: "n \<in> set (elems nodes) \<Longrightarrow> truthy n \<Longrightarrow> fld n ''pid'' \<in> set (forest_pids nodes)"
  by (subst forest_pids.simps) force

lemma forest_child:
  "n \<in> set (elems nodes) \<Longrightarrow> truthy n \<Longrightarrow> set (forest_pids (fld n ''children'')) \<subseteq> set (forest_pids nodes)"
  by (subst (2) forest_pids.simps) force

lemma in_forest_pids:
  assumes "x \<in> set (forest_pids nodes)"
  obtains n where "n \<in> set (elems nodes)" "truthy n" "x = fld n ''pid'' \<or> x \<in> set (forest_pids (fld n ''children''))"
  using assms unfolding forest_pids.simps [of nodes] by (simp add: image_iff) metis

lemma path_found: "JNum (Fin p) \<in> set (forest_pids nodes) \<Longrightarrow> path_to (JNum (Fin p)) nodes \<noteq> None"
proof (induction nodes rule: forest_pids.induct)
  case (1 nodes)
  from "1.prems" obtain n where n: "n \<in> set (elems nodes)" "truthy n"
      and at: "fld n ''pid'' = JNum (Fin p) \<or> JNum (Fin p) \<in> set (forest_pids (fld n ''children''))"
    by (rule in_forest_pids) metis
  then have "strict_eq (fld n ''pid'') (JNum (Fin p)) \<or> path_to (JNum (Fin p)) (fld n ''children'') \<noteq> None"
    using "1.IH" by auto
  with n(1) show ?case by (simp only: path_None [of _ nodes]) metis
qed

lemma path_shows:
  "path_to (JNum (Fin p)) nodes = Some ps \<Longrightarrow> set ps \<subseteq> set ex \<Longrightarrow> JNum (Fin p) \<in> set (shown_pids ex nodes)"
proof (induction "JNum (Fin p)" nodes arbitrary: ps rule: path_to.induct)
  case (1 nodes)
  let ?t = "JNum (Fin p)"
  from "1.prems"(1) have "Some ps \<in> set (map (\<lambda>n. if strict_eq (fld n ''pid'') ?t then Some []
      else map_option (\<lambda>ps. ps @ [fld n ''pid'']) (path_to ?t (fld n ''children''))) (elems nodes))"
    by (subst (asm) path_to.simps) (rule first_some_mem)
  then obtain n where n: "n \<in> set (elems nodes)"
      and cases: "strict_eq (fld n ''pid'') ?t \<or>
        \<not> strict_eq (fld n ''pid'') ?t \<and> (\<exists>qs. path_to ?t (fld n ''children'') = Some qs \<and> ps = qs @ [fld n ''pid''])"
    by (auto dest!: sym [of "Some ps"] split: if_splits)
  from cases show ?case
  proof
    assume "strict_eq (fld n ''pid'') ?t"
    then have "fld n ''pid'' = ?t" by (rule strict_eq_imp_eq)
    with n fld_pid_truthy [OF this] show ?thesis by (subst shown_pids.simps) auto
  next
    assume "\<not> strict_eq (fld n ''pid'') ?t \<and> (\<exists>qs. path_to ?t (fld n ''children'') = Some qs \<and> ps = qs @ [fld n ''pid''])"
    then obtain qs where qs: "\<not> strict_eq (fld n ''pid'') ?t" "path_to ?t (fld n ''children'') = Some qs" "ps = qs @ [fld n ''pid'']"
      by blast
    from "1.hyps" [OF n qs(1,2)] qs(3) "1.prems"(2) have "?t \<in> set (shown_pids ex (fld n ''children''))" by simp
    moreover have "truthy n"
    proof -
      from qs(2) have "elems (fld n ''children'') \<noteq> []" by (subst (asm) path_to.simps) auto
      then show ?thesis by (rule children_truthy)
    qed
    ultimately show ?thesis using n qs(3) "1.prems"(2) by (subst shown_pids.simps) auto
  qed
qed

lemma shown_all:
  "set (forest_pids nodes) \<subseteq> set ex \<Longrightarrow> shown_pids ex nodes = forest_pids nodes"
proof (induction nodes rule: forest_pids.induct)
  case (1 nodes)
  have "fld n ''pid'' # (if fld n ''pid'' \<in> set ex then shown_pids ex (fld n ''children'') else [])
      = fld n ''pid'' # forest_pids (fld n ''children'')" if "n \<in> set (filter truthy (elems nodes))" for n
  proof -
    from that "1.prems" forest_pid [of n nodes] forest_child [of n nodes]
    have "fld n ''pid'' \<in> set ex" and "set (forest_pids (fld n ''children'')) \<subseteq> set ex"
      by auto
    with "1.IH" [of n] that show ?thesis by simp
  qed
  then show ?case
    by (subst shown_pids.simps, subst forest_pids.simps) (intro arg_cong [where f = concat] map_cong refl)
qed

lemma collected_all:
  "\<forall>x\<in>set (forest_pids nodes). truthy x \<Longrightarrow> collected nodes = forest_pids nodes"
proof (induction nodes rule: forest_pids.induct)
  case (1 nodes)
  have pids: "truthy (fld n ''pid'')" if "n \<in> set (elems nodes)" "truthy n" for n
    using forest_pid [OF that] "1.prems" by simp
  have same: "collected (fld n ''children'') = forest_pids (fld n ''children'')" if "n \<in> set (elems nodes)" "truthy n" for n
  proof (rule "1.IH")
    show "n \<in> set (filter truthy (elems nodes))" using that by simp
    show "\<forall>x\<in>set (forest_pids (fld n ''children'')). truthy x"
      using forest_child [OF that] "1.prems" by auto
  qed
  have "filter (\<lambda>n. truthy n \<and> truthy (fld n ''pid'')) (elems nodes) = filter truthy (elems nodes)"
    by (rule filter_cong) (use pids in auto)
  then have "map (\<lambda>n. fld n ''pid'' # collected (fld n ''children''))
        (filter (\<lambda>n. truthy n \<and> truthy (fld n ''pid'')) (elems nodes))
      = map (\<lambda>n. fld n ''pid'' # forest_pids (fld n ''children'')) (filter truthy (elems nodes))"
    by (intro map_cong) (simp_all add: same)
  then show ?case by (simp only: collected.simps [of nodes] forest_pids.simps [of nodes])
qed

lemma expand_effect_shows:
  assumes "truthy sel" and "truthy queryPid" and "to_num queryPid = Fin p" and "truthy tree"
    and "JNum (Fin p) \<in> set (forest_pids (tree_roots tree))"
  shows "JNum (Fin p) \<in> set (rendered_rows tree (expand_effect tree sel queryPid s))"
    and "treeTab (expand_effect tree sel queryPid s) = ''all''"
proof -
  from path_found [OF assms(5)] obtain ps where ps: "path_to (JNum (Fin p)) (tree_roots tree) = Some ps" by auto
  have "is_array (tree_roots tree)"
  proof (rule ccontr)
    assume "\<not> is_array (tree_roots tree)"
    then have "elems (tree_roots tree) = []" by (simp add: is_array_def elems_def split: jsv.splits)
    with assms(5) show False by (simp add: forest_pids.simps [of "tree_roots tree"])
  qed
  moreover have "JNum (Fin p) \<in> set (shown_pids (new_set (expandedPids s @ (ps @ [JNum (Fin p)]) @ wanted 0 (tree_roots tree))) (tree_roots tree))"
    by (rule path_shows [OF ps]) auto
  ultimately show "JNum (Fin p) \<in> set (rendered_rows tree (expand_effect tree sel queryPid s))"
      and "treeTab (expand_effect tree sel queryPid s) = ''all''"
    using assms(1-4) by (simp_all add: expand_effect_def rendered_rows_def focus_def ps)
qed

section \<open>Properties\<close>


definition two_agents :: "jsv list" where
  "two_agents = [JObj [(''id'', JStr ''a1''), (''hostname'', JStr ''hr-pc'')], JObj [(''id'', JStr ''a2''), (''hostname'', JStr ''it-pc'')]]"

lemma match_two_agents: "query_match (JStr ''HR-PC'') two_agents = Inr (Some (hd two_agents))"
  by code_simp


text \<open>
  C21: the selection settles. The two effects set the agent that each of them wants, and run again after the rendering this
  causes; with agents whose ids are texts, the second run changes nothing, so the effects never chase each other.
\<close>

theorem selection_settles:
  assumes "\<forall>a\<in>set ags. \<exists>ch cs. fld a ''id'' = JStr (ch # cs)" and "select_pass q ags sel = Inr v"
  shows "select_pass q ags v = Inr v"
proof (cases "query_match q ags")
  case (Inl e)
  with assms(2) show ?thesis by (simp add: select_pass_def query_effect_def)
next
  case (Inr m)
  show ?thesis
  proof (cases m)
    case (Some a)
    with Inr assms(2) show ?thesis by (simp add: select_pass_address)
  next
    case None
    with Inr have none: "query_match q ags = Inr None" by simp
    from assms(1) have "truthy (fld a ''id'')" and "strict_eq (fld a ''id'') (fld a ''id'')" if "a \<in> set ags" for a
      using that by fastforce+
    with first_active_mem [of ags] assms(2) show ?thesis
      unfolding select_pass_no_address [OF none] by (auto simp: list_ex_iff split: if_splits)
  qed
qed

theorem selection_settles_witness: "select_pass JNull two_agents (JStr ''a1'') = Inr (JStr ''a1'')"
proof (rule selection_settles)
  show "\<forall>a\<in>set two_agents. \<exists>ch cs. fld a ''id'' = JStr (ch # cs)" by (simp add: two_agents_def)
  show "select_pass JNull two_agents (JStr '''') = Inr (JStr ''a1'')" by code_simp
qed

text \<open>
  A link to a process leads to it. When the address names a pid of the tree, the effect that runs once the tree is there
  unfolds all its ancestors, and switches to the tree: the row of that process is among the rows shown, however deep it is and
  whatever the user had folded.
\<close>

theorem linked_process_shown:
  assumes "truthy sel" and "truthy queryPid" and "to_num queryPid = Fin p" and "truthy tree"
    and "JNum (Fin p) \<in> set (forest_pids (tree_roots tree))"
  shows "let t = expand_effect tree sel queryPid s in JNum (Fin p) \<in> set (rendered_rows tree t) \<and> treeTab t = ''all''"
  using expand_effect_shows [OF assms, of s] by (simp add: Let_def)

definition deep_tree :: jsv where
  "deep_tree = JObj [(''tree'', JArr [JObj [(''pid'', jn 1), (''children'', JArr [JObj [(''pid'', jn 2), (''children'', JArr
     [JObj [(''pid'', jn 3), (''children'', JArr [JObj [(''pid'', jn 4)]])]])]])]])]"

theorem linked_process_shown_witness: "jn 4 \<in> set (rendered_rows deep_tree (expand_effect deep_tree (JStr ''a1'') (JStr ''4'') init_tree))"
proof -
  have "to_num (JStr ''4'') = Fin 4" by code_simp
  moreover have "jn 4 \<in> set (forest_pids (tree_roots deep_tree))" by code_simp
  moreover have "truthy deep_tree" by (simp add: deep_tree_def)
  ultimately show ?thesis using linked_process_shown [of "JStr ''a1''" "JStr ''4''" 4 deep_tree init_tree] by (simp add: Let_def)
qed

text \<open>
  "Expand All" shows the whole tree, in preorder, if no pid is 0.
\<close>

theorem expand_all_shows_tree:
  assumes "truthy tree" and "\<forall>x\<in>set (forest_pids (tree_roots tree)). truthy x"
  shows "rendered_rows tree (expandAll tree s) = forest_pids (tree_roots tree)"
  using assms by (simp add: rendered_rows_def expandAll_def collected_all shown_all)

theorem expand_all_shows_tree_witness: "rendered_rows deep_tree (expandAll deep_tree init_tree) = [jn 1, jn 2, jn 3, jn 4]"
proof -
  have all: "forest_pids (tree_roots deep_tree) = [jn 1, jn 2, jn 3, jn 4]" by code_simp
  have "truthy deep_tree" by (simp add: deep_tree_def)
  from expand_all_shows_tree [OF this, of init_tree] show ?thesis by (simp add: all)
qed

text \<open>
  The idle process of Windows has the pid 0, which the guard takes for a missing one: with it as the root, "Expand All" folds
  the whole tree away instead.
\<close>

theorem expand_all_folds_pid_0:
  "rendered_rows (JObj [(''pid'', jn 0), (''children'', JArr cs)]) (expandAll (JObj [(''pid'', jn 0), (''children'', JArr cs)]) s) = [jn 0]"
proof -
  let ?t = "JObj [(''pid'', jn 0), (''children'', JArr cs)]"
  have "collected (tree_roots ?t) = []" by (simp add: tree_roots_def collected.simps [of "JArr [?t]"])
  then show ?thesis
    by (simp add: rendered_rows_def expandAll_def new_set_def tree_roots_def shown_pids.simps [of _ "JArr [?t]"])
qed

end
