(* ===== verification/InvestigateHub.thy ===== *)
theory InvestigateHub
  imports ApiAdmin Paging
begin

text \<open>
  The global header \<open>src/frontend/src/components/layout/Header.jsx\<close>, the investigation hub \<open>pages/Investigate.jsx\<close> and its network
  page \<open>pages/NetworkOverview.jsx\<close> with \<open>components/network/ConnectionRow.jsx\<close> and \<open>ConnectionDetail.jsx\<close>. A navigation is the
  path it goes to; Vietnamese texts are written without diacritics.
\<close>

section \<open>Header\<close>

record header_st =
  searchOpen :: bool
  hdQuery :: string
  hdAgents :: "jsv list"
  hdIncidents :: "jsv list"
  unresolvedCount :: nat
  hdPath :: string

definition init_header :: "string \<Rightarrow> header_st" where
  "init_header p = \<lparr>searchOpen = False, hdQuery = [], hdAgents = [], hdIncidents = [], unresolvedCount = 0, hdPath = p\<rparr>"

definition header_agents :: "(header_st, jsv) act" where
  "header_agents = catch
     (bnd (await getAgents) (\<lambda>data. if is_array data then Upd (hdAgents_update (\<lambda>_. elems data)) (Ret JUndef) else Ret JUndef))
     (\<lambda>_. Ret JUndef)"

definition is_unresolved :: "jsv \<Rightarrow> bool res" where
  \<comment> \<open>\<open>![..].includes(i.status?.toLowerCase())\<close>\<close>
  "is_unresolved i = rbind (get i ''status'') (\<lambda>st. if nullishp st then Inr True
     else rmap (\<lambda>l. l \<notin> {JStr ''resolved'', JStr ''closed'', JStr ''false_positive''}) (to_lower st))"

definition header_incidents :: "clock \<Rightarrow> (header_st, jsv) act" where
  "header_incidents c = catch
     (bnd (await (getIncidents c)) (\<lambda>data.
        if is_array data then Upd (hdIncidents_update (\<lambda>_. elems data))
          (bnd (lift (rfilter is_unresolved (elems data))) (\<lambda>xs. Upd (unresolvedCount_update (\<lambda>_. length xs)) (Ret JUndef)))
        else Ret JUndef))
     (\<lambda>_. Ret JUndef)"

definition header_key :: "bool \<Rightarrow> string \<Rightarrow> header_st \<Rightarrow> header_st" where
  \<comment> \<open>whether Ctrl or Meta is held, and the key\<close>
  "header_key modified k s =
     (if modified \<and> lower k = ''k'' then s\<lparr>searchOpen := \<not> searchOpen s\<rparr>
      else if k = ''Escape'' \<and> searchOpen s then s\<lparr>searchOpen := False\<rparr>
      else s)"

definition navItems :: "(string \<times> string) list" where
  "navItems = [(''Security Dashboard'', ''/''), (''Security Incidents & Alerts'', ''/incidents''),
     (''Investigate (Process Tree & Network)'', ''/investigate''), (''Actions History & Rollback'', ''/actions''),
     (''Response Policies'', ''/policies''), (''Endpoints & Host Groups'', ''/agents''),
     (''Detection Studio (Rules & YARA)'', ''/detection''), (''SOC Settings & Thresholds'', ''/settings'')]"

definition filteredNav :: "string \<Rightarrow> (string \<times> string) list" where
  "filteredNav q = (if trim q \<noteq> [] then filter (\<lambda>(label, _). str_includes (lower label) (lower q)) navItems else [])"

definition agent_hit :: "string \<Rightarrow> jsv \<Rightarrow> bool res" where
  "agent_hit q a = ror (field_match a q ''hostname'') (ror (field_match a q ''id'')
     (if_truthy (fld a ''ip'') (has_text (fld a ''ip'') q)))"

definition filteredAgents :: "string \<Rightarrow> jsv list \<Rightarrow> jsv list res" where
  "filteredAgents q ags = (if trim q \<noteq> [] then rmap (take 4) (rfilter (agent_hit q) ags) else Inr [])"

definition incident_hit :: "string \<Rightarrow> jsv \<Rightarrow> bool res" where
  "incident_hit q i = ror (field_match i q ''agent_id'')
     (ror (Inr (truthy (fld i ''id'') \<and> str_includes (to_str (fld i ''id'')) q))
     (ror (field_match i q ''title'') (field_match i q ''attack_type'')))"

definition filteredIncidents :: "string \<Rightarrow> jsv list \<Rightarrow> jsv list res" where
  "filteredIncidents q is = (if trim q \<noteq> [] then rmap (take 4) (rfilter (incident_hit q) is) else Inr [])"

definition handleSelect :: "string \<Rightarrow> header_st \<Rightarrow> header_st" where
  "handleSelect p s = s\<lparr>hdPath := p, searchOpen := False, hdQuery := []\<rparr>"

definition badge_text :: "nat \<Rightarrow> string option" where
  "badge_text n = (if 0 < n then Some (if 9 < n then ''9+'' else nat_str n) else None)"

section \<open>The hub\<close>

record hub_st =
  hubTab :: jsv
  hubUrl :: jsv

definition init_hub :: "jsv \<Rightarrow> jsv \<Rightarrow> hub_st" where
  "init_hub url initialTab = \<lparr>hubTab = js_or url (js_or initialTab (JStr ''process'')), hubUrl = url\<rparr>"

definition hub_effect :: "hub_st \<Rightarrow> hub_st" where
  "hub_effect s = (if truthy (hubUrl s) \<and> \<not> strict_eq (hubUrl s) (hubTab s) then s\<lparr>hubTab := hubUrl s\<rparr> else s)"

definition handleTabChange :: "string \<Rightarrow> hub_st \<Rightarrow> hub_st" where
  "handleTabChange tabId s = s\<lparr>hubTab := JStr tabId, hubUrl := JStr tabId\<rparr>"

section \<open>The network page\<close>

record net_st =
  netLoading :: bool
  suspicious :: jsv
  topTalkers :: jsv
  protocols :: jsv
  netAgents :: jsv
  netSelected :: jsv
  netFilters :: jsv
  netAlerts :: "string list"
  netPath :: string

definition init_net :: net_st where
  "init_net = \<lparr>netLoading = True, suspicious = JArr [], topTalkers = JArr [], protocols = JArr [], netAgents = JArr [],
     netSelected = JNull, netFilters = JObj [(''agent'', JStr ''all''), (''time'', JStr ''1h''), (''risk'', JStr ''all'')],
     netAlerts = [], netPath = ''/investigate''\<rparr>"

definition net_agents :: "(net_st, jsv) act" where
  "net_agents = catch (bnd (await getAgents) (\<lambda>d. Upd (netAgents_update (\<lambda>_. d)) (Ret JUndef))) (\<lambda>_. Ret JUndef)"

definition net_load :: "jsv \<Rightarrow> (net_st, jsv) act" where
  \<comment> \<open>with the filters of the rendering\<close>
  "net_load filters = fin (catch
     (bnd (promise_all [getSuspiciousConnections filters, getTopTalkers filters, getProtocols filters]) (\<lambda>rs.
        Upd (suspicious_update (\<lambda>_. rs ! 0)) (Upd (topTalkers_update (\<lambda>_. rs ! 1)) (Upd (protocols_update (\<lambda>_. rs ! 2))
          (Ret JUndef)))))
     (\<lambda>_. Ret JUndef))
    (netLoading_update (\<lambda>_. False))"

definition set_filter :: "string \<Rightarrow> string \<Rightarrow> net_st \<Rightarrow> net_st" where
  "set_filter k v s = s\<lparr>netFilters := with_fld (netFilters s) k (JStr v)\<rparr>"

definition uri_safe :: "char \<Rightarrow> bool" where
  "uri_safe ch \<longleftrightarrow> form_safe ch \<or> ch \<in> {CHR ''!'', CHR ''~'', CHR 0x27, CHR ''('', CHR '')''}"

definition encodeURIComponent :: "string \<Rightarrow> string" where
  "encodeURIComponent s = concat (map (\<lambda>ch. if uri_safe ch then [ch]
     else let n = of_char ch :: nat in [CHR 0x25, upper_hex (n div 16), upper_hex (n mod 16)]) s)"

definition process_path :: "jsv \<Rightarrow> string" where
  "process_path conn = ''/investigate?tab=process&agent='' @ encodeURIComponent (to_str (fld conn ''agent_id''))
     @ ''&pid='' @ to_str (fld conn ''pid'')"

definition onBlockIP :: "jsv \<Rightarrow> (net_st, jsv) act" where
  "onBlockIP conn = Upd (netAlerts_update (\<lambda>ts. ts @
     [''Block IP '' @ to_str (fld conn ''dst_ip'') @ '': Dang gui lenh cach ly firewall''])) (Ret JUndef)"

definition onKillProcess :: "jsv \<Rightarrow> (net_st, jsv) act" where
  "onKillProcess conn = Upd (netPath_update (\<lambda>_. process_path conn)) (Ret JUndef)"

definition row_level :: "jsv \<Rightarrow> string" where
  \<comment> \<open>the label of a row; levels the table does not know, and the names of what every object inherits, apart\<close>
  "row_level conn = (if fld conn ''risk_level'' = JStr ''high'' then ''HIGH''
     else if fld conn ''risk_level'' = JStr ''medium'' then ''MEDIUM'' else ''LOW'')"

definition num_floor :: "jsnum \<Rightarrow> jsnum" where
  "num_floor n = (case n of NaN \<Rightarrow> NaN | Fin x \<Rightarrow> Fin (of_int \<lfloor>x\<rfloor>))"

definition getTimeAgo :: "clock \<Rightarrow> jsv \<Rightarrow> string" where
  "getTimeAgo c ts =
     (if \<not> truthy ts then ''-''
      else let mins = num_floor (num_op (/) (num_sub (Fin (now_ms c)) (date_ms c ts)) (Fin 60000));
               hours = num_floor (num_op (/) mins (Fin 60)) in
        if num_lt mins (Fin 1) then ''vua xong''
        else if num_lt mins (Fin 60) then num_str mins @ '' phut truoc''
        else if num_lt hours (Fin 24) then num_str hours @ '' gio truoc''
        else num_str (num_floor (num_op (/) hours (Fin 24))) @ '' ngay truoc'')"

definition isC2Port :: "jsv \<Rightarrow> bool" where
  "isC2Port conn \<longleftrightarrow> fld conn ''dst_port'' \<in> jn ` {4444, 4445, 5555, 1337, 31337, 9001, 9002}"

definition flag_reasons :: "jsv \<Rightarrow> jsv" where
  "flag_reasons conn = js_or (fld conn ''reasons'') (if truthy (fld conn ''reason'') then JArr [fld conn ''reason''] else JArr [])"

section \<open>Lemmas\<close>

lemma mapped_incident_fields:
  assumes "mapIncident c inc = Inr m" and "truthy inc"
  shows "fld m ''agent_id'' = JUndef" and "fld m ''attack_type'' = JUndef" and "\<not> nullishp m"
  using assms by (auto simp: mapIncident_def rbind_eq_Inr split: if_splits)

lemma field_match_absent: "\<not> nullishp x \<Longrightarrow> \<not> truthy (fld x k) \<Longrightarrow> field_match x q k = Inr False"
  by (simp add: field_match_def if_truthy_def)

section \<open>Properties\<close>

text \<open>
  The header's search never finds an incident by its agent or its attack type: it reads \<open>agent_id\<close> and \<open>attack_type\<close>, which an
  incident mapped by \<open>mapIncident\<close> does not have. What it finds is decided by the id and the title alone.
\<close>

theorem header_search_ignores_agent:
  assumes "mapIncident c inc = Inr m" and "truthy inc" and "fld m ''title'' = JStr t"
  shows "incident_hit q m = Inr (truthy (fld m ''id'') \<and> str_includes (to_str (fld m ''id'')) q
    \<or> t \<noteq> [] \<and> str_includes (lower t) (lower q))"
proof -
  note m = mapped_incident_fields [OF assms(1,2)]
  have "field_match m q ''title'' = Inr (t \<noteq> [] \<and> str_includes (lower t) (lower q))"
    using m(3) assms(3) by (simp add: field_match_def if_truthy_def)
  then show ?thesis
    by (simp add: incident_hit_def field_match_absent [OF m(3)] m(1,2))
qed

definition agent_incident :: jsv where
  "agent_incident = JObj [(''id'', jn 7), (''title'', JStr ''Scan''), (''agent_id'', JStr ''web-01'')]"

theorem header_search_ignores_agent_witness:
  "rmap (\<lambda>m. fld m ''agentId'') (mapIncident stopped_clock agent_incident) = Inr (JStr ''web-01'')
   \<and> rbind (mapIncident stopped_clock agent_incident) (incident_hit ''web'') = Inr False"
proof -
  obtain m where m: "mapIncident stopped_clock agent_incident = Inr m" and t: "fld m ''title'' = JStr ''Scan''"
    and i: "fld m ''id'' = jn 7" and a: "fld m ''agentId'' = JStr ''web-01''"
    by (simp add: mapIncident_def agent_incident_def lower_or_def)
  have "truthy agent_incident" by (simp add: agent_incident_def)
  from header_search_ignores_agent [OF m this t, of "''web''"] show ?thesis
    by (simp add: m i a) (code_simp)
qed

text \<open>
  The network page can show the connections of filters that are no longer chosen. When the filters change while a load is
  under way and the load of the new filters is answered first, the late answer for the old filters replaces the rows, until
  the next poll.
\<close>

theorem late_filters_win:
  "\<exists>k1 k2. advance (net_load old) s = (s, Some (requests [getSuspiciousConnections old, getTopTalkers old, getProtocols old], k1))
   \<and> advance (net_load (netFilters (set_filter key v s))) (set_filter key v s) = (set_filter key v s,
        Some (requests [getSuspiciousConnections (netFilters (set_filter key v s)), getTopTalkers (netFilters (set_filter key v s)),
          getProtocols (netFilters (set_filter key v s))], k2))
   \<and> (\<forall>a1 a2 a3 b1 b2 b3. let t = fst (advance (k1 [Inr a1, Inr a2, Inr a3]) (fst (advance (k2 [Inr b1, Inr b2, Inr b3]) (set_filter key v s))))
        in suspicious t = rows_of (fld a1 ''data'') \<and> netFilters t = with_fld (netFilters s) key (JStr v) \<and> \<not> netLoading t)"
  by (simp add: net_load_def promise_all_def getSuspiciousConnections_def getTopTalkers_def getProtocols_def api_get_def ask_def
      set_filter_def Let_def)

text \<open>
  The two red buttons of a connection send nothing: "Block IP" shows the text that the command is being sent to the
  firewall, and "Kill Process" goes to the page of the process, whatever server there is.
\<close>

theorem connection_buttons_send_nothing:
  "run srv (onBlockIP conn) s w = (Inr JUndef, s\<lparr>netAlerts := netAlerts s @
       [''Block IP '' @ to_str (fld conn ''dst_ip'') @ '': Dang gui lenh cach ly firewall'']\<rparr>, w)
   \<and> run srv (onKillProcess conn) s w = (Inr JUndef, s\<lparr>netPath := process_path conn\<rparr>, w)"
  by (simp add: onBlockIP_def onKillProcess_def)

end
