(* ===== verification/Navigation.thy ===== *)
theory Navigation
  imports TreeView InvestigateHub SettingsPage AgentsPage
begin

text \<open>
  Addresses: the routes of \<open>src/frontend/src/App.jsx\<close>, the queries the pages read with \<open>URLSearchParams\<close>, the tab each page
  opens, and the links that lead from one page to the process tree. The router itself is a parameter, a function from the
  patterns and a path to the pattern chosen.
\<close>

section \<open>Queries\<close>

definition path_of :: "string \<Rightarrow> string" where
  "path_of url = takeWhile (\<lambda>ch. ch \<noteq> CHR ''?'') url"

definition query_of :: "string \<Rightarrow> string" where
  "query_of url = drop 1 (dropWhile (\<lambda>ch. ch \<noteq> CHR ''?'') url)"

text \<open>The form-urlencoded parser: \<open>+\<close> is a blank, a percent sign starts a byte if two hexadecimal digits follow.\<close>

definition plus_blank :: "char \<Rightarrow> char" where
  "plus_blank ch = (if ch = CHR ''+'' then CHR '' '' else ch)"

definition hex_byte :: "char \<Rightarrow> char \<Rightarrow> char option" where
  "hex_byte h l = (case (hex_val h, hex_val l) of (Some a, Some b) \<Rightarrow> Some (char_of (16 * a + b)) | _ \<Rightarrow> None)"

fun form_decode :: "string \<Rightarrow> string" where
  "form_decode [] = []"
| "form_decode (ch # s) =
     (if ch = CHR 0x25 then
        (case s of
           h # l # r \<Rightarrow> (case hex_byte h l of Some b \<Rightarrow> b # form_decode r | None \<Rightarrow> ch # form_decode s)
         | _ \<Rightarrow> ch # form_decode s)
      else plus_blank ch # form_decode s)"

definition query_pair :: "string \<Rightarrow> string \<times> string" where
  "query_pair p = (form_decode (takeWhile (\<lambda>ch. ch \<noteq> CHR ''='') p),
     form_decode (drop 1 (dropWhile (\<lambda>ch. ch \<noteq> CHR ''='') p)))"

definition parse_query :: "string \<Rightarrow> (string \<times> string) list" where
  "parse_query q = map query_pair (filter (\<lambda>p. p \<noteq> []) (split_on CHR ''&'' q))"

definition search_get :: "string \<Rightarrow> (string \<times> string) list \<Rightarrow> jsv" where
  "search_get k ps = (case map_of ps k of Some v \<Rightarrow> JStr v | None \<Rightarrow> JNull)"

definition search_delete :: "string \<Rightarrow> (string \<times> string) list \<Rightarrow> (string \<times> string) list" where
  "search_delete k ps = filter (\<lambda>(j, _). j \<noteq> k) ps"

fun search_set :: "string \<Rightarrow> string \<Rightarrow> (string \<times> string) list \<Rightarrow> (string \<times> string) list" where
  \<comment> \<open>the first pair of the name gets the value, the others go\<close>
  "search_set k v [] = [(k, v)]"
| "search_set k v ((j, w) # ps) = (if j = k then (k, v) # search_delete k ps else (j, w) # search_set k v ps)"

section \<open>Routes\<close>

datatype element = Screen string jsv | Navigate string

definition app_routes :: "(string \<times> element) list" where
  "app_routes =
    [(''/'', Screen ''Dashboard'' JUndef), (''/incidents'', Screen ''Incidents'' JUndef),
     (''/incidents/:id'', Screen ''Incidents'' JUndef), (''/investigate'', Screen ''Investigate'' JUndef),
     (''/actions'', Screen ''ActionsHistory'' JUndef), (''/policies'', Screen ''Policies'' JUndef),
     (''/agents'', Screen ''Agents'' JUndef), (''/detection'', Screen ''DetectionRules'' JUndef),
     (''/rules/detection'', Screen ''DetectionRules'' JUndef),
     (''/rules/process-chains'', Screen ''DetectionRules'' (JStr ''process-chains'')),
     (''/rules/yara'', Screen ''DetectionRules'' (JStr ''yara'')), (''/settings'', Screen ''Settings'' JUndef),
     (''/alerts'', Navigate ''/incidents?tab=alerts''), (''/process'', Navigate ''/investigate?tab=process''),
     (''/network'', Navigate ''/investigate?tab=network''), (''/threat-intel'', Navigate ''/investigate?tab=threat-intel''),
     (''/groups'', Navigate ''/agents?tab=groups''), (''/commands'', Navigate ''/actions?tab=commands''),
     (''/whitelist'', Navigate ''/settings?tab=whitelist''), (''/notifications'', Navigate ''/settings?tab=notifications''),
     (''/reports'', Navigate ''/settings?tab=reports''), (''/rules'', Navigate ''/detection''), (''*'', Navigate ''/'')]"

text \<open>\<open>pick\<close> is the router; a \<open>Navigate\<close> element goes on to its target. The fuel bounds the number of redirections.\<close>

fun visit :: "(string list \<Rightarrow> string \<Rightarrow> string option) \<Rightarrow> nat \<Rightarrow> string \<Rightarrow> (string \<times> jsv \<times> string) option" where
  "visit pick 0 url = None"
| "visit pick (Suc n) url = (case pick (map fst app_routes) (path_of url) of
     None \<Rightarrow> None
   | Some p \<Rightarrow> (case map_of app_routes p of
       None \<Rightarrow> None
     | Some (Navigate target) \<Rightarrow> visit pick n target
     | Some (Screen name initialTab) \<Rightarrow> Some (name, initialTab, url)))"

definition nav_targets :: "string list" where
  \<comment> \<open>the entries of the sidebar\<close>
  "nav_targets = [''/'', ''/incidents'', ''/investigate'', ''/actions'', ''/policies'', ''/agents'', ''/detection'', ''/settings'']"

section \<open>Tabs\<close>

text \<open>The main tab of \<open>Agents.jsx\<close> and of \<open>ActionsHistory.jsx\<close>, which differ in the default only.\<close>

record maintab_st =
  activeMainTab :: jsv
  params :: "(string \<times> string) list"

definition main_query :: "string \<Rightarrow> jsv \<Rightarrow> maintab_st \<Rightarrow> jsv" where
  "main_query default_tab initialTab s = js_or (search_get ''tab'' (params s)) (js_or initialTab (JStr default_tab))"

definition main_init :: "string \<Rightarrow> jsv \<Rightarrow> (string \<times> string) list \<Rightarrow> maintab_st" where
  "main_init default_tab initialTab ps =
     \<lparr>activeMainTab = js_or (search_get ''tab'' ps) (js_or initialTab (JStr default_tab)), params = ps\<rparr>"

definition main_effect :: "string \<Rightarrow> jsv \<Rightarrow> maintab_st \<Rightarrow> maintab_st" where
  "main_effect default_tab initialTab s = (let q = main_query default_tab initialTab s in
     if truthy q \<and> \<not> strict_eq q (activeMainTab s) then s\<lparr>activeMainTab := q\<rparr> else s)"

definition switchMainTab :: "string \<Rightarrow> maintab_st \<Rightarrow> maintab_st" where
  "switchMainTab tab s = s\<lparr>activeMainTab := JStr tab, params := search_set ''tab'' tab (params s)\<rparr>"

text \<open>The queue \<open>Incidents.jsx\<close> opens with, and the incident it opens at once.\<close>

definition first_queue :: "(string \<times> string) list \<Rightarrow> string" where
  "first_queue ps = (if search_get ''tab'' ps = JStr ''alerts'' then ''alerts'' else ''incidents'')"

definition targetId :: "jsv \<Rightarrow> (string \<times> string) list \<Rightarrow> jsv" where
  "targetId paramId ps = js_or paramId (search_get ''id'' ps)"

text \<open>\<open>DetectionRules.jsx\<close>: the tab it opens with, and its effect.\<close>

definition first_rules_tab :: "jsv \<Rightarrow> jsv \<Rightarrow> string \<Rightarrow> jsv" where
  "first_rules_tab initialTab defaultTab path = js_or (js_or initialTab defaultTab)
     (JStr (if str_includes path ''process-chains'' then ''process-chains'' else ''detection''))"

definition rules_tab_effect :: "jsv \<Rightarrow> jsv \<Rightarrow> string \<Rightarrow> jsv \<Rightarrow> jsv" where
  "rules_tab_effect initialTab defaultTab path mainTab =
     (if truthy (js_or initialTab defaultTab) then js_or initialTab defaultTab
      else if str_includes path ''process-chains'' then JStr ''process-chains'' else mainTab)"

definition opened_tab :: "string \<Rightarrow> jsv \<Rightarrow> string \<Rightarrow> jsv" where
  \<comment> \<open>what a screen shows first at an address\<close>
  "opened_tab name initialTab url = (let ps = parse_query (query_of url) in
     if name = ''Incidents'' then JStr (first_queue ps)
     else if name = ''Investigate'' then hubTab (init_hub (search_get ''tab'' ps) initialTab)
     else if name = ''ActionsHistory'' then activeMainTab (main_init ''actions'' initialTab ps)
     else if name = ''Agents'' then activeMainTab (main_init ''inventory'' initialTab ps)
     else if name = ''Settings'' then spTab (init_setpage (search_get ''tab'' ps) initialTab)
     else if name = ''DetectionRules'' then first_rules_tab initialTab JUndef (path_of url)
     else JUndef)"

section \<open>Links to the process tree\<close>

definition tree_link :: "jsv \<Rightarrow> jsv \<Rightarrow> string" where
  "tree_link agent pid = ''/investigate?tab=process''
     @ (if truthy agent then ''&agent='' @ encodeURIComponent (to_str agent) else [])
     @ (if truthy pid then ''&pid='' @ to_str pid else [])"

definition alert_link :: "jsv \<Rightarrow> string" where
  "alert_link ev = tree_link (js_or (fld ev ''agentId'') (js_or (fld ev ''agent_id'') (js_or (fld ev ''hostname'') (JStr ''''))))
     (js_or (fld ev ''pid'') (js_or (fld ev ''process_id'') (JStr '''')))"

definition hero_link :: "jsv \<Rightarrow> jsv \<Rightarrow> string" where
  "hero_link inc culprit = tree_link (js_or (fld inc ''agentId'') (js_or (fld inc ''agent_id'') (js_or (fld inc ''agent_hostname'') (JStr ''''))))
     (js_or (fld culprit ''pid'') (JStr ''''))"

definition urgent_link :: "jsv \<Rightarrow> string" where
  \<comment> \<open>from the banner of the dashboard\<close>
  "urgent_link i = tree_link (js_or (fld i ''agent_id'') (js_or (fld i ''agent_hostname'') (JStr '''')))
     (js_or (fld (fld i ''culprit_process'') ''pid'') (JStr ''''))"

definition endpoint_link :: "jsv \<Rightarrow> string" where
  \<comment> \<open>from a row of the inventory\<close>
  "endpoint_link a = ''/investigate?tab=process&agent='' @ encodeURIComponent (to_str (fld a ''id''))"

definition ancestry_link :: "jsv \<Rightarrow> jsv \<Rightarrow> string" where
  "ancestry_link targetAgentId culpritPid = ''/investigate?agent='' @ encodeURIComponent (to_str targetAgentId)
     @ ''&pid='' @ to_str (js_or culpritPid (JStr ''''))"

text \<open>What the process tree reads of the address.\<close>

definition query_agent :: "(string \<times> string) list \<Rightarrow> jsv" where
  "query_agent ps = js_or (search_get ''agent'' ps) (search_get ''agent_id'' ps)"

definition query_pid :: "(string \<times> string) list \<Rightarrow> jsv" where
  "query_pid = search_get ''pid''"

definition clear_focus :: "(string \<times> string) list \<Rightarrow> (string \<times> string) list" where
  "clear_focus = search_delete ''pid''"

section \<open>Reading back what was written\<close>

lemma hex_val_upper: "d < 16 \<Longrightarrow> hex_val (upper_hex d) = Some d"
proof -
  have "list_all (\<lambda>d. hex_val (upper_hex d) = Some d) [0..<16]"
    by (simp add: hex_val_def upper_hex_def upt_rec)
  then show "d < 16 \<Longrightarrow> hex_val (upper_hex d) = Some d" by (auto simp: list_all_iff)
qed

lemma upper_hex_plain: "d < 16 \<Longrightarrow> form_safe (upper_hex d)"
proof -
  have "list_all (\<lambda>d. form_safe (upper_hex d)) [0..<16]"
    by (simp add: form_safe_def upper_hex_def upt_rec)
  then show "d < 16 \<Longrightarrow> form_safe (upper_hex d)" by (auto simp: list_all_iff)
qed

lemma hex_byte_char: "hex_byte (upper_hex (of_char ch div 16)) (upper_hex (of_char ch mod 16)) = Some ch"
proof -
  have "(of_char ch :: nat) < 256" by simp
  then have "(of_char ch :: nat) div 16 < 16" by linarith
  then show ?thesis by (simp add: hex_byte_def hex_val_upper)
qed

definition reserved :: "char set" where
  "reserved = {CHR ''&'', CHR ''='', CHR ''?'', CHR ''+'', CHR 0x25}"

lemma uri_safe_plain: "uri_safe ch \<Longrightarrow> ch \<notin> reserved"
  by (auto simp: uri_safe_def form_safe_def reserved_def)

lemma encode_char: "form_decode ((if uri_safe ch then [ch]
    else let n = of_char ch :: nat in [CHR 0x25, upper_hex (n div 16), upper_hex (n mod 16)]) @ t) = ch # form_decode t"
  using uri_safe_plain [of ch] by (auto simp: reserved_def plus_blank_def hex_byte_char Let_def)

lemma decode_encode: "form_decode (encodeURIComponent s @ t) = s @ form_decode t"
proof (induction s)
  case (Cons ch s)
  then show ?case
    by (simp only: encodeURIComponent_def list.map concat.simps append_assoc encode_char append_Cons)
qed (simp add: encodeURIComponent_def)

lemma encoded_chars: "set (encodeURIComponent s) \<inter> reserved \<subseteq> {CHR 0x25}"
proof -
  have "ch \<notin> reserved" if "ch \<in> {upper_hex (of_char d div 16), upper_hex (of_char d mod 16)}" for ch d :: char
  proof -
    have "(of_char d :: nat) < 256" by simp
    then have "(of_char d :: nat) div 16 < 16" by linarith
    with that have "form_safe ch" by (auto simp: upper_hex_plain)
    then show ?thesis by (intro uri_safe_plain) (simp add: uri_safe_def)
  qed
  then show ?thesis
    by (auto simp: encodeURIComponent_def Let_def dest: uri_safe_plain split: if_splits)
qed

lemma decode_plain: "set s \<inter> reserved = {} \<Longrightarrow> form_decode s = s"
proof (induction s)
  case (Cons ch s)
  then have "ch \<noteq> CHR 0x25" "plus_blank ch = ch" by (auto simp: reserved_def plus_blank_def)
  with Cons show ?case by simp
qed simp

lemma nat_str_plain_chars: "set (nat_str n) \<inter> reserved = {}"
proof -
  have "\<not> is_digit ch" if "ch \<in> reserved" for ch using that by (auto simp: reserved_def is_digit_def)
  with nat_str_digits [of n] show ?thesis by auto
qed

lemma cut_at:
  assumes "x \<notin> set k"
  shows "takeWhile (\<lambda>ch. ch \<noteq> x) (k @ x # v) = k" and "dropWhile (\<lambda>ch. ch \<noteq> x) (k @ x # v) = x # v"
  using assms by (induction k) auto

lemma address_split:
  assumes "CHR ''?'' \<notin> set p"
  shows "path_of (p @ CHR ''?'' # q) = p" and "query_of (p @ CHR ''?'' # q) = q"
  by (simp_all add: path_of_def query_of_def cut_at [OF assms])

lemma query_pair_split:
  assumes "CHR ''='' \<notin> set k"
  shows "query_pair (k @ CHR ''='' # v) = (form_decode k, form_decode v)"
  by (simp add: query_pair_def cut_at [OF assms])

lemma tree_link_read:
  assumes "0 < n"
  shows "path_of (tree_link (JStr (ch # cs)) (jn (of_nat n))) = ''/investigate''"
    and "parse_query (query_of (tree_link (JStr (ch # cs)) (jn (of_nat n)))) =
      [(''tab'', ''process''), (''agent'', ch # cs), (''pid'', nat_str n)]"
proof -
  let ?e = "encodeURIComponent (ch # cs)"
  let ?q = "''tab=process'' @ CHR ''&'' # (''agent='' @ ?e) @ CHR ''&'' # (''pid='' @ nat_str n)"
  have link: "tree_link (JStr (ch # cs)) (jn (of_nat n)) = ''/investigate'' @ CHR ''?'' # ?q"
    using assms by (simp add: tree_link_def port_text del: num_str.simps)
  then show "path_of (tree_link (JStr (ch # cs)) (jn (of_nat n))) = ''/investigate''"
    by (simp only: link) (rule address_split, simp)
  have address: "query_of (''/investigate'' @ CHR ''?'' # ?q) = ?q" by (rule address_split) simp
  have "CHR ''&'' \<notin> set ?e" "CHR ''&'' \<notin> set (nat_str n)"
    using encoded_chars [of "ch # cs"] nat_str_plain_chars [of n] by (auto simp: reserved_def)
  then have "split_on CHR ''&'' ?q = [''tab='' @ ''process'', ''agent='' @ ?e, ''pid='' @ nat_str n]"
    by (simp only: split_on_append split_on_plain append_assoc) (simp add: split_on_append split_on_plain)
  then have "parse_query ?q = [query_pair (''tab'' @ CHR ''='' # ''process''), query_pair (''agent'' @ CHR ''='' # ?e),
      query_pair (''pid'' @ CHR ''='' # nat_str n)]"
    by (simp add: parse_query_def)
  moreover have "form_decode ?e = ch # cs" using decode_encode [of "ch # cs" "[]"] by simp
  moreover have "form_decode (nat_str n) = nat_str n" by (rule decode_plain [OF nat_str_plain_chars])
  moreover have plain: "form_decode ''tab'' = ''tab''" "form_decode ''process'' = ''process''" "form_decode ''agent'' = ''agent''"
      "form_decode ''pid'' = ''pid''"
    by (simp_all add: plus_blank_def)
  moreover have "query_pair (''tab'' @ CHR ''='' # ''process'') = (form_decode ''tab'', form_decode ''process'')"
    by (rule query_pair_split) simp
  moreover have "query_pair (''agent'' @ CHR ''='' # ?e) = (form_decode ''agent'', form_decode ?e)"
    by (rule query_pair_split) simp
  moreover have "query_pair (''pid'' @ CHR ''='' # nat_str n) = (form_decode ''pid'', form_decode (nat_str n))"
    by (rule query_pair_split) simp
  ultimately have "parse_query ?q = [(''tab'', ''process''), (''agent'', ch # cs), (''pid'', nat_str n)]"
    by (simp only:)
  then show "parse_query (query_of (tree_link (JStr (ch # cs)) (jn (of_nat n)))) =
      [(''tab'', ''process''), (''agent'', ch # cs), (''pid'', nat_str n)]"
    by (simp only: link address)
qed

text \<open>The router that knows the patterns without parameters only; every router does at least what it does.\<close>

definition exact_router :: "string list \<Rightarrow> string \<Rightarrow> string option" where
  "exact_router ps p = (if p \<in> set ps \<and> CHR '':'' \<notin> set p \<and> CHR ''*'' \<notin> set p then Some p else None)"

lemma visit_exact:
  assumes "\<forall>ps p. p \<in> set ps \<and> CHR '':'' \<notin> set p \<and> CHR ''*'' \<notin> set p \<longrightarrow> pick ps p = Some p"
    and "visit exact_router n url = Some r"
  shows "visit pick n url = Some r"
  using assms(2)
proof (induction n arbitrary: url)
  case (Suc n)
  let ?ps = "map fst app_routes"
  from Suc.prems have "exact_router ?ps (path_of url) = Some (path_of url)"
    by (auto simp: exact_router_def split: if_splits)
  with assms(1) have "pick ?ps (path_of url) = Some (path_of url)"
    by (metis (no_types, lifting) exact_router_def option.distinct(1))
  with Suc \<open>exact_router ?ps (path_of url) = Some (path_of url)\<close> show ?case
    by (auto split: option.splits element.splits)
qed simp

section \<open>Properties\<close>

text \<open>
  C20: a link to the process tree is read as it was written. For every agent id, whatever characters it has, and every pid, the
  address built by the pages is the investigation hub's, with the process tab, and the process tree reads the same agent and the
  same number from it.
\<close>

theorem tree_link_roundtrip:
  assumes "0 < n"
  shows "let url = tree_link (JStr (ch # cs)) (jn (of_nat n)); ps = parse_query (query_of url) in
    path_of url = ''/investigate'' \<and> hubTab (init_hub (search_get ''tab'' ps) JUndef) = JStr ''process''
    \<and> query_agent ps = JStr (ch # cs) \<and> to_num (query_pid ps) = Fin (of_nat n)"
  by (simp add: Let_def tree_link_read [OF assms] search_get_def query_agent_def query_pid_def init_hub_def str_num_nat)

theorem tree_link_roundtrip_witness:
  "query_agent (parse_query (query_of (tree_link (JStr ''a&b=c?'') (jn 7)))) = JStr ''a&b=c?''"
  using tree_link_roundtrip [of 7 "CHR ''a''" "''&b=c?''"] by (simp add: Let_def)

text \<open>
  The dashboard's link to the process tree names no agent. Incidents come to the dashboard through \<open>mapIncident\<close>, which
  renames the fields the link is built from: the address has neither agent nor pid, and the process tree opens on the first
  active agent, whichever host the incident is on.
\<close>

theorem urgent_link_names_no_agent:
  assumes "mapIncident c inc = Inr i" and "ags \<noteq> []"
  shows "urgent_link i = ''/investigate?tab=process''
    \<and> select_pass (query_agent (parse_query (query_of (urgent_link i)))) ags (JStr '''') = Inr (fld (first_active ags) ''id'')"
proof -
  have "fld i ''agent_id'' = JUndef" "fld i ''agent_hostname'' = JUndef" "fld i ''culprit_process'' = JUndef"
    using assms(1) by (auto simp: mapIncident_def rbind_eq_Inr split: if_splits)
  then have link: "urgent_link i = ''/investigate?tab=process''" by (simp add: urgent_link_def tree_link_def)
  have "parse_query (query_of ''/investigate?tab=process'') = [(''tab'', ''process'')]" by code_simp
  then have "query_agent (parse_query (query_of (urgent_link i))) = JNull"
    by (simp add: link query_agent_def search_get_def)
  moreover have "select_pass JNull ags (JStr '''') = Inr (fld (first_active ags) ''id'')"
    using assms(2) by (simp add: select_pass_no_address query_match_def)
  ultimately show ?thesis using link by simp
qed

theorem urgent_link_names_no_agent_witness:
  "\<exists>i. mapIncident stopped_clock (JObj [(''agent_id'', JStr ''a2'')]) = Inr i
    \<and> select_pass (query_agent (parse_query (query_of (urgent_link i)))) two_agents (JStr '''') = Inr (JStr ''a1'')"
proof -
  have "(case mapIncident stopped_clock (JObj [(''agent_id'', JStr ''a2'')]) of Inl _ \<Rightarrow> False | Inr _ \<Rightarrow> True)" by code_simp
  then obtain i where i: "mapIncident stopped_clock (JObj [(''agent_id'', JStr ''a2'')]) = Inr i"
    by (auto split: sum.splits)
  have "two_agents \<noteq> []" by (simp add: two_agents_def)
  moreover have "fld (first_active two_agents) ''id'' = JStr ''a1''" by code_simp
  ultimately show ?thesis using i urgent_link_names_no_agent [OF i, of two_agents] by auto
qed

text \<open>
  C22: the old addresses still work. With any router that picks a pattern without parameters for a path equal to it, each address of
  the pages that were merged into hubs leads, after at most one redirection, to the hub that holds the page now, opened on its
  tab; and each entry of the sidebar is the address of a screen.
\<close>

theorem old_addresses_lead:
  assumes "\<forall>ps p. p \<in> set ps \<and> CHR '':'' \<notin> set p \<and> CHR ''*'' \<notin> set p \<longrightarrow> pick ps p = Some p"
  shows "list_all (\<lambda>(old, name, tab). \<exists>init url. visit pick 2 old = Some (name, init, url) \<and> opened_tab name init url = JStr tab)
      [(''/alerts'', ''Incidents'', ''alerts''), (''/process'', ''Investigate'', ''process''),
       (''/network'', ''Investigate'', ''network''), (''/threat-intel'', ''Investigate'', ''threat-intel''),
       (''/groups'', ''Agents'', ''groups''), (''/commands'', ''ActionsHistory'', ''commands''),
       (''/whitelist'', ''Settings'', ''whitelist''), (''/notifications'', ''Settings'', ''notifications''),
       (''/reports'', ''Settings'', ''reports''), (''/rules'', ''DetectionRules'', ''detection''),
       (''/rules/process-chains'', ''DetectionRules'', ''process-chains''), (''/rules/yara'', ''DetectionRules'', ''yara'')]
    \<and> list_all (\<lambda>url. \<exists>name init. visit pick 1 url = Some (name, init, url)) nav_targets"
proof -
  have found: "visit pick n url = Some r" if "visit exact_router n url = Some r" for n url r
    using visit_exact [OF assms that] .
  have "list_all (\<lambda>(old, name, tab). case visit exact_router 2 old of
        Some (nm, init, url) \<Rightarrow> nm = name \<and> opened_tab nm init url = JStr tab | None \<Rightarrow> False)
      [(''/alerts'', ''Incidents'', ''alerts''), (''/process'', ''Investigate'', ''process''),
       (''/network'', ''Investigate'', ''network''), (''/threat-intel'', ''Investigate'', ''threat-intel''),
       (''/groups'', ''Agents'', ''groups''), (''/commands'', ''ActionsHistory'', ''commands''),
       (''/whitelist'', ''Settings'', ''whitelist''), (''/notifications'', ''Settings'', ''notifications''),
       (''/reports'', ''Settings'', ''reports''), (''/rules'', ''DetectionRules'', ''detection''),
       (''/rules/process-chains'', ''DetectionRules'', ''process-chains''), (''/rules/yara'', ''DetectionRules'', ''yara'')]"
      (is "list_all _ ?olds")
    by code_simp
  moreover have "\<exists>init url. visit pick 2 old = Some (name, init, url) \<and> opened_tab name init url = JStr tab"
    if "case visit exact_router 2 old of Some (nm, init, url) \<Rightarrow> nm = name \<and> opened_tab nm init url = JStr tab | None \<Rightarrow> False"
    for old name tab
    using that by (auto split: option.splits dest!: found)
  ultimately have "list_all (\<lambda>(old, name, tab). \<exists>init url. visit pick 2 old = Some (name, init, url) \<and> opened_tab name init url = JStr tab) ?olds"
    by (elim list.pred_mono_strong) (simp only: split_paired_all case_prod_conv)
  moreover have "list_all (\<lambda>url. case visit exact_router 1 url of Some (name, init, u) \<Rightarrow> u = url | None \<Rightarrow> False) nav_targets"
    by code_simp
  then have "list_all (\<lambda>url. \<exists>name init. visit pick 1 url = Some (name, init, url)) nav_targets"
    by (rule list.pred_mono_strong) (auto split: option.splits dest!: found simp del: visit.simps)
  ultimately show ?thesis by blast
qed

theorem old_addresses_lead_witness:
  "\<exists>init url. visit exact_router 2 ''/alerts'' = Some (''Incidents'', init, url) \<and> opened_tab ''Incidents'' init url = JStr ''alerts''"
  using old_addresses_lead [of exact_router] by (simp add: exact_router_def del: visit.simps)

end
