(* ===== verification/PoliciesHook.thy ===== *)
theory PoliciesHook
  imports HookBase
begin

text \<open>
  \<open>src/frontend/src/hooks/usePolicies.js\<close>: the response policies, listed by descending priority, with
  an optimistic activation switch and a dry-run evaluation.
\<close>

record pol_st = fetch_st +
  policies :: "jsv list"
  evaluating :: bool
  evaluationResult :: jsv

definition init_pol :: pol_st where
  "init_pol = \<lparr>loading = False, error = JNull, policies = [], evaluating = False, evaluationResult = JNull\<rparr>"

text \<open>\<open>(a, b) => (b.priority || 0) - (a.priority || 0)\<close>\<close>

definition priority_of :: "jsv \<Rightarrow> jsnum" where
  "priority_of p = to_num (js_or (fld p ''priority'') (jn 0))"

definition sort_policies :: "jsv list \<Rightarrow> jsv list" where
  "sort_policies = js_sort (by_desc priority_of)"

definition fetchPolicies :: "('z pol_st_scheme, jsv) act" where
  "fetchPolicies = Upd (loading_update (\<lambda>_. True))
     (fin (catch
        (bnd (await (listPolicies JUndef)) (\<lambda>data.
           let sorted_list = sort_policies (elems data) in
           Upd (policies_update (\<lambda>_. sorted_list)) (Upd (error_update (\<lambda>_. JNull))
             (Ret (JArr sorted_list)))))
        (\<lambda>err. Upd (error_update (\<lambda>_. detail_or err ''Failed to fetch policies'')) (Ret (JArr []))))
      (loading_update (\<lambda>_. False)))"

definition handleCreatePolicy :: "jsv \<Rightarrow> ('z pol_st_scheme, jsv) act" where
  "handleCreatePolicy data =
     bnd (await (createPolicy data)) (\<lambda>newPolicy.
       Upd (policies_update (\<lambda>prev. sort_policies (prev @ [newPolicy])))
         (thn fetchPolicies (Ret newPolicy)))"

definition handleUpdatePolicy :: "jsv \<Rightarrow> jsv \<Rightarrow> ('z pol_st_scheme, jsv) act" where
  "handleUpdatePolicy polId data =
     bnd (await (updatePolicy polId data)) (\<lambda>updated.
       Upd (policies_update (\<lambda>prev. sort_policies (patch_by ''id'' polId (\<lambda>p. spread2 p updated) prev)))
         (thn fetchPolicies (Ret updated)))"

definition handleDeletePolicy :: "jsv \<Rightarrow> ('z pol_st_scheme, jsv) act" where
  "handleDeletePolicy polId =
     bnd (await (deletePolicy polId)) (\<lambda>_.
       Upd (policies_update (remove_by ''id'' polId)) (Ret (JBool True)))"

definition set_policy_active :: "jsv \<Rightarrow> jsv \<Rightarrow> 'z pol_st_scheme \<Rightarrow> 'z pol_st_scheme" where
  "set_policy_active polId v = policies_update (patch_by ''id'' polId (\<lambda>p. with_fld p ''is_active'' v))"

definition handleTogglePolicy :: "jsv \<Rightarrow> jsv \<Rightarrow> ('z pol_st_scheme, jsv) act" where
  "handleTogglePolicy polId currentActive =
     (let nextState = JBool (\<not> truthy currentActive) in
      optimistic (set_policy_active polId nextState)
        (updatePolicy polId (JObj [(''is_active'', nextState)]))
        (\<lambda>updated. policies_update (patch_by ''id'' polId (\<lambda>p. spread2 p updated)))
        (set_policy_active polId currentActive))"

definition handleEvaluate :: "jsv \<Rightarrow> ('z pol_st_scheme, jsv) act" where
  "handleEvaluate params =
     Upd (evaluating_update (\<lambda>_. True)) (Upd (evaluationResult_update (\<lambda>_. JNull))
       (fin (bnd (await (evaluatePolicy params)) (\<lambda>res.
               Upd (evaluationResult_update (\<lambda>_. res)) (Ret res)))
          (evaluating_update (\<lambda>_. False))))"

definition pol_ops :: "pol_st \<Rightarrow> (pol_st, jsv) act set" where
  "pol_ops s = {fetchPolicies} \<union> range handleCreatePolicy \<union> {handleUpdatePolicy i d | i d. True}
     \<union> range handleDeletePolicy \<union> {handleTogglePolicy i a | i a. True} \<union> range handleEvaluate"

section \<open>The switch\<close>

lemma set_policy_active_undo:
  assumes "keyed ''id'' (policies s)" and "carries ''is_active'' (policies s)"
    and "find_by ''id'' polId (policies s) = Some t"
  shows "set_policy_active polId (fld t ''is_active'') (set_policy_active polId v s) = s"
  using patch_field_undo [OF assms(1,2) _ assms(3)] by (simp add: set_policy_active_def)

interpretation policy_toggle: rollback "set_policy_active polId v" "set_policy_active polId old"
  "\<lambda>s. keyed ''id'' (policies s) \<and> carries ''is_active'' (policies s) \<and>
     (\<exists>t. find_by ''id'' polId (policies s) = Some t \<and> fld t ''is_active'' = old)"
  for polId v old
  by unfold_locales (auto intro: set_policy_active_undo)

section \<open>The order\<close>

text \<open>Descending by a numeric priority.\<close>

definition prio :: "jsv \<Rightarrow> rat" where
  "prio p = (case priority_of p of Fin x \<Rightarrow> x | NaN \<Rightarrow> 0)"

definition numeric_prio :: "jsv list \<Rightarrow> bool" where
  "numeric_prio ps \<longleftrightarrow> (\<forall>p\<in>set ps. priority_of p \<noteq> NaN)"

definition by_priority :: "jsv list \<Rightarrow> bool" where
  "by_priority ps \<longleftrightarrow> sorted (map (\<lambda>p. - prio p) ps)"

lemma sort_policies_key: "numeric_prio ps \<Longrightarrow> sort_policies ps = sort_key (\<lambda>p. - prio p) ps"
  unfolding sort_policies_def
  by (rule js_sort_by_desc) (auto simp: numeric_prio_def prio_def split: jsnum.splits)

lemma sort_policies_sorted: "numeric_prio ps \<Longrightarrow> by_priority (sort_policies ps)"
  by (simp add: sort_policies_key by_priority_def)

lemma mset_sort_policies [simp]: "mset (sort_policies ps) = mset ps"
  by (simp add: sort_policies_def)

lemma set_sort_policies [simp]: "set (sort_policies ps) = set ps"
  by (simp add: sort_policies_def)

lemma by_priority_remove: "by_priority ps \<Longrightarrow> by_priority (remove_by k v ps)"
  unfolding by_priority_def remove_by_def by (rule sorted_filter)

lemma prio_with_fld: "p = JObj ps \<Longrightarrow> k \<noteq> ''priority'' \<Longrightarrow> priority_of (with_fld p k v) = priority_of p"
  by (simp add: priority_of_def)

lemma by_priority_patch:
  assumes "by_priority ps" and "\<And>p. p \<in> set ps \<Longrightarrow> has_id k v p \<Longrightarrow> prio (f p) = prio p"
  shows "by_priority (patch_by k v f ps)"
proof -
  have "map (\<lambda>p. - prio p) (patch_by k v f ps) = map (\<lambda>p. - prio p) ps"
    using assms(2) by (auto simp: patch_by_def)
  with assms(1) show ?thesis by (simp add: by_priority_def)
qed

section \<open>The flags\<close>

lemma fetchPolicies_owes: "owes loading fetchPolicies"
  by (simp add: fetchPolicies_def owes_fin)

lemma fetchPolicies_evaluating: "settles evaluating fetchPolicies"
  unfolding fetchPolicies_def Let_def
  by (auto intro!: settles_fin settles_catch settles_bnd)

lemma handleEvaluate_owes: "owes evaluating (handleEvaluate ps)"
  by (simp add: handleEvaluate_def owes_fin)

interpretation pol_evaluating: spinner pol_ops ok evaluating for ok
proof
  fix m s
  assume "m \<in> pol_ops s"
  then show "settles evaluating m"
    by (auto simp: pol_ops_def fetchPolicies_evaluating owes_settles [OF handleEvaluate_owes]
        handleCreatePolicy_def handleUpdatePolicy_def handleDeletePolicy_def handleTogglePolicy_def
        Let_def set_policy_active_def intro!: settles_optimistic settles_bnd settles_thn)
qed

lemma handleEvaluate_loading: "settles loading (handleEvaluate ps)"
  unfolding handleEvaluate_def by (auto intro!: settles_fin settles_bnd)

interpretation pol_loading: spinner pol_ops ok loading for ok
proof
  fix m s
  assume "m \<in> pol_ops s"
  then show "settles loading m"
    by (auto simp: pol_ops_def owes_settles [OF fetchPolicies_owes] handleEvaluate_loading
        handleCreatePolicy_def handleUpdatePolicy_def handleDeletePolicy_def handleTogglePolicy_def
        Let_def set_policy_active_def intro!: settles_optimistic settles_bnd settles_thn)
qed

section \<open>Properties\<close>

text \<open>
  When the manager returns policies with numeric priorities, the hook shows exactly those, by
  descending priority with ties in the server's order, clears the error and returns the list;
  when the request fails the policies shown before stay, the error text is the interceptor's and
  the empty list is returned. Either way the spinner ends down and one GET is sent.
\<close>

theorem fetchPolicies_outcome:
  assumes "\<And>res. f (Req GET ''/policies/'' (JObj [(''params'', JObj [])]) JUndef) = Inr res \<Longrightarrow>
      numeric_prio (elems (fld res ''data''))"
  shows "run (logging f) fetchPolicies s [] =
    (case f (Req GET ''/policies/'' (JObj [(''params'', JObj [])]) JUndef) of
       Inr res \<Rightarrow> (Inr (JArr (sort_key (\<lambda>p. - prio p) (elems (fld res ''data'')))),
          s\<lparr>loading := False, error := JNull,
             policies := sort_key (\<lambda>p. - prio p) (elems (fld res ''data''))\<rparr>,
          [Req GET ''/policies/'' (JObj [(''params'', JObj [])]) JUndef])
     | Inl err \<Rightarrow> (Inr (JArr []),
          s\<lparr>loading := False, error := message_or (intercept_error err) ''Failed to fetch policies''\<rparr>,
          [Req GET ''/policies/'' (JObj [(''params'', JObj [])]) JUndef]))"
proof (cases "f (Req GET ''/policies/'' (JObj [(''params'', JObj [])]) JUndef)")
  case (Inl err)
  have "fld (intercept_error err) ''response'' = JUndef"
    by (simp add: intercept_error_def)
  with Inl show ?thesis
    by (simp add: fetchPolicies_def listPolicies_def api_get_params_def run_simps detail_or_def)
next
  case (Inr res)
  with assms show ?thesis
    by (simp add: fetchPolicies_def listPolicies_def api_get_params_def run_simps sort_policies_key Let_def)
qed

definition pol_low :: jsv where
  "pol_low = JObj [(''id'', JStr ''P1''), (''priority'', jn 5), (''is_active'', JBool True)]"

definition pol_high :: jsv where
  "pol_high = JObj [(''id'', JStr ''P2''), (''priority'', jn 20), (''is_active'', JBool False)]"

definition pol_server :: "request \<Rightarrow> response" where
  "pol_server q = Inr (JObj [(''data'', JArr [pol_low, pol_high])])"

lemma prio_examples [simp]: "priority_of pol_low = Fin 5" "priority_of pol_high = Fin 20"
  by (simp_all add: priority_of_def pol_low_def pol_high_def)

theorem fetchPolicies_outcome_witness:
  "policies (state_of (run (logging pol_server) fetchPolicies init_pol [])) = [pol_high, pol_low]"
proof -
  have n: "numeric_prio [pol_low, pol_high]" by (simp add: numeric_prio_def)
  show ?thesis
    using fetchPolicies_outcome [of pol_server init_pol] n
    by (simp add: pol_server_def prio_def)
qed

text \<open>
  Switching a policy optimistically and being refused by the server leaves the hook as it was
  and rethrows; on success the server's version of the policy is merged over the switched one.
\<close>

theorem toggle_policy_outcome:
  assumes "keyed ''id'' (policies s)" and "carries ''is_active'' (policies s)"
    and "find_by ''id'' i (policies s) = Some t"
  defines "q \<equiv> Req PUT (''/policies/'' @ to_str i) JUndef
    (JObj [(''is_active'', JBool (\<not> truthy (fld t ''is_active'')))])"
  shows "run (logging f) (handleTogglePolicy i (fld t ''is_active'')) s [] =
    (case f q of
       Inl err \<Rightarrow> (Inl (intercept_error err), s, [q])
     | Inr res \<Rightarrow> (Inr (fld res ''data''),
         s\<lparr>policies := patch_by ''id'' i (\<lambda>p. spread2 p (fld res ''data''))
           (patch_by ''id'' i (\<lambda>p. with_fld p ''is_active'' (JBool (\<not> truthy (fld t ''is_active''))))
              (policies s))\<rparr>, [q]))"
proof -
  have "set_policy_active i (fld t ''is_active'') (set_policy_active i v s) = s" for v
    using assms(1-3) by (intro policy_toggle.undo_do) blast
  then show ?thesis
    by (simp add: handleTogglePolicy_def updatePolicy_def api_put_def q_def Let_def split: sum.splits)
      (simp add: set_policy_active_def)
qed

definition two_policies :: pol_st where
  "two_policies = init_pol\<lparr>policies := [pol_high, pol_low]\<rparr>"

theorem toggle_policy_outcome_witness:
  "run (logging (\<lambda>_. Inl (JObj []))) (handleTogglePolicy (JStr ''P1'') (JBool True)) two_policies [] =
    (Inl (js_error (JStr ''Something went wrong'')), two_policies,
     [Req PUT ''/policies/P1'' JUndef (JObj [(''is_active'', JBool False)])])"
proof -
  have k: "keyed ''id'' (policies two_policies)" "carries ''is_active'' (policies two_policies)"
    by (simp_all add: two_policies_def init_pol_def pol_low_def pol_high_def keyed_def carries_def)
  have t: "find_by ''id'' (JStr ''P1'') (policies two_policies) = Some pol_low"
    by (simp add: two_policies_def init_pol_def pol_low_def pol_high_def find_by_def has_id_def)
  show ?thesis
    using toggle_policy_outcome [OF k t, of "\<lambda>_. Inl (JObj [])"]
    by (simp add: pol_low_def intercept_error_def)
qed

end
