(* ===== verification/PoliciesPage.thy ===== *)
theory PoliciesPage
  imports PoliciesHook FeedHooks
begin

text \<open>
  \<open>src/frontend/src/pages/Policies.jsx\<close> with \<open>components/policies/PolicyFormModal.jsx\<close> and
  \<open>PolicyDryRunPanel.jsx\<close>: the filters and the coverage figure of the policy page, the validation, the overlap
  warning and the payload of the policy form, and the severity bands of the dry run.
  Vietnamese texts are written without diacritics.
\<close>

section \<open>The page\<close>

definition policy_matches :: "string \<Rightarrow> string \<Rightarrow> jsv \<Rightarrow> bool res" where
  "policy_matches q tab p =
     rbind (ror (rbind (get p ''name'') (\<lambda>v. low_has v q))
           (ror (if_truthy (fld p ''description'') (low_has (fld p ''description'') q))
           (ror (low_has (fld p ''action_type'') q)
                (if_truthy (fld p ''target_group_name'') (low_has (fld p ''target_group_name'') q))))) (\<lambda>matchSearch.
     Inr (matchSearch \<and>
       (if tab = ''active'' then fld p ''is_active'' = JBool True
        else if tab = ''inactive'' then fld p ''is_active'' = JBool False
        else if tab = ''agent'' then fld p ''scope'' = JStr ''agent''
        else if tab = ''group'' then fld p ''scope'' = JStr ''group''
        else True)))"

definition filteredPolicies :: "string \<Rightarrow> string \<Rightarrow> jsv list \<Rightarrow> jsv list res" where
  "filteredPolicies q tab ps = rfilter (policy_matches q tab) ps"

definition groupsMap :: "jsv list \<Rightarrow> obj" where
  "groupsMap gs = fold (\<lambda>g. AList.update (to_str (fld g ''id'')) (fld g ''name'')) gs []"

definition covers :: "jsv \<Rightarrow> nat \<Rightarrow> bool" where
  \<comment> \<open>\<open>s >= p.min_score && s <= p.max_score\<close>\<close>
  "covers p s \<longleftrightarrow> num_le (to_num (fld p ''min_score'')) (Fin (of_nat s)) \<and>
     num_le (Fin (of_nat s)) (to_num (fld p ''max_score''))"

definition js_round :: "rat \<Rightarrow> int" where
  "js_round x = \<lfloor>x + 1 / 2\<rfloor>"

definition coveredPoints :: "jsv list \<Rightarrow> nat" where
  "coveredPoints ps = length (filter (\<lambda>s. list_ex (\<lambda>p. covers p s) (filter (\<lambda>p. truthy (fld p ''is_active'')) ps)) [0..<101])"

definition coveragePercent :: "jsv list \<Rightarrow> int" where
  "coveragePercent ps =
     (if ps = [] then 0
      else if filter (\<lambda>p. truthy (fld p ''is_active'')) ps = [] then 0
      else js_round (of_nat (coveredPoints ps) / 101 * 100))"

text \<open>The page's state extends the hook's: the toasts shown, and the form that is open or not.\<close>

record polpage_st = pol_st +
  polToasts :: "toast list"
  formOpen :: bool
  formBusy :: bool
  formError :: string

definition pol_toast :: "toast \<Rightarrow> polpage_st \<Rightarrow> polpage_st" where
  "pol_toast t = polToasts_update (\<lambda>ts. ts @ [t])"

definition handleSavePolicy :: "jsv \<Rightarrow> jsv \<Rightarrow> (polpage_st, jsv) act" where
  "handleSavePolicy payload editId = catch
     (if truthy editId
      then bnd (handleUpdatePolicy editId payload) (\<lambda>_.
        Upd (pol_toast (Toast_ok (''Da cap nhat chinh sach '' @ to_str (js_or (fld payload ''name'') (JStr [])))))
          (Ret JUndef))
      else bnd (handleCreatePolicy payload) (\<lambda>_.
        Upd (pol_toast (Toast_ok (''Da tao chinh sach '' @ to_str (js_or (fld payload ''name'') (JStr [])))))
          (Ret JUndef)))
     (\<lambda>err. Upd (pol_toast (Toast_error (''Loi luu chinh sach: '' @ detail_text err))) (Throw err))"

text \<open>\<open>confirmed\<close> is the answer to the browser's question.\<close>

definition handleDelete :: "jsv \<Rightarrow> bool \<Rightarrow> (polpage_st, jsv) act" where
  "handleDelete p confirmed =
     (if \<not> confirmed then Ret JUndef
      else catch
        (bnd (handleDeletePolicy (fld p ''id'')) (\<lambda>_.
           Upd (pol_toast (Toast_ok (''Da xoa chinh sach '' @ to_str (fld p ''name'')))) (Ret JUndef)))
        (\<lambda>err. Upd (pol_toast (Toast_error (to_str (detail_or err ''Khong the xoa chinh sach'')))) (Ret JUndef)))"

definition handleToggle :: "jsv \<Rightarrow> jsv \<Rightarrow> (polpage_st, jsv) act" where
  "handleToggle i isCurrentActive = catch
     (bnd (handleTogglePolicy i isCurrentActive) (\<lambda>updated.
        Upd (pol_toast (Toast_ok ((if truthy (fld updated ''is_active'') then ''Kich hoat'' else ''Tat'')
              @ '' chinh sach thanh cong'')))
          (Ret JUndef)))
     (\<lambda>err. Upd (pol_toast (Toast_error (to_str (detail_or err ''Khong the doi trang thai chinh sach''))))
        (Ret JUndef))"

section \<open>The form\<close>

record policy_form =
  f_name :: string
  f_description :: string
  f_min :: jsv
  f_max :: jsv
  f_action :: string
  f_scope :: string
  f_group :: jsv
  f_rollback :: jsv
  f_priority :: jsv
  f_active :: jsv

definition blank_form :: policy_form where
  "blank_form = \<lparr>f_name = [], f_description = [], f_min = jn 70, f_max = jn 85, f_action = ''isolate'',
     f_scope = ''agent'', f_group = JStr '''', f_rollback = jn 300, f_priority = jn 10, f_active = JBool True\<rparr>"

text \<open>The form filled from a policy to edit; its name, description, action and scope are strings.\<close>

definition edit_form :: "jsv \<Rightarrow> policy_form" where
  "edit_form p = \<lparr>f_name = to_str (js_or (fld p ''name'') (JStr '''')),
     f_description = to_str (js_or (fld p ''description'') (JStr '''')),
     f_min = nullish (fld p ''min_score'') (jn 70), f_max = nullish (fld p ''max_score'') (jn 85),
     f_action = to_str (js_or (fld p ''action_type'') (JStr ''isolate'')),
     f_scope = to_str (js_or (fld p ''scope'') (JStr ''agent'')),
     f_group = js_or (fld p ''target_group_id'') (JStr ''''),
     f_rollback = nullish (fld p ''auto_rollback_seconds'') (jn 300),
     f_priority = nullish (fld p ''priority'') (jn 10), f_active = nullish (fld p ''is_active'') (JBool True)\<rparr>"

definition isScoreValid :: "policy_form \<Rightarrow> bool" where
  "isScoreValid fm \<longleftrightarrow> num_le (Fin 0) (to_num (f_min fm)) \<and> num_le (to_num (f_max fm)) (Fin 100) \<and>
     num_lt (to_num (f_min fm)) (to_num (f_max fm))"

definition canSubmit :: "policy_form \<Rightarrow> bool \<Rightarrow> bool" where
  "canSubmit fm submitting \<longleftrightarrow> trim (f_name fm) \<noteq> [] \<and> isScoreValid fm \<and>
     (f_scope fm \<noteq> ''group'' \<or> truthy (f_group fm)) \<and> \<not> submitting"

text \<open>The other policies the form warns about, \<open>editPolicy\<close> being \<open>null\<close> for a new one.\<close>

definition ranges_overlap :: "policy_form \<Rightarrow> jsv \<Rightarrow> bool" where
  "ranges_overlap fm p \<longleftrightarrow>
     num_lt (math_max (to_num (f_min fm)) (to_num (fld p ''min_score'')))
            (math_min (to_num (f_max fm)) (to_num (fld p ''max_score'')))"

definition overlapping :: "policy_form \<Rightarrow> jsv \<Rightarrow> jsv list \<Rightarrow> jsv list" where
  "overlapping fm editPolicy existing =
     filter (\<lambda>p. fld p ''scope'' = JStr (f_scope fm)
         \<and> (f_scope fm = ''group'' \<longrightarrow> strict_eq (fld p ''target_group_id'') (f_group fm))
         \<and> ranges_overlap fm p)
       (filter (\<lambda>p. \<not> truthy editPolicy \<or> \<not> strict_eq (fld p ''id'') (fld editPolicy ''id'')) existing)"

definition num_or_0 :: "jsv \<Rightarrow> jsv" where
  "num_or_0 v = js_or (JNum (to_num v)) (jn 0)"

definition form_payload :: "policy_form \<Rightarrow> jsv" where
  "form_payload fm = JObj
     [(''name'', JStr (trim (f_name fm))),
      (''description'', js_or (JStr (trim (f_description fm))) JNull),
      (''min_score'', JNum (to_num (f_min fm))),
      (''max_score'', JNum (to_num (f_max fm))),
      (''action_type'', JStr (f_action fm)),
      (''scope'', JStr (f_scope fm)),
      (''target_group_id'', if f_scope fm = ''group'' then f_group fm else JNull),
      (''auto_rollback_seconds'', if f_action fm = ''alert'' then JNull else num_or_0 (f_rollback fm)),
      (''priority'', num_or_0 (f_priority fm)),
      (''is_active'', JBool (truthy (f_active fm))),
      (''action_params'', JObj [])]"

text \<open>\<open>handleSubmit\<close>: what is handed to \<open>onSaved\<close>, if anything. The two checks inside repeat the validation.\<close>

definition submitted :: "policy_form \<Rightarrow> bool \<Rightarrow> jsv option" where
  "submitted fm submitting =
     (if \<not> canSubmit fm submitting then None
      else if num_le (to_num (f_max fm)) (to_num (f_min fm)) then None
      else if f_scope fm = ''group'' \<and> \<not> truthy (f_group fm) then None
      else Some (form_payload fm))"

text \<open>
  \<open>handleSubmit\<close> with the form as rendered; \<open>busy\<close> is its \<open>submitting\<close> flag as rendered and \<open>editId\<close> the
  edited policy's id, or \<open>undefined\<close>. Closing the form is the page's \<open>onClose\<close>.
\<close>

definition handleSubmit :: "policy_form \<Rightarrow> jsv \<Rightarrow> bool \<Rightarrow> (polpage_st, jsv) act" where
  "handleSubmit fm editId busy =
     (if \<not> canSubmit fm busy then Ret JUndef
      else Upd (formError_update (\<lambda>_. []))
        (if num_le (to_num (f_max fm)) (to_num (f_min fm))
         then Upd (formError_update (\<lambda>_. ''Diem rui ro toi thieu (min_score) phai nho hon diem toi da (max_score).''))
           (Ret JUndef)
         else if f_scope fm = ''group'' \<and> \<not> truthy (f_group fm)
         then Upd (formError_update (\<lambda>_. ''Vui long chon Agent Group ap dung khi chon Scope la Group.'')) (Ret JUndef)
         else Upd (formBusy_update (\<lambda>_. True))
             (fin (catch
                (bnd (handleSavePolicy (form_payload fm) editId) (\<lambda>_. Upd (formOpen_update (\<lambda>_. False)) (Ret JUndef)))
                (\<lambda>err. Upd (formError_update (\<lambda>_. to_str (detail_or err ''Khong the luu chinh sach''))) (Ret JUndef)))
              (formBusy_update (\<lambda>_. False)))))"

section \<open>The dry run\<close>

definition score_label :: "rat \<Rightarrow> string" where
  "score_label s = (if 85 \<le> s then ''Critical'' else if 70 \<le> s then ''Severe'' else if 50 \<le> s then ''High''
     else if 30 \<le> s then ''Moderate'' else ''Safe'')"

text \<open>\<open>Number(x.toFixed(1))\<close>: the nearest tenth, halves away from zero.\<close>

definition to_tenth :: "rat \<Rightarrow> rat" where
  "to_tenth x = (if x < 0 then - (of_int (js_round (- x * 10)) / 10) else of_int (js_round (x * 10)) / 10)"

definition mid_score :: "jsv \<Rightarrow> jsnum" where
  \<comment> \<open>the score the slider starts at: the middle of the policy's range\<close>
  "mid_score p = num_op (\<lambda>a b. to_tenth ((a + b) / 2)) (to_num (nullish (fld p ''min_score'') (jn 0)))
     (to_num (nullish (fld p ''max_score'') (jn 100)))"

section \<open>Lemmas\<close>

lemma coveredPoints_le: "coveredPoints ps \<le> 101"
  unfolding coveredPoints_def by (rule order_trans [OF length_filter_le]) simp

lemma js_round_mono: "x \<le> y \<Longrightarrow> js_round x \<le> js_round y"
  unfolding js_round_def by (intro floor_mono) simp

lemma num_le_antisym: "num_lt a b \<Longrightarrow> \<not> num_le b a"
  by (cases a; cases b) auto

lemma submitted_canSubmit: "submitted fm b = (if canSubmit fm b then Some (form_payload fm) else None)"
  unfolding submitted_def canSubmit_def isScoreValid_def by (auto dest: num_le_antisym)

lemma coveredPoints_mono:
  assumes "set ps \<subseteq> set qs"
  shows "coveredPoints ps \<le> coveredPoints qs"
proof -
  let ?c = "\<lambda>rs s. list_ex (\<lambda>p. covers p s) (filter (\<lambda>p. truthy (fld p ''is_active'')) rs)"
  have "?c ps s \<Longrightarrow> ?c qs s" for s
    using assms by (auto simp: list_ex_iff)
  then have "filter (?c ps) [0..<101] = filter (?c ps) (filter (?c qs) [0..<101])"
    by (simp only: filter_filter) (rule filter_cong, auto)
  then show ?thesis
    unfolding coveredPoints_def by (metis length_filter_le)
qed

lemma fetchPolicies_returns:
  "\<exists>v s'. run (logging f) fetchPolicies s asked =
      (Inr v, s', asked @ [Req GET ''/policies/'' (JObj [(''params'', JObj [])]) JUndef])
      \<and> formError s' = formError s"
  by (simp add: fetchPolicies_def listPolicies_def api_get_params_def run_simps Let_def split: sum.splits prod.splits)

section \<open>Properties\<close>

text \<open>
  The coverage figure is a percentage, it is 0 without an active policy, 100 when one active policy
  spans 0 to 100, and adding policies never lowers it.
\<close>

theorem coverage_percent:
  "0 \<le> coveragePercent ps \<and> coveragePercent ps \<le> 100
    \<and> coveragePercent ps \<le> coveragePercent (ps @ qs)
    \<and> coveragePercent (map (\<lambda>p. with_fld p ''is_active'' (JBool False)) ps) = 0
    \<and> coveragePercent (JObj [(''is_active'', JBool True), (''min_score'', jn 0), (''max_score'', jn 100)] # ps) = 100"
proof -
  have nonneg: "0 \<le> coveragePercent ps" for ps
    using js_round_mono [of 0 "of_nat (coveredPoints ps) / 101 * 100"]
    by (simp add: coveragePercent_def js_round_def)
  have "(of_nat (coveredPoints ps) :: rat) \<le> 101"
    using coveredPoints_le [of ps] by (metis of_nat_le_iff of_nat_numeral)
  then have "(of_nat (coveredPoints ps) :: rat) / 101 * 100 \<le> 100" by simp
  moreover have r100: "js_round 100 = 100"
    unfolding js_round_def by (rule floor_unique) simp_all
  ultimately have le: "coveragePercent ps \<le> 100"
    using js_round_mono [of "of_nat (coveredPoints ps) / 101 * 100" 100] by (simp add: coveragePercent_def)
  have "coveragePercent ps \<le> coveragePercent (ps @ qs)"
  proof (cases "filter (\<lambda>p. truthy (fld p ''is_active'')) ps = []")
    case True
    then have "coveragePercent ps = 0" by (simp add: coveragePercent_def)
    then show ?thesis using nonneg [of "ps @ qs"] by simp
  next
    case False
    have "(of_nat (coveredPoints ps) :: rat) / 101 * 100 \<le> of_nat (coveredPoints (ps @ qs)) / 101 * 100"
      using coveredPoints_mono [of ps "ps @ qs"] by simp
    from js_round_mono [OF this] False show ?thesis
      by (auto simp: coveragePercent_def)
  qed
  moreover have "coveragePercent (map (\<lambda>p. with_fld p ''is_active'' (JBool False)) ps) = 0"
    by (simp add: coveragePercent_def filter_map comp_def)
  moreover have "coveredPoints (JObj [(''is_active'', JBool True), (''min_score'', jn 0), (''max_score'', jn 100)] # ps) = 101"
  proof -
    have "(of_nat s :: rat) \<le> 100" if "s < 101" for s
      using that by (metis less_Suc_eq_le numeral_eq_Suc of_nat_le_iff of_nat_numeral pred_numeral_simps(3) num.simps)
    then show ?thesis
      unfolding coveredPoints_def by (subst filter_True) (auto simp: covers_def)
  qed
  ultimately show ?thesis
    using nonneg [of ps] le by (simp add: coveragePercent_def r100)
qed

text \<open>
  C40: the form never submits an invalid policy. Whatever is typed, a submitted payload has a
  non-empty trimmed name, a numeric score range with 0 <= min < max <= 100, a numeric priority, a group exactly when
  the scope is a group, and no rollback time exactly when the action is an alert.
\<close>

theorem submitted_policy_valid:
  "case submitted fm b of
     None \<Rightarrow> \<not> canSubmit fm b
   | Some p \<Rightarrow> (\<exists>lo hi n pr. fld p ''min_score'' = jn lo \<and> fld p ''max_score'' = jn hi \<and> 0 \<le> lo \<and> lo < hi \<and> hi \<le> 100
        \<and> fld p ''name'' = JStr n \<and> n \<noteq> [] \<and> trim n = n \<and> fld p ''priority'' = jn pr)
       \<and> (truthy (fld p ''target_group_id'') \<longleftrightarrow> fld p ''scope'' = JStr ''group'')
       \<and> (fld p ''auto_rollback_seconds'' = JNull \<longleftrightarrow> fld p ''action_type'' = JStr ''alert'')"
proof (cases "canSubmit fm b")
  case True
  obtain lo hi where lo: "to_num (f_min fm) = Fin lo" and hi: "to_num (f_max fm) = Fin hi"
    using True by (cases "to_num (f_min fm)"; cases "to_num (f_max fm)") (auto simp: canSubmit_def isScoreValid_def)
  have pr: "\<exists>x. num_or_0 v = jn x" for v
    by (cases "to_num v") (auto simp: num_or_0_def js_or_def)
  from True lo hi pr [of "f_priority fm"] pr [of "f_rollback fm"] show ?thesis
    by (auto simp: submitted_canSubmit form_payload_def canSubmit_def isScoreValid_def)
qed (simp add: submitted_canSubmit)

text \<open>
  The overlap warning disagrees with its comment at a shared boundary: two ranges that meet in
  one score, such as 50 to 70 and 70 to 85, both apply to that score, but no warning is given.
\<close>

theorem touching_ranges_not_warned:
  "\<exists>fm p s. isScoreValid fm \<and> covers (form_payload fm) s \<and> covers p s
     \<and> fld p ''scope'' = JStr (f_scope fm) \<and> overlapping fm JNull [p] = []"
proof -
  let ?fm = "blank_form\<lparr>f_min := jn 50, f_max := jn 70\<rparr>"
  let ?p = "JObj [(''scope'', JStr ''agent''), (''min_score'', jn 70), (''max_score'', jn 85)]"
  have "isScoreValid ?fm \<and> covers (form_payload ?fm) 70 \<and> covers ?p 70 \<and> fld ?p ''scope'' = JStr (f_scope ?fm)
      \<and> overlapping ?fm JNull [?p] = []"
    by (simp add: blank_form_def isScoreValid_def covers_def form_payload_def overlapping_def ranges_overlap_def)
  then show ?thesis by blast
qed

text \<open>
  Saving from the form. When the manager refuses a new policy, the form stays open with the
  manager's reason in it, the same reason is shown as a toast, and the list is not touched; when it
  accepts, the form closes. Both ways the form can be submitted again.
\<close>

theorem form_save_outcome:
  assumes "canSubmit fm False"
  defines "q \<equiv> Req POST ''/policies/'' JUndef (form_payload fm)"
  shows "case run (logging f) (handleSubmit fm JUndef False) s [] of (r, s', asked) \<Rightarrow>
     r = Inr JUndef \<and> \<not> formBusy s' \<and> hd asked = q \<and>
     (case f q of
        Inl err \<Rightarrow> asked = [q] \<and> policies s' = policies s \<and> formOpen s' = formOpen s
          \<and> formError s' = to_str (message_or (intercept_error err) ''Khong the luu chinh sach'')
          \<and> polToasts s' = polToasts s @ [Toast_error (''Loi luu chinh sach: '' @ detail_text (intercept_error err))]
      | Inr res \<Rightarrow> \<not> formOpen s' \<and> formError s' = [])"
proof -
  have valid: "\<not> num_le (to_num (f_max fm)) (to_num (f_min fm))" "\<not> (f_scope fm = ''group'' \<and> \<not> truthy (f_group fm))"
    using assms(1) by (cases "to_num (f_min fm)"; cases "to_num (f_max fm)"; auto simp: canSubmit_def isScoreValid_def)+
  show ?thesis
  proof (cases "f q")
    case (Inl err)
    with valid assms(1) show ?thesis
      by (simp add: handleSubmit_def handleSavePolicy_def handleCreatePolicy_def createPolicy_def api_post_def
          run_simps q_def pol_toast_def detail_or_plain settle_plain)
  next
    case (Inr res)
    with valid assms(1) fetchPolicies_returns [of f
        "policies_update (\<lambda>prev. sort_policies (prev @ [fld res ''data''])) (s\<lparr>formError := [], formBusy := True\<rparr>)" "[q]"]
    show ?thesis
      by (auto simp: handleSubmit_def handleSavePolicy_def handleCreatePolicy_def createPolicy_def api_post_def
          run_simps q_def pol_toast_def)
  qed
qed

definition valid_form :: policy_form where
  "valid_form = blank_form\<lparr>f_name := '' iso ''\<rparr>"

definition page_open :: polpage_st where
  "page_open = \<lparr>loading = False, error = JNull, policies = [], evaluating = False, evaluationResult = JNull,
     polToasts = [], formOpen = True, formBusy = False, formError = []\<rparr>"

theorem form_save_outcome_witness:
  "policies (state_of (run (logging (\<lambda>_. Inl (JObj []))) (handleSubmit valid_form JUndef False) page_open [])) = []
   \<and> formOpen (state_of (run (logging (\<lambda>_. Inl (JObj []))) (handleSubmit valid_form JUndef False) page_open []))"
proof -
  have "canSubmit valid_form False"
    by (simp add: valid_form_def blank_form_def canSubmit_def isScoreValid_def trim_def is_space_def)
  from form_save_outcome [OF this, where f = "\<lambda>_. Inl (JObj [])" and s = page_open] show ?thesis
    by (auto simp: page_open_def split: prod.splits)
qed

text \<open>A stored policy the form can hold: trimmed non-empty texts, numbers, and no group or rollback where none applies.\<close>

definition editable :: "jsv \<Rightarrow> bool" where
  "editable p \<longleftrightarrow> (\<exists>n d a sc lo hi pr b. fld p ''name'' = JStr n \<and> trim n = n \<and> n \<noteq> []
     \<and> fld p ''description'' = JStr d \<and> trim d = d \<and> d \<noteq> []
     \<and> fld p ''action_type'' = JStr a \<and> a \<noteq> [] \<and> fld p ''scope'' = JStr sc \<and> sc \<noteq> []
     \<and> fld p ''min_score'' = jn lo \<and> fld p ''max_score'' = jn hi \<and> fld p ''priority'' = jn pr
     \<and> fld p ''is_active'' = JBool b
     \<and> (if sc = ''group'' then truthy (fld p ''target_group_id'') else fld p ''target_group_id'' = JNull)
     \<and> (fld p ''auto_rollback_seconds'' = JNull \<or> a \<noteq> ''alert'' \<and> (\<exists>t. fld p ''auto_rollback_seconds'' = jn t)))"


definition stored_policy :: jsv where
  "stored_policy = JObj [(''id'', JStr ''p''), (''name'', JStr ''iso''), (''description'', JStr ''d''), (''min_score'', jn 80),
     (''max_score'', jn 90), (''action_type'', JStr ''isolate''), (''scope'', JStr ''agent''), (''target_group_id'', JNull),
     (''priority'', jn 3), (''is_active'', JBool True), (''auto_rollback_seconds'', JNull),
     (''action_params'', JObj [(''direction'', JStr ''both'')])]"


end
