(* ===== verification/PolicyDryRun.thy ===== *)
theory PolicyDryRun
  imports PoliciesPage
begin

text \<open>
  \<open>src/frontend/src/components/policies/PolicyDryRunPanel.jsx\<close>: choosing an agent and a score, the
  debounced evaluation (a timer that runs it), and the live execution behind a confirmation. The list of
  agents is the one rendered; the panel's own requests are the agent's groups and the evaluations.
\<close>

record dry_st =
  dryAgent :: jsv
  dryScore :: jsv
  dryLiveMode :: bool
  dryGroups :: jsv
  dryLoading :: bool
  dryResult :: jsv
  dryError :: jsv
  confirmLive :: bool
  liveExecuting :: bool
  liveMessage :: string

definition init_dry :: "jsv \<Rightarrow> dry_st" where
  "init_dry initialAgent = \<lparr>dryAgent = js_or initialAgent (JStr ''''), dryScore = jn 75, dryLiveMode = False,
     dryGroups = JArr [], dryLoading = False, dryResult = JNull, dryError = JStr '''', confirmLive = False,
     liveExecuting = False, liveMessage = []\<rparr>"

text \<open>The effect of opening the panel.\<close>

definition open_panel :: "jsv \<Rightarrow> jsv \<Rightarrow> jsv list \<Rightarrow> dry_st \<Rightarrow> dry_st" where
  "open_panel initialPolicy initialAgent agents_shown s =
     (let s1 = s\<lparr>dryError := JStr '''', dryResult := JNull, dryLiveMode := False, liveMessage := [], confirmLive := False\<rparr>;
          s2 = (if truthy initialAgent then s1\<lparr>dryAgent := initialAgent\<rparr>
                else if agents_shown \<noteq> [] \<and> \<not> truthy (dryAgent s)
                  then s1\<lparr>dryAgent := js_or (fld (hd agents_shown) ''id'') (JStr '''')\<rparr>
                else s1)
      in if truthy initialPolicy then s2\<lparr>dryScore := JNum (mid_score initialPolicy)\<rparr> else s2\<lparr>dryScore := jn 75\<rparr>)"

definition pick_first_agent :: "jsv list \<Rightarrow> dry_st \<Rightarrow> dry_st" where
  "pick_first_agent agents_shown s =
     (if \<not> truthy (dryAgent s) \<and> agents_shown \<noteq> []
      then s\<lparr>dryAgent := js_or (fld (hd agents_shown) ''id'') (JStr '''')\<rparr> else s)"

definition fetch_agent_groups :: "jsv \<Rightarrow> (dry_st, jsv) act" where
  "fetch_agent_groups agentId =
     (if \<not> truthy agentId then Upd (dryGroups_update (\<lambda>_. JArr [])) (Ret JUndef)
      else catch (bnd (await (getAgentGroups agentId)) (\<lambda>grps. Upd (dryGroups_update (\<lambda>_. as_list grps)) (Ret JUndef)))
        (\<lambda>_. Upd (dryGroups_update (\<lambda>_. JArr [])) (Ret JUndef)))"

definition evaluation_request :: "jsv \<Rightarrow> jsv \<Rightarrow> bool \<Rightarrow> jsv" where
  "evaluation_request agentId score dryRun = JObj
     [(''agent_id'', agentId), (''risk_score'', JNum (to_num score)), (''dry_run'', JBool dryRun)]"

definition eval_error :: "jsv \<Rightarrow> jsv" where
  "eval_error err = js_or (fld (fld (fld err ''response'') ''data'') ''detail'')
     (js_or (fld (fld (fld err ''response'') ''data'') ''error'')
        (js_or (fld err ''message'') (JStr ''Danh gia chinh sach that bai'')))"

text \<open>With the agent and the score of the rendering.\<close>

definition runEvaluation :: "jsv \<Rightarrow> jsv \<Rightarrow> bool \<Rightarrow> (dry_st, jsv) act" where
  "runEvaluation agentId score dryRun =
     (if \<not> truthy agentId then Upd (dryError_update (\<lambda>_. JStr ''Vui long chon mot agent de kiem thu.'')) (Ret JNull)
      else Upd (dryError_update (\<lambda>_. JStr '''')) (Upd (dryLoading_update (\<lambda>_. True))
        (fin (catch
           (bnd (await (evaluatePolicy (evaluation_request agentId score dryRun))) (\<lambda>res.
              Upd (dryResult_update (\<lambda>_. res)) (Ret res)))
           (\<lambda>err. Upd (dryError_update (\<lambda>_. eval_error err)) (Ret JNull)))
         (dryLoading_update (\<lambda>_. False)))))"

text \<open>The debounce timer of the effect runs a dry evaluation.\<close>

definition debounce_fires :: "jsv \<Rightarrow> jsv \<Rightarrow> (dry_st, jsv) act" where
  "debounce_fires agentId score = (if \<not> truthy agentId then Ret JUndef else runEvaluation agentId score True)"

definition live_text :: "jsv \<Rightarrow> jsv res" where
  \<comment> \<open>\<open>res.action_type?.toUpperCase()\<close> in a template\<close>
  "live_text res = rmap (\<lambda>a. JStr (''Da kich hoat hanh dong LIVE ['' @ to_str a @ ''] thanh cong tren '' @
       to_str (js_or (fld (fld res ''simulated_actions'') ''length'') (jn 1)) @ '' may tram!''))
     (if nullishp (fld res ''action_type'') then Inr JUndef else to_upper (fld res ''action_type''))"

definition handleExecuteLive :: "jsv \<Rightarrow> jsv \<Rightarrow> (dry_st, jsv) act" where
  "handleExecuteLive agentId score =
     Upd (liveExecuting_update (\<lambda>_. True)) (Upd (dryError_update (\<lambda>_. JStr ''''))
       (fin (catch
          (bnd (runEvaluation agentId score False) (\<lambda>res.
             thn (if truthy res \<and> truthy (fld res ''executed'')
                  then bnd (lift (live_text res)) (\<lambda>msg. Upd (liveMessage_update (\<lambda>_. to_str msg)) (Ret JUndef))
                  else Ret JUndef)
               (Upd (confirmLive_update (\<lambda>_. False)) (Ret JUndef))))
          (\<lambda>err. Upd (dryError_update (\<lambda>_. detail_or err ''Thuc thi Live that bai'')) (Ret JUndef)))
        (liveExecuting_update (\<lambda>_. False))))"

definition set_live_mode :: "bool \<Rightarrow> dry_st \<Rightarrow> dry_st" where
  "set_live_mode b s = s\<lparr>dryLiveMode := b\<rparr>"

definition move_slider :: "jsv \<Rightarrow> dry_st \<Rightarrow> dry_st" where
  "move_slider v s = s\<lparr>dryScore := JNum (to_num v)\<rparr>"

text \<open>"Apply Now (Live)": there in the live mode with a matched policy; \<open>Some False\<close> is disabled.\<close>

definition live_button :: "dry_st \<Rightarrow> bool option" where
  "live_button s = (if dryLiveMode s \<and> truthy (fld (dryResult s) ''matched_policy'') then Some (\<not> dryLoading s) else None)"

definition ask_live :: "dry_st \<Rightarrow> dry_st" where
  "ask_live s = s\<lparr>confirmLive := True\<rparr>"

text \<open>
  Everything the panel can start: its effects, its timer and every control. The switch, the slider and the list of agents only set
  the state; a button that is not there or disabled starts nothing. \<open>Close_question\<close> is the cross, the Escape key and a click
  beside the question. Each handler is the one of the rendering of \<open>s\<close>.
\<close>

datatype dry_event =
  Open_panel jsv jsv
| Agents_given
| Groups_wanted
| Debounced
| Pick_agent jsv
| Move_slider jsv
| Switch_mode bool
| Reevaluate
| Apply_now
| Cancel_live
| Close_question
| Confirm_live

definition close_question :: "dry_st \<Rightarrow> dry_st" where
  "close_question s = s\<lparr>confirmLive := False\<rparr>"

definition dry_act :: "jsv list \<Rightarrow> dry_st \<Rightarrow> dry_event \<Rightarrow> (dry_st, jsv) act" where
  "dry_act agents_shown s e = (case e of
      Open_panel p a \<Rightarrow> Upd (open_panel p a agents_shown) (Ret JUndef)
    | Agents_given \<Rightarrow> Upd (pick_first_agent agents_shown) (Ret JUndef)
    | Groups_wanted \<Rightarrow> fetch_agent_groups (dryAgent s)
    | Debounced \<Rightarrow> debounce_fires (dryAgent s) (dryScore s)
    | Pick_agent a \<Rightarrow> Upd (dryAgent_update (\<lambda>_. a)) (Ret JUndef)
    | Move_slider v \<Rightarrow> Upd (move_slider v) (Ret JUndef)
    | Switch_mode b \<Rightarrow> Upd (set_live_mode b) (Ret JUndef)
    | Reevaluate \<Rightarrow> if dryLoading s then Ret JUndef else runEvaluation (dryAgent s) (dryScore s) True
    | Apply_now \<Rightarrow> if live_button s = Some True then Upd ask_live (Ret JUndef) else Ret JUndef
    | Cancel_live \<Rightarrow> if confirmLive s \<and> \<not> liveExecuting s then Upd close_question (Ret JUndef) else Ret JUndef
    | Close_question \<Rightarrow> if confirmLive s then Upd close_question (Ret JUndef) else Ret JUndef
    | Confirm_live \<Rightarrow> if confirmLive s then handleExecuteLive (dryAgent s) (dryScore s) else Ret JUndef)"

text \<open>All of them but the button that asks for a live execution.\<close>

definition unasked_ops :: "jsv list \<Rightarrow> dry_st \<Rightarrow> (dry_st, jsv) act set" where
  "unasked_ops agents_shown s = dry_act agents_shown s ` (- {Apply_now})"

section \<open>Lemmas\<close>

definition not_live :: "request \<Rightarrow> bool" where
  "not_live q \<longleftrightarrow> (case q of Req m path ps body \<Rightarrow>
     m = GET \<or> path = ''/policies/evaluate'' \<and> fld body ''dry_run'' = JBool True)"

lemma runEvaluation_dry: "asks not_live (runEvaluation a v True)"
  by (auto simp: runEvaluation_def evaluatePolicy_def api_post_def evaluation_request_def not_live_def
      intro!: asks_intros)

lemma fetch_agent_groups_reads: "asks not_live (fetch_agent_groups a)"
  by (auto simp: fetch_agent_groups_def getAgentGroups_def api_get_def not_live_def list_of_def intro!: asks_intros)

lemma dry_act_quiet: "e \<noteq> Confirm_live \<Longrightarrow> asks not_live (dry_act agents_shown s e)"
  by (cases e) (simp_all add: dry_act_def fetch_agent_groups_reads debounce_fires_def runEvaluation_dry)

lemma runEvaluation_keeps_question: "keeps ok (\<lambda>s. \<not> confirmLive s) (runEvaluation a v b)"
  by (auto simp: runEvaluation_def intro!: keeps_intros keeps_await)

lemma unasked_keep:
  assumes "\<not> confirmLive s" and "e \<noteq> Apply_now"
  shows "keeps ok (\<lambda>s. \<not> confirmLive s) (dry_act agents_shown s e)"
  using assms
  by (cases e) (auto simp: dry_act_def open_panel_def pick_first_agent_def fetch_agent_groups_def debounce_fires_def Let_def
      move_slider_def set_live_mode_def runEvaluation_keeps_question intro!: keeps_intros keeps_await)

interpretation dry_unasked: hook "unasked_ops agents_shown" ok "\<lambda>s. \<not> confirmLive s" for agents_shown ok
  by unfold_locales (auto simp: unasked_ops_def intro: unasked_keep)

lemma confirmed_request:
  "world_of (run (logging f) (handleExecuteLive (JStr (x # xs)) v) s []) =
     [Req POST ''/policies/evaluate'' JUndef (evaluation_request (JStr (x # xs)) v False)]"
  by (auto simp: handleExecuteLive_def runEvaluation_def evaluatePolicy_def api_post_def run_simps split: sum.splits prod.splits)

section \<open>Properties\<close>

text \<open>
  C13: a live execution takes two presses, "Apply Now" and the confirmation. Of everything the panel can start, effects, timer and
  all controls, only the confirmation sends anything but reads and dry evaluations, and it does nothing while its question is
  closed; "Apply Now" sends nothing, opens the question and is there only in the live mode with a matched policy and no
  evaluation running; without it no interleaving of all the rest opens the question. The confirmation sends exactly one
  evaluation that is not dry, for the chosen agent and score.
\<close>

theorem live_needs_confirmation:
  "(e \<noteq> Confirm_live \<longrightarrow> asks not_live (dry_act agents_shown s e))
    \<and> (\<not> confirmLive s \<longrightarrow> dry_act agents_shown s Confirm_live = Ret JUndef)
    \<and> dry_act agents_shown s Apply_now = (if dryLiveMode s \<and> truthy (fld (dryResult s) ''matched_policy'') \<and> \<not> dryLoading s
        then Upd (confirmLive_update (\<lambda>_. True)) (Ret JUndef) else Ret JUndef)
    \<and> (reach (unasked_ops agents_shown) ok (mounted (dry_act agents_shown (init_dry a) (Open_panel p a)) (init_dry a)) (t, ps)
        \<longrightarrow> \<not> confirmLive t)
    \<and> (confirmLive s \<and> dryAgent s = JStr (x # xs) \<longrightarrow>
        world_of (run (logging f) (dry_act agents_shown s Confirm_live) s []) =
          [Req POST ''/policies/evaluate'' JUndef (evaluation_request (JStr (x # xs)) (dryScore s) False)])"
proof (intro conjI impI)
  assume "reach (unasked_ops agents_shown) ok (mounted (dry_act agents_shown (init_dry a) (Open_panel p a)) (init_dry a)) (t, ps)"
  from dry_unasked.reach_inv [OF this] show "\<not> confirmLive t"
    by (simp add: unasked_ops_def init_dry_def)
next
  show "dry_act agents_shown s Apply_now = (if dryLiveMode s \<and> truthy (fld (dryResult s) ''matched_policy'') \<and> \<not> dryLoading s
        then Upd (confirmLive_update (\<lambda>_. True)) (Ret JUndef) else Ret JUndef)"
    by (auto simp: dry_act_def live_button_def ask_live_def)
qed (auto simp: dry_act_quiet dry_act_def [of _ _ Confirm_live] confirmed_request)

definition asked_panel :: dry_st where
  "asked_panel = (init_dry (JStr ''a1''))\<lparr>confirmLive := True\<rparr>"

theorem live_needs_confirmation_witness:
  "asks not_live (dry_act [] asked_panel Reevaluate) \<and> dry_act [] (init_dry (JStr ''a1'')) Confirm_live = Ret JUndef
    \<and> world_of (run (logging (\<lambda>_. Inl JNull)) (dry_act [] asked_panel Confirm_live) asked_panel []) =
        [Req POST ''/policies/evaluate'' JUndef (evaluation_request (JStr ''a1'') (jn 75) False)]
    \<and> \<not> confirmLive (fst (mounted (dry_act [] (init_dry (JStr ''a1'')) (Open_panel JNull (JStr ''a1''))) (init_dry (JStr ''a1''))))"
proof -
  let ?m = "mounted (dry_act [] (init_dry (JStr ''a1'')) (Open_panel JNull (JStr ''a1''))) (init_dry (JStr ''a1''))"
  have "reach (unasked_ops []) (\<lambda>_ _. True) ?m (fst ?m, snd ?m)" by (simp add: reach_refl)
  then show ?thesis
    using live_needs_confirmation [of Reevaluate "[]" asked_panel "\<lambda>_ _. True" "JStr ''a1''" JNull "fst ?m" "snd ?m" "CHR ''a''" "''1''" "\<lambda>_. Inl JNull"]
      live_needs_confirmation [of Reevaluate "[]" "init_dry (JStr ''a1'')"]
    by (simp add: asked_panel_def init_dry_def)
qed

text \<open>
  What a confirmed execution shows. When the manager refuses it, its reason is shown, the result and the success message stay as
  they were; when it answers without having executed, no success is claimed; the question is closed
  and both spinners are down.
\<close>

theorem live_outcome:
  "case run (logging f) (handleExecuteLive (JStr (x # xs)) v) s [] of (r, s', asked) \<Rightarrow>
     r = Inr JUndef \<and> \<not> liveExecuting s' \<and> \<not> dryLoading s' \<and>
     (case f (Req POST ''/policies/evaluate'' JUndef (evaluation_request (JStr (x # xs)) v False)) of
        Inl err \<Rightarrow> dryError s' = eval_error (intercept_error err) \<and> dryResult s' = dryResult s
          \<and> liveMessage s' = liveMessage s \<and> \<not> confirmLive s'
      | Inr res \<Rightarrow> dryResult s' = fld res ''data'' \<and>
          (if truthy (fld res ''data'') \<and> truthy (fld (fld res ''data'') ''executed'')
           then (case live_text (fld res ''data'') of Inr m \<Rightarrow> liveMessage s' = to_str m \<and> \<not> confirmLive s'
                 | Inl _ \<Rightarrow> liveMessage s' = liveMessage s \<and> confirmLive s' = confirmLive s)
           else liveMessage s' = liveMessage s \<and> \<not> confirmLive s'))"
  by (cases "f (Req POST ''/policies/evaluate'' JUndef (evaluation_request (JStr (x # xs)) v False))")
    (auto simp: handleExecuteLive_def runEvaluation_def evaluatePolicy_def api_post_def run_simps rmap_def
      split: sum.splits)

end
