(* ===== verification/SideScreens.thy ===== *)
theory SideScreens
  imports DashboardPage PolicyDryRun
begin

text \<open>
  Screens and parts beside the main ones, in \<open>src/frontend/src\<close>: the attack simulation \<open>pages/Attack.jsx\<close>, the flow page
  \<open>pages/NetworkInvestigation.jsx\<close>, \<open>components/policies/PolicyDryRunModal.jsx\<close>, the card of a group
  \<open>components/groups/GroupCard.jsx\<close>, \<open>components/ui/Badge.jsx\<close>, \<open>components/ui/RecentAlerts.jsx\<close> and the false-positive
  banner of \<open>pages/Dashboard.jsx\<close>.
\<close>

section \<open>The attack simulation\<close>

text \<open>A log line is its text and its kind; its number and its time are left out.\<close>

record attack_st =
  attackStatus :: string
  attackLogs :: "(string \<times> string) list"
  attackAgent :: jsv
  attackIp :: jsv
  attackPort :: string
  attackDuration :: string
  attackLoading :: bool

definition init_attack :: attack_st where
  "init_attack = \<lparr>attackStatus = ''idle'', attackLogs = [(''Attack Simulation ready. Select target and launch.'', ''ok'')],
     attackAgent = JStr '''', attackIp = JStr '''', attackPort = ''80'', attackDuration = ''10'', attackLoading = False\<rparr>"

definition addLog :: "string \<Rightarrow> string \<Rightarrow> attack_st \<Rightarrow> attack_st" where
  \<comment> \<open>\<open>p.slice(-60)\<close> and one more\<close>
  "addLog msg kind = attackLogs_update (\<lambda>p. drop (length p - 60) p @ [(msg, kind)])"

definition handleAgentSelect :: "jsv list \<Rightarrow> string \<Rightarrow> attack_st \<Rightarrow> attack_st" where
  "handleAgentSelect ags agentId s = s\<lparr>attackAgent := JStr agentId,
     attackIp := (case find_by ''id'' (JStr agentId) ags of Some a \<Rightarrow> fld a ''ip'' | None \<Rightarrow> JStr '''')\<rparr>"

definition long_dash :: string where
  "long_dash = [CHR 0xE2, CHR 0x80, CHR 0x94]"

definition attack_body :: "attack_st \<Rightarrow> jsv" where
  "attack_body p = JObj [(''target_agent_id'', attackAgent p), (''target_ip'', attackIp p),
     (''target_port'', JNum (to_num (JStr (attackPort p)))), (''duration'', JNum (to_num (JStr (attackDuration p))))]"

definition launch :: "attack_st \<Rightarrow> (attack_st, jsv) act" where
  \<comment> \<open>with the values of the rendering \<open>p\<close>\<close>
  "launch p = (if \<not> truthy (attackAgent p) \<or> \<not> truthy (attackIp p)
     then Upd (addLog ''Please select a target agent.'' ''warn'') (Ret JUndef)
     else Upd (attackLoading_update (\<lambda>_. True)) (Upd (attackStatus_update (\<lambda>_. ''running''))
       (Upd (addLog (''[SYN Flood] Targeting '' @ to_str (attackIp p) @ '':'' @ attackPort p @ '' '' @ long_dash @ '' LAUNCHING'') ''warn'')
         (fin (catch
            (bnd (await (api_post ''/attack/syn-flood'' (attack_body p))) (\<lambda>_.
               Upd (addLog ''Attack command sent successfully.'' ''ok'') (Ret JUndef)))
            (\<lambda>err. Upd (addLog (''Error: '' @ to_str (fld err ''message'')) ''err'') (Ret JUndef)))
          (\<lambda>s. s\<lparr>attackLoading := False, attackStatus := ''stopped''\<rparr>)))))"

definition stop_attack :: "(attack_st, jsv) act" where
  "stop_attack = Upd (attackStatus_update (\<lambda>_. ''stopped''))
     (Upd (addLog ''[STOPPED] Attack terminated by operator.'' ''ok'') (Ret JUndef))"

definition attack_ops :: "attack_st \<Rightarrow> (attack_st, jsv) act set" where
  "attack_ops s = (if attackStatus s = ''running'' \<or> attackLoading s then {} else {launch s}) \<union> (if attackStatus s = ''running'' then {stop_attack} else {})
     \<union> {Upd (handleAgentSelect ags i) (Ret JUndef) | ags i. attackStatus s \<noteq> ''running''}
     \<union> {Upd (attackPort_update (\<lambda>_. v)) (Ret JUndef) | v. attackStatus s \<noteq> ''running''}
     \<union> {Upd (attackDuration_update (\<lambda>_. v)) (Ret JUndef) | v. attackStatus s \<noteq> ''running''}"

section \<open>The page of a flow\<close>

record flow_st =
  shownFlow :: jsv

definition flow_effect :: "jsv \<Rightarrow> (flow_st, jsv) act" where
  "flow_effect flowId = catch (bnd (await (getFlowDetail flowId)) (\<lambda>d. Upd (shownFlow_update (\<lambda>_. d)) (Ret JUndef))) (\<lambda>_. Ret JUndef)"

definition flow_page :: "flow_st \<Rightarrow> string list" where
  \<comment> \<open>its title; nothing but a notice while there is no flow\<close>
  "flow_page s = (if \<not> truthy (shownFlow s) then [''Dang tai...'']
     else [''Dieu tra: '' @ to_str (fld (shownFlow s) ''process_name'') @ '' '' @ to_str (fld (shownFlow s) ''dst_ip'') @ '':''
       @ to_str (fld (shownFlow s) ''dst_port'')])"

section \<open>The dry run of a policy\<close>

record drymodal_st =
  dryAgent :: jsv
  dryScore :: jsv
  dryLoading :: bool
  dryResult :: jsv
  dryError :: jsv

definition init_drymodal :: drymodal_st where
  "init_drymodal = \<lparr>dryAgent = JStr '''', dryScore = jn 75, dryLoading = False, dryResult = JNull, dryError = JStr ''''\<rparr>"

definition round_half_up :: "jsnum \<Rightarrow> jsnum" where
  "round_half_up n = (case n of NaN \<Rightarrow> NaN | Fin r \<Rightarrow> Fin (of_int \<lfloor>r + 1 / 2\<rfloor>))"

definition mid_score :: "jsv \<Rightarrow> jsv" where
  "mid_score policy = JNum (round_half_up (num_op (/)
     (num_add (to_num (js_or (fld policy ''min_score'') (jn 0))) (to_num (js_or (fld policy ''max_score'') (jn 100)))) (Fin 2)))"

definition drymodal_effect :: "bool \<Rightarrow> jsv \<Rightarrow> jsv list \<Rightarrow> drymodal_st \<Rightarrow> drymodal_st" where
  \<comment> \<open>of \<open>isOpen\<close>, \<open>policy\<close> and \<open>agents\<close>\<close>
  "drymodal_effect isOpen policy ags s = (if \<not> isOpen then s
     else s\<lparr>dryError := JStr '''', dryResult := JNull, dryScore := (if truthy policy then mid_score policy else dryScore s),
       dryAgent := (if ags \<noteq> [] \<and> \<not> truthy (dryAgent s) then fld (hd ags) ''id'' else dryAgent s)\<rparr>)"

definition handleRunEvaluation :: "drymodal_st \<Rightarrow> (drymodal_st, jsv) act" where
  "handleRunEvaluation p = (if \<not> truthy (dryAgent p)
     then Upd (dryError_update (\<lambda>_. JStr ''Vui long chon mot agent de kiem thu.'')) (Ret JUndef)
     else Upd (dryError_update (\<lambda>_. JStr '''')) (Upd (dryLoading_update (\<lambda>_. True))
       (fin (catch
          (bnd (await (evaluatePolicy (JObj [(''agent_id'', dryAgent p), (''risk_score'', JNum (to_num (dryScore p))), (''dry_run'', JBool True)])))
            (\<lambda>res. Upd (dryResult_update (\<lambda>_. res)) (Ret JUndef)))
          (\<lambda>err. Upd (dryError_update (\<lambda>_. js_or (fld (fld (fld err ''response'') ''data'') ''detail'')
              (js_or (fld err ''message'') (JStr ''Kiem thu danh gia that bai'')))) (Ret JUndef)))
        (dryLoading_update (\<lambda>_. False)))))"

definition drymodal_closable :: "drymodal_st \<Rightarrow> bool" where
  "drymodal_closable s \<longleftrightarrow> \<not> dryLoading s"

definition run_enabled :: "drymodal_st \<Rightarrow> bool" where
  "run_enabled s \<longleftrightarrow> \<not> (dryLoading s \<or> \<not> truthy (dryAgent s))"

section \<open>The card of a group\<close>

definition getGroupEmoji :: "jsv \<Rightarrow> string res" where
  \<comment> \<open>an office, a laptop, a bag of money, a screen, two people; in UTF-8\<close>
  "getGroupEmoji name = rmap (\<lambda>low. let has = \<lambda>q. str_includes (to_str low) q in
     if has ''hr'' \<or> has ''human'' then [CHR 0xF0, CHR 0x9F, CHR 0x8F, CHR 0xA2]
     else if has ''it'' \<or> has ''tech'' then [CHR 0xF0, CHR 0x9F, CHR 0x92, CHR 0xBB]
     else if has ''finance'' \<or> has ''account'' then [CHR 0xF0, CHR 0x9F, CHR 0x92, CHR 0xB0]
     else if has ''server'' \<or> has ''infra'' then [CHR 0xF0, CHR 0x9F, CHR 0x96, CHR 0xA5, CHR 0xEF, CHR 0xB8, CHR 0x8F]
     else [CHR 0xF0, CHR 0x9F, CHR 0x91, CHR 0xA5]) (to_lower (dflt name (JStr '''')))"

text \<open>\<open>cardCalls\<close> logs the callbacks: which one, and the group.\<close>

record card_st =
  menuOpen :: bool
  cardCalls :: "(string \<times> jsv) list"

datatype card_target = OnCard | OnMenuArea | OnMenuButton | OnEdit | OnDelete | OnMembers | OnDetails | Outside

definition called :: "string \<Rightarrow> jsv \<Rightarrow> card_st \<Rightarrow> card_st" where
  "called cb g = cardCalls_update (\<lambda>cs. cs @ [(cb, g)])"

definition card_click :: "jsv \<Rightarrow> card_target \<Rightarrow> card_st \<Rightarrow> card_st" where
  \<comment> \<open>press and release; a press outside the menu closes it; menu and footer keep the click from the card\<close>
  "card_click g target s = (let closed = (if target \<in> {OnMenuArea, OnMenuButton, OnEdit, OnDelete} then s else s\<lparr>menuOpen := False\<rparr>) in
     case target of
       OnCard \<Rightarrow> called ''onClick'' g closed
     | OnMenuArea \<Rightarrow> closed
     | OnMenuButton \<Rightarrow> closed\<lparr>menuOpen := \<not> menuOpen closed\<rparr>
     | OnEdit \<Rightarrow> (if menuOpen s then called ''onEdit'' g (closed\<lparr>menuOpen := False\<rparr>) else closed)
     | OnDelete \<Rightarrow> (if menuOpen s then called ''onDelete'' g (closed\<lparr>menuOpen := False\<rparr>) else closed)
     | OnMembers \<Rightarrow> called ''onManageMembers'' g closed
     | OnDetails \<Rightarrow> called ''onClick'' g closed
     | Outside \<Rightarrow> closed)"

definition member_text :: "jsv \<Rightarrow> string" where
  "member_text g = (let n = nullish (fld g ''member_count'') (jn 0) in
     to_str n @ '' '' @ (if strict_eq n (jn 1) then ''agent'' else ''agents''))"

definition group_badge :: "jsv \<Rightarrow> string \<times> string" where
  "group_badge g = (if truthy (fld g ''has_isolated_agents'') then (''danger'', ''Has Isolated Agents'') else (''active'', ''Normal''))"

section \<open>The badge\<close>

definition variantMap :: "(string \<times> string) list" where
  "variantMap = [(''online'', ''badge-online''), (''active'', ''badge-online''), (''offline'', ''badge-offline''), (''dead'', ''badge-offline''),
     (''inactive'', ''badge-offline''), (''isolated'', ''badge-warning''), (''quarantine'', ''badge-critical''), (''warning'', ''badge-warning''),
     (''critical'', ''badge-critical''), (''info'', ''badge-info''), (''low'', ''badge-low''), (''medium'', ''badge-medium''), (''high'', ''badge-high'')]"

definition labelMap :: "(string \<times> string) list" where
  "labelMap = [(''online'', ''Online''), (''active'', ''Online''), (''offline'', ''Offline''), (''dead'', ''Offline''), (''inactive'', ''Inactive''),
     (''isolated'', ''Isolated''), (''quarantine'', ''Quarantine''), (''warning'', ''Warning''), (''critical'', ''Critical''), (''info'', ''Info''),
     (''low'', ''Low''), (''medium'', ''Medium''), (''high'', ''High'')]"

text \<open>The class, the text and the tooltip of a badge.\<close>

definition badge :: "jsv \<Rightarrow> jsv \<Rightarrow> (string \<times> jsv \<times> string option) res" where
  "badge status label = rmap (\<lambda>k. let key = to_str k;
       cls = (case map_of variantMap key of Some x \<Rightarrow> x | None \<Rightarrow> ''badge-info'');
       text' = js_or label (case map_of labelMap key of Some l \<Rightarrow> JStr l | None \<Rightarrow> status);
       low = lower (to_str text')
     in (cls, text', if key = ''isolated'' \<or> str_includes low ''isolated'' then Some ''Isolation''
          else if key = ''quarantine'' \<or> str_includes low ''quarantine'' then Some ''Quarantine'' else None))
     (to_lower (js_or status (JStr '''')))"

section \<open>Recent alerts\<close>

fun replace_first :: "char \<Rightarrow> char \<Rightarrow> string \<Rightarrow> string" where
  "replace_first a b [] = []"
| "replace_first a b (x # s) = (if x = a then b # s else x # replace_first a b s)"

definition alert_row :: "jsv \<Rightarrow> (string \<times> jsv \<times> (string \<times> jsv \<times> string option)) res" where
  \<comment> \<open>the type with its first underscore replaced, the source, the badge\<close>
  "alert_row e = rbind (get e ''type'') (\<lambda>ty. case ty of
      JStr t \<Rightarrow> rbind (to_lower (fld e ''severity'')) (\<lambda>sev. rmap (\<lambda>b. (replace_first CHR ''_'' CHR '' '' t, fld e ''sourceIp'', b))
        (badge sev (fld e ''severity'')))
    | _ \<Rightarrow> Inl type_error)"

definition recent_alerts :: "jsv list \<Rightarrow> (string \<times> jsv \<times> (string \<times> jsv \<times> string option)) list res" where
  "recent_alerts evs = rmapM alert_row (take 6 evs)"

section \<open>The false-positive banner\<close>

record fp_st =
  fpData :: jsv
  fpMounted :: bool

text \<open>
  A response of \<open>fetch\<close> is an object with its \<open>ok\<close> and the text of its body. A status that is not successful is no error.
\<close>

definition fp_check :: "(fp_st, jsv) act" where
  "fp_check = Await [Req GET ''/api/v1/risk/verify-phase2'' JUndef JUndef] (\<lambda>rs. case hd rs of
      Inl err \<Rightarrow> Ret JUndef
    | Inr res \<Rightarrow> if \<not> truthy (fld res ''ok'') then Ret JUndef
        else (case JSON_parse (to_str (fld res ''body'')) of
            Inl err \<Rightarrow> Ret JUndef
          | Inr d \<Rightarrow> Upd (\<lambda>s. if fpMounted s then s\<lparr>fpData := d\<rparr> else s) (Ret JUndef)))"

definition fp_leave :: "fp_st \<Rightarrow> fp_st" where
  "fp_leave s = s\<lparr>fpMounted := False\<rparr>"

definition fp_banner :: "fp_st \<Rightarrow> string list option" where
  "fp_banner s = (let d = fpData s; managerFP = \<not> truthy (fld d ''manager_ip_bypassed''); idleFP = \<not> truthy (fld d ''idle_agents_safe'') in
     if \<not> truthy d \<or> (\<not> managerFP \<and> \<not> idleFP) then None
     else Some ((if managerFP then [to_str (nullish (fld (fld d ''details'') ''manager_ip_records'') (jn 0)) @ '' ban ghi''] else [])
       @ (if idleFP then [''Max score: '' @ to_str (nullish (fld (fld d ''details'') ''max_idle_score'') (jn 0))] else [])))"

section \<open>Invariants of the simulation\<close>

definition log_short :: "attack_st \<Rightarrow> bool" where
  "log_short s \<longleftrightarrow> length (attackLogs s) \<le> 61"

lemma addLog_short [simp]: "log_short (addLog msg kind s)"
  by (simp add: log_short_def addLog_def)

lemma addLog_fields [simp]:
  "attackStatus (addLog msg kind s) = attackStatus s" "attackLoading (addLog msg kind s) = attackLoading s"
  by (simp_all add: addLog_def)

lemma log_short_simps [simp]:
  "log_short (attackLoading_update f s) = log_short s" "log_short (attackStatus_update f' s) = log_short s"
  "log_short (handleAgentSelect ags i s) = log_short s" "log_short (attackPort_update g s) = log_short s"
  "log_short (attackDuration_update g s) = log_short s"
  by (simp_all add: log_short_def handleAgentSelect_def)

interpretation attack_hook: hook attack_ops ok log_short for ok
  by unfold_locales
    (auto simp: attack_ops_def launch_def stop_attack_def keeps_await split: if_splits intro!: keeps_intros)

definition attack_running :: "attack_st \<Rightarrow> bool" where
  "attack_running s \<longleftrightarrow> attackStatus s = ''running''"

lemma launch_settles:
  assumes "\<And>s. \<not> B (s\<lparr>attackLoading := False, attackStatus := ''stopped''\<rparr>)" and "\<And>msg kind s. B (addLog msg kind s) = B s"
  shows "settles B (launch p)"
proof (cases "\<not> truthy (attackAgent p) \<or> \<not> truthy (attackIp p)")
  case True
  then show ?thesis by (auto simp: launch_def assms(2) intro!: settles_UpdI)
next
  case False
  then show ?thesis by (auto simp: launch_def intro!: settles_UpdI2 owes_fin assms(1))
qed

interpretation attack_running: spinner attack_ops ok attack_running for ok
  by unfold_locales
    (auto simp: attack_ops_def stop_attack_def attack_running_def handleAgentSelect_def split: if_splits intro!: launch_settles)

interpretation attack_loading: spinner attack_ops ok attackLoading for ok
  by unfold_locales
    (auto simp: attack_ops_def stop_attack_def handleAgentSelect_def split: if_splits intro!: launch_settles)

section \<open>Properties\<close>

text \<open>
  The attack simulation is "in progress" only while its request is pending, and its log never has more than 61 lines: in every
  state that the page reaches, however often it is launched and stopped and whatever is answered, and at rest neither flag is up.
\<close>

theorem attack_at_rest:
  assumes "reach attack_ops ok (mounted m init_attack) (s, ps)" and "m \<in> attack_ops init_attack"
  shows "length (attackLogs s) \<le> 61 \<and> (ps = [] \<longrightarrow> attackStatus s \<noteq> ''running'' \<and> \<not> attackLoading s)"
proof -
  have "log_short s"
    using attack_hook.reach_inv [OF assms] by (simp add: log_short_def init_attack_def)
  moreover have "\<not> attack_running s \<and> \<not> attackLoading s" if "ps = []"
  proof -
    from assms(1) that have here: "reach attack_ops ok (mounted m init_attack) (s, [])" by simp
    have "settles attack_running m \<and> \<not> attack_running init_attack" "settles attackLoading m \<and> \<not> attackLoading init_attack"
      using attack_running.ops_settle [OF assms(2)] attack_loading.ops_settle [OF assms(2)]
      by (simp_all add: attack_running_def init_attack_def)
    with attack_running.idle_not_busy [OF here] attack_loading.idle_not_busy [OF here] show ?thesis by blast
  qed
  ultimately show ?thesis by (simp add: log_short_def attack_running_def)
qed

theorem attack_at_rest_witness: "length (attackLogs (handleAgentSelect [] ''a'' init_attack)) \<le> (61::nat)"
proof -
  let ?m = "Upd (handleAgentSelect [] ''a'') (Ret JUndef) :: (attack_st, jsv) act"
  have "?m \<in> attack_ops init_attack" by (force simp: attack_ops_def init_attack_def)
  moreover have "mounted ?m init_attack = (handleAgentSelect [] ''a'' init_attack, [])"
    by (simp add: mounted_def enqueue_def)
  ultimately show ?thesis
    using attack_at_rest [of "\<lambda>_ _. True" ?m "handleAgentSelect [] ''a'' init_attack" "[]"] by (simp add: reach_refl)
qed

text \<open>
  "Stop" does not stop an attack. It sends nothing; pressed while the launch is on its way, it says in the log that the attack was
  terminated, and when the manager accepts the launch the log goes on to say that it was sent.
\<close>

theorem stop_stops_nothing:
  assumes "truthy (attackAgent p)" and "truthy (attackIp p)" and "advance (launch p) s = (s1, Some (qs, c))"
  shows "asks (\<lambda>q. False) stop_attack
    \<and> (\<exists>ls. attackLogs (fst (advance (c [Inr res]) (fst (advance stop_attack s1)))) =
        ls @ [(''[STOPPED] Attack terminated by operator.'', ''ok''), (''Attack command sent successfully.'', ''ok'')])"
proof -
  have "c [Inr res] = Upd (addLog ''Attack command sent successfully.'' ''ok'')
      (Upd (\<lambda>s. s\<lparr>attackLoading := False, attackStatus := ''stopped''\<rparr>) (Ret JUndef))"
    using assms by (auto simp: launch_def api_post_def ask_def)
  then show ?thesis by (auto simp: stop_attack_def addLog_def)
qed

definition aimed :: attack_st where
  "aimed = init_attack\<lparr>attackAgent := JStr ''a1'', attackIp := JStr ''10.0.0.5''\<rparr>"

theorem stop_stops_nothing_witness:
  "\<exists>s1 qs c ls. advance (launch aimed) aimed = (s1, Some (qs, c))
    \<and> attackLogs (fst (advance (c [Inr JNull]) (fst (advance stop_attack s1)))) =
        ls @ [(''[STOPPED] Attack terminated by operator.'', ''ok''), (''Attack command sent successfully.'', ''ok'')]"
proof -
  have aim: "truthy (attackAgent aimed)" "truthy (attackIp aimed)" by (simp_all add: aimed_def)
  then obtain s1 qs c where "advance (launch aimed) aimed = (s1, Some (qs, c))"
    by (simp add: launch_def api_post_def ask_def)
  with stop_stops_nothing [OF aim this] show ?thesis by blast
qed

text \<open>
  The dialog only evaluates dry: every request it can send asks for a dry run, whatever score and agent are set.
\<close>

theorem dialog_only_dry:
  "asks (\<lambda>q. fld (req_body q) ''dry_run'' = JBool True) (handleRunEvaluation p)"
  by (auto simp: handleRunEvaluation_def evaluatePolicy_def api_post_def intro!: asks_intros)

text \<open>
  The score the dialog starts with lies in the range of the policy, for all whole bounds from 0 to 100 with an upper bound above 0.
\<close>

theorem start_score_in_range:
  assumes "fld policy ''min_score'' = jn (of_int a)" and "fld policy ''max_score'' = jn (of_int b)"
    and "0 \<le> a" and "a \<le> b" and "0 < b"
  shows "\<exists>m. mid_score policy = jn (of_int m) \<and> a \<le> m \<and> m \<le> b"
proof -
  let ?m = "\<lfloor>((of_int a + of_int b) / 2 :: rat) + 1 / 2\<rfloor>"
  have "js_or (jn (of_int b)) (jn 100) = jn (of_int b)" using assms(5) by simp
  moreover have "to_num (js_or (jn (of_int a)) (jn 0)) = Fin (of_int a)" by (cases "a = 0") simp_all
  ultimately have "mid_score policy = jn (of_int ?m)"
    using assms(1,2) by (simp add: mid_score_def round_half_up_def)
  moreover have "a \<le> ?m" using assms(4) by (simp add: le_floor_iff field_simps)
  moreover have "?m \<le> b"
  proof -
    have "(of_int a :: rat) \<le> of_int b" using assms(4) by simp
    then have "((of_int a + of_int b) / 2 :: rat) + 1 / 2 < of_int b + 1" by (simp add: field_simps)
    then show ?thesis by (simp add: floor_le_iff)
  qed
  ultimately show ?thesis by blast
qed

theorem start_score_in_range_witness:
  "\<exists>m. mid_score (JObj [(''min_score'', jn (of_int 71)), (''max_score'', jn (of_int 84))]) = jn (of_int m) \<and> 71 \<le> m \<and> m \<le> 84"
  by (rule start_score_in_range) simp_all

text \<open>
  A group with isolated agents looks harmless: the badge of its card has a status the badge does not know, so it gets the class of
  plain information, and only its tooltip speaks of isolation.
\<close>

theorem isolated_group_badge:
  assumes "truthy (fld g ''has_isolated_agents'')"
  shows "badge (JStr (fst (group_badge g))) (JStr (snd (group_badge g))) =
    Inr (''badge-info'', JStr ''Has Isolated Agents'', Some ''Isolation'')"
proof -
  have "badge (JStr ''danger'') (JStr ''Has Isolated Agents'') = Inr (''badge-info'', JStr ''Has Isolated Agents'', Some ''Isolation'')"
    by code_simp
  with assms show ?thesis by (simp add: group_badge_def)
qed

theorem isolated_group_badge_witness:
  "badge (JStr (fst (group_badge (JObj [(''has_isolated_agents'', JBool True)])))) (JStr ''Has Isolated Agents'') =
    Inr (''badge-info'', JStr ''Has Isolated Agents'', Some ''Isolation'')"
  using isolated_group_badge [of "JObj [(''has_isolated_agents'', JBool True)]"] by (simp add: group_badge_def)

text \<open>
  The false-positive banner never shows what a failed check says, and nothing reaches a dashboard that was left: an error, a
  refusal and a body that is not JSON leave the banner as it was, and so does every answer after leaving.
\<close>

theorem fp_failed_check_keeps:
  assumes "case f (Req GET ''/api/v1/risk/verify-phase2'' JUndef JUndef) of
      Inl _ \<Rightarrow> True
    | Inr res \<Rightarrow> \<not> truthy (fld res ''ok'') \<or> (\<exists>e. JSON_parse (to_str (fld res ''body'')) = Inl e) \<or> \<not> fpMounted s"
  shows "state_of (run (logging f) fp_check s []) = s"
  using assms by (auto simp: fp_check_def logging_def split: sum.splits)

theorem fp_failed_check_keeps_witness: "state_of (run (logging (\<lambda>_. Inl JNull)) fp_check \<lparr>fpData = JNull, fpMounted = True\<rparr> []) = \<lparr>fpData = JNull, fpMounted = True\<rparr>"
  by (rule fp_failed_check_keeps) simp

text \<open>
  The menu and the footer of a card keep their clicks to themselves: only a click on the card itself, or on its button for the
  details, opens the group; choosing an entry of the menu closes it.
\<close>

theorem card_clicks:
  "((''onClick'', g) \<in> set (cardCalls (card_click g target s)) \<longleftrightarrow>
      (''onClick'', g) \<in> set (cardCalls s) \<or> target = OnCard \<or> target = OnDetails)
   \<and> (target \<in> {OnEdit, OnDelete, OnCard, OnMembers, OnDetails, Outside} \<longrightarrow> \<not> menuOpen (card_click g target (s\<lparr>menuOpen := True\<rparr>)))"
  by (cases target) (auto simp: card_click_def called_def Let_def)

end
