(* ===== verification/IncidentRows.thy ===== *)
theory IncidentRows
  imports IncidentsPage Navigation SideScreens
begin

text \<open>
  What \<open>src/frontend/src/pages/Incidents.jsx\<close> shows of its two queues and what its rows, dialogs and footers do: the badges, the
  rows of the incident table with their buttons, the incident opened by the address, the alert queue with its rows, its dialog
  and the isolation of a host, the options of the filters. Texts in Vietnamese are written without diacritics, a rendered table
  is the data of its rows.
\<close>

section \<open>Badges\<close>

text \<open>The status and the label handed to the badge, and the tooltip around it.\<close>

definition status_badges :: "(string \<times> string \<times> string \<times> string) list" where
  "status_badges =
    [(''open'', ''danger'', ''Open'', ''StatusOpen''),
     (''investigating'', ''warning'', ''Investigating'', ''StatusInvestigating''),
     (''contained'', ''info'', ''Contained'', ''StatusContained''),
     (''resolved'', ''success'', ''Resolved'', ''StatusResolved''),
     (''false_positive'', ''neutral'', ''False Positive'', ''StatusFalsePositive''),
     (''closed'', ''neutral'', ''Closed'', ''StatusClosed'')]"

definition renderStatusBadge :: "jsv \<Rightarrow> string \<times> jsv \<times> string option" where
  "renderStatusBadge st = (case st of
      JStr s \<Rightarrow> (case map_of status_badges s of
          Some (b, l, tip) \<Rightarrow> (b, JStr l, Some tip)
        | None \<Rightarrow> (''neutral'', st, None))
    | _ \<Rightarrow> (''neutral'', st, None))"

definition renderSeverityBadge :: "jsv \<Rightarrow> (string \<times> jsv) res" where
  "renderSeverityBadge sev = rmap (\<lambda>s.
      if s = JStr ''critical'' then (''critical'', JStr ''CRITICAL'')
      else if s = JStr ''high'' then (''danger'', JStr ''HIGH'')
      else if s = JStr ''medium'' then (''warning'', JStr ''MEDIUM'')
      else (''info'', JStr ''LOW''))
    (if truthy sev then to_lower sev else Inr (JStr ''medium''))"

text \<open>The class and the text on the page, after \<open>Badge\<close>.\<close>

definition drawn :: "string \<Rightarrow> jsv \<Rightarrow> (string \<times> jsv) res" where
  "drawn st label = rmap (\<lambda>(cls, text', tip). (cls, text')) (badge (JStr st) label)"

section \<open>A row of the incident table\<close>

definition opt_has :: "jsv \<Rightarrow> string \<Rightarrow> bool res" where
  \<comment> \<open>\<open>v?.includes(q)\<close>, as a condition\<close>
  "opt_has v q = (if nullishp v then Inr False else has_text v q)"

definition opt_low_has :: "jsv \<Rightarrow> string \<Rightarrow> bool res" where
  \<comment> \<open>\<open>v?.toLowerCase().includes(q)\<close>\<close>
  "opt_low_has v q = (if nullishp v then Inr False else rbind (to_lower v) (\<lambda>l. has_text l q))"

definition row_tags :: "jsv \<Rightarrow> string list res" where
  "row_tags inc =
     rbind (ror (opt_has (fld inc ''title'') ''MSBuild'') (opt_has (fld inc ''id'') ''1127'')) (\<lambda>build.
     rbind (ror (opt_low_has (fld inc ''title'') ''c2'') (opt_low_has (fld inc ''title'') ''beacon'')) (\<lambda>c2.
       Inr ((if build then [''T1127.001''] else []) @ (if c2 then [''T1071''] else []))))"

definition rules_triggered :: "jsv \<Rightarrow> jsv" where
  "rules_triggered inc = js_or (fld inc ''rules_count'') (js_or (fld (fld inc ''rules'') ''length'') (jn 3))"

definition assignee_shown :: "jsv \<Rightarrow> jsv option" where
  "assignee_shown inc = (if fld inc ''assignedTo'' \<noteq> JStr ''Unassigned'' then Some (fld inc ''assignedTo'') else None)"

definition risk_colour :: "jsv \<Rightarrow> string" where
  "risk_colour v = (if num_le (Fin 80) (to_num v) then ''error'' else if num_le (Fin 50) (to_num v) then ''warning'' else ''success'')"

datatype row_button = View_Details | Assign_Analyst | Quick_Contain | Quick_Resolve

definition row_buttons :: "jsv \<Rightarrow> row_button list" where
  "row_buttons inc = (let st = fld inc ''status'' in
     [View_Details, Assign_Analyst]
     @ (if st \<noteq> JStr ''contained'' \<and> st \<noteq> JStr ''resolved'' then [Quick_Contain] else [])
     @ (if st \<noteq> JStr ''resolved'' then [Quick_Resolve] else []))"

text \<open>A button keeps its click from the row. \<open>shown\<close> is the incident whose storyboard was open in the rendering.\<close>

definition press_row :: "clock \<Rightarrow> jsv \<Rightarrow> jsv \<Rightarrow> row_button option \<Rightarrow> (incpage_st, jsv) act" where
  "press_row c shown inc b = (case b of
      None \<Rightarrow> Upd (selectedIncident_update (\<lambda>_. inc)) (Ret JUndef)
    | Some View_Details \<Rightarrow> Upd (selectedIncident_update (\<lambda>_. inc)) (Ret JUndef)
    | Some Assign_Analyst \<Rightarrow> Upd (openAssignModal inc) (Ret JUndef)
    | Some Quick_Contain \<Rightarrow> onQuickStatusChange c shown (fld inc ''id'') ''contained''
    | Some Quick_Resolve \<Rightarrow> onQuickStatusChange c shown (fld inc ''id'') ''resolved'')"

record inc_row =
  rowId :: jsv
  rowTitle :: jsv
  rowTags :: "string list"
  rowAgent :: jsv
  rowRules :: jsv
  rowSeverity :: "string \<times> jsv"
  rowStatus :: "string \<times> jsv"
  rowAssignee :: "jsv option"
  rowRisk :: "string \<times> string"
  rowCreated :: jsv
  rowButtons :: "row_button list"

definition incident_row :: "jsv \<Rightarrow> inc_row res" where
  "incident_row inc = rbind (get inc ''id'') (\<lambda>i. rbind (row_tags inc) (\<lambda>tags.
     rbind (rbind (renderSeverityBadge (fld inc ''severity'')) (\<lambda>(b, l). drawn b l)) (\<lambda>sev.
     rbind (let (b, l, tip) = renderStatusBadge (fld inc ''status'') in drawn b l) (\<lambda>st.
       Inr \<lparr>rowId = i, rowTitle = fld inc ''title'', rowTags = tags, rowAgent = fld inc ''agentId'',
            rowRules = rules_triggered inc, rowSeverity = sev, rowStatus = st, rowAssignee = assignee_shown inc,
            rowRisk = (to_str (fld inc ''riskScore'') @ '' / 100'', risk_colour (fld inc ''riskScore'')),
            rowCreated = fld inc ''createdAt'', rowButtons = row_buttons inc\<rparr>))))"

datatype 'r table_body = Waiting | Nothing_there | Table_rows "'r list"

definition incident_table :: "clock \<Rightarrow> incpage_st \<Rightarrow> inc_row table_body res" where
  "incident_table c s = rbind (paginatedIncidents c s) (\<lambda>xs.
     if loading s then Inr Waiting else if xs = [] then Inr Nothing_there else rmap Table_rows (rmapM incident_row xs))"

definition incident_footer :: "clock \<Rightarrow> incpage_st \<Rightarrow> string option res" where
  \<comment> \<open>only with more than one page\<close>
  "incident_footer c s = rbind (IncidentsPage.filteredIncidents c s) (\<lambda>all'. rmap (\<lambda>shown.
     if incidentPages all' > 1
     then Some (''Showing '' @ nat_str (length shown) @ '' of '' @ nat_str (length all') @ '' incidents (Page ''
       @ to_str (jn (of_int (incPage s))) @ '' of '' @ to_str (jn (of_int (incidentPages all'))) @ '')'')
     else None) (paginatedIncidents c s))"

definition error_page :: "incpage_st \<Rightarrow> string option" where
  "error_page s = (if truthy (error s) \<and> incidents s = []
     then Some (to_str (error s) @ ''. Vui long kiem tra ket noi voi Manager backend tai http://localhost:8005'') else None)"

section \<open>The incident of the address\<close>

text \<open>The effect of \<open>targetId\<close> and \<open>incidents\<close>: after the first rendering and whenever one of them changes.\<close>

definition open_target :: "jsv \<Rightarrow> incpage_st \<Rightarrow> incpage_st" where
  "open_target t s = (if truthy t \<and> incidents s \<noteq> []
     then (case List.find (\<lambda>i. to_str (fld i ''id'') = to_str t) (incidents s) of
         Some found \<Rightarrow> s\<lparr>selectedIncident := found\<rparr>
       | None \<Rightarrow> s)
     else s)"

definition close_storyboard :: "incpage_st \<Rightarrow> incpage_st" where
  "close_storyboard s = s\<lparr>selectedIncident := JNull\<rparr>"

section \<open>The options of the filters\<close>

definition choice :: "string \<Rightarrow> string \<Rightarrow> jsv" where
  "choice v l = JObj [(''value'', JStr v), (''label'', JStr l)]"

definition severityOptions :: "jsv list" where
  "severityOptions = [choice ''all'' ''All Severities'', choice ''critical'' ''Critical Severity'', choice ''high'' ''High Severity'',
     choice ''medium'' ''Medium Severity'', choice ''low'' ''Low Severity'']"

definition timeOptions :: "jsv list" where
  "timeOptions = [choice ''all'' ''All Time'', choice ''today'' ''Today'', choice ''7days'' ''Last 7 Days'', choice ''30days'' ''Last 30 Days'']"

definition agentOptions :: "jsv list \<Rightarrow> jsv list res" where
  "agentOptions ags = rmap ((#) (choice ''all'' ''All Agents'')) (rmapM (\<lambda>a. rmap (\<lambda>i. JObj [(''value'', i),
     (''label'', JStr (to_str (js_or (fld a ''name'') (fld a ''hostname'')) @ '' ('' @ to_str i @ '')''))]) (get a ''id'')) ags)"

definition pick_severity :: "string \<Rightarrow> incpage_st \<Rightarrow> incpage_st" where
  "pick_severity v s = s\<lparr>incSeverity := v, incPage := 1\<rparr>"

definition pick_agent :: "string \<Rightarrow> incpage_st \<Rightarrow> incpage_st" where
  "pick_agent v s = s\<lparr>incAgent := v, incPage := 1\<rparr>"

definition pick_time :: "string \<Rightarrow> incpage_st \<Rightarrow> incpage_st" where
  "pick_time v s = s\<lparr>incTime := v, incPage := 1\<rparr>"

definition type_search :: "string \<Rightarrow> incpage_st \<Rightarrow> incpage_st" where
  "type_search v s = s\<lparr>incSearch := v, incPage := 1\<rparr>"

section \<open>The alert queue\<close>

text \<open>The page's own state of the queue, over the agents it can isolate; the alerts come from \<open>useEvents\<close>.\<close>

record alertq_st = agents_st +
  activeQueue :: string
  showChart :: bool
  alertSearch :: string
  alertSeverity :: string
  alertPage :: int
  selectedAlert :: jsv

definition init_alertq :: "(string \<times> string) list \<Rightarrow> alertq_st" where
  "init_alertq ps = \<lparr>loading = True, error = JNull, agents = [], toasts = [], activeQueue = first_queue ps, showChart = False,
     alertSearch = [], alertSeverity = ''all'', alertPage = 1, selectedAlert = JNull\<rparr>"

definition switch_queue :: "string \<Rightarrow> alertq_st \<Rightarrow> alertq_st" where
  "switch_queue q s = s\<lparr>activeQueue := q\<rparr>"

definition toggle_chart :: "alertq_st \<Rightarrow> alertq_st" where
  "toggle_chart s = s\<lparr>showChart := \<not> showChart s\<rparr>"

definition type_alert_search :: "string \<Rightarrow> alertq_st \<Rightarrow> alertq_st" where
  "type_alert_search v s = s\<lparr>alertSearch := v, alertPage := 1\<rparr>"

definition pick_alert_severity :: "string \<Rightarrow> alertq_st \<Rightarrow> alertq_st" where
  "pick_alert_severity v s = s\<lparr>alertSeverity := v, alertPage := 1\<rparr>"

definition previous_alerts :: "int \<Rightarrow> int option" where
  "previous_alerts p = (if p = 1 then None else Some (max (p - 1) 1))"

text \<open>A name that is declared nowhere: its use throws.\<close>

definition undeclared :: "string \<Rightarrow> jsv res" where
  "undeclared name = Inl (JObj [(''name'', JStr ''ReferenceError''), (''message'', JStr (name @ '' is not defined''))])"

text \<open>Neither \<open>formatTime\<close> nor \<open>getSeverityVariant\<close> is declared in the file or imported.\<close>

definition alert_time :: "string \<Rightarrow> jsv \<Rightarrow> jsv res" where
  "alert_time otherwise ev = (if truthy (fld ev ''timestamp'') then undeclared ''formatTime'' else Inr (JStr otherwise))"

definition alert_severity :: "jsv \<Rightarrow> (jsv \<times> jsv) res" where
  \<comment> \<open>the variant and the text between the tags of the badge\<close>
  "alert_severity ev = rbind (undeclared ''getSeverityVariant'') (\<lambda>v.
     rmap (\<lambda>text'. (v, text')) (to_upper (js_or (fld ev ''severity'') (JStr ''INFO''))))"

definition alert_agent :: "string \<Rightarrow> jsv \<Rightarrow> jsv" where
  "alert_agent otherwise ev = js_or (fld ev ''agentId'') (js_or (fld ev ''agent_id'') (js_or (fld ev ''hostname'') (JStr otherwise)))"

definition alert_target :: "jsv \<Rightarrow> jsv" where
  "alert_target ev = js_or (fld ev ''process_name'') (js_or (fld ev ''processName'')
     (js_or (if truthy (fld ev ''pid'') then JStr (''PID: '' @ to_str (fld ev ''pid'')) else JStr '''')
       (js_or (fld ev ''sourceIp'') (js_or (fld ev ''destinationIp'') (JStr long_dash)))))"

record alert_cells =
  acTime :: jsv
  acSeverity :: "jsv \<times> jsv"
  acName :: jsv
  acDescription :: "jsv option"
  acAgent :: jsv
  acTarget :: jsv
  acTree :: string

definition alert_line :: "jsv \<Rightarrow> alert_cells res" where
  "alert_line ev = rbind (get ev ''id'') (\<lambda>_. rbind (alert_time ''Just now'' ev) (\<lambda>t. rbind (alert_severity ev) (\<lambda>sev.
     Inr \<lparr>acTime = t, acSeverity = sev,
       acName = js_or (fld ev ''type'') (js_or (fld ev ''rule_name'') (js_or (fld ev ''title'') (JStr ''Security Event''))),
       acDescription = (if truthy (fld ev ''description'') then Some (fld ev ''description'') else None),
       acAgent = alert_agent ''Unknown'' ev, acTarget = alert_target ev, acTree = alert_link ev\<rparr>)))"

definition alert_table :: "bool \<Rightarrow> alertq_st \<Rightarrow> jsv list \<Rightarrow> alert_cells table_body res" where
  "alert_table evLoading s evs = rbind (filteredEvents (alertSeverity s) (alertSearch s) evs) (\<lambda>xs.
     if evLoading then Inr Waiting else if xs = [] then Inr Nothing_there
     else rmap Table_rows (rmapM alert_line (shown_alerts (alertPage s) xs)))"

definition alert_footer :: "jsv list \<Rightarrow> string option" where
  "alert_footer xs = (if length xs > 10
     then Some (''Showing '' @ nat_str (min (length xs) 10) @ '' of '' @ nat_str (length xs) @ '' telemetry alerts'') else None)"

text \<open>The dialog of an alert: title, severity, time, agent, description and the alert as JSON.\<close>

definition alert_dialog :: "jsv \<Rightarrow> (string \<times> (jsv \<times> jsv) \<times> jsv \<times> jsv \<times> jsv option \<times> string) option res" where
  "alert_dialog ev = (if \<not> truthy ev then Inr None
     else rbind (alert_severity ev) (\<lambda>sev. rbind (alert_time ''N/A'' ev) (\<lambda>t.
       Inr (Some (''Alert: '' @ to_str (js_or (fld ev ''type'') (js_or (fld ev ''rule_name'') (JStr ''Telemetry Event''))), sev, t,
         alert_agent ''Unknown Host'' ev, if truthy (fld ev ''description'') then Some (fld ev ''description'') else None,
         JSON_stringify ev)))))"

definition open_alert :: "jsv \<Rightarrow> alertq_st \<Rightarrow> alertq_st" where
  "open_alert ev s = s\<lparr>selectedAlert := ev\<rparr>"

definition close_alert :: "alertq_st \<Rightarrow> alertq_st" where
  "close_alert s = s\<lparr>selectedAlert := JNull\<rparr>"

text \<open>The isolation from the row and from the dialog; \<open>confirmed\<close> is the answer to the question of the browser.\<close>

definition isolate_from_row :: "bool \<Rightarrow> jsv \<Rightarrow> (alertq_st, jsv) act" where
  "isolate_from_row confirmed ev = (let agentId = js_or (fld ev ''agentId'') (fld ev ''agent_id'') in
     if \<not> truthy agentId then Upd (push_toast (Toast_error ''No agent ID associated with this alert'')) (Ret JUndef)
     else if confirmed then thn (handleIsolate agentId) (Ret JUndef) else Ret JUndef)"

definition isolate_from_dialog :: "bool \<Rightarrow> jsv \<Rightarrow> (alertq_st, jsv) act" where
  "isolate_from_dialog confirmed ev = (let agentId = js_or (fld ev ''agentId'') (fld ev ''agent_id'') in
     if truthy agentId \<and> confirmed then thn (handleIsolate agentId) (Upd close_alert (Ret JUndef)) else Ret JUndef)"

section \<open>What the incident table shows\<close>

text \<open>An incident of high severity has the class of one of low severity, an open one that of a contained one.\<close>

lemma severity_classes:
  "rbind (renderSeverityBadge (JStr ''critical'')) (\<lambda>(b, l). drawn b l) = Inr (''badge-critical'', JStr ''CRITICAL'')"
  "rbind (renderSeverityBadge (JStr ''high'')) (\<lambda>(b, l). drawn b l) = Inr (''badge-info'', JStr ''HIGH'')"
  "rbind (renderSeverityBadge (JStr ''medium'')) (\<lambda>(b, l). drawn b l) = Inr (''badge-warning'', JStr ''MEDIUM'')"
  "rbind (renderSeverityBadge (JStr ''low'')) (\<lambda>(b, l). drawn b l) = Inr (''badge-info'', JStr ''LOW'')"
  by code_simp+

section \<open>The alert queue cannot be drawn\<close>

lemma alert_line_throws:
  "alert_line (JObj ps) = Inl e \<Longrightarrow> fld e ''name'' = JStr ''ReferenceError''"
  "\<exists>e. alert_line (JObj ps) = Inl e"
  by (auto simp: alert_line_def alert_time_def alert_severity_def undeclared_def split: if_splits)

lemma table_throws:
  assumes "filteredEvents (alertSeverity s) (alertSearch s) evs = Inr xs" and "xs \<noteq> []"
    and "shown_alerts (alertPage s) xs = JObj ps # ys"
  shows "\<exists>e. alert_table False s evs = Inl e \<and> fld e ''name'' = JStr ''ReferenceError''"
  using alert_line_throws [of ps] assms by (auto simp: alert_table_def rmap_def)

lemma unfiltered_alerts: "filteredEvents ''all'' [] (map JObj pss) = Inr (map JObj pss)"
  unfolding filteredEvents_def
  by (subst rfilter_total [where q = "\<lambda>_. True"]) (auto simp: alert_matches_def lower_def)

lemma mapped_events:
  "list_all (\<lambda>e. \<exists>ps. e = JObj ps) es \<Longrightarrow> \<exists>pss. rmapM (mapEvent c) es = Inr (map JObj pss) \<and> length pss = length es"
proof (induction es)
  case (Cons e es)
  then obtain pss where rest: "rmapM (mapEvent c) es = Inr (map JObj pss)" "length pss = length es" by auto
  moreover from Cons.prems obtain ps where "mapEvent c e = Inr (JObj ps)" by (auto simp: mapEvent_def non_null_def)
  ultimately have "rmapM (mapEvent c) (e # es) = Inr (map JObj (ps # pss))" by simp
  with rest(2) show ?case by (metis length_Cons)
qed simp

text \<open>
  C2: the alert queue works only while it is empty. If the manager has any event, then the address of the alerts, once the events
  have been fetched, throws in the rendering of its first row: the two functions it formats with do not exist.
\<close>

theorem alert_queue_throws:
  assumes "f (Req GET ''/events/'' JUndef JUndef) = Inr res" and "fld res ''data'' = JArr es"
    and "es \<noteq> []" and "list_all (\<lambda>e. \<exists>ps. e = JObj ps) es"
  shows "let q = init_alertq (parse_query (query_of ''/incidents?tab=alerts'')); s = fst (snd (run (logging f) (fetchEvents c) s0 [])) in
    activeQueue q = ''alerts'' \<and> \<not> loading s \<and> (\<exists>e. alert_table False q (events s) = Inl e \<and> fld e ''name'' = JStr ''ReferenceError'')"
proof -
  let ?q = "init_alertq (parse_query (query_of ''/incidents?tab=alerts''))"
  let ?s = "fst (snd (run (logging f) (fetchEvents c) s0 []))"
  obtain pss where mapped: "rmapM (mapEvent c) es = Inr (map JObj pss)" "length pss = length es"
    using mapped_events [OF assms(4)] by blast
  then obtain ps pss' where pss: "pss = ps # pss'" using assms(3) by (cases pss) auto
  have "events ?s = map JObj pss" and done': "\<not> loading ?s"
    using assms(1,2) mapped(1)
    by (simp_all add: fetchEvents_def run_simps getEvents_def api_get_def map_list_def)
  moreover have "shown_alerts 1 (map JObj pss) = JObj ps # take 9 (map JObj pss')"
    by (cases "length pss' \<le> 9") (simp_all add: pss shown_alerts_def js_slice_def slice_bound_def take_Cons' Let_def min_def)
  ultimately have "\<exists>e. alert_table False ?q (events ?s) = Inl e \<and> fld e ''name'' = JStr ''ReferenceError''"
    by (intro table_throws [where xs = "map JObj pss" and ps = ps and ys = "take 9 (map JObj pss')"])
      (simp_all add: init_alertq_def unfiltered_alerts pss del: list.map)
  moreover have "activeQueue ?q = ''alerts''" by (simp add: init_alertq_def) code_simp
  ultimately show ?thesis using done' by (simp add: Let_def)
qed

definition one_event :: response where
  "one_event = Inr (JObj [(''data'', JArr [JObj [(''id'', JStr ''e1''), (''severity'', JStr ''high'')]])])"

theorem alert_queue_throws_witness:
  "\<exists>e. alert_table False (init_alertq (parse_query (query_of ''/incidents?tab=alerts'')))
      (events (fst (snd (run (logging (\<lambda>_. one_event)) (fetchEvents stopped_clock) \<lparr>loading = True, events = []\<rparr> [])))) = Inl e
    \<and> fld e ''name'' = JStr ''ReferenceError''"
  using alert_queue_throws [of "\<lambda>_. one_event" "JObj [(''data'', JArr [JObj [(''id'', JStr ''e1''), (''severity'', JStr ''high'')]])]"
      "[JObj [(''id'', JStr ''e1''), (''severity'', JStr ''high'')]]" stopped_clock "\<lparr>loading = True, events = []\<rparr>"]
  by (simp add: one_event_def Let_def)

section \<open>Rows and buttons\<close>

text \<open>
  Every incident the page can show is said to have triggered three rules: the mapper keeps neither the number nor the list of
  the rules, and the code falls back to 3.
\<close>

lemma always_three_rules:
  assumes "reach (incidents_ops c) ok (mounted (loadIncidents c True) init_incidents) (s, ps)" and "inc \<in> set (incidents s)"
  shows "rules_triggered inc = jn 3"
proof -
  have "incidents_mapped init_incidents" and "loadIncidents c True \<in> incidents_ops c init_incidents"
    by (simp_all add: incidents_mapped_def init_incidents_def incidents_ops_def)
  from incidents_hook.reach_inv [OF assms(1) this(2,1)] assms(2) have "mapped_shape inc" by (simp add: incidents_mapped_def)
  then show ?thesis by (simp add: rules_triggered_def mapped_shape_fld)
qed

text \<open>Containing is offered for everything that is not contained or resolved, closed incidents and false alarms included.\<close>

lemma contain_offered: "Quick_Contain \<in> set (row_buttons inc) \<longleftrightarrow> fld inc ''status'' \<notin> {JStr ''contained'', JStr ''resolved''}"
  by (auto simp: row_buttons_def Let_def)

text \<open>Nothing is sent before a button that changes the status is pressed.\<close>

lemma quiet_rows: "asks (\<lambda>_. False) (press_row c shown inc b)" if "b \<notin> {Some Quick_Contain, Some Quick_Resolve}"
  using that by (cases b) (auto simp: press_row_def split: row_button.splits)

text \<open>
  While the address names an incident its storyboard cannot stay closed: the next load of the list opens it again.
\<close>

lemma closed_storyboard_reopens:
  assumes "answer f (getIncidents c) = Inr d" and "truthy t"
    and "List.find (\<lambda>i. to_str (fld i ''id'') = to_str t) (elems d) = Some inc"
  shows "selectedIncident (open_target t (fst (snd (run (logging f) (loadIncidents c False) (close_storyboard s) [])))) = inc"
  using assms by (auto simp: open_target_def loadIncidents_def run_simps split: list.splits)

section \<open>Isolating the host of an alert\<close>

text \<open>
  One isolation is requested, and only for an alert that names its agent and after a confirmation; an alert that is listed under
  its host name cannot be isolated from here.
\<close>

lemma alert_isolation_request:
  "snd (snd (run (logging f) (isolate_from_row confirmed ev) s [])) = (let i = js_or (fld ev ''agentId'') (fld ev ''agent_id'');
      q = Req POST (''/agents/'' @ to_str i @ ''/isolate'') JUndef JUndef in
    if \<not> truthy i \<or> \<not> confirmed then []
    else if isl (f q) then [q] else [q, Req GET ''/agents/'' JUndef JUndef])"
  by (cases "f (Req POST (''/agents/'' @ to_str (js_or (fld ev ''agentId'') (fld ev ''agent_id'')) @ ''/isolate'') JUndef JUndef)")
    (simp_all add: isolate_from_row_def Let_def run_simps handleIsolate_def isolation_change_def isolateAgent_def api_post_def
      fetchAgents_def getAgents_def api_get_def split: sum.splits)

lemma host_name_not_isolated:
  assumes "\<not> truthy (fld ev ''agentId'')" and "\<not> truthy (fld ev ''agent_id'')" and "truthy (fld ev ''hostname'')"
  shows "alert_agent ''Unknown'' ev = fld ev ''hostname''"
    and "run (logging f) (isolate_from_row confirmed ev) s [] =
      (Inr JUndef, push_toast (Toast_error ''No agent ID associated with this alert'') s, [])"
  using assms by (simp_all add: alert_agent_def isolate_from_row_def js_or_def Let_def)

text \<open>The footer of the alerts counts a full page on the last page as well.\<close>

lemma footer_of_last_page:
  "length (shown_alerts 2 (replicate 11 JNull)) = 1"
  "alert_footer (replicate 11 JNull) = Some ''Showing 10 of 11 telemetry alerts''"
  by code_simp+

end
