(* ===== verification/InventoryRows.thy ===== *)
theory InventoryRows
  imports AgentsPage IncidentRows TreeView
begin

text \<open>
  The rows of two screens: the inventory of \<open>src/frontend/src/pages/Agents.jsx\<close> with its buttons, its pages under the poll and
  the key figures of the host groups, and the process rows of \<open>components/process/TreeNode.jsx\<close> with their badges and kill
  buttons. A rendered table is the data of its rows; colours are named by their meaning.
\<close>

section \<open>The inventory\<close>

definition status_opts :: "jsv list" where
  "status_opts = [choice ''all'' ''All Status'', choice ''online'' ''Online'', choice ''offline'' ''Offline'',
     choice ''isolated'' ''Isolated'']"

record inv_st = agents_st +
  invSearch :: string
  invStatus :: string
  invPage :: int
  invSelected :: jsv
  invVisited :: "string list"

definition init_inv :: inv_st where
  "init_inv = \<lparr>loading = True, error = JNull, agents = [], toasts = [], invSearch = [], invStatus = ''all'', invPage = 1,
     invSelected = JNull, invVisited = []\<rparr>"

text \<open>The effect of the two filters, between two renderings.\<close>

definition page_effect :: "inv_st \<Rightarrow> inv_st \<Rightarrow> inv_st" where
  "page_effect before now = (if invSearch before \<noteq> invSearch now \<or> invStatus before \<noteq> invStatus now
     then now\<lparr>invPage := 1\<rparr> else now)"

definition type_inventory :: "string \<Rightarrow> inv_st \<Rightarrow> inv_st" where
  "type_inventory v s = page_effect s (s\<lparr>invSearch := v\<rparr>)"

definition pick_inventory :: "string \<Rightarrow> inv_st \<Rightarrow> inv_st" where
  "pick_inventory v s = page_effect s (s\<lparr>invStatus := v\<rparr>)"

text \<open>
  The badge of a row is given a variant and a text between its tags; it reads neither, and gets no status and no label.
\<close>

definition status_variant :: "jsv \<Rightarrow> string" where
  "status_variant a = (if fld a ''status'' = JStr ''online'' then ''success''
     else if fld a ''status'' = JStr ''isolated'' then ''error'' else ''neutral'')"

definition status_children :: "jsv \<Rightarrow> jsv res" where
  "status_children a = to_upper (js_or (fld a ''status'') (JStr ''OFFLINE''))"

definition unlabelled_badge :: "string \<Rightarrow> jsv \<Rightarrow> (string \<times> jsv \<times> string option) res" where
  \<comment> \<open>\<open><Badge variant=...>children</Badge>\<close>\<close>
  "unlabelled_badge variant children = badge JUndef JUndef"

definition load_text :: "jsv \<Rightarrow> string" where
  "load_text v = (if nullishp v then long_dash else num_str (round_half_up (to_num v)) @ ''%'')"

datatype inv_button = Inv_Details | Inv_Tree | Inv_Isolate | Inv_Unisolate

definition inventory_buttons :: "jsv \<Rightarrow> inv_button list" where
  "inventory_buttons a = [Inv_Details, Inv_Tree, if fld a ''status'' \<noteq> JStr ''isolated'' then Inv_Isolate else Inv_Unisolate]"

record inv_row =
  irId :: jsv
  irHost :: jsv
  irAddress :: jsv
  irBadge :: "string \<times> jsv \<times> string option"
  irLoad :: "string \<times> string"
  irIsolation :: string
  irButtons :: "inv_button list"

definition inventory_line :: "jsv \<Rightarrow> inv_row res" where
  "inventory_line a = rbind (get a ''id'') (\<lambda>i. rbind (status_children a) (\<lambda>children.
     rbind (unlabelled_badge (status_variant a) children) (\<lambda>b.
       Inr \<lparr>irId = i, irHost = js_or (fld a ''hostname'') (JStr long_dash),
            irAddress = js_or (fld a ''ip_address'') (js_or (fld a ''ip'') (JStr long_dash)), irBadge = b,
            irLoad = (load_text (fld a ''cpu''), load_text (fld a ''ram'')),
            irIsolation = (if truthy (fld a ''is_isolated'') then ''Isolated'' else ''Online''),
            irButtons = inventory_buttons a\<rparr>)))"

definition inventory_table :: "inv_st \<Rightarrow> inv_row table_body res" where
  "inventory_table s = rbind (AgentsPage.filteredAgents (invSearch s) (invStatus s) (agents s)) (\<lambda>xs.
     if loading s then Inr Waiting else if xs = [] then Inr Nothing_there
     else rmap Table_rows (rmapM inventory_line (paginatedAgents (invPage s) xs)))"

definition inventory_footer :: "inv_st \<Rightarrow> ((int \<times> int) \<times> nat) option res" where
  \<comment> \<open>with the page buttons, only for more than one page\<close>
  "inventory_footer s = rmap (\<lambda>xs. if agentPages xs > 1 then Some (shown_range (invPage s) xs, length xs) else None)
     (AgentsPage.filteredAgents (invSearch s) (invStatus s) (agents s))"

text \<open>A click on a row or on one of its buttons, which keep it from the row; the answer to the question of the browser.\<close>

definition isolation_question :: "inv_button \<Rightarrow> jsv \<Rightarrow> string" where
  "isolation_question b a = (let who = to_str (js_or (fld a ''hostname'') (fld a ''id'')) in
     if b = Inv_Isolate then ''Isolate endpoint '' @ who @ '' immediately?'' else ''Restore network access for '' @ who @ ''?'')"

definition press_inventory :: "bool \<Rightarrow> jsv \<Rightarrow> inv_button option \<Rightarrow> (inv_st, jsv) act" where
  "press_inventory confirmed a b = (case b of
      None \<Rightarrow> Upd (invSelected_update (\<lambda>_. a)) (Ret JUndef)
    | Some Inv_Details \<Rightarrow> Upd (invSelected_update (\<lambda>_. a)) (Ret JUndef)
    | Some Inv_Tree \<Rightarrow> Upd (invVisited_update (\<lambda>vs. vs @ [endpoint_link a])) (Ret JUndef)
    | Some Inv_Isolate \<Rightarrow> if confirmed then thn (handleIsolate (fld a ''id'')) (Ret JUndef) else Ret JUndef
    | Some Inv_Unisolate \<Rightarrow> if confirmed then thn (handleUnisolate (fld a ''id'')) (Ret JUndef) else Ret JUndef)"

definition close_agent :: "inv_st \<Rightarrow> inv_st" where
  "close_agent = invSelected_update (\<lambda>_. JNull)"

section \<open>Process rows\<close>

text \<open>\<open>SYSTEM_REGEX\<close>; \<open>^System$\<close> is the whole name.\<close>

definition is_system_process :: "string \<Rightarrow> bool" where
  "is_system_process name \<longleftrightarrow>
     any_in name [''svchost.exe'', ''dwm.exe'', ''taskhostw.exe'', ''runtimebroker.exe'', ''spoolsv.exe'', ''audiodg.exe'',
       ''ctfmon.exe'', ''fontdrvhost.exe'']
     \<or> lower name = ''system'' \<or> prefix ''[system'' (lower name)"

datatype node_look = Look_suspicious | Look_user | Look_protected | Look_system | Look_plain

definition node_look :: "jsv \<Rightarrow> node_look" where
  "node_look node = (if truthy (fld node ''is_suspicious'') then Look_suspicious
     else if is_user_process (node_name node) then Look_user
     else if is_protected (node_name node) then Look_protected
     else if is_system_process (node_name node) then Look_system else Look_plain)"

datatype caret = Unfolded | Folded | Leaf

definition node_caret :: "jsv list \<Rightarrow> jsv \<Rightarrow> caret" where
  "node_caret ex node = (if elems (fld node ''children'') = [] then Leaf
     else if fld node ''pid'' \<in> set ex then Unfolded else Folded)"

record node_row =
  nrPid :: jsv
  nrCaret :: caret
  nrLook :: node_look
  nrName :: string
  nrParent :: "jsv option"
  nrSuspicious :: bool
  nrPpl :: bool
  nrExe :: "jsv option"
  nrKill :: "(bool \<times> bool) option"

text \<open>The kill buttons of a row: highlighted for a flagged process, disabled while one is being killed.\<close>

definition node_row_of :: "jsv list \<Rightarrow> bool \<Rightarrow> bool \<Rightarrow> jsv \<Rightarrow> node_row" where
  "node_row_of ex allowKillAll busy node = (let name = node_name node; sus = truthy (fld node ''is_suspicious'') in
     \<lparr>nrPid = fld node ''pid'', nrCaret = node_caret ex node, nrLook = node_look node,
      nrName = (if name = [] then ''unknown'' else name),
      nrParent = (if nullishp (fld node ''parent_pid'') then None else Some (fld node ''parent_pid'')),
      nrSuspicious = sus, nrPpl = is_protected name,
      nrExe = (if truthy (fld node ''exe'') then Some (fld node ''exe'') else None),
      nrKill = (if showActions allowKillAll node then Some (sus \<or> is_user_process name, busy) else None)\<rparr>)"

function node_rows :: "jsv list \<Rightarrow> bool \<Rightarrow> bool \<Rightarrow> jsv \<Rightarrow> node_row list" where
  "node_rows ex allowKillAll busy nodes = concat (map (\<lambda>n. node_row_of ex allowKillAll busy n #
     (if fld n ''pid'' \<in> set ex then node_rows ex allowKillAll busy (fld n ''children'') else [])) (filter truthy (elems nodes)))"
  by pat_completeness auto
termination
  by (relation "measure (\<lambda>(_, _, _, v). size v)") (auto simp: size_child_elems)

declare node_rows.simps [simp del]

text \<open>A click on a row unfolds it; the buttons keep their click from it.\<close>

datatype node_click = On_row | Kill_pid | Kill_tree

definition press_node :: "node_click \<Rightarrow> jsv \<Rightarrow> tree_st \<Rightarrow> tree_st" where
  "press_node k node s = (case k of
      On_row \<Rightarrow> if elems (fld node ''children'') = [] then s else tree_toggle (fld node ''pid'') s
    | Kill_pid \<Rightarrow> openKillModal node False s
    | Kill_tree \<Rightarrow> openKillModal node True s)"

section \<open>The two tabs of the process page\<close>

datatype tree_content = Tree_missing | Tree_shown "node_row list"

definition renderTreeContent :: "bool \<Rightarrow> bool \<Rightarrow> jsv \<Rightarrow> tree_st \<Rightarrow> tree_content" where
  "renderTreeContent allowKillAll busy tree s =
     (if \<not> truthy tree \<or> \<not> is_array (tree_roots tree) \<or> elems (tree_roots tree) = [] then Tree_missing
      else Tree_shown (node_rows (expandedPids s) allowKillAll busy (tree_roots tree)))"

record flagged_row =
  flPid :: jsv
  flName :: jsv
  flPath :: jsv
  flReason :: jsv
  flLineage :: "(jsv \<times> jsv) list"
  flKill :: bool

definition flagged_line :: "bool \<Rightarrow> jsv \<Rightarrow> flagged_row res" where
  \<comment> \<open>both kill buttons are always there; \<open>flKill\<close> tells whether they are enabled\<close>
  "flagged_line busy p = rbind (get p ''pid'') (\<lambda>i. rmap (\<lambda>chain.
     \<lparr>flPid = i, flName = fld p ''name'', flPath = js_or (fld p ''exe'') (js_or (fld p ''path'') (js_or (fld p ''cmdline'') (JStr ''''))),
      flReason = js_or (fld p ''reason'') (JStr ''Malicious heuristic flagged''), flLineage = chain, flKill = \<not> busy\<rparr>)
     (rmapM (\<lambda>q. rmap (\<lambda>i'. (fld q ''name'', i')) (get q ''pid'')) (elems (fld p ''parent_chain''))))"

datatype process_tab = Priority_tab "flagged_row list" | Loading_tab | All_tab tree_content | No_tab

definition process_page :: "bool \<Rightarrow> bool \<Rightarrow> jsv \<Rightarrow> jsv list \<Rightarrow> tree_st \<Rightarrow> process_tab res" where
  "process_page loading' busy tree flagged s =
     (if treeTab s = ''priority'' then rmap Priority_tab (rmapM (flagged_line busy) flagged)
      else Inr (if treeTab s \<noteq> ''all'' then No_tab else if loading' then Loading_tab
        else All_tab (renderTreeContent True busy tree s)))"

section \<open>What the rows of the inventory tell\<close>

lemma empty_badge: "badge JUndef JUndef = Inr (''badge-info'', JUndef, None)"
  by code_simp

lemma agent_line_shown:
  assumes "mapAgent a = Inr m"
  shows "\<exists>r. inventory_line m = Inr r \<and> irBadge r = (''badge-info'', JUndef, None)
    \<and> irIsolation r = (if truthy (fld a ''is_isolated'') then ''Isolated'' else ''Online'')
    \<and> (Inv_Unisolate \<in> set (irButtons r) \<longleftrightarrow> mapStatus (fld a ''status'') (fld a ''is_isolated'') = ''isolated'')"
  using assms mapStatus_range [of "fld a ''status''" "fld a ''is_isolated''"]
  by (auto simp: mapAgent_def non_null_def inventory_line_def status_children_def unlabelled_badge_def empty_badge
      inventory_buttons_def split: if_splits)

lemma agent_lines_shown:
  "rmapM mapAgent raw = Inr ags \<Longrightarrow> \<exists>rows. rmapM inventory_line ags = Inr rows \<and>
     list_all2 (\<lambda>a r. irBadge r = (''badge-info'', JUndef, None)
       \<and> irIsolation r = (if truthy (fld a ''is_isolated'') then ''Isolated'' else ''Online'')
       \<and> (Inv_Unisolate \<in> set (irButtons r) \<longleftrightarrow> mapStatus (fld a ''status'') (fld a ''is_isolated'') = ''isolated'')) raw rows"
proof (induction raw arbitrary: ags)
  case (Cons a raw)
  then obtain m ms where m: "mapAgent a = Inr m" "rmapM mapAgent raw = Inr ms" "ags = m # ms"
    by (auto simp: rbind_eq_Inr)
  from Cons.IH [OF m(2)] agent_line_shown [OF m(1)] m(3) show ?case by auto
qed simp

text \<open>The poll of the inventory, answered with a list of agents.\<close>

lemma poll_answered:
  fixes s :: inv_st
  assumes "f (Req GET ''/agents/'' JUndef JUndef) = Inr res" and "fld res ''data'' = JArr raw" and "rmapM mapAgent raw = Inr ags"
  shows "fst (snd (run (logging f) fetchAgents (s :: inv_st) [])) = s\<lparr>agents := ags, error := JNull, loading := False\<rparr>"
  using assms by (simp add: fetchAgents_def run_simps getAgents_def api_get_def)

text \<open>
  C32: the inventory does not tell the status of an agent: the badge of every row is empty and of one class, and the other column says
  "Online" of every host that is not isolated, a dead one included. The status only decides which of the two isolation buttons is
  there: a host in quarantine that is not marked isolated reads "Online" and offers to end its isolation.
\<close>

theorem status_never_shown:
  fixes s :: inv_st
  assumes "f (Req GET ''/agents/'' JUndef JUndef) = Inr res" and "fld res ''data'' = JArr raw" and "rmapM mapAgent raw = Inr ags"
  shows "\<exists>rows. rmapM inventory_line (agents (fst (snd (run (logging f) fetchAgents (s :: inv_st) [])))) = Inr rows
    \<and> list_all2 (\<lambda>a r. irBadge r = (''badge-info'', JUndef, None)
        \<and> irIsolation r = (if truthy (fld a ''is_isolated'') then ''Isolated'' else ''Online'')
        \<and> (Inv_Unisolate \<in> set (irButtons r) \<longleftrightarrow> mapStatus (fld a ''status'') (fld a ''is_isolated'') = ''isolated'')) raw rows"
  unfolding poll_answered [of f, OF assms(1-3)] using agent_lines_shown [OF assms(3)] by simp

definition dead_agent :: jsv where
  "dead_agent = JObj [(''id'', JStr ''a1''), (''status'', JStr ''DEAD''), (''is_isolated'', JBool False)]"

definition dead_agent_row :: jsv where
  "dead_agent_row = (case mapAgent dead_agent of Inr m \<Rightarrow> m | Inl e \<Rightarrow> e)"

lemma dead_agent_mapped: "mapAgent dead_agent = Inr dead_agent_row"
  by (simp add: dead_agent_row_def dead_agent_def mapAgent_def)

theorem status_never_shown_witness:
  "\<exists>r. rmapM inventory_line (agents (fst (snd (run (logging (\<lambda>_. Inr (JObj [(''data'', JArr [dead_agent])]))) fetchAgents init_inv [])))) = Inr [r]
    \<and> irBadge r = (''badge-info'', JUndef, None) \<and> irIsolation r = ''Online'' \<and> Inv_Unisolate \<notin> set (irButtons r)"
proof -
  let ?res = "JObj [(''data'', JArr [dead_agent])]"
  have "rmapM mapAgent [dead_agent] = Inr [dead_agent_row]" by (simp add: dead_agent_mapped)
  from status_never_shown [of "\<lambda>_. Inr ?res" ?res, OF refl _ this, where s = init_inv]
  obtain rows where rows: "rmapM inventory_line (agents (fst (snd (run (logging (\<lambda>_. Inr ?res)) fetchAgents init_inv [])))) = Inr rows"
    "list_all2 (\<lambda>a r. irBadge r = (''badge-info'', JUndef, None)
        \<and> irIsolation r = (if truthy (fld a ''is_isolated'') then ''Isolated'' else ''Online'')
        \<and> (Inv_Unisolate \<in> set (irButtons r) \<longleftrightarrow> mapStatus (fld a ''status'') (fld a ''is_isolated'') = ''isolated'')) [dead_agent] rows"
    by auto
  have "fld dead_agent ''is_isolated'' = JBool False" and "mapStatus (fld dead_agent ''status'') (JBool False) = ''offline''"
    by code_simp+
  with rows show ?thesis by (auto simp: list_all2_Cons1)
qed

text \<open>
  C34: the page is only reset by the filters. When the poll leaves eight matching agents or fewer while a later page is shown, the table
  has no row and no page button is left, although agents match. The poll leaves the page and the filters as they are, so that the
  next poll with one to eight matching agents ends the same way; a change of the status or of the search goes back to the first
  page.
\<close>

theorem inventory_page_lost:
  fixes s :: inv_st
  assumes "f (Req GET ''/agents/'' JUndef JUndef) = Inr res" and "fld res ''data'' = JArr raw" and "rmapM mapAgent raw = Inr ags"
    and "AgentsPage.filteredAgents (invSearch s) (invStatus s) ags = Inr xs"
    and "xs \<noteq> []" and "length xs \<le> 8" and "2 \<le> invPage s"
  shows "let s' = fst (snd (run (logging f) fetchAgents s [])) in
    inventory_table s' = Inr (Table_rows []) \<and> inventory_footer s' = Inr None
    \<and> invPage s' = invPage s \<and> invStatus s' = invStatus s \<and> invSearch s' = invSearch s
    \<and> (\<forall>v. v \<noteq> invStatus s \<longrightarrow> invPage (pick_inventory v s') = 1) \<and> (\<forall>v. v \<noteq> invSearch s \<longrightarrow> invPage (type_inventory v s') = 1)"
proof -
  have "0 < (of_nat (length xs) :: rat) / 8" and "(of_nat (length xs) :: rat) / 8 \<le> 1" using assms(5,6) by simp_all
  then have "\<lceil>(of_nat (length xs) :: rat) / 8\<rceil> = 1" by (simp add: ceiling_eq_iff)
  then have one: "agentPages xs = 1" by (simp add: agentPages_def page_count_def)
  have "length xs \<le> nat (invPage s * 8 - 8)" using assms(6,7) by linarith
  then have "page_slice 8 (invPage s) xs = []"
    using assms(7) by (auto simp: page_slice_def js_slice_def slice_bound_def min_def Let_def)
  then show ?thesis
    unfolding poll_answered [of f, OF assms(1-3)] using assms(4-7) one
    by (auto simp: Let_def inventory_table_def inventory_footer_def paginatedAgents_def pick_inventory_def
        type_inventory_def page_effect_def)
qed

theorem inventory_page_lost_witness:
  "let s' = fst (snd (run (logging (\<lambda>_. Inr (JObj [(''data'', JArr [dead_agent])]))) fetchAgents (init_inv\<lparr>invPage := 2\<rparr>) [])) in
    inventory_table s' = Inr (Table_rows []) \<and> inventory_footer s' = Inr None"
proof -
  let ?res = "JObj [(''data'', JArr [dead_agent])]"
  have "rmapM mapAgent [dead_agent] = Inr [dead_agent_row]" by (simp add: dead_agent_mapped)
  moreover have "AgentsPage.filteredAgents (invSearch (init_inv\<lparr>invPage := 2\<rparr>)) (invStatus (init_inv\<lparr>invPage := 2\<rparr>)) [dead_agent_row]
      = Inr [dead_agent_row]" by code_simp
  ultimately show ?thesis
    using inventory_page_lost [of "\<lambda>_. Inr ?res" ?res "[dead_agent]" "[dead_agent_row]" "init_inv\<lparr>invPage := 2\<rparr>" "[dead_agent_row]"]
    by (simp add: Let_def init_inv_def)
qed

text \<open>What the isolation buttons of a row send: nothing without the confirmation, otherwise one change and, if it was taken, the list.\<close>

lemma inventory_requests:
  "snd (snd (run (logging f) (press_inventory confirmed a (Some b)) s [])) = (let i = to_str (fld a ''id'');
      q = Req POST (''/agents/'' @ i @ (if b = Inv_Isolate then ''/isolate'' else ''/unisolate'')) JUndef JUndef in
    if b \<notin> {Inv_Isolate, Inv_Unisolate} \<or> \<not> confirmed then []
    else if isl (f q) then [q] else [q, Req GET ''/agents/'' JUndef JUndef])"
proof (cases b)
  case Inv_Isolate
  then show ?thesis
    by (cases "f (Req POST (''/agents/'' @ to_str (fld a ''id'') @ ''/isolate'') JUndef JUndef)")
      (simp_all add: press_inventory_def Let_def run_simps handleIsolate_def isolation_change_def isolateAgent_def api_post_def
        fetchAgents_def getAgents_def api_get_def split: sum.splits)
next
  case Inv_Unisolate
  then show ?thesis
    by (cases "f (Req POST (''/agents/'' @ to_str (fld a ''id'') @ ''/unisolate'') JUndef JUndef)")
      (simp_all add: press_inventory_def Let_def run_simps handleUnisolate_def isolation_change_def unisolateAgent_def api_post_def
        fetchAgents_def getAgents_def api_get_def split: sum.splits)
qed (simp_all add: press_inventory_def)

section \<open>What the rows of the process tree offer\<close>

text \<open>The rows are those of the unfolded nodes, from top to bottom.\<close>

lemma node_rows_pids: "map nrPid (node_rows ex allowKillAll busy nodes) = shown_pids ex nodes"
proof (induction ex nodes rule: shown_pids.induct)
  case (1 ex nodes)
  have "map nrPid (node_row_of ex allowKillAll busy n #
      (if fld n ''pid'' \<in> set ex then node_rows ex allowKillAll busy (fld n ''children'') else []))
    = fld n ''pid'' # (if fld n ''pid'' \<in> set ex then shown_pids ex (fld n ''children'') else [])"
    if "n \<in> set (filter truthy (elems nodes))" for n
    using 1 that by (auto simp: node_row_of_def Let_def)
  then show ?case
    unfolding node_rows.simps [of ex _ _ nodes] shown_pids.simps [of ex nodes] map_concat map_map comp_def
    by (intro arg_cong [where f = concat] map_cong refl) blast
qed

lemma node_rows_from:
  "r \<in> set (node_rows ex allowKillAll busy nodes) \<Longrightarrow> \<exists>n. truthy n \<and> r = node_row_of ex allowKillAll busy n"
proof (induction ex nodes rule: shown_pids.induct)
  case (1 ex nodes)
  from 1(2) obtain n where "n \<in> set (filter truthy (elems nodes))" and
    "r = node_row_of ex allowKillAll busy n \<or> fld n ''pid'' \<in> set ex \<and> r \<in> set (node_rows ex allowKillAll busy (fld n ''children''))"
    unfolding node_rows.simps [of ex _ _ nodes] by (auto split: if_splits)
  with 1(1) show ?case by auto
qed

text \<open>
  C37: a process is taken for protected by its name alone: whatever starts with "system" or contains "lsass.exe", in any case and with
  anything before and after it, has the badge of a protected process and no kill button, in the tab where every process can be
  killed and flagged as suspicious too.
\<close>

theorem look_alike_not_killable:
  assumes "r \<in> set (node_rows ex allowKillAll busy nodes)"
    and "prefix ''system'' (lower (nrName r)) \<or> str_includes (lower (nrName r)) ''lsass.exe''"
  shows "nrPpl r \<and> nrKill r = None"
proof -
  from node_rows_from [OF assms(1)] obtain n where n: "r = node_row_of ex allowKillAll busy n" by blast
  have "\<not> (prefix ''system'' (lower ''unknown'') \<or> str_includes (lower ''unknown'') ''lsass.exe'')" by code_simp
  with assms(2) n have "nrName r = node_name n" by (auto simp: node_row_of_def Let_def split: if_splits)
  with assms(2) have "is_protected (node_name n)" by (auto simp: is_protected_def any_in_def)
  then show ?thesis by (simp add: n node_row_of_def showActions_def Let_def)
qed

text \<open>A miner that calls itself after the system, flagged by the manager.\<close>

definition fake_system :: jsv where
  "fake_system = JObj [(''pid'', jn 66), (''name'', JStr ''SystemMiner.exe''), (''is_suspicious'', JBool True)]"

lemma fake_system_rows: "node_rows [] True False (JArr [fake_system]) = [node_row_of [] True False fake_system]"
  by (subst node_rows.simps) (simp add: fake_system_def)

lemma fake_system_row:
  "nrName (node_row_of [] True False fake_system) = ''SystemMiner.exe'' \<and> nrLook (node_row_of [] True False fake_system) = Look_suspicious"
  "prefix ''system'' (lower ''SystemMiner.exe'')"
  by code_simp+

theorem look_alike_not_killable_witness:
  "\<exists>r. node_rows [] True False (JArr [fake_system]) = [r] \<and> nrLook r = Look_suspicious \<and> nrPpl r \<and> nrKill r = None"
  using look_alike_not_killable [of "node_row_of [] True False fake_system" "[]" True False "JArr [fake_system]"]
  by (simp add: fake_system_rows fake_system_row)

text \<open>In the other tab the same process can be killed.\<close>

lemma priority_tab_kills_it:
  "\<exists>r. process_page False False (JArr [fake_system]) [fake_system] (init_tree\<lparr>treeTab := ''priority''\<rparr>) = Inr (Priority_tab [r]) \<and> flKill r"
  by (simp add: process_page_def flagged_line_def fake_system_def)

text \<open>The buttons of a row keep their click from it: the folding stays.\<close>

lemma press_node_keeps_folding: "k \<noteq> On_row \<Longrightarrow> expandedPids (press_node k node s) = expandedPids s"
  by (cases k) (auto simp: press_node_def openKillModal_def)

end
