(* ===== verification/PanelViews.thy ===== *)
theory PanelViews
  imports AiPanels PolicyDryRun
begin

text \<open>
  What two panels show of the answers they hold, and their buttons: the suggestion of the local model
  (\<open>components/incidents/AISuggestionPanel.jsx\<close>) and the simulated policy (\<open>components/policies/PolicyDryRunPanel.jsx\<close>).
  Vietnamese texts are written without diacritics; times are the values they are formatted from.
\<close>

section \<open>The suggestion\<close>

definition action_config :: "(string \<times> string \<times> string) list" where
  "action_config =
    [(''kill_process_tree'', ''Kill Process Tree'', ''Tieu diet toan bo cay tien trinh''),
     (''kill_process'', ''Kill Process'', ''Ket thuc tien trinh don le''),
     (''isolate'', ''Isolate Host'', ''Co lap mang may tram''),
     (''suspend_process'', ''Suspend Process'', ''Tam dung tien trinh''),
     (''block_ip'', ''Block IP'', ''Chan dia chi IP C2''),
     (''no_action'', ''No Action Needed'', ''Khong can can thiep'')]"

definition actionConfig :: "jsv \<Rightarrow> jsv \<times> jsv" where
  "actionConfig a = (case map_of action_config (to_str a) of
      Some (l, v) \<Rightarrow> (JStr l, JStr v)
    | None \<Rightarrow> (js_or a (JStr ''Unknown''), js_or a (JStr ''Hanh dong'')))"

definition confidencePercent :: "jsv \<Rightarrow> jsnum" where
  "confidencePercent an = (case to_num (js_or (fld an ''confidence'') (jn 0)) of
     NaN \<Rightarrow> NaN | Fin q \<Rightarrow> Fin (of_int \<lfloor>q * 100 + 1 / 2\<rfloor>))"

text \<open>The lines that say what the action is aimed at.\<close>

definition suggestion_targets :: "jsv \<Rightarrow> jsv \<Rightarrow> (string \<times> jsv list) list" where
  "suggestion_targets incidentId an = (let ps = js_or (fld an ''suggestion_params'') (JObj []) in
     (if truthy (fld ps ''pid'') then [(''PID'', fld ps ''pid'' # (if truthy (fld ps ''process_name'') then [fld ps ''process_name''] else []))] else [])
     @ (if truthy (fld ps ''ip'') then [(''C2 IP'', [fld ps ''ip''])] else [])
     @ (if fld an ''suggested_action'' = JStr ''isolate'' then [(''Agent'', [incidentId])] else []))"

definition blast_lines :: "jsv \<Rightarrow> (string \<times> jsv) list res" where
  "blast_lines an = (let b = js_or (fld an ''blast_radius'') (JObj []); num = \<lambda>k. if fld b k \<noteq> JUndef then fld b k else jn 1;
       joined = \<lambda>k. if is_array (fld b k) \<and> elems (fld b k) \<noteq> [] then [(k, JStr (join_str '', '' (map to_str (elems (fld b k)))))] else [] in
     rmap (\<lambda>risk. [(''RUI RO'', risk), (''processes_affected'', num ''processes_affected''), (''sessions_affected'', num ''sessions_affected''),
         (''reversible'', JBool (truthy (fld b ''reversible'')))] @ joined ''target_pids'' @ joined ''target_processes'')
       (to_upper (js_or (fld b ''system_critical_risk'') (JStr ''low''))))"

text \<open>The two marks of a decision, the banners below it, and the buttons with whether they are enabled.\<close>

definition decision_marks :: "jsv \<Rightarrow> (string \<times> jsv list) list" where
  "decision_marks an =
     (if truthy (fld an ''applied_at'') then [(''applied'', [js_or (fld an ''applied_by_analyst'') (JStr ''analyst''), fld an ''applied_at''])] else [])
     @ (if truthy (fld an ''dismissed_at'') then [(''dismissed'', [js_or (fld an ''dismissed_by_analyst'') (JStr ''analyst''),
          fld an ''dismissed_at'', js_or (fld an ''dismiss_reason'') (JStr ''Khong neu ly do'')])] else [])"

definition decision_buttons :: "jsv \<Rightarrow> bool \<Rightarrow> bool \<Rightarrow> (string \<times> bool) list" where
  "decision_buttons an appl dism = (if truthy (fld an ''applied_at'') \<or> truthy (fld an ''dismissed_at'') then []
     else [(''apply'', \<not> (appl \<or> dism)), (''dismiss'', \<not> (appl \<or> dism))])"

record sug_view =
  svAction :: "jsv \<times> jsv"
  svConfidence :: jsnum
  svTargets :: "(string \<times> jsv list) list"
  svMarks :: "(string \<times> jsv list) list"
  svButtons :: "(string \<times> bool) list"
  svBlast :: "(string \<times> jsv) list"
  svReasoning :: jsv
  svRisk :: "jsv option"

datatype sug_page = Checking | No_suggestion bool | Suggestion sug_view

definition suggestion_page :: "jsv \<Rightarrow> bool \<Rightarrow> aisug_st \<Rightarrow> sug_page res" where
  \<comment> \<open>\<open>suggesting\<close> is the flag of the polling; without a suggestion its button says so\<close>
  "suggestion_page incidentId suggesting s = (let an = sug_analysis s; b = js_or (fld an ''blast_radius'') (JObj []) in
     if sug_loading s then Inr Checking
     else if \<not> truthy (fld an ''suggested_action'') then Inr (No_suggestion (\<not> suggesting))
     else rbind (to_upper (fst (actionConfig (fld an ''suggested_action'')))) (\<lambda>l. rmap (\<lambda>blast.
       Suggestion \<lparr>svAction = (l, snd (actionConfig (fld an ''suggested_action''))), svConfidence = confidencePercent an,
         svTargets = suggestion_targets incidentId an, svMarks = decision_marks an,
         svButtons = decision_buttons an (applying s) (dismissing s), svBlast = blast,
         svReasoning = js_or (fld an ''suggestion_reasoning'') (JStr ''Khong co mo ta chi tiet tu mo hinh AI.''),
         svRisk = (if truthy (fld b ''risk_if_not_acted'') then Some (fld b ''risk_if_not_acted'') else None)\<rparr>) (blast_lines an)))"

definition retry_enabled :: "bool \<Rightarrow> aisug_st \<Rightarrow> bool" where
  "retry_enabled suggesting s \<longleftrightarrow> \<not> (suggesting \<or> applying s)"

definition dismiss_window_away :: "aisug_st \<Rightarrow> aisug_st" where
  "dismiss_window_away s = (if dismissing s then s else s\<lparr>dismissOpen := False\<rparr>)"

definition dismiss_enabled :: "aisug_st \<Rightarrow> bool" where
  "dismiss_enabled s \<longleftrightarrow> trim (dismissReason s) \<noteq> [] \<and> \<not> dismissing s"

section \<open>The simulated policy\<close>

definition dry_badge :: "jsv \<Rightarrow> string \<times> jsv" where
  "dry_badge a =
     (if a = JStr ''isolate'' then (''danger'', JStr ''Isolate'') else if a = JStr ''block_ip'' then (''warning'', JStr ''Block IP'')
      else if a = JStr ''quarantine'' then (''info'', JStr ''Quarantine'') else if a = JStr ''alert'' then (''neutral'', JStr ''Alert Only'')
      else (''neutral'', js_or a (JStr ''Unknown'')))"

definition affected_count :: "jsv \<Rightarrow> jsv" where
  "affected_count res = js_or (fld (fld res ''affected_agents'') ''length'') (jn 1)"

definition shown_action :: "jsv \<Rightarrow> jsv" where
  "shown_action res = js_or (fld res ''action_type'') (fld (fld res ''matched_policy'') ''action_type'')"

definition affected_rows :: "jsv \<Rightarrow> (jsv \<times> jsv \<times> jsv) list res" where
  "affected_rows res = rmapM (\<lambda>ag. rmap (\<lambda>i. (i, js_or (fld ag ''hostname'') (JStr ''no-hostname''),
     js_or (fld ag ''ip'') (js_or (fld ag ''ip_address'') (JStr ''N/A'')))) (get ag ''id'')) (elems (js_or (fld res ''affected_agents'') (JArr [])))"

record dry_view =
  dvName :: jsv
  dvPriority :: jsv
  dvDescription :: "jsv option"
  dvBadge :: "string \<times> jsv"
  dvScope :: jsv
  dvRange :: "jsv \<times> jsv"
  dvCount :: jsv
  dvAgents :: "(jsv \<times> jsv \<times> jsv) list"
  dvSteps :: "(string \<times> jsv list) list"

definition dry_preview :: "jsv \<Rightarrow> dry_view option res" where
  "dry_preview res = (let p = fld res ''matched_policy'' in
     if \<not> truthy p then Inr None
     else rbind (if truthy (fld res ''scope'') then to_upper (fld res ''scope'') else Inr (JStr ''AGENT'')) (\<lambda>scope.
          rbind (affected_rows res) (\<lambda>rows. rbind (to_upper (shown_action res)) (\<lambda>act.
       Inr (Some \<lparr>dvName = fld p ''name'', dvPriority = fld p ''priority'',
         dvDescription = (if truthy (fld p ''description'') then Some (fld p ''description'') else None),
         dvBadge = dry_badge (shown_action res), dvScope = scope, dvRange = (fld p ''min_score'', fld p ''max_score''),
         dvCount = affected_count res, dvAgents = rows,
         dvSteps = [(''T+0s'', [act, affected_count res]), (''T+2s'', [])]
           @ (if num_lt (Fin 0) (to_num (fld p ''auto_rollback_seconds'')) then [(''rollback'', [fld p ''auto_rollback_seconds''])] else [])\<rparr>)))))"

text \<open>What the question before a live execution names: the action, the number of hosts, the policy.\<close>

definition live_question :: "dry_st \<Rightarrow> (jsv \<times> jsv \<times> jsv) res" where
  "live_question s = (let r = dryResult s in
     rmap (\<lambda>a. (a, affected_count r, fld (fld r ''matched_policy'') ''name'')) (to_upper (js_or (shown_action r) (JStr ''''))))"

section \<open>Properties\<close>

text \<open>The suggestion to isolate a host names the incident where it says agent.\<close>

lemma isolate_names_incident:
  "fld an ''suggested_action'' = JStr ''isolate'' \<Longrightarrow> (''Agent'', [incidentId]) \<in> set (suggestion_targets incidentId an)"
  by (simp add: suggestion_targets_def Let_def)

text \<open>A decision is final: once a suggestion was applied or dismissed, neither button is offered.\<close>

lemma decided_once: "decision_marks an \<noteq> [] \<longleftrightarrow> decision_buttons an appl dism = []"
  by (simp add: decision_marks_def decision_buttons_def)

text \<open>A policy that reaches no host is shown, and asked for, with one.\<close>

lemma no_host_counted_as_one: "fld res ''affected_agents'' = JArr [] \<Longrightarrow> affected_count res = jn 1"
  by (simp add: affected_count_def)


definition isolating_answer :: jsv where
  "isolating_answer = JObj [(''data'', JObj [(''action_type'', JStr ''isolate''),
     (''matched_policy'', JObj [(''name'', JStr ''Contain''), (''action_type'', JStr ''isolate'')])])]"

definition one_score_manager :: "request \<Rightarrow> response" where
  "one_score_manager q = (if q = Req POST ''/policies/evaluate'' JUndef (evaluation_request (JStr ''a1'') (jn 60) True)
     then Inr isolating_answer else Inl JNull)"


end
