(* ===== verification/RiskPages.thy ===== *)
theory RiskPages
  imports FeedHooks Paging
begin

text \<open>
  The two risk pages of \<open>src/frontend/src/pages/\<close>, \<open>RiskAssessment.jsx\<close> (the latest score of every agent, by bands) and
  \<open>RiskMonitor.jsx\<close> (all recent scores), and the check page \<open>FixVerification.jsx\<close>. No route leads to them.
\<close>

section \<open>Scores of the agents\<close>

record riskpage_st = agents_st +
  riskMap :: obj
  raLoading :: bool
  raSearch :: string
  raStatus :: string
  raBand :: string
  raPage :: int
  raSelected :: jsv
  raHistory :: "jsv list"
  raHistoryLoading :: bool

definition no_score :: jsv where
  "no_score = JObj [(''latestScore'', JNull), (''latestTimestamp'', JNull), (''latestFactors'', JObj []), (''history'', JArr [])]"

definition score_entry :: "jsv \<Rightarrow> jsv res" where
  "score_entry res = (case elems res of
       [] \<Rightarrow> Inr no_score
     | latest # _ \<Rightarrow> rbind (get latest ''score'') (\<lambda>sc. Inr (JObj [(''latestScore'', sc), (''latestTimestamp'', fld latest ''timestamp''),
         (''latestFactors'', js_or (fld latest ''factors'') (JObj [])), (''history'', res)])))"

definition score_task :: "jsv \<Rightarrow> jsv task" where
  "score_task agent = tcatch (tbind (getRiskHistory (fld agent ''id'') (jn 1)) score_entry) (\<lambda>_. Inr no_score)"

definition new_risk_map :: "jsv list \<Rightarrow> jsv list \<Rightarrow> obj" where
  "new_risk_map ags entries = merge [] (zip (map (\<lambda>a. to_str (fld a ''id'')) ags) entries)"

definition fetchAllRiskScores :: "jsv list \<Rightarrow> (riskpage_st, jsv) act" where
  "fetchAllRiskScores ags =
     (if ags = [] then Upd (raLoading_update (\<lambda>_. False)) (Ret JUndef)
      else Upd (raLoading_update (\<lambda>_. True)) (bnd (promise_all (map score_task ags)) (\<lambda>entries.
        Upd (riskMap_update (\<lambda>_. new_risk_map ags entries)) (Upd (raLoading_update (\<lambda>_. False)) (Ret JUndef)))))"

definition latest_score :: "obj \<Rightarrow> jsv \<Rightarrow> jsv" where
  \<comment> \<open>\<open>riskData ? riskData.latestScore : null\<close>\<close>
  "latest_score m agent = (let d = lookup m (to_str (fld agent ''id'')) in if truthy d then fld d ''latestScore'' else JNull)"

definition band_ok :: "string \<Rightarrow> jsv \<Rightarrow> bool" where
  "band_ok band score =
     (if band = ''critical'' then score \<noteq> JNull \<and> num_le (Fin 80) (to_num score)
      else if band = ''high'' then score \<noteq> JNull \<and> num_le (Fin 60) (to_num score) \<and> num_lt (to_num score) (Fin 80)
      else if band = ''medium'' then score \<noteq> JNull \<and> num_le (Fin 30) (to_num score) \<and> num_lt (to_num score) (Fin 60)
      else if band = ''low'' then score \<noteq> JNull \<and> num_lt (to_num score) (Fin 30)
      else True)"

definition normalizedStatus :: "jsv \<Rightarrow> string" where
  "normalizedStatus agent =
     (let st = fld agent ''status'' in
      if truthy (fld agent ''is_isolated'') \<or> st = JStr ''isolated'' \<or> st = JStr ''quarantine'' then ''isolated''
      else if st = JStr ''online'' \<or> st = JStr ''active'' then ''online'' else ''offline'')"

definition risk_matches :: "string \<Rightarrow> string \<Rightarrow> string \<Rightarrow> obj \<Rightarrow> jsv \<Rightarrow> bool res" where
  "risk_matches search status band m agent =
     rbind (ror (field_match agent search ''hostname'')
         (ror (if_truthy (fld agent ''ip'') (has_text (fld agent ''ip'') search))
         (ror (if_truthy (fld agent ''ip_address'') (has_text (fld agent ''ip_address'') search))
           (field_match agent search ''id'')))) (\<lambda>matchSearch.
       Inr (matchSearch \<and> (status = ''all'' \<or> normalizedStatus agent = status) \<and> band_ok band (latest_score m agent)))"

definition riskAgents :: "string \<Rightarrow> string \<Rightarrow> string \<Rightarrow> obj \<Rightarrow> jsv list \<Rightarrow> jsv list res" where
  "riskAgents search status band m ags = rfilter (risk_matches search status band m) ags"

definition risk_pages :: "jsv list \<Rightarrow> int" where
  "risk_pages xs = page_count 8 (length xs)"

definition risk_view :: "int \<Rightarrow> jsv list \<Rightarrow> jsv list" where
  "risk_view p xs = page_slice 8 p xs"

definition risk_page_reset :: "riskpage_st \<Rightarrow> riskpage_st" where
  "risk_page_reset s = s\<lparr>raPage := 1\<rparr>"

definition openRiskDetail :: "jsv \<Rightarrow> (riskpage_st, jsv) act" where
  "openRiskDetail agent = Upd (raSelected_update (\<lambda>_. agent)) (Upd (raHistoryLoading_update (\<lambda>_. True)) (fin (catch
     (bnd (await (getRiskHistory (fld agent ''id'') (jn 50))) (\<lambda>res.
        Upd (raHistory_update (\<lambda>_. rev (elems res))) (Ret JUndef)))
     (\<lambda>_. Upd (raHistory_update (\<lambda>_. [])) (Ret JUndef)))
    (raHistoryLoading_update (\<lambda>_. False))))"

definition js_round :: "rat \<Rightarrow> rat" where
  \<comment> \<open>\<open>Math.round\<close>: halves go up\<close>
  "js_round x = of_int \<lfloor>x + 1 / 2\<rfloor>"

datatype risk_badge = Not_scored | Band string rat

definition getRiskBadge :: "jsv \<Rightarrow> risk_badge" where
  "getRiskBadge score =
     (if nullishp score then Not_scored
      else case to_num score of NaN \<Rightarrow> Not_scored
        | Fin x \<Rightarrow> let s = js_round x in Band (if 80 \<le> s then ''critical'' else if 60 \<le> s then ''high''
            else if 30 \<le> s then ''medium'' else ''low'') s)"

definition factor_entry :: "string \<times> jsv \<Rightarrow> jsv res" where
  \<comment> \<open>\<open>typeof null\<close> is 'object', so a factor that is null throws\<close>
  "factor_entry kv = (case kv of (k, v) \<Rightarrow>
     if is_object v then rbind (get v ''weight'') (\<lambda>w. Inr (JObj [(''name'', JStr k),
         (''weight'', js_or w (js_or (fld v ''score'') (jn 20))),
         (''description'', js_or (fld v ''reason'') (js_or (fld v ''description'') (JStr ''Threshold triggered'')))]))
     else Inr (JObj [(''name'', JStr k), (''weight'', v), (''description'', JStr ''Risk factor triggered'')]))"

definition factorEntries :: "jsv \<Rightarrow> jsv list res" where
  "factorEntries raw = (if is_array raw then Inr (elems raw) else rmapM factor_entry (own_props raw))"

section \<open>The monitor\<close>

record monitor_st = load_st +
  scores :: "jsv list"
  agentsList :: "jsv list"
  monSelected :: jsv

definition uniq :: "jsv list \<Rightarrow> jsv list" where
  \<comment> \<open>\<open>Array.from(new Set(xs))\<close>\<close>
  "uniq xs = rev (remdups (rev xs))"

definition raise_loading :: "bool \<Rightarrow> bool \<Rightarrow> monitor_st \<Rightarrow> monitor_st" where
  "raise_loading isInitial b s = (if isInitial then s\<lparr>loading := b\<rparr> else s)"

definition target_agents :: "(monitor_st, jsv list) act" where
  "target_agents = Look (\<lambda>s. catch
     (bnd (await getAgents) (\<lambda>fetched.
        if elems fetched \<noteq> [] then bnd (lift (rmapM (\<lambda>a. get a ''id'') (elems fetched))) (\<lambda>ids.
          let ts = uniq (filter truthy ids) in Upd (agentsList_update (\<lambda>_. ts)) (Ret ts))
        else Ret (agentsList s)))
     (\<lambda>_. Ret (agentsList s)))"

definition score_list :: "jsv \<Rightarrow> jsv task" where
  "score_list agentId = tcatch (getAgentRiskScores agentId (jn 30)) (\<lambda>_. Inr (JArr []))"

definition newest_first :: "clock \<Rightarrow> jsv list \<Rightarrow> jsv list" where
  "newest_first c xs = js_sort (by_desc (\<lambda>r. date_ms c (fld r ''timestamp''))) xs"

definition loadData :: "clock \<Rightarrow> bool \<Rightarrow> (monitor_st, jsv) act" where
  "loadData c isInitial = fin (Upd (raise_loading isInitial True)
     (bnd target_agents (\<lambda>ts. bnd (promise_all (map score_list ts)) (\<lambda>results.
        Upd (scores_update (\<lambda>_. newest_first c (concat (map elems results)))) (Ret JUndef)))))
    (raise_loading isInitial False)"

definition shown_scores :: "monitor_st \<Rightarrow> jsv list" where
  "shown_scores s = (if truthy (monSelected s) then filter (\<lambda>r. strict_eq (fld r ''agent_id'') (monSelected s)) (scores s) else scores s)"

definition chartAgent :: "monitor_st \<Rightarrow> jsv" where
  "chartAgent s = js_or (monSelected s) (js_or (case agentsList s of [] \<Rightarrow> JUndef | a # _ \<Rightarrow> a)
     (js_or (case scores s of [] \<Rightarrow> JUndef | r # _ \<Rightarrow> fld r ''agent_id'') (JStr '''')))"

definition chartScores :: "monitor_st \<Rightarrow> jsv list" where
  "chartScores s = (if truthy (chartAgent s) then take 30 (filter (\<lambda>r. strict_eq (fld r ''agent_id'') (chartAgent s)) (scores s)) else [])"

definition statusBadge :: "jsv \<Rightarrow> string" where
  "statusBadge score = (let s = to_num (js_or score (jn 0)) in
     if num_le (Fin 50) s then ''Incident'' else if num_le (Fin 30) s then ''Alert'' else if num_le (Fin 10) s then ''Warning'' else ''Safe'')"

section \<open>The check page\<close>

record fix_st = fetch_st +
  fixResults :: jsv

definition runCheck :: "(fix_st, jsv) act" where
  "runCheck = fin (catch
     (Upd (loading_update (\<lambda>_. True)) (Upd (error_update (\<lambda>_. JNull))
       (bnd (await verifyPhase2) (\<lambda>d. Upd (fixResults_update (\<lambda>_. d)) (Ret JUndef)))))
     (\<lambda>err. Upd (error_update (\<lambda>_. message_or err ''Khong the ket noi den API verify-phase2'')) (Ret JUndef)))
    (loading_update (\<lambda>_. False))"

definition allPassed :: "jsv \<Rightarrow> jsv" where
  "allPassed r = js_and r (js_and (fld r ''manager_ip_bypassed'') (js_and (fld r ''idle_agents_safe'')
     (js_and (fld r ''baseline_fresh'') (fld r ''ema_working''))))"

section \<open>Lemmas\<close>

lemma risk_view_slice: "risk_view = page_slice 8"
  by (intro ext) (simp add: risk_view_def)

interpretation risk_pager: pager 8 risk_view risk_pages
  unfolding risk_view_slice risk_pages_def by (rule pager_page_slice) simp

lemma js_round_int [simp]: "js_round (of_int n) = of_int n"
proof -
  have "\<lfloor>of_int n + 1 / 2 :: rat\<rfloor> = n" by (rule floor_unique) simp_all
  then show ?thesis by (simp add: js_round_def)
qed

section \<open>Properties\<close>

text \<open>
  The four bands of the filter: a score that is a number falls into exactly one of them, a missing or unreadable one
  into none.
\<close>

theorem risk_bands_partition:
  "length (filter (\<lambda>b. band_ok b score) [''critical'', ''high'', ''medium'', ''low'']) =
     (if score = JNull \<or> to_num score = NaN then 0 else 1)"
proof (cases "to_num score")
  case (Fin x)
  consider "80 \<le> x" | "60 \<le> x \<and> x < 80" | "30 \<le> x \<and> x < 60" | "x < 30" by linarith
  with Fin show ?thesis by cases (auto simp: band_ok_def)
qed (simp add: band_ok_def)

text \<open>
  Badge and filter agree on whole scores; between 79.5 and 80 the badge, which rounds, says "critical" of an agent that the
  filter for critical agents leaves out.
\<close>

theorem badge_rounds_up:
  assumes "score = jn x"
  shows "(\<exists>n. x = of_int n) \<Longrightarrow> \<exists>b. getRiskBadge score = Band b x \<and> band_ok b score"
    and "159 / 2 \<le> x \<Longrightarrow> x < 80 \<Longrightarrow> getRiskBadge score = Band ''critical'' 80 \<and> \<not> band_ok ''critical'' score \<and> band_ok ''high'' score"
proof -
  assume "\<exists>n. x = of_int n"
  then have r: "js_round x = x" by auto
  consider "80 \<le> x" | "60 \<le> x \<and> x < 80" | "30 \<le> x \<and> x < 60" | "x < 30" by linarith
  then show "\<exists>b. getRiskBadge score = Band b x \<and> band_ok b score"
    by cases (simp_all add: assms getRiskBadge_def band_ok_def Let_def r)
next
  assume x: "159 / 2 \<le> x" "x < 80"
  then have "\<lfloor>x + 1 / 2\<rfloor> = 80" by (intro floor_unique) simp_all
  with x show "getRiskBadge score = Band ''critical'' 80 \<and> \<not> band_ok ''critical'' score \<and> band_ok ''high'' score"
    by (simp add: assms getRiskBadge_def band_ok_def js_round_def)
qed

text \<open>
  The order of the monitor: every record once, and newest first when every timestamp can be read.
\<close>

lemma newest_first_sorted:
  assumes "\<And>r. r \<in> set xs \<Longrightarrow> date_ms c (fld r ''timestamp'') = Fin (d r)"
  shows "sorted_wrt (\<lambda>a b. d b \<le> d a) (newest_first c xs)"
proof -
  have "newest_first c xs = sort_key (\<lambda>r. - d r) xs"
    unfolding newest_first_def by (rule js_sort_by_desc) (rule assms)
  moreover have "sorted_wrt (\<lambda>a b. - d a \<le> - d b) (sort_key (\<lambda>r. - d r) xs)"
    using sorted_sort_key [of "\<lambda>r. - d r" xs] by (simp add: sorted_map)
  ultimately show ?thesis by simp
qed

lemma mset_newest_first [simp]: "mset (newest_first c xs) = mset xs"
  by (simp add: newest_first_def)

end
