(* ===== verification/RuleEditor.thy ===== *)
theory RuleEditor
  imports Json Texts
begin

text \<open>
  \<open>src/frontend/src/components/ui/RuleForm.jsx\<close>: the form of a security rule. \<open>formData\<close> is one object, filled from a rule,
  changed field by field, and turned into a rule whose conditions are built from the fields of its type or, in the second
  mode, parsed from their JSON text. The conflict check is a function the parent passes, or nothing.
\<close>

record reditor_st =
  reMode :: string
  formData :: jsv
  reConflicts :: "jsv list"
  jsonError :: jsv
  reSubmitted :: "jsv list"
  reOpen :: bool

section \<open>Filling the form\<close>

definition js_join :: "jsv list \<Rightarrow> string" where
  \<comment> \<open>\<open>xs.join(', ')\<close>\<close>
  "js_join xs = join_str '', '' (map (\<lambda>x. case x of JUndef \<Rightarrow> [] | JNull \<Rightarrow> [] | _ \<Rightarrow> to_str x) xs)"

definition joined :: "jsv \<Rightarrow> string \<Rightarrow> jsv" where
  \<comment> \<open>\<open>Array.isArray(cond.k) ? cond.k.join(', ') : ''\<close>\<close>
  "joined cond k = JStr (if is_array (fld cond k) then js_join (elems (fld cond k)) else [])"

definition edit_form_data :: "jsv \<Rightarrow> jsv" where
  "edit_form_data rule = (let cond = js_or (fld rule ''conditions'') (JObj []) in JObj
     [(''name'', js_or (fld rule ''name'') (JStr '''')), (''description'', js_or (fld rule ''description'') (JStr '''')),
      (''type'', js_or (fld rule ''type'') (JStr ''dns'')), (''severity'', js_or (fld rule ''severity'') (JStr ''high'')),
      (''status'', js_or (fld rule ''status'') (JStr ''active'')), (''action'', js_or (fld rule ''action'') (JStr ''alert'')),
      (''scope'', js_or (fld rule ''scope'') (JStr ''all_agents'')),
      (''agent_ids'', js_or (fld rule ''agent_ids'') (js_or (fld rule ''selected_agents'') (JArr []))),
      (''created_by'', js_or (fld rule ''created_by'') (JStr ''admin'')),
      (''internal_dns_servers'', joined cond ''internal_dns_servers''), (''proxy_server_ip'', joined cond ''proxy_server_ip''),
      (''max_connections'', js_or (fld cond ''max_connections'') (jn 5000)),
      (''time_window'', js_or (fld cond ''time_window'') (jn 1)),
      (''blocked_ips'', joined cond ''blocked_ips''), (''blocked_domains'', joined cond ''blocked_domains''),
      (''allowed_ports'', joined cond ''allowed_ports''),
      (''protocols'', if is_array (fld cond ''protocols'') then JStr (js_join (elems (fld cond ''protocols'')))
         else js_or (fld cond ''protocols'') (JStr ''TCP'')),
      (''direction'', js_or (fld cond ''direction'') (JStr ''inbound'')),
      (''signature_hash'', js_or (fld cond ''signature_hash'') (JStr '''')), (''pattern'', js_or (fld cond ''pattern'') (JStr '''')),
      (''raw_conditions'', JStr (JSON_stringify cond))])"

definition default_raw :: string where
  "default_raw = ''{'' @ new_line 2 @ json_quote ''protocol'' @ '': '' @ json_quote ''DNS'' @ '','' @ new_line 2
     @ json_quote ''dest_port'' @ '': 53'' @ new_line 0 @ ''}''"

definition new_form_data :: jsv where
  "new_form_data = JObj
     [(''name'', JStr ''''), (''description'', JStr ''''), (''type'', JStr ''dns''), (''severity'', JStr ''high''),
      (''status'', JStr ''active''), (''action'', JStr ''alert''), (''scope'', JStr ''all_agents''), (''agent_ids'', JArr []),
      (''created_by'', JStr ''admin''), (''internal_dns_servers'', JStr ''192.168.1.1, 10.0.0.2''),
      (''proxy_server_ip'', JStr ''10.0.0.254''), (''max_connections'', jn 5000), (''time_window'', jn 1),
      (''blocked_ips'', JStr ''198.51.100.45, 203.0.113.88''), (''blocked_domains'', JStr ''malware-c2-domain.com''),
      (''allowed_ports'', JStr ''22''), (''protocols'', JStr ''TCP''), (''direction'', JStr ''inbound''),
      (''signature_hash'', JStr ''''), (''pattern'', JStr ''''), (''raw_conditions'', JStr default_raw)]"

definition fill_editor :: "jsv \<Rightarrow> reditor_st \<Rightarrow> reditor_st" where
  \<comment> \<open>the effect of \<open>rule\<close> and \<open>isOpen\<close>\<close>
  "fill_editor rule s = s\<lparr>formData := (if truthy rule then edit_form_data rule else new_form_data), jsonError := JStr ''''\<rparr>"

definition handleChange :: "string \<Rightarrow> jsv \<Rightarrow> reditor_st \<Rightarrow> reditor_st" where
  "handleChange name v = formData_update (\<lambda>prev. with_fld prev name v)"

definition handleAgentToggle :: "jsv \<Rightarrow> reditor_st \<Rightarrow> reditor_st" where
  "handleAgentToggle agentId = formData_update (\<lambda>prev.
     let ids = elems (fld prev ''agent_ids'') in
     with_fld prev ''agent_ids'' (JArr (if agentId \<in> set ids then filter (\<lambda>i. \<not> strict_eq i agentId) ids else ids @ [agentId])))"

section \<open>The rule of the form\<close>

definition csv_field :: "jsv \<Rightarrow> string \<Rightarrow> jsv res" where
  "csv_field fd k = (case fld fd k of JStr s \<Rightarrow> Inr (JArr (map JStr (csv s))) | _ \<Rightarrow> Inl type_error)"

definition ports_field :: "jsv \<Rightarrow> jsv res" where
  \<comment> \<open>\<open>.split(',').map((s) => Number(s.trim())).filter((n) => !isNaN(n))\<close>\<close>
  "ports_field fd = (case fld fd ''allowed_ports'' of
     JStr s \<Rightarrow> Inr (JArr (map JNum (filter (\<lambda>n. n \<noteq> NaN) (map (\<lambda>p. str_num (trim p)) (split_on CHR '','' s)))))
   | _ \<Rightarrow> Inl type_error)"

definition number_field :: "jsv \<Rightarrow> string \<Rightarrow> jsv \<Rightarrow> jsv" where
  "number_field fd k d = js_or (JNum (to_num (fld fd k))) d"

definition built_conditions :: "jsv \<Rightarrow> jsv res" where
  "built_conditions fd =
     (if fld fd ''type'' = JStr ''dns'' then rmap (\<lambda>xs. JObj [(''protocol'', JStr ''DNS''), (''dest_port'', jn 53),
         (''internal_dns_servers'', xs)]) (csv_field fd ''internal_dns_servers'')
      else if fld fd ''type'' = JStr ''proxy'' then
        rmap (\<lambda>xs. JObj [(''protocol'', JStr ''HTTP/S''), (''proxy_server_ip'', xs)]) (csv_field fd ''proxy_server_ip'')
      else if fld fd ''type'' = JStr ''rate_limit'' then
        Inr (JObj [(''max_connections'', number_field fd ''max_connections'' (jn 1000)),
          (''time_window'', number_field fd ''time_window'' (jn 1))])
      else if fld fd ''type'' = JStr ''blacklist'' then
        rbind (csv_field fd ''blocked_ips'') (\<lambda>ips. rmap (\<lambda>ds. JObj [(''blocked_ips'', ips), (''blocked_domains'', ds)])
          (csv_field fd ''blocked_domains''))
      else if fld fd ''type'' = JStr ''firewall'' then
        rbind (ports_field fd) (\<lambda>ps. rmap (\<lambda>pr. JObj [(''allowed_ports'', ps), (''protocols'', pr),
          (''direction'', fld fd ''direction'')]) (csv_field fd ''protocols''))
      else if fld fd ''type'' \<in> {JStr ''edr'', JStr ''signature'', JStr ''botnet''} then
        Inr (JObj [(''pattern'', fld fd ''pattern''), (''signature_hash'', fld fd ''signature_hash'')])
      else Inr (JObj []))"

definition raw_conditions :: "jsv \<Rightarrow> jsv res" where
  "raw_conditions fd = (case JSON_parse (to_str (fld fd ''raw_conditions'')) of
     Inl _ \<Rightarrow> Inl (js_error (JStr ''Invalid JSON format in Conditions.'')) | Inr v \<Rightarrow> Inr v)"

definition buildPayload :: "string \<Rightarrow> jsv \<Rightarrow> jsv res" where
  "buildPayload mode fd = rmap (\<lambda>conditions. JObj
     [(''name'', fld fd ''name''), (''description'', fld fd ''description''), (''type'', fld fd ''type''),
      (''severity'', fld fd ''severity''), (''status'', fld fd ''status''), (''action'', fld fd ''action''),
      (''scope'', fld fd ''scope''),
      (''agent_ids'', if fld fd ''scope'' = JStr ''selected_agents'' then fld fd ''agent_ids'' else JArr []),
      (''created_by'', fld fd ''created_by''), (''conditions'', conditions)])
     (if mode = ''json'' then raw_conditions fd else built_conditions fd)"

definition conflict_effect :: "(jsv \<Rightarrow> jsv list) option \<Rightarrow> jsv \<Rightarrow> reditor_st \<Rightarrow> reditor_st res" where
  \<comment> \<open>an exception in an effect is not caught by the form\<close>
  "conflict_effect onCheckConflicts rule s =
     (case onCheckConflicts of
        Some check \<Rightarrow> if truthy (fld (formData s) ''name'') then
            rmap (\<lambda>candidate. s\<lparr>reConflicts := check (if truthy rule \<and> truthy (fld rule ''id'')
              then with_fld candidate ''id'' (fld rule ''id'') else candidate)\<rparr>) (buildPayload (reMode s) (formData s))
          else Inr (s\<lparr>reConflicts := []\<rparr>)
      | None \<Rightarrow> Inr (s\<lparr>reConflicts := []\<rparr>))"

definition editor_submit :: "reditor_st \<Rightarrow> reditor_st" where
  "editor_submit s = (case buildPayload (reMode s) (formData s) of
     Inl err \<Rightarrow> s\<lparr>jsonError := fld err ''message''\<rparr>
   | Inr payload \<Rightarrow> s\<lparr>reSubmitted := reSubmitted s @ [payload], reOpen := False\<rparr>)"

section \<open>Lemmas\<close>

lemma js_join_texts [simp]: "js_join (map JStr xs) = join_str '', '' xs"
  by (simp add: js_join_def comp_def)

lemma ports_join:
  assumes "ps \<noteq> []"
  shows "map (\<lambda>p. str_num (trim p)) (split_on CHR '','' (join_str '', '' (map nat_str ps))) = map (\<lambda>n. Fin (of_nat n)) ps"
proof -
  have "map trim (split_on CHR '','' (join_str '', '' (map nat_str ps))) = map nat_str ps"
    using assms nat_str_plain by (intro split_parts_join) (auto simp: list_all_iff)
  then have "map str_num (map trim (split_on CHR '','' (join_str '', '' (map nat_str ps)))) = map (\<lambda>n. Fin (of_nat n)) ps"
    by (simp add: comp_def str_num_nat)
  then show ?thesis by (simp add: comp_def)
qed

lemma js_join_ports: "js_join (map (\<lambda>n. jn (of_nat n)) ps) = join_str '', '' (map nat_str ps)"
  by (simp add: js_join_def comp_def pos_str_def)

text \<open>The conditions the form can show: those of the fields of its type.\<close>

definition text_list :: "jsv \<Rightarrow> bool" where
  "text_list v \<longleftrightarrow> (\<exists>xs. v = JArr (map JStr xs) \<and> list_all plain_part xs)"

definition form_conditions :: "string \<Rightarrow> jsv \<Rightarrow> bool" where
  "form_conditions t c \<longleftrightarrow>
     (t = ''dns'' \<and> (\<exists>xs. text_list xs \<and> c = JObj [(''protocol'', JStr ''DNS''), (''dest_port'', jn 53), (''internal_dns_servers'', xs)]))
   \<or> (t = ''proxy'' \<and> (\<exists>xs. text_list xs \<and> c = JObj [(''protocol'', JStr ''HTTP/S''), (''proxy_server_ip'', xs)]))
   \<or> (t = ''rate_limit'' \<and> (\<exists>a b. a \<noteq> 0 \<and> b \<noteq> 0 \<and> c = JObj [(''max_connections'', jn a), (''time_window'', jn b)]))
   \<or> (t = ''blacklist'' \<and> (\<exists>xs ys. text_list xs \<and> text_list ys \<and> c = JObj [(''blocked_ips'', xs), (''blocked_domains'', ys)]))
   \<or> (t = ''firewall'' \<and> (\<exists>ps xs d. ps \<noteq> [] \<and> text_list xs \<and> d \<noteq> [] \<and>
        c = JObj [(''allowed_ports'', JArr (map (\<lambda>n. jn (of_nat n)) ps)), (''protocols'', xs), (''direction'', JStr d)]))
   \<or> (t \<in> {''edr'', ''signature'', ''botnet''} \<and> (\<exists>p h. c = JObj [(''pattern'', JStr p), (''signature_hash'', JStr h)]))"

lemma csv_joined: "text_list (fld c k) \<Longrightarrow> fld fd k = joined c k \<Longrightarrow> csv_field fd k = Inr (fld c k)"
  by (auto simp: text_list_def csv_field_def joined_def csv_join)

text \<open>The fields of the form that hold the conditions.\<close>

lemma edit_fields:
  assumes "truthy (fld r ''conditions'')"
  shows "fld (edit_form_data r) ''type'' = js_or (fld r ''type'') (JStr ''dns'')"
    "fld (edit_form_data r) ''max_connections'' = js_or (fld (fld r ''conditions'') ''max_connections'') (jn 5000)"
    "fld (edit_form_data r) ''time_window'' = js_or (fld (fld r ''conditions'') ''time_window'') (jn 1)"
    "fld (edit_form_data r) ''direction'' = js_or (fld (fld r ''conditions'') ''direction'') (JStr ''inbound'')"
    "fld (edit_form_data r) ''pattern'' = js_or (fld (fld r ''conditions'') ''pattern'') (JStr '''')"
    "fld (edit_form_data r) ''signature_hash'' = js_or (fld (fld r ''conditions'') ''signature_hash'') (JStr '''')"
    "fld (edit_form_data r) ''raw_conditions'' = JStr (JSON_stringify (fld r ''conditions''))"
  using assms by (simp_all add: edit_form_data_def Let_def)

lemma edit_lists:
  assumes "truthy (fld r ''conditions'')"
  shows "fld (edit_form_data r) ''internal_dns_servers'' = joined (fld r ''conditions'') ''internal_dns_servers''"
    "fld (edit_form_data r) ''proxy_server_ip'' = joined (fld r ''conditions'') ''proxy_server_ip''"
    "fld (edit_form_data r) ''blocked_ips'' = joined (fld r ''conditions'') ''blocked_ips''"
    "fld (edit_form_data r) ''blocked_domains'' = joined (fld r ''conditions'') ''blocked_domains''"
    "fld (edit_form_data r) ''allowed_ports'' = joined (fld r ''conditions'') ''allowed_ports''"
    "is_array (fld (fld r ''conditions'') ''protocols'') \<Longrightarrow>
       fld (edit_form_data r) ''protocols'' = joined (fld r ''conditions'') ''protocols''"
  using assms by (simp_all add: edit_form_data_def Let_def joined_def)

lemma js_or_self [simp]: "js_or (JStr s) (JStr []) = JStr s"
  by (simp add: js_or_def)

lemma text_list_array [simp]: "text_list v \<Longrightarrow> is_array v"
  by (auto simp: text_list_def)

lemma form_conditions_some: "form_conditions t c \<Longrightarrow> truthy c \<and> t \<noteq> []"
  unfolding form_conditions_def by (elim disjE conjE exE insertE emptyE) simp_all

lemma built_again:
  assumes "fld r ''type'' = JStr t" and "form_conditions t (fld r ''conditions'')"
  shows "built_conditions (edit_form_data r) = Inr (fld r ''conditions'')"
proof -
  let ?c = "fld r ''conditions''" and ?fd = "edit_form_data r"
  from form_conditions_some [OF assms(2)] have c: "truthy ?c" and "t \<noteq> []" by blast+
  then have t: "fld ?fd ''type'' = JStr t" by (simp add: edit_fields(1) assms(1))
  note e = edit_fields(2-6) [OF c] edit_lists [OF c]
  note lists = csv_joined [OF _ e(6)] csv_joined [OF _ e(7)] csv_joined [OF _ e(8)] csv_joined [OF _ e(9)] csv_joined [OF _ e(11)]
  from assms(2) show ?thesis
    unfolding form_conditions_def
  proof (elim disjE conjE exE)
    fix ps xs d
    assume f: "t = ''firewall''" "ps \<noteq> []" "text_list xs" "d \<noteq> []"
      "?c = JObj [(''allowed_ports'', JArr (map (\<lambda>n. jn (of_nat n)) ps)), (''protocols'', xs), (''direction'', JStr d)]"
    then have "fld ?fd ''allowed_ports'' = JStr (join_str '', '' (map nat_str ps))"
      by (simp add: e(10) joined_def js_join_ports)
    then have "ports_field ?fd = Inr (JArr (map (\<lambda>n. jn (of_nat n)) ps))"
      using ports_join [OF f(2)] by (simp add: ports_field_def comp_def)
    with f lists(5) show ?thesis by (simp add: built_conditions_def t e(3))
  next
    fix p h
    assume "t \<in> {''edr'', ''signature'', ''botnet''}" "?c = JObj [(''pattern'', JStr p), (''signature_hash'', JStr h)]"
    then show ?thesis by (elim insertE emptyE) (simp_all add: built_conditions_def t e(4,5))
  next
    fix a b :: rat
    assume "t = ''rate_limit''" "a \<noteq> 0" "b \<noteq> 0" "?c = JObj [(''max_connections'', jn a), (''time_window'', jn b)]"
    then show ?thesis by (simp add: built_conditions_def t number_field_def e(1,2))
  qed (insert lists, simp_all add: built_conditions_def t)
qed

section \<open>Properties\<close>

text \<open>A rule as the manager stores it, of a type and with conditions the form knows.\<close>

definition stored_security_rule :: "jsv \<Rightarrow> bool" where
  "stored_security_rule r \<longleftrightarrow>
     (\<exists>n d t sv st a sc cb ids. fld r ''name'' = JStr n \<and> fld r ''description'' = JStr d \<and> fld r ''type'' = JStr t
       \<and> fld r ''severity'' = JStr sv \<and> sv \<noteq> [] \<and> fld r ''status'' = JStr st \<and> st \<noteq> [] \<and> fld r ''action'' = JStr a \<and> a \<noteq> []
       \<and> fld r ''scope'' = JStr sc \<and> sc \<noteq> [] \<and> fld r ''created_by'' = JStr cb \<and> cb \<noteq> []
       \<and> fld r ''agent_ids'' = JArr ids \<and> (sc = ''selected_agents'' \<or> ids = [])
       \<and> form_conditions t (fld r ''conditions''))"

definition rule_keys :: "string list" where
  "rule_keys = [''name'', ''description'', ''type'', ''severity'', ''status'', ''action'', ''scope'', ''agent_ids'', ''created_by'',
     ''conditions'']"

lemma edit_general:
  assumes "stored_security_rule r"
  shows "list_all (\<lambda>k. fld (edit_form_data r) k = fld r k)
      [''name'', ''description'', ''type'', ''severity'', ''status'', ''action'', ''scope'', ''agent_ids'', ''created_by'']"
    and "fld r ''scope'' = JStr ''selected_agents'' \<or> fld r ''agent_ids'' = JArr []"
proof -
  from assms obtain n d t sv st a sc cb ids where
    e: "fld r ''name'' = JStr n" "fld r ''description'' = JStr d" "fld r ''type'' = JStr t" "t \<noteq> []" "fld r ''severity'' = JStr sv"
      "sv \<noteq> []" "fld r ''status'' = JStr st" "st \<noteq> []" "fld r ''action'' = JStr a" "a \<noteq> []" "fld r ''scope'' = JStr sc" "sc \<noteq> []"
      "fld r ''created_by'' = JStr cb" "cb \<noteq> []" "fld r ''agent_ids'' = JArr ids" and s: "sc = ''selected_agents'' \<or> ids = []"
    unfolding stored_security_rule_def using form_conditions_some by blast
  show "list_all (\<lambda>k. fld (edit_form_data r) k = fld r k)
      [''name'', ''description'', ''type'', ''severity'', ''status'', ''action'', ''scope'', ''agent_ids'', ''created_by'']"
    by (simp add: edit_form_data_def Let_def e js_or_def [of "JStr x" "JStr y" for x y] js_or_def [of "JArr x" for x])
  from s show "fld r ''scope'' = JStr ''selected_agents'' \<or> fld r ''agent_ids'' = JArr []" by (auto simp: e)
qed

lemma payload_of_stored:
  assumes "stored_security_rule r"
    and "(if mode = ''json'' then raw_conditions (edit_form_data r) else built_conditions (edit_form_data r)) = Inr (fld r ''conditions'')"
  shows "buildPayload mode (edit_form_data r) = Inr (JObj (map (\<lambda>k. (k, fld r k)) rule_keys))"
  using edit_general [OF assms(1)] assms(2) by (auto simp: buildPayload_def rule_keys_def)

text \<open>
  C17: a stored security rule of a type the form knows, with non-empty choices, with agents only in the scope of selected agents, and
  with conditions of its shape (lists of trimmed non-empty texts without commas, natural port numbers, at least one, limits other
  than 0), comes out of the form as it went in: unchanged, in both modes, the rule
  built from the form has every field of the stored one.
\<close>

theorem rule_form_roundtrip:
  assumes "stored_security_rule r" and "json_ok (fld r ''conditions'')"
  shows "buildPayload ''form'' (edit_form_data r) = Inr (JObj (map (\<lambda>k. (k, fld r k)) rule_keys))
    \<and> buildPayload ''json'' (edit_form_data r) = Inr (JObj (map (\<lambda>k. (k, fld r k)) rule_keys))"
proof -
  from assms(1) obtain t where t: "fld r ''type'' = JStr t" "form_conditions t (fld r ''conditions'')"
    unfolding stored_security_rule_def by blast
  have "raw_conditions (edit_form_data r) = Inr (fld r ''conditions'')"
    using form_conditions_some [OF t(2)] json_roundtrip [OF assms(2)] by (simp add: raw_conditions_def edit_fields(7))
  with built_again [OF t] payload_of_stored [OF assms(1)] show ?thesis by simp
qed

definition ssh_rule :: jsv where
  "ssh_rule = JObj [(''name'', JStr ''ssh''), (''description'', JStr ''''), (''type'', JStr ''firewall''), (''severity'', JStr ''high''),
     (''status'', JStr ''active''), (''action'', JStr ''block''), (''scope'', JStr ''all_agents''), (''agent_ids'', JArr []),
     (''created_by'', JStr ''admin''),
     (''conditions'', JObj [(''allowed_ports'', JArr [jn 22, jn 445]), (''protocols'', JArr [JStr ''TCP'']), (''direction'', JStr ''inbound'')])]"

lemma stored_ssh_rule: "stored_security_rule ssh_rule"
proof -
  have "plain_part ''TCP''"
    by (simp add: plain_part_def trim_no_space is_space_def)
  then have "text_list (JArr [JStr ''TCP''])" unfolding text_list_def by (intro exI [of _ "[''TCP'']"]) simp
  then have "form_conditions ''firewall'' (fld ssh_rule ''conditions'')"
    unfolding form_conditions_def ssh_rule_def
    by (simp, intro exI [of _ "[22, 445]"] conjI) simp_all
  then show ?thesis
    unfolding stored_security_rule_def by (simp add: ssh_rule_def)
qed

theorem rule_form_roundtrip_witness:
  "rmap (\<lambda>p. fld p ''conditions'') (buildPayload ''form'' (edit_form_data ssh_rule)) = Inr (fld ssh_rule ''conditions'')"
proof -
  have "json_ok (fld ssh_rule ''conditions'')"
    by (simp add: ssh_rule_def decimal_def)
  from rule_form_roundtrip [OF stored_ssh_rule this] show ?thesis
    by (simp add: rule_keys_def)
qed

text \<open>A firewall rule whose ports are left blank is sent with the port 0.\<close>

theorem blank_ports_are_zero:
  assumes "fld fd ''type'' = JStr ''firewall''" and "fld fd ''allowed_ports'' = JStr ports" and "\<forall>c\<in>set ports. is_space c"
    and "fld fd ''protocols'' = JStr pr"
  shows "rmap (\<lambda>c. fld c ''allowed_ports'') (built_conditions fd) = Inr (JArr [jn 0])"
proof -
  have "trim ports = []" using assms(3) by (rule trim_blank)
  moreover have "\<not> is_space CHR '',''" by (simp add: is_space_def)
  then have "CHR '','' \<notin> set ports" using assms(3) by blast
  ultimately have "ports_field fd = Inr (JArr [jn 0])"
    by (simp add: ports_field_def assms(2) split_on_plain str_num_def)
  then show ?thesis by (simp add: built_conditions_def assms(1,4) csv_field_def)
qed

theorem blank_ports_are_zero_witness:
  "rmap (\<lambda>c. fld c ''allowed_ports'') (built_conditions (JObj [(''type'', JStr ''firewall''), (''allowed_ports'', JStr ''''),
     (''protocols'', JStr ''TCP'')])) = Inr (JArr [jn 0])"
  by (rule blank_ports_are_zero [where ports = "[]" and pr = "''TCP''"]) simp_all

text \<open>
  In the JSON mode, with a conflict check, the effect that follows every change of the name builds the rule as well:
  while the text is not JSON its error is thrown out of the effect, where nothing catches it; submitting reports the same error
  in the form.
\<close>

theorem conflict_effect_throws:
  assumes "reMode s = ''json''" and "fld (formData s) ''raw_conditions'' = JStr raw" and "JSON_parse raw = Inl e"
    and "truthy (fld (formData s) ''name'')"
  shows "conflict_effect (Some check) rule s = Inl (js_error (JStr ''Invalid JSON format in Conditions.''))
    \<and> jsonError (editor_submit s) = JStr ''Invalid JSON format in Conditions.''"
  using assms by (simp add: conflict_effect_def editor_submit_def buildPayload_def raw_conditions_def js_error_def)

theorem conflict_effect_throws_witness:
  "conflict_effect (Some (\<lambda>_. [])) JNull \<lparr>reMode = ''json'', formData = JObj [(''name'', JStr ''n''), (''raw_conditions'', JStr '''')],
     reConflicts = [], jsonError = JStr '''', reSubmitted = [], reOpen = True\<rparr> = Inl (js_error (JStr ''Invalid JSON format in Conditions.''))"
proof -
  have "JSON_parse [] = Inl syntax_error" by (simp add: JSON_parse_def eval_nat_numeral)
  note throws = conflict_effect_throws [where raw = "[]" and e = syntax_error and check = "\<lambda>_. []" and rule = JNull
      and s = "\<lparr>reMode = ''json'', formData = JObj [(''name'', JStr ''n''), (''raw_conditions'', JStr '''')],
        reConflicts = [], jsonError = JStr '''', reSubmitted = [], reOpen = True\<rparr>"]
  from throws \<open>JSON_parse [] = Inl syntax_error\<close> show ?thesis by simp
qed


end
