(* ===== verification/RulesHook.thy ===== *)
theory RulesHook
  imports Paging
begin

text \<open>
  \<open>src/frontend/src/hooks/useRules.js\<close>: the firewall rules, filtered by a search text and three
  selectors and shown eight at a time. The search calls string methods on fields of a rule, so a
  filter may throw; then the component does not render.
\<close>

record rules_st = load_st +
  rulesList :: "jsv list"
  search :: string
  typeFilter :: string
  severityFilter :: string
  statusFilter :: string
  page :: int

definition init_rules :: rules_st where
  "init_rules = \<lparr>loading = True, rulesList = [], search = [], typeFilter = ''all'', severityFilter = ''all'',
     statusFilter = ''all'', page = 1\<rparr>"

definition fetchRules :: "(rules_st, jsv) act" where
  "fetchRules = Upd (loading_update (\<lambda>_. True))
     (fin (catch
        (bnd (await getRules) (\<lambda>data. Upd (rulesList_update (\<lambda>_. elems data)) (Ret JUndef)))
        (\<lambda>_. Upd (rulesList_update (\<lambda>_. [])) (Ret JUndef)))
      (loading_update (\<lambda>_. False)))"

definition field_has :: "jsv \<Rightarrow> string \<Rightarrow> string \<Rightarrow> bool res" where
  "field_has rule k q = rbind (get rule k) (\<lambda>v. low_has v q)"

definition selected :: "string \<Rightarrow> jsv \<Rightarrow> string \<Rightarrow> bool res" where
  \<comment> \<open>\<open>f === 'all' || rule.k === f\<close>\<close>
  "selected f rule k = ror (Inr (f = ''all'')) (rmap (\<lambda>v. v = JStr f) (get rule k))"

definition rule_matches :: "rules_st \<Rightarrow> jsv \<Rightarrow> bool res" where
  "rule_matches s rule =
     rbind (ror (Inr (search s = []))
        (ror (field_has rule ''name'' (search s))
        (ror (field_has rule ''description'' (search s))
             (field_has rule ''id'' (search s))))) (\<lambda>matchesSearch.
     rbind (selected (typeFilter s) rule ''type'') (\<lambda>matchesType.
     rbind (selected (severityFilter s) rule ''severity'') (\<lambda>matchesSeverity.
     rbind (selected (statusFilter s) rule ''status'') (\<lambda>matchesStatus.
       Inr (matchesSearch \<and> matchesType \<and> matchesSeverity \<and> matchesStatus)))))"

definition filteredRules :: "rules_st \<Rightarrow> jsv list res" where
  "filteredRules s = rfilter (rule_matches s) (rulesList s)"

definition totalPages :: "jsv list \<Rightarrow> int" where
  "totalPages xs = page_count 8 (length xs)"

definition paginatedRules :: "rules_st \<Rightarrow> jsv list res" where
  "paginatedRules s = rmap (\<lambda>xs. let start = (page s - 1) * 8 in js_slice start (start + 8) xs) (filteredRules s)"

text \<open>A change of a filter also runs the effect that goes back to page 1.\<close>

definition set_filters :: "(rules_st \<Rightarrow> rules_st) \<Rightarrow> rules_st \<Rightarrow> rules_st" where
  "set_filters f s = (if search (f s) = search s \<and> typeFilter (f s) = typeFilter s
       \<and> severityFilter (f s) = severityFilter s \<and> statusFilter (f s) = statusFilter s
     then f s else (f s)\<lparr>page := 1\<rparr>)"

definition createRule :: "jsv \<Rightarrow> (rules_st, jsv) act" where
  "createRule ruleData = bnd (await (addRule ruleData)) (\<lambda>created. thn fetchRules (Ret created))"

definition removeRule :: "jsv \<Rightarrow> (rules_st, jsv) act" where
  "removeRule ruleId = bnd (await (deleteRule ruleId)) (\<lambda>_. thn fetchRules (Ret JUndef))"

text \<open>\<open>editRule\<close>, \<open>toggleRule\<close> and \<open>importRulesJson\<close> only refetch; they differ in what they return.\<close>

definition editRule :: "(rules_st, jsv) act" where
  "editRule = thn fetchRules (Ret JNull)"

definition toggleRule :: "(rules_st, jsv) act" where
  "toggleRule = thn fetchRules (Ret JUndef)"

definition importRulesJson :: "(rules_st, jsv) act" where
  "importRulesJson = thn fetchRules (Ret (jn 0))"

text \<open>Two stubs: neither looks at its argument.\<close>

definition checkConflicts :: "jsv \<Rightarrow> jsv" where
  "checkConflicts ruleCandidate = JArr []"

definition testSimulation :: "jsv \<Rightarrow> jsv" where
  "testSimulation event = JNull"

definition rules_ops :: "rules_st \<Rightarrow> (rules_st, jsv) act set" where
  "rules_ops s = {fetchRules, editRule, toggleRule, importRulesJson} \<union> range createRule \<union> range removeRule
     \<union> {Upd (set_filters (search_update (\<lambda>_. q))) (Ret JUndef) | q. True}
     \<union> {Upd (set_filters (typeFilter_update (\<lambda>_. q))) (Ret JUndef) | q. True}
     \<union> {Upd (set_filters (severityFilter_update (\<lambda>_. q))) (Ret JUndef) | q. True}
     \<union> {Upd (set_filters (statusFilter_update (\<lambda>_. q))) (Ret JUndef) | q. True}
     \<union> {Upd (page_update (\<lambda>_. n)) (Ret JUndef) | n. True}"

section \<open>Paging\<close>

interpretation rules_pager: pager 8 "page_slice 8" totalPages
  unfolding totalPages_def by (rule pager_page_slice) simp

lemma paginatedRules_page: "filteredRules s = Inr xs \<Longrightarrow> paginatedRules s = Inr (page_slice 8 (page s) xs)"
  by (simp add: paginatedRules_def Let_def page_slice_def algebra_simps)

lemma fetchRules_settles [simp]: "settles loading fetchRules"
  by (simp add: fetchRules_def)

lemma set_filters_loading:
  "(\<And>s. loading (f s) = loading s) \<Longrightarrow> loading (set_filters f s) = loading s"
  by (simp add: set_filters_def)

interpretation rules_loading: spinner rules_ops ok loading for ok
  by unfold_locales
    (auto simp: rules_ops_def editRule_def toggleRule_def importRulesJson_def createRule_def removeRule_def
      set_filters_loading intro!: settles_thn settles_bnd)

section \<open>When the filter cannot throw\<close>

definition searchable :: "jsv \<Rightarrow> bool" where
  "searchable r \<longleftrightarrow> (\<exists>ps. r = JObj ps) \<and>
     list_all (\<lambda>k. \<exists>t. fld r k = JStr t) [''name'', ''description'', ''id'']"

definition shown_by :: "rules_st \<Rightarrow> jsv \<Rightarrow> bool" where
  "shown_by s r \<longleftrightarrow>
     (search s = [] \<or> list_ex (\<lambda>k. case fld r k of JStr t \<Rightarrow> str_includes (lower t) (lower (search s)) | _ \<Rightarrow> False)
                        [''name'', ''description'', ''id'']) \<and>
     (typeFilter s = ''all'' \<or> fld r ''type'' = JStr (typeFilter s)) \<and>
     (severityFilter s = ''all'' \<or> fld r ''severity'' = JStr (severityFilter s)) \<and>
     (statusFilter s = ''all'' \<or> fld r ''status'' = JStr (statusFilter s))"

lemma rule_matches_total: "searchable r \<Longrightarrow> rule_matches s r = Inr (shown_by s r)"
  by (auto simp: rule_matches_def searchable_def field_has_def selected_def shown_by_def ror_def)

lemma filteredRules_total:
  "list_all searchable (rulesList s) \<Longrightarrow> filteredRules s = Inr (filter (shown_by s) (rulesList s))"
  unfolding filteredRules_def
  by (rule rfilter_total) (simp add: rule_matches_total list_all_iff)

section \<open>Properties\<close>

text \<open>
  Paging through the filtered rules. When the rules have string names, descriptions and ids,
  the pages from 1 to \<open>totalPages\<close> show exactly the rules that match the filters, each once and in
  order, at most eight per page and none empty unless nothing matches.
\<close>

theorem rules_pages_show_filtered:
  assumes "list_all searchable (rulesList s)"
  shows "\<exists>xs. filteredRules s = Inr xs \<and> xs = filter (shown_by s) (rulesList s)
    \<and> concat (map (\<lambda>p. case paginatedRules (s\<lparr>page := int p + 1\<rparr>) of Inr ys \<Rightarrow> ys | Inl _ \<Rightarrow> [])
        [0..<nat (totalPages xs)]) = xs
    \<and> list_all (\<lambda>p. case paginatedRules (s\<lparr>page := int p + 1\<rparr>) of
          Inr ys \<Rightarrow> length ys \<le> 8 \<and> (xs = [] \<or> ys \<noteq> []) | Inl _ \<Rightarrow> False) [0..<nat (totalPages xs)]"
proof -
  let ?xs = "filter (shown_by s) (rulesList s)"
  have "rule_matches (s\<lparr>page := p\<rparr>) = rule_matches s" for p
    by (rule ext) (simp add: rule_matches_def)
  then have same: "filteredRules (s\<lparr>page := p\<rparr>) = filteredRules s" for p
    by (simp add: filteredRules_def)
  have f: "filteredRules s = Inr ?xs" by (rule filteredRules_total [OF assms])
  have page: "paginatedRules (s\<lparr>page := int p + 1\<rparr>) = Inr (page_slice 8 (int p + 1) ?xs)" for p
    using paginatedRules_page [of "s\<lparr>page := int p + 1\<rparr>" ?xs] f same by simp
  have "list_all (\<lambda>p. length (page_slice 8 (int p + 1) ?xs) \<le> 8 \<and>
      (?xs = [] \<or> page_slice 8 (int p + 1) ?xs \<noteq> [])) [0..<nat (totalPages ?xs)]"
    using rules_pager.page_length rules_pager.page_nonempty [of ?xs] by (auto simp: list_all_iff)
  then show ?thesis
    using f rules_pager.pages_partition [of ?xs] by (intro exI [of _ ?xs]) (simp add: page)
qed

definition plain_rule :: "string \<Rightarrow> jsv" where
  "plain_rule i = JObj [(''id'', JStr i), (''name'', JStr ''ssh''), (''description'', JStr ''d''),
     (''type'', JStr ''allow''), (''severity'', JStr ''low''), (''status'', JStr ''on'')]"

definition nine_rules :: rules_st where
  "nine_rules = init_rules\<lparr>loading := False, page := 2,
     rulesList := map plain_rule [''1'', ''2'', ''3'', ''4'', ''5'', ''6'', ''7'', ''8'', ''9'']\<rparr>"

theorem rules_pages_show_filtered_witness:
  "\<exists>xs. filteredRules nine_rules = Inr xs \<and> length xs = 9"
proof -
  have all: "list_all searchable (rulesList nine_rules)"
    by (simp add: nine_rules_def searchable_def plain_rule_def)
  have "filter (shown_by nine_rules) (rulesList nine_rules) = rulesList nine_rules"
    by (simp add: nine_rules_def init_rules_def shown_by_def plain_rule_def)
  then show ?thesis
    using rules_pages_show_filtered [OF all] by (auto simp: nine_rules_def)
qed

text \<open>
  The page number is not clamped. With nine rules and page 2 open, deleting the ninth rule
  refetches eight, leaves page 2 selected and shows an empty table although eight rules match.
\<close>

theorem deleting_last_row_empties_page:
  "\<exists>s'. run (logging (\<lambda>q. if req_method q = DELETE then Inr (JObj [])
          else Inr (JObj [(''data'', JArr (map plain_rule [''1'', ''2'', ''3'', ''4'', ''5'', ''6'', ''7'', ''8'']))])))
        (removeRule (JStr ''9'')) nine_rules [] =
      (Inr JUndef, s', [Req DELETE ''/rules/9'' JUndef JUndef, Req GET ''/rules/'' JUndef JUndef])
    \<and> rmap length (filteredRules s') = Inr 8 \<and> totalPages (rulesList s') = 1 \<and> page s' = 2
    \<and> paginatedRules s' = Inr []"
proof -
  let ?s = "nine_rules\<lparr>rulesList := map plain_rule [''1'', ''2'', ''3'', ''4'', ''5'', ''6'', ''7'', ''8'']\<rparr>"
  have f: "filteredRules ?s = Inr (rulesList ?s)"
    by (subst filteredRules_total)
      (simp_all add: nine_rules_def init_rules_def searchable_def plain_rule_def shown_by_def)
  have "totalPages (rulesList ?s) = 1"
    by (simp add: totalPages_def page_count_def Let_def)
  then have "page_slice 8 (page ?s) (rulesList ?s) = []"
    using rules_pager.page_beyond [of "rulesList ?s" 1] by (simp add: nine_rules_def)
  then have "paginatedRules ?s = Inr []"
    using paginatedRules_page [OF f] by simp
  with f \<open>totalPages (rulesList ?s) = 1\<close> show ?thesis
    by (intro exI [of _ ?s])
      (simp add: removeRule_def deleteRule_def api_delete_def fetchRules_def getRules_def list_or_empty_def
        api_get_def run_simps nine_rules_def)
qed

end
