(* ===== verification/RuleLab.thy ===== *)
theory RuleLab
  imports RulesHook Navigation
begin

text \<open>
  What surrounds the firewall rules of \<open>src/frontend/src/hooks/useRules.js\<close>: their export as a file, the table
  \<open>components/ui/RuleTable.jsx\<close> and the laboratory \<open>components/ui/RuleTestModal.jsx\<close>, in which an event is tried against the rules.
\<close>

section \<open>Exporting\<close>

text \<open>The address and the name of the file the browser is made to download.\<close>

definition data_prefix :: string where
  "data_prefix = ''data:text/json;charset=utf-8,''"

definition exportRulesJson :: "clock \<Rightarrow> rules_st \<Rightarrow> string \<times> string" where
  "exportRulesJson c s = (data_prefix @ encodeURIComponent (JSON_stringify (JArr (rulesList s))),
     ''larp_security_rules_'' @ take 10 (now_iso c) @ ''.json'')"

definition data_content :: "string \<Rightarrow> string" where
  \<comment> \<open>what a browser finds under such an address; a plus sign does not occur in it\<close>
  "data_content url = form_decode (drop (length data_prefix) url)"

section \<open>The table\<close>

definition type_labels :: "(string \<times> string) list" where
  "type_labels = [(''dns'', ''DNS''), (''proxy'', ''Proxy''), (''botnet'', ''Botnet''), (''rate_limit'', ''Rate Limit''),
     (''blacklist'', ''Blacklist''), (''firewall'', ''Firewall''), (''edr'', ''EDR''), (''signature'', ''Signature'')]"

definition action_labels :: "(string \<times> string) list" where
  "action_labels = [(''block'', ''Block''), (''alert'', ''Alert''), (''isolate'', ''Isolate''), (''quarantine'', ''Quarantine''), (''log'', ''Log'')]"

definition labelled :: "(string \<times> string) list \<Rightarrow> jsv \<Rightarrow> jsv" where
  "labelled m v = (case map_of m (to_str v) of Some l \<Rightarrow> JStr l | None \<Rightarrow> v)"

definition scope_text :: "jsv \<Rightarrow> string" where
  "scope_text rule = (if fld rule ''scope'' = JStr ''all_agents'' then ''All Agents''
     else to_str (js_or (fld (fld rule ''selected_agents'') ''length'') (jn 0)) @ '' Agents'')"

definition rule_row :: "jsv \<Rightarrow> jsv res" where
  "rule_row rule = non_null rule (JObj [(''active'', JBool (fld rule ''status'' = JStr ''active'')),
     (''type'', labelled type_labels (fld rule ''type'')), (''action'', labelled action_labels (fld rule ''action'')),
     (''scope'', JStr (scope_text rule))])"

definition rule_rows :: "jsv list \<Rightarrow> jsv list res" where
  "rule_rows rules = rmapM rule_row rules"

section \<open>The laboratory\<close>

record lab_st =
  testPayload :: jsv
  matches :: jsv

definition init_lab :: lab_st where
  "init_lab = \<lparr>testPayload = JObj [(''ip'', JStr ''198.51.100.45''), (''domain'', JStr ''malware-c2-domain.com''),
     (''port'', JStr ''53''), (''protocol'', JStr ''DNS''), (''process'', JStr ''powershell.exe''),
     (''hash'', JStr ''e3b0c44298fc1c149afbf4c8996fb92427ae41e4649b934ca495991b7852b855''), (''rate'', JStr ''6000'')],
     matches = JNull\<rparr>"

definition lab_change :: "string \<Rightarrow> string \<Rightarrow> lab_st \<Rightarrow> lab_st" where
  "lab_change k v = testPayload_update (\<lambda>p. with_fld p k (JStr v))"

definition lab_event :: "jsv \<Rightarrow> jsv" where
  \<comment> \<open>what is handed to \<open>onSimulate\<close>\<close>
  "lab_event p = spread [p, JObj [(''port'', js_or (JNum (to_num (fld p ''port''))) (jn 0)),
     (''rate'', js_or (JNum (to_num (fld p ''rate''))) (jn 0))]]"

definition handleRunTest :: "(jsv \<Rightarrow> jsv) \<Rightarrow> lab_st \<Rightarrow> lab_st" where
  "handleRunTest onSimulate s = s\<lparr>matches := onSimulate (lab_event (testPayload s))\<rparr>"

definition match_row :: "jsv \<Rightarrow> string res" where
  "match_row rule = rbind (rbind (get rule ''type'') to_upper) (\<lambda>ty. rbind (to_upper (fld rule ''action'')) (\<lambda>act.
     Inr (''['' @ to_str (fld rule ''id'') @ ''] '' @ to_str (fld rule ''name'') @ '' Type: '' @ to_str ty @ '' | Action: '' @ to_str act)))"

text \<open>The verdict: nothing before the first run, then the number of rules matched and a row for each.\<close>

definition lab_verdict :: "lab_st \<Rightarrow> (string \<times> string list) option res" where
  "lab_verdict s = (if matches s = JNull then Inr None
     else rbind (get (matches s) ''length'') (\<lambda>n. if num_lt (Fin 0) (to_num n)
       then rmap (\<lambda>rows. Some (''Matched '' @ to_str n @ '' Rule(s)'', rows)) (rmapM match_row (elems (matches s)))
       else Inr (Some (''No Rules Triggered (Traffic Allowed)'', []))))"

section \<open>Properties\<close>

text \<open>
  The exported file can be read back: what the browser saves under the exported address parses to the list of rules the hook
  held, for all rules made of JSON values.
\<close>

theorem exported_rules_roundtrip:
  assumes "list_all json_ok (rulesList s)"
  shows "JSON_parse (data_content (fst (exportRulesJson c s))) = Inr (JArr (rulesList s))"
proof -
  have "data_content (fst (exportRulesJson c s)) = JSON_stringify (JArr (rulesList s))"
    using decode_encode [of "JSON_stringify (JArr (rulesList s))" "[]"] by (simp add: exportRulesJson_def data_content_def)
  with assms show ?thesis by (simp add: json_roundtrip)
qed

theorem exported_rules_roundtrip_witness:
  "JSON_parse (data_content (fst (exportRulesJson stopped_clock (init_rules\<lparr>rulesList := [JObj [(''id'', JStr ''R&1 + 2'')]]\<rparr>))))
    = Inr (JArr [JObj [(''id'', JStr ''R&1 + 2'')]])"
  using exported_rules_roundtrip [of "init_rules\<lparr>rulesList := [JObj [(''id'', JStr ''R&1 + 2'')]]\<rparr>" stopped_clock] by simp

text \<open>
  The laboratory never answers with the hook's simulation: whatever event is entered, after the run there is still no verdict,
  neither that a rule matched nor that the traffic is allowed.
\<close>

theorem simulation_never_answers:
  "lab_verdict (handleRunTest testSimulation s) = Inr None"
  by (simp add: lab_verdict_def handleRunTest_def testSimulation_def)

end
