(* ===== verification/SocketHook.thy ===== *)
theory SocketHook
  imports HookBase
begin

text \<open>
  \<open>src/frontend/src/hooks/useDashboardSocket.js\<close>: the reconnecting dashboard socket as a state
  machine. An \<open>effect\<close> is one run of the hook's \<open>useEffect\<close>: the sockets it created, in order, its
  pending reconnect timers and its \<open>isUnmounted\<close> flag; the hook's state is the flag
  \<open>isConnected\<close> and the effects run so far (React starts a new one, after cleaning the old one
  up, when \<open>onMessage\<close> changes). The browser's part is the set of events: a socket opens, closes
  (for whatever reason), the timer expires, the component re-renders or unmounts; whether
  \<open>new WebSocket\<close> throws is part of the event that calls \<open>connect\<close>.
\<close>

section \<open>The address and the messages\<close>

definition ws_url :: "string \<Rightarrow> string \<Rightarrow> string" where
  "ws_url protocol host =
     (if protocol = ''https:'' then ''wss:'' else ''ws:'') @ ''//'' @ host @ ''/ws/dashboard''"

text \<open>
  \<open>onmessage\<close>: \<open>parse\<close> is \<open>JSON.parse\<close>. What the callback throws is caught with the parse errors.
\<close>

definition ws_message ::
  "(string \<Rightarrow> jsv res) \<Rightarrow> (jsv \<Rightarrow> ('s, jsv) act) option \<Rightarrow> string \<Rightarrow> ('s, jsv) act" where
  "ws_message parse onMessage text =
     (case parse text of
        Inl e \<Rightarrow> Ret JUndef
      | Inr d \<Rightarrow> (case onMessage of None \<Rightarrow> Ret JUndef | Some h \<Rightarrow> catch (h d) (\<lambda>_. Ret JUndef)))"

section \<open>The machine\<close>

datatype sock = Connecting | Opened | Closing | Closed

record effect =
  socks :: "sock list"
  timers :: nat
  unmounted :: bool

record sock_st =
  isConnected :: bool
  effects :: "effect list"

definition live :: "sock \<Rightarrow> bool" where
  "live x \<longleftrightarrow> x \<noteq> Closed"

text \<open>\<open>connect()\<close>: \<open>works\<close> tells whether the constructor succeeds; otherwise retry in 3 s.\<close>

definition connect :: "bool \<Rightarrow> effect \<Rightarrow> effect" where
  "connect works e =
     (if unmounted e then e
      else if works then e\<lparr>socks := socks e @ [Connecting]\<rparr>
      else e\<lparr>timers := Suc (timers e)\<rparr>)"

definition fresh_effect :: effect where
  "fresh_effect = \<lparr>socks = [], timers = 0, unmounted = False\<rparr>"

definition sock_open :: "nat \<Rightarrow> effect \<Rightarrow> effect option" where
  "sock_open i e = (if i < length (socks e) \<and> socks e ! i = Connecting
                    then Some (e\<lparr>socks := (socks e)[i := Opened]\<rparr>) else None)"

text \<open>\<open>onclose\<close>: a mounted effect sets a reconnect timer.\<close>

definition sock_close :: "nat \<Rightarrow> effect \<Rightarrow> effect option" where
  "sock_close i e =
     (if i < length (socks e) \<and> live (socks e ! i)
      then Some (e\<lparr>socks := (socks e)[i := Closed],
                   timers := (if unmounted e then timers e else Suc (timers e))\<rparr>)
      else None)"

definition timer_fires :: "bool \<Rightarrow> effect \<Rightarrow> effect option" where
  "timer_fires works e =
     (if timers e = 0 then None else Some (connect works (e\<lparr>timers := timers e - 1\<rparr>)))"

text \<open>
  The cleanup clears the timer set last and closes the socket created last; a closed socket stays
  closed. The timers of an effect never exceed one (proved below), so clearing the last is enough.
\<close>

definition cleanup :: "effect \<Rightarrow> effect" where
  "cleanup e = e\<lparr>unmounted := True, timers := timers e - 1,
     socks := (if socks e = [] then []
               else butlast (socks e) @ [if live (last (socks e)) then Closing else Closed])\<rparr>"

datatype event = Open_ev nat | Close_ev nat | Timer_ev bool

definition effect_event :: "event \<Rightarrow> effect \<Rightarrow> effect option" where
  "effect_event ev e = (case ev of
     Open_ev i \<Rightarrow> sock_open i e | Close_ev i \<Rightarrow> sock_close i e | Timer_ev works \<Rightarrow> timer_fires works e)"

text \<open>What the event does to \<open>isConnected\<close>; \<open>setIsConnected\<close> is shared by all effects.\<close>

definition connected_after :: "event \<Rightarrow> bool \<Rightarrow> bool" where
  "connected_after ev b = (case ev of Open_ev _ \<Rightarrow> True | Close_ev _ \<Rightarrow> False | Timer_ev _ \<Rightarrow> b)"

definition mount_effect :: "bool \<Rightarrow> sock_st" where
  "mount_effect works = \<lparr>isConnected = False, effects = [connect works fresh_effect]\<rparr>"

inductive sock_step :: "sock_st \<Rightarrow> sock_st \<Rightarrow> bool" where
  browser: "k < length (effects s) \<Longrightarrow> effect_event ev (effects s ! k) = Some e \<Longrightarrow>
     sock_step s \<lparr>isConnected = connected_after ev (isConnected s), effects = (effects s)[k := e]\<rparr>"
| rerender: "effects s = es @ [e] \<Longrightarrow> \<not> unmounted e \<Longrightarrow>
     sock_step s (s\<lparr>effects := es @ [cleanup e, connect works fresh_effect]\<rparr>)"
| unmount: "effects s = es @ [e] \<Longrightarrow> \<not> unmounted e \<Longrightarrow> sock_step s (s\<lparr>effects := es @ [cleanup e]\<rparr>)"

inductive_cases sock_stepE: "sock_step s t"

inductive sock_reach :: "sock_st \<Rightarrow> bool" where
  mounting: "sock_reach (mount_effect works)"
| moving: "sock_reach s \<Longrightarrow> sock_step s t \<Longrightarrow> sock_reach t"

section \<open>One effect\<close>

definition live_socks :: "effect \<Rightarrow> nat" where
  "live_socks e = length (filter live (socks e))"

text \<open>
  A mounted effect has either one live socket or one pending timer, never both and never
  neither; an unmounted one has no timer and at most one socket, which is closing. Only the last
  socket can be live.
\<close>

definition effect_ok :: "effect \<Rightarrow> bool" where
  "effect_ok e \<longleftrightarrow>
     (\<forall>x\<in>set (butlast (socks e)). x = Closed) \<and>
     (if unmounted e then timers e = 0 \<and> live_socks e \<le> 1 \<and> (\<forall>x\<in>set (socks e). x \<in> {Closing, Closed})
      else timers e + live_socks e = 1 \<and> Closing \<notin> set (socks e))"

lemma effect_ok_fresh: "effect_ok (connect works fresh_effect)"
  by (simp add: connect_def fresh_effect_def effect_ok_def live_socks_def live_def)

text \<open>Only the last socket is live, so an event can concern only that one.\<close>

lemma live_is_last:
  assumes "effect_ok e" and "i < length (socks e)" and "live (socks e ! i)"
  shows "socks e = butlast (socks e) @ [socks e ! i] \<and> Suc i = length (socks e)"
proof -
  have "\<not> i < length (butlast (socks e))"
  proof
    assume "i < length (butlast (socks e))"
    then have "socks e ! i \<in> set (butlast (socks e))"
      by (metis nth_butlast nth_mem)
    with assms show False by (auto simp: effect_ok_def live_def)
  qed
  with assms(2) have i: "Suc i = length (socks e)" by simp
  then have "socks e ! i = last (socks e)"
    by (metis last_conv_nth diff_Suc_1 length_0_conv nat.distinct(1))
  with i show ?thesis by (metis append_butlast_last_id length_0_conv nat.distinct(1))
qed

lemma filter_live_Nil: "\<forall>x\<in>set xs. x = Closed \<Longrightarrow> filter live xs = []"
  by (auto simp: filter_empty_conv live_def)

lemma effect_ok_event:
  assumes ok: "effect_ok e" and ev: "effect_event ev e = Some e'"
  shows "effect_ok e' \<and> unmounted e' = unmounted e"
proof (cases ev)
  case (Open_ev i)
  with ev have i: "i < length (socks e)" "socks e ! i = Connecting"
    and e': "e' = e\<lparr>socks := (socks e)[i := Opened]\<rparr>"
    by (auto simp: effect_event_def sock_open_def split: if_splits)
  then obtain bs where socks: "socks e = bs @ [Connecting]" and len: "i = length bs"
    using live_is_last [OF ok, of i] by (metis butlast_snoc length_append_singleton live_def old.nat.inject sock.distinct(5))
  with ok show ?thesis
    by (auto simp: e' effect_ok_def live_socks_def live_def filter_live_Nil split: if_splits)
next
  case (Close_ev i)
  with ev have i: "i < length (socks e)" "live (socks e ! i)"
    and e': "e' = e\<lparr>socks := (socks e)[i := Closed], timers := (if unmounted e then timers e else Suc (timers e))\<rparr>"
    by (auto simp: effect_event_def sock_close_def split: if_splits)
  then obtain bs x where socks: "socks e = bs @ [x]" and len: "i = length bs" and x: "live x"
    using live_is_last [OF ok, of i] by (metis length_append_singleton old.nat.inject)
  with ok show ?thesis
    by (auto simp: e' effect_ok_def live_socks_def live_def filter_live_Nil split: if_splits)
next
  case (Timer_ev works)
  with ev have "timers e \<noteq> 0" and e': "e' = connect works (e\<lparr>timers := timers e - 1\<rparr>)"
    by (auto simp: effect_event_def timer_fires_def split: if_splits)
  with ok have "\<not> unmounted e" "timers e + live_socks e = 1" "Closing \<notin> set (socks e)"
    by (auto simp: effect_ok_def split: if_splits)
  moreover from this(2) \<open>timers e \<noteq> 0\<close> have "timers e = 1" "live_socks e = 0"
    by linarith+
  moreover from this(2) have "filter live (socks e) = []"
    by (simp add: live_socks_def)
  ultimately show ?thesis
    by (auto simp: e' connect_def effect_ok_def live_socks_def live_def filter_empty_conv dest: in_set_butlastD)
qed

lemma effect_ok_cleanup:
  assumes "effect_ok e" and "\<not> unmounted e"
  shows "effect_ok (cleanup e)"
proof (cases "socks e" rule: rev_cases)
  case Nil
  with assms show ?thesis by (simp add: effect_ok_def cleanup_def live_socks_def)
next
  case (snoc bs x)
  with assms show ?thesis
    by (auto simp: effect_ok_def cleanup_def live_socks_def live_def filter_live_Nil split: if_splits)
qed

section \<open>All effects\<close>

definition sock_inv :: "sock_st \<Rightarrow> bool" where
  "sock_inv s \<longleftrightarrow> effects s \<noteq> [] \<and> (\<forall>e\<in>set (effects s). effect_ok e) \<and>
     (\<forall>e\<in>set (butlast (effects s)). unmounted e) \<and>
     (length (effects s) = 1 \<longrightarrow> \<not> unmounted (hd (effects s)) \<longrightarrow>
        isConnected s = (Opened \<in> set (socks (hd (effects s)))))"

lemma connected_after_event:
  assumes ok: "effect_ok e" and "\<not> unmounted e" and ev: "effect_event ev e = Some e'"
    and "b = (Opened \<in> set (socks e))"
  shows "connected_after ev b = (Opened \<in> set (socks e'))"
proof (cases ev)
  case (Open_ev i)
  with ev show ?thesis
    by (auto simp: effect_event_def sock_open_def connected_after_def set_update_memI split: if_splits)
next
  case (Close_ev i)
  with ev have i: "i < length (socks e)" "live (socks e ! i)"
    and e': "socks e' = (socks e)[i := Closed]"
    by (auto simp: effect_event_def sock_close_def split: if_splits)
  then obtain bs x where "socks e = bs @ [x]" and "i = length bs"
    using live_is_last [OF ok, of i] by (metis length_append_singleton old.nat.inject)
  with e' ok have "Opened \<notin> set (socks e')"
    by (auto simp: effect_ok_def)
  with Close_ev show ?thesis by (simp add: connected_after_def)
next
  case (Timer_ev works)
  with ev assms show ?thesis
    by (auto simp: effect_event_def timer_fires_def connect_def connected_after_def split: if_splits)
qed

lemma sock_inv_step:
  assumes "sock_step s t" and "sock_inv s"
  shows "sock_inv t"
  using assms
proof (induction rule: sock_step.induct)
  case (browser k s ev e)
  let ?es = "(effects s)[k := e]"
  have old: "effect_ok (effects s ! k)" using browser by (simp add: sock_inv_def)
  have new: "effect_ok e" and um: "unmounted e = unmounted (effects s ! k)"
    using effect_ok_event [OF old browser.hyps(2)] by auto
  have "unmounted x" if "x \<in> set (butlast ?es)" for x
  proof -
    have bl: "butlast ?es = (butlast (effects s))[k := e]"
      using browser.hyps(1) by (cases "effects s" rule: rev_cases) (auto simp: list_update_append list_update_beyond butlast_append)
    show ?thesis
    proof (cases "k < length (butlast (effects s))")
      case True
      then have "effects s ! k \<in> set (butlast (effects s))"
        by (metis nth_butlast nth_mem)
      with browser.prems um that bl show ?thesis
        by (auto simp: sock_inv_def dest: set_update_subset_insert [THEN subsetD])
    next
      case False
      with that bl have "x \<in> set (butlast (effects s))"
        by (simp add: list_update_beyond)
      with browser.prems show ?thesis by (simp add: sock_inv_def)
    qed
  qed
  moreover have "connected_after ev (isConnected s) = (Opened \<in> set (socks e))"
    if "length (effects s) = 1" "\<not> unmounted e"
  proof -
    from that browser.hyps(1) have "k = 0" "effects s ! 0 = hd (effects s)"
      by (cases "effects s", auto)+
    with browser old that um show ?thesis
      by (intro connected_after_event [OF old]) (auto simp: sock_inv_def)
  qed
  ultimately show ?case
    using browser.prems new browser.hyps(1)
    by (auto simp: sock_inv_def hd_conv_nth dest: set_update_subset_insert [THEN subsetD])
next
  case (rerender s es e)
  then show ?case
    using effect_ok_cleanup [of e] effect_ok_fresh
    by (auto simp: sock_inv_def butlast_append cleanup_def)
next
  case (unmount s es e)
  then show ?case
    using effect_ok_cleanup [of e]
    by (cases es) (auto simp: sock_inv_def butlast_append cleanup_def)
qed

lemma sock_inv_reach: "sock_reach s \<Longrightarrow> sock_inv s"
proof (induction rule: sock_reach.induct)
  case (mounting works)
  have "\<not> Opened \<in> set (socks (connect works fresh_effect))"
    by (auto simp: connect_def fresh_effect_def)
  then show ?case by (simp add: mount_effect_def sock_inv_def effect_ok_fresh)
qed (rule sock_inv_step)

section \<open>Properties\<close>

text \<open>
  C10: the hook never stops trying and never holds two connections. In every reachable state, as
  long as the component is mounted its current effect has either exactly one socket that is not
  closed or exactly one reconnect timer, and every effect cleaned up before has no timer left and
  only closing or closed sockets.
\<close>

theorem socket_one_connection:
  assumes "sock_reach s" and "effects s = es @ [e]" and "\<not> unmounted e"
  shows "timers e + live_socks e = 1
    \<and> list_all (\<lambda>d. timers d = 0 \<and> list_all (\<lambda>x. x = Closing \<or> x = Closed) (socks d)) es"
  using sock_inv_reach [OF assms(1)] assms(2,3)
  by (auto simp: sock_inv_def effect_ok_def list_all_iff split: if_splits)

lemma reach_opened: "sock_reach \<lparr>isConnected = True, effects = [\<lparr>socks = [Opened], timers = 0, unmounted = False\<rparr>]\<rparr>"
proof -
  let ?s = "mount_effect True"
  have "effect_event (Open_ev 0) (effects ?s ! 0) = Some \<lparr>socks = [Opened], timers = 0, unmounted = False\<rparr>"
    by (simp add: mount_effect_def effect_event_def sock_open_def connect_def fresh_effect_def)
  from moving [OF mounting browser [of 0 ?s, OF _ this]] show ?thesis
    by (simp add: mount_effect_def connected_after_def)
qed

theorem socket_one_connection_witness:
  "timers \<lparr>socks = [Opened], timers = 0, unmounted = False\<rparr> +
   live_socks \<lparr>socks = [Opened], timers = 0, unmounted = False\<rparr> = 1"
  using socket_one_connection [OF reach_opened, of "[]"] by simp

text \<open>
  As long as \<open>onMessage\<close> does not change (one effect, still mounted), \<open>isConnected\<close> is up
  exactly while the socket is open.
\<close>

theorem connected_flag_exact:
  assumes "sock_reach s" and "effects s = [e]" and "\<not> unmounted e"
  shows "isConnected s \<longleftrightarrow> Opened \<in> set (socks e)"
  using sock_inv_reach [OF assms(1)] assms(2,3) by (simp add: sock_inv_def)

theorem connected_flag_exact_witness:
  "Opened \<in> set (socks \<lparr>socks = [Opened], timers = 0, unmounted = False\<rparr>)"
  using connected_flag_exact [OF reach_opened] by simp

text \<open>
  After a change of \<open>onMessage\<close> the flag can be wrong for good: the old socket's close event,
  which the browser delivers after the new socket has opened, takes \<open>isConnected\<close> down while the
  current effect is connected.
\<close>

theorem stale_close_hides_connection:
  "\<exists>s es e. sock_reach s \<and> effects s = es @ [e] \<and> \<not> unmounted e \<and> Opened \<in> set (socks e)
     \<and> \<not> isConnected s"
proof -
  let ?old = "\<lparr>socks = [Closing], timers = 0, unmounted = True\<rparr>"
  let ?new = "\<lparr>socks = [Opened], timers = 0, unmounted = False\<rparr>"
  have 1: "sock_reach \<lparr>isConnected = True, effects = [?old, \<lparr>socks = [Connecting], timers = 0, unmounted = False\<rparr>]\<rparr>"
    using moving [OF reach_opened rerender [where es = "[]" and e = ?new and works = True]]
    by (simp add: cleanup_def connect_def fresh_effect_def live_def)
  have 2: "sock_reach \<lparr>isConnected = True, effects = [?old, ?new]\<rparr>"
    using moving [OF 1 browser [where k = 1 and ev = "Open_ev 0" and e = ?new]]
    by (simp add: effect_event_def sock_open_def connected_after_def)
  have "sock_reach \<lparr>isConnected = False, effects = [\<lparr>socks = [Closed], timers = 0, unmounted = True\<rparr>, ?new]\<rparr>"
    using moving [OF 2 browser [where k = 0 and ev = "Close_ev 0" and
        e = "\<lparr>socks = [Closed], timers = 0, unmounted = True\<rparr>"]]
    by (simp add: effect_event_def sock_close_def connected_after_def live_def)
  then show ?thesis
    by (intro exI [of _ "\<lparr>isConnected = False, effects = [\<lparr>socks = [Closed], timers = 0, unmounted = True\<rparr>, ?new]\<rparr>"]
        exI [of _ "[\<lparr>socks = [Closed], timers = 0, unmounted = True\<rparr>]"] exI [of _ ?new]) simp
qed

end
