(* ===== verification/StoryCards.thy ===== *)
theory StoryCards
  imports IncidentDetail IncidentRows
begin

text \<open>
  What the storyboard of an incident shows and offers: the cards of \<open>components/incidents/StoryTimeline.jsx\<close>, the buttons of
  \<open>ProcessAncestry.jsx\<close>, the footer and the closing dialog of \<open>IncidentDetailModal.jsx\<close>, and the panel
  \<open>components/agents/AgentSecurityContext.jsx\<close> of one agent. A shown line is its caption and the values in it; clock texts
  and colours are left out.
\<close>

section \<open>The timeline\<close>

text \<open>The lines of an opened card, by the type of its event.\<close>

definition spawn_lines :: "jsv \<Rightarrow> (string \<times> jsv list) list" where
  "spawn_lines d = [(''PID'', [fld d ''pid'', fld d ''name''])]
     @ (if truthy (fld d ''path'') then [(''Path'', [fld d ''path''])] else [])
     @ (if truthy (fld d ''cmdline'') then [(''Commandline'', [fld d ''cmdline''])] else [])
     @ (if truthy (fld d ''parent'') then [(''Parent'', [fld (fld d ''parent'') ''name'', fld (fld d ''parent'') ''pid''])] else [])"

definition network_lines :: "jsv \<Rightarrow> (string \<times> jsv list) list" where
  "network_lines d = [(''Destination'', [fld d ''dst_ip'', fld d ''dst_port'', js_or (fld d ''protocol'') (JStr ''TCP'')])]
     @ (if nullishp (fld d ''bytes_sent'') then []
        else [(''Traffic'', [fld d ''bytes_sent'', js_or (fld d ''packets_sent'') (jn 0)])])"

definition action_lines :: "jsv \<Rightarrow> (string \<times> jsv list) list" where
  "action_lines d = [(''Action ID'', [fld d ''action_id'', fld d ''status''])]
     @ (if truthy (fld d ''snapshot'') then [(''Host snapshot captured'', [js_or (fld (fld d ''snapshot'') ''action_type'') (JStr ''system_state'')])]
        else [])"

definition card_lines :: "jsv \<Rightarrow> (string \<times> jsv list) list" where
  "card_lines item = (let d = fld item ''details''; t = fld item ''type'' in
     if t = JStr ''process_spawn'' then spawn_lines d
     else if t = JStr ''network'' then network_lines d
     else if t = JStr ''rule_trigger'' then [(''Rule ID'', [fld d ''rule'', fld d ''score'']), (''Reason'', [fld d ''reason''])]
     else if t = JStr ''action'' then action_lines d
     else [])"

definition card_offers :: "jsv \<Rightarrow> offer list" where
  "card_offers item = (let d = fld item ''details''; t = fld item ''type'' in
     if t = JStr ''process_spawn'' then [Offer ''kill'' ''kill_process_tree'' (kill_params d)]
     else if t = JStr ''network'' then [Offer ''block'' ''block_ip'' (JObj [(''ip'', fld d ''dst_ip'')])]
     else if t = JStr ''action'' \<and> fld d ''status'' = JStr ''applied'' then [Offer ''rollback'' ''unisolate'' JUndef]
     else [])"

record story_card =
  cardType :: string
  cardTitle :: jsv
  cardOpen :: bool
  cardLines :: "(string \<times> jsv list) list"
  cardOffers :: "offer list"

definition story_card_of :: "nat list \<Rightarrow> nat \<times> jsv \<Rightarrow> story_card res" where
  \<comment> \<open>\<open>item.type.replace('_', ' ')\<close> throws without a type\<close>
  "story_card_of expanded ii = (case ii of (idx, item) \<Rightarrow> rbind (get item ''type'') (\<lambda>t. case t of
      JStr ty \<Rightarrow> (let unfolded = idx \<in> set expanded \<and> truthy (fld item ''details'') in
        Inr \<lparr>cardType = replace_first CHR ''_'' CHR '' '' ty, cardTitle = fld item ''title'', cardOpen = idx \<in> set expanded,
          cardLines = (if unfolded then card_lines item else []), cardOffers = (if unfolded then card_offers item else [])\<rparr>)
    | _ \<Rightarrow> Inl type_error))"

definition story_view :: "story_st \<Rightarrow> story_card table_body res" where
  "story_view s = (if loading s then Inr Waiting else if timeline s = [] then Inr Nothing_there
     else rmap Table_rows (rmapM (story_card_of (expandedIndices s)) (enumerate 0 (timeline s))))"

text \<open>A button hands its action to the modal; without parameters the modal takes none. A disabled button is \<open>None\<close>.\<close>

definition press_offer :: "clock \<Rightarrow> jsv \<Rightarrow> bool \<Rightarrow> offer \<Rightarrow> (incmodal_st, jsv) act option" where
  "press_offer c inc busy of' = (if busy then None
     else Some (handleAction c inc busy (offer_action of') (dflt (offer_params of') (JObj []))))"

section \<open>The ancestry\<close>

definition ancestry_buttons :: "jsv \<Rightarrow> bool \<Rightarrow> (string \<times> offer option) list" where
  \<comment> \<open>the two red buttons with their captions\<close>
  "ancestry_buttons inc busy = (let pid = fld (related_culprit inc) ''pid'' in
     [(''Kill Process '' @ (if truthy pid then ''(PID '' @ to_str pid @ '')'' else []), ancestry_kill inc busy),
      (''Kill Full Tree'', ancestry_kill inc busy)])"

definition ancestry_tree_button :: "jsv \<Rightarrow> string option" where
  \<comment> \<open>the address of "View in Process Tree"\<close>
  "ancestry_tree_button inc = (let a = js_or (fld inc ''agent_id'') (js_or (fld inc ''agentId'') (JStr '''')) in
     if truthy a then Some (ancestry_link a (fld (related_culprit inc) ''pid'')) else None)"

definition forensics :: "jsv \<Rightarrow> (string \<times> jsv) list" where
  "forensics inc = (let p = related_culprit inc; na = JStr ''N/A'' in
     if \<not> truthy p then []
     else [(''Executable Full Path'', js_or (fld p ''exe_path'') (js_or (fld p ''exe'') (js_or (fld p ''path'') na))),
       (''Commandline Execution'', js_or (fld p ''cmdline'') na), (''SHA256 File Hash'', js_or (fld p ''sha256'') na),
       (''Digital Signature & Status'', JStr (if truthy (fld p ''is_suspicious'') then ''Unsigned / Untrusted'' else ''Standard Process''))])"

section \<open>The footer of the modal\<close>

definition label_badges :: "(string \<times> string) list" where
  "label_badges = [(''true_positive'', ''True Positive''), (''false_positive'', ''False Positive''), (''benign'', ''Benign''),
     (''inconclusive'', ''Inconclusive'')]"

definition label_options :: "string list" where
  "label_options = [''true_positive'', ''false_positive'', ''benign'', ''inconclusive'']"

definition label_badge :: "jsv \<Rightarrow> string option" where
  "label_badge inc = (if truthy (fld inc ''label'') then map_of label_badges (to_str (fld inc ''label'')) else None)"

datatype life_button = Mark_Contained | Mark_Resolved | Mark_False_Positive | Close_Incident

definition life_status :: "life_button \<Rightarrow> string" where
  "life_status b = (case b of Mark_Contained \<Rightarrow> ''contained'' | Mark_Resolved \<Rightarrow> ''resolved''
     | Mark_False_Positive \<Rightarrow> ''false_positive'' | Close_Incident \<Rightarrow> ''closed'')"

definition life_marked :: "jsv \<Rightarrow> life_button \<Rightarrow> bool" where
  "life_marked inc b \<longleftrightarrow> fld inc ''status'' = JStr (life_status b)"

definition press_life :: "clock \<Rightarrow> jsv \<Rightarrow> bool \<Rightarrow> bool \<Rightarrow> life_button \<Rightarrow> (incmodal_st, jsv) act option" where
  "press_life c inc busy closing b = (if busy \<or> b = Close_Incident \<and> closing then None
     else Some (if b = Close_Incident then Upd (handleOpenCloseModal inc) (Ret JUndef) else handleStatusChange c inc busy (life_status b)))"

definition close_dialog_away :: "incmodal_st \<Rightarrow> incmodal_st" where
  \<comment> \<open>\<open>onClose\<close> of the dialog, and its first button\<close>
  "close_dialog_away s = (if closeBusy s then s else s\<lparr>closeOpen := False\<rparr>)"

definition pick_label :: "string \<Rightarrow> incmodal_st \<Rightarrow> incmodal_st" where
  "pick_label v s = s\<lparr>closeLabel := JStr v\<rparr>"

definition reason_counter :: "string \<Rightarrow> string" where
  "reason_counter r = nat_str (length (trim r)) @ ''/10 ky tu toi thieu''"

section \<open>The security of one agent\<close>

definition init_context :: context_st where
  "init_context = \<lparr>loading = True, agentIncidents = []\<rparr>"

definition context_status_badge :: "jsv \<Rightarrow> string \<times> jsv" where
  "context_status_badge st =
     (if st = JStr ''open'' then (''danger'', JStr ''Open'') else if st = JStr ''investigating'' then (''warning'', JStr ''Investigating'')
      else if st = JStr ''contained'' then (''info'', JStr ''Contained'') else if st = JStr ''resolved'' then (''success'', JStr ''Resolved'')
      else (''neutral'', st))"

definition settled_incidents :: "jsv list \<Rightarrow> jsv list" where
  "settled_incidents is = filter (\<lambda>i. fld i ''status'' = JStr ''resolved'' \<or> fld i ''status'' = JStr ''closed'') is"

datatype context_view = Scanning string | Safe (history: "(nat \<times> jsv list) option")
  | Threats "(jsv \<times> (string \<times> jsv) \<times> (string \<times> jsv)) list" "(nat \<times> jsv list) option"

definition context_history :: "jsv list \<Rightarrow> (nat \<times> jsv list) option" where
  "context_history is = (let old = settled_incidents is in if old = [] then None else Some (length old, take 2 old))"

definition context_shown :: "jsv \<Rightarrow> context_st \<Rightarrow> context_view res" where
  "context_shown agent s = (if loading s then Inr (Scanning (to_str (js_or (fld agent ''hostname'') (fld agent ''id''))))
     else if activeIncidents (agentIncidents s) = [] then Inr (Safe (context_history (agentIncidents s)))
     else rmap (\<lambda>rows. Threats rows (context_history (agentIncidents s)))
       (rmapM (\<lambda>inc. rmap (\<lambda>sev. (fld inc ''id'', sev, context_status_badge (fld inc ''status'')))
          (renderSeverityBadge (fld inc ''severity''))) (activeIncidents (agentIncidents s))))"

section \<open>Properties\<close>


definition blocked_address :: jsv where
  "blocked_address = JObj [(''type'', JStr ''action''), (''details'', JObj [(''action_id'', JStr ''A-1''),
     (''action_type'', JStr ''block_ip''), (''status'', JStr ''applied'')])]"


text \<open>"Kill Process" and "Kill Full Tree" are the same button: both kill the tree.\<close>

lemma kill_process_kills_tree:
  "(cap, Some of') \<in> set (ancestry_buttons inc busy) \<Longrightarrow> offer_action of' = ''kill_process_tree''"
  by (auto simp: ancestry_buttons_def ancestry_kill_def Let_def split: if_splits)

text \<open>
  C33: an agent is called safe when nothing is known of it: if the incidents cannot be read, the panel says that the agent is safe.
\<close>

theorem unread_incidents_mean_safe:
  assumes "f (Req GET ''/incidents/'' JUndef JUndef) = Inl err" and "truthy (fld agent ''id'')"
  shows "context_shown agent (fst (snd (run (logging f) (fetchAgentIncidents c agent) init_context []))) = Inr (Safe None)"
  using assms
  by (simp add: fetchAgentIncidents_def run_simps getIncidents_def api_get_def init_context_def context_shown_def activeIncidents_def
      context_history_def settled_incidents_def)

theorem unread_incidents_mean_safe_witness:
  "context_shown (JObj [(''id'', JStr ''a1'')]) (fst (snd (run (logging (\<lambda>_. Inl JNull))
     (fetchAgentIncidents stopped_clock (JObj [(''id'', JStr ''a1'')])) init_context []))) = Inr (Safe None)"
  by (rule unread_incidents_mean_safe) simp_all

text \<open>A false alarm is in neither section of the panel, every other incident of a known status in exactly one.\<close>

lemma context_sections:
  assumes "fld i ''status'' \<in> JStr ` {''open'', ''investigating'', ''contained'', ''resolved'', ''closed'', ''false_positive''}"
  shows "i \<in> set (activeIncidents [i]) \<longleftrightarrow> i \<notin> set (settled_incidents [i]) \<and> fld i ''status'' \<noteq> JStr ''false_positive''"
  using assms by (auto simp: activeIncidents_def settled_incidents_def)

text \<open>Every label that can be chosen has a badge.\<close>

lemma labels_have_badges: "list_all (\<lambda>v. label_badge (JObj [(''label'', JStr v)]) \<noteq> None) label_options"
  by code_simp

end
