(* ===== verification/Widgets.thy ===== *)
theory Widgets
  imports Paging
begin

text \<open>
  Controls of \<open>src/frontend/src/components/\<close> that several pages share: the drop-down list \<open>ui/Dropdown.jsx\<close> as a state machine
  of its events, and what the tables \<open>ui/AgentTable.jsx\<close>, \<open>ui/DockerMonitorTable.jsx\<close> and \<open>policies/PolicyTable.jsx\<close> compute of
  their rows.
\<close>

section \<open>The drop-down list\<close>

text \<open>
  \<open>highlighted\<close> is the number in \<open>highlightedIndex\<close>, \<open>None\<close> being \<open>NaN\<close>; \<open>chosen\<close> logs each value given to \<open>onChange\<close> with the
  options of that moment.
\<close>

record dd_st =
  ddOpen :: bool
  highlighted :: "int option"
  ddOptions :: "(jsv \<times> string) list"
  ddValue :: jsv
  ddDisabled :: bool
  chosen :: "(jsv \<times> (jsv \<times> string) list) list"

definition init_dd :: "(jsv \<times> string) list \<Rightarrow> jsv \<Rightarrow> bool \<Rightarrow> dd_st" where
  "init_dd opts v dis = \<lparr>ddOpen = False, highlighted = Some (-1), ddOptions = opts, ddValue = v, ddDisabled = dis, chosen = []\<rparr>"

definition selectedIndex :: "dd_st \<Rightarrow> int" where
  "selectedIndex s = (let i = length (takeWhile (\<lambda>x. \<not> strict_eq (fst x) (ddValue s)) (ddOptions s)) in
     if i < length (ddOptions s) then int i else -1)"

definition dd_label :: "string \<Rightarrow> dd_st \<Rightarrow> string" where
  "dd_label label s = (if 0 \<le> selectedIndex s then snd (ddOptions s ! nat (selectedIndex s)) else label)"

definition dd_sync :: "dd_st \<Rightarrow> dd_st" where
  "dd_sync s = s\<lparr>highlighted := Some (if ddOpen s then (if 0 \<le> selectedIndex s then selectedIndex s else 0) else -1)\<rparr>"

definition rerender :: "dd_st \<Rightarrow> dd_st \<Rightarrow> dd_st" where
  \<comment> \<open>the effect of \<open>open\<close> and \<open>selectedIndex\<close>, after a change from \<open>s\<close> to \<open>t\<close>\<close>
  "rerender s t = (if ddOpen s \<noteq> ddOpen t \<or> selectedIndex s \<noteq> selectedIndex t then dd_sync t else t)"

definition dd_select :: "jsv \<Rightarrow> dd_st \<Rightarrow> dd_st" where
  "dd_select v s = s\<lparr>chosen := chosen s @ [(v, ddOptions s)], ddOpen := False\<rparr>"

definition js_rem :: "int \<Rightarrow> int \<Rightarrow> int option" where
  \<comment> \<open>\<open>a % n\<close> for \<open>n \<ge> 0\<close>: the sign of \<open>a\<close>; \<open>NaN\<close> for 0\<close>
  "js_rem a n = (if n = 0 then None else Some (if a < 0 then - ((- a) mod n) else a mod n))"

definition dd_move :: "(int \<Rightarrow> int) \<Rightarrow> dd_st \<Rightarrow> dd_st" where
  "dd_move f s = s\<lparr>highlighted := Option.bind (highlighted s) (\<lambda>h. js_rem (f h) (int (length (ddOptions s))))\<rparr>"

definition dd_key :: "string \<Rightarrow> dd_st \<Rightarrow> dd_st" where
  "dd_key k s =
     (if ddDisabled s then s
      else if \<not> ddOpen s then
        (if k \<in> {''ArrowDown'', ''ArrowUp'', ''Enter'', '' ''} then s\<lparr>ddOpen := True\<rparr> else s)
      else if k = ''ArrowDown'' then dd_move (\<lambda>prev. prev + 1) s
      else if k = ''ArrowUp'' then dd_move (\<lambda>prev. prev - 1 + int (length (ddOptions s))) s
      else if k \<in> {''Enter'', '' ''} then
        (case highlighted s of
           Some h \<Rightarrow> if 0 \<le> h \<and> h < int (length (ddOptions s)) then dd_select (fst (ddOptions s ! nat h)) s else s
         | None \<Rightarrow> s)
      else if k \<in> {''Escape'', ''Tab''} then s\<lparr>ddOpen := False\<rparr>
      else s)"

definition dd_toggle :: "dd_st \<Rightarrow> dd_st" where
  "dd_toggle s = (if ddDisabled s then s else s\<lparr>ddOpen := \<not> ddOpen s\<rparr>)"

definition dd_outside :: "dd_st \<Rightarrow> dd_st" where
  "dd_outside s = s\<lparr>ddOpen := False\<rparr>"

inductive dd_step :: "dd_st \<Rightarrow> dd_st \<Rightarrow> bool" where
  key: "dd_step s (rerender s (dd_key k s))"
| toggle: "dd_step s (rerender s (dd_toggle s))"
| outside: "dd_step s (rerender s (dd_outside s))"
| click: "ddOpen s \<Longrightarrow> i < length (ddOptions s) \<Longrightarrow> dd_step s (rerender s (dd_select (fst (ddOptions s ! i)) s))"
| hover: "ddOpen s \<Longrightarrow> i < length (ddOptions s) \<Longrightarrow> dd_step s (s\<lparr>highlighted := Some (int i)\<rparr>)"
| parent: "dd_step s (rerender s (s\<lparr>ddOptions := opts, ddValue := v, ddDisabled := dis\<rparr>))"

inductive dd_reach :: "dd_st \<Rightarrow> dd_st \<Rightarrow> bool" for s0 where
  start: "dd_reach s0 s0"
| step: "dd_reach s0 s \<Longrightarrow> dd_step s t \<Longrightarrow> dd_reach s0 t"

inductive_cases dd_stepE: "dd_step s t"

section \<open>Tables\<close>

definition agent_row_matches :: "string \<Rightarrow> string \<Rightarrow> jsv \<Rightarrow> bool res" where
  "agent_row_matches search flt a = rbind (get a ''hostname'') (\<lambda>h. rbind (low_has h search) (\<lambda>ms.
     Inr (ms \<and> (flt = ''all'' \<or> fld a ''status'' = JStr flt))))"

definition agentRows :: "string \<Rightarrow> string \<Rightarrow> jsv list \<Rightarrow> jsv list res" where
  "agentRows search flt ags = rmap (take 8) (rfilter (agent_row_matches search flt) ags)"

definition row_dead :: "jsv \<Rightarrow> bool" where
  "row_dead a \<longleftrightarrow> lower (to_str (js_or (fld a ''status'') (JStr ''''))) \<in> {''dead'', ''offline'', ''inactive''}"

definition low_of :: "jsv \<Rightarrow> string \<Rightarrow> string res" where
  \<comment> \<open>\<open>(c.k || '').toLowerCase()\<close>\<close>
  "low_of c k = (case js_or (fld c k) (JStr '''') of JStr s \<Rightarrow> Inr (lower s) | _ \<Rightarrow> Inl type_error)"

definition container_matches :: "string \<Rightarrow> string \<Rightarrow> jsv \<Rightarrow> bool res" where
  "container_matches search st c = rbind (ror (rmap (\<lambda>n. str_includes n (lower search)) (low_of c ''name''))
       (rmap (\<lambda>n. str_includes n (lower search)) (low_of c ''container_id''))) (\<lambda>matchName.
     rbind (ror (Inr (st = ''all'')) (rmap (\<lambda>l. l = st) (low_of c ''status''))) (\<lambda>matchStatus.
       Inr (matchName \<and> matchStatus)))"

definition filteredContainers :: "string \<Rightarrow> string \<Rightarrow> jsv list \<Rightarrow> jsv list res" where
  "filteredContainers search st cs = rfilter (container_matches search st) cs"

definition runningCount :: "jsv list \<Rightarrow> nat res" where
  "runningCount cs = rmap length (rfilter (\<lambda>c. rmap (\<lambda>l. l = ''running'') (low_of c ''status'')) cs)"

definition container_badge :: "jsv \<Rightarrow> jsv res" where
  \<comment> \<open>the label of \<open>getStatusBadge\<close>\<close>
  "container_badge st = (case js_or st (JStr '''') of
     JStr t \<Rightarrow> Inr (let s = lower t in if s = ''running'' then JStr ''running''
       else if s \<in> {''exited'', ''dead''} then JStr ''exited'' else if s = ''restarting'' then JStr ''restarting''
       else if s = ''paused'' then JStr ''paused'' else st)
   | _ \<Rightarrow> Inl type_error)"

definition range_left :: "jsv \<Rightarrow> jsnum" where
  "range_left p = math_max (Fin 0) (math_min (Fin 100) (to_num (fld p ''min_score'')))"

definition range_width :: "jsv \<Rightarrow> jsnum" where
  "range_width p = math_max (Fin 2) (math_min (num_sub (Fin 100) (range_left p))
     (num_sub (to_num (js_or (fld p ''max_score'') (jn 100))) (range_left p)))"

definition range_level :: "jsv \<Rightarrow> nat" where
  \<comment> \<open>\<open>getRangeColor\<close>: from blue (0) to red (3)\<close>
  "range_level minScore = (if num_le (Fin 85) (to_num minScore) then 3 else if num_le (Fin 70) (to_num minScore) then 2
     else if num_le (Fin 50) (to_num minScore) then 1 else 0)"

definition target_name :: "(string \<Rightarrow> jsv) \<Rightarrow> jsv \<Rightarrow> jsv" where
  \<comment> \<open>with \<open>groupsMap\<close>\<close>
  "target_name names p = js_or (fld p ''target_group_name'') (js_or (names (to_str (fld p ''target_group_id'')))
     (if fld p ''scope'' = JStr ''group'' then fld p ''target_group_id'' else JNull))"

section \<open>Lemmas\<close>

definition log_ok :: "dd_st \<Rightarrow> bool" where
  "log_ok s \<longleftrightarrow> list_all (\<lambda>(v, opts). v \<in> fst ` set opts) (chosen s)"

lemma log_ok_update [simp]:
  "log_ok (s\<lparr>ddOpen := b\<rparr>) = log_ok s" "log_ok (s\<lparr>highlighted := h\<rparr>) = log_ok s" "log_ok (s\<lparr>ddOptions := opts\<rparr>) = log_ok s"
  "log_ok (s\<lparr>ddValue := v\<rparr>) = log_ok s" "log_ok (s\<lparr>ddDisabled := d\<rparr>) = log_ok s"
  by (simp_all add: log_ok_def)

definition dd_inv :: "dd_st \<Rightarrow> bool" where
  "dd_inv s \<longleftrightarrow> (if ddOpen s then \<forall>h. highlighted s = Some h \<longrightarrow> 0 \<le> h else highlighted s = Some (-1))
     \<and> log_ok s"

lemma js_rem_nonneg: "0 \<le> a \<Longrightarrow> 0 \<le> n \<Longrightarrow> js_rem a n = Some r \<Longrightarrow> 0 \<le> r"
  by (auto simp: js_rem_def split: if_splits)

lemma dd_move_inv:
  assumes "dd_inv s" and "ddOpen s" and "\<And>h. 0 \<le> h \<Longrightarrow> 0 < length (ddOptions s) \<Longrightarrow> 0 \<le> f h"
  shows "dd_inv (dd_move f s)"
proof -
  have "0 \<le> r" if h: "highlighted s = Some h" and r: "js_rem (f h) (int (length (ddOptions s))) = Some r" for h r
  proof (cases "length (ddOptions s) = 0")
    case False
    from assms(1,2) h have "0 \<le> h" by (simp add: dd_inv_def)
    with False have "0 \<le> f h" by (intro assms(3)) simp_all
    then show ?thesis using js_rem_nonneg [OF _ _ r] by simp
  qed (use r in \<open>simp add: js_rem_def\<close>)
  with assms(1,2) show ?thesis by (auto simp: dd_inv_def dd_move_def bind_eq_Some_conv)
qed

lemma dd_sync_inv: "log_ok s \<Longrightarrow> dd_inv (dd_sync s)"
  by (simp add: dd_inv_def dd_sync_def)

text \<open>A change keeps the invariant once it keeps it where the effect does not run.\<close>

lemma rerender_inv:
  assumes "log_ok t" and "ddOpen s = ddOpen t \<Longrightarrow> dd_inv t"
  shows "dd_inv (rerender s t)"
  using assms by (simp add: rerender_def dd_sync_inv)

lemma dd_select_inv:
  assumes "dd_inv s" and "ddOpen s" and "v \<in> fst ` set (ddOptions s)"
  shows "dd_inv (rerender s (dd_select v s))"
  using assms by (intro rerender_inv) (simp_all add: dd_select_def dd_inv_def log_ok_def)

lemma dd_key_inv:
  assumes "dd_inv s"
  shows "dd_inv (rerender s (dd_key k s))"
proof -
  have self: "dd_inv (rerender s s)" by (simp add: rerender_def assms)
  have log: "log_ok s" using assms by (simp add: dd_inv_def)
  have move: "dd_inv (rerender s (dd_move f s))" if "ddOpen s" "\<And>h. 0 \<le> h \<Longrightarrow> 0 < length (ddOptions s) \<Longrightarrow> 0 \<le> f h" for f
    using dd_move_inv [OF assms that] log by (intro rerender_inv) (simp_all add: dd_move_def)
  have flip: "dd_inv (rerender s (s\<lparr>ddOpen := b\<rparr>))" if "b \<noteq> ddOpen s" for b
    using log that by (intro rerender_inv) simp_all
  show ?thesis
  proof (cases "ddDisabled s \<or> \<not> ddOpen s")
    case True
    then have "dd_key k s \<in> {s, s\<lparr>ddOpen := True\<rparr>} \<and> (dd_key k s = s \<or> \<not> ddOpen s)" by (cases "ddDisabled s") (simp_all add: dd_key_def)
    then show ?thesis using self flip [of True] by auto
  next
    case False
    then have "ddOpen s" "\<not> ddDisabled s" by simp_all
    consider "k = ''ArrowDown''" | "k = ''ArrowUp''" | "k = ''Enter'' \<or> k = '' ''" | "k = ''Escape'' \<or> k = ''Tab''"
      | "k \<notin> {''ArrowDown'', ''ArrowUp'', ''Enter'', '' '', ''Escape'', ''Tab''}" by blast
    then show ?thesis
    proof cases
      case 2
      have "0 \<le> h - 1 + int (length (ddOptions s))" if "0 \<le> h" "0 < length (ddOptions s)" for h
        using that by linarith
      from move [OF \<open>ddOpen s\<close> this] 2 False show ?thesis by (simp add: dd_key_def)
    next
      case 3
      then have "dd_key k s = (case highlighted s of
           Some h \<Rightarrow> if 0 \<le> h \<and> h < int (length (ddOptions s)) then dd_select (fst (ddOptions s ! nat h)) s else s | None \<Rightarrow> s)"
        using False by (auto simp: dd_key_def)
      moreover have "dd_inv (rerender s (dd_select (fst (ddOptions s ! nat h)) s))" if "0 \<le> h" "h < int (length (ddOptions s))" for h
        using that \<open>ddOpen s\<close> assms by (intro dd_select_inv) simp_all
      ultimately show ?thesis using self by (auto split: option.splits)
    next
      case 4
      then have "dd_key k s = s\<lparr>ddOpen := False\<rparr>" using False by (auto simp: dd_key_def)
      with flip [of False] \<open>ddOpen s\<close> show ?thesis by simp
    qed (use False self move [OF \<open>ddOpen s\<close>] in \<open>simp_all add: dd_key_def\<close>)
  qed
qed

lemma dd_step_inv: "dd_step s t \<Longrightarrow> dd_inv s \<Longrightarrow> dd_inv t"
proof (induction rule: dd_step.induct)
  case (click s i)
  then show ?case by (intro dd_select_inv) simp_all
next
  case (hover s i)
  then show ?case by (simp add: dd_inv_def)
next
  case (toggle s)
  then have "log_ok s" by (simp add: dd_inv_def)
  with toggle show ?case by (cases "ddDisabled s") (simp_all add: dd_toggle_def rerender_def dd_sync_inv)
next
  case (outside s)
  let ?t = "s\<lparr>ddOpen := False\<rparr>"
  from outside have "log_ok ?t" and "ddOpen s = ddOpen ?t \<Longrightarrow> dd_inv ?t" by (simp_all add: dd_inv_def split: if_splits)
  then show ?case unfolding dd_outside_def by (rule rerender_inv)
next
  case (parent s dis v opts)
  let ?t = "s\<lparr>ddOptions := opts, ddValue := v, ddDisabled := dis\<rparr>"
  from parent have "log_ok ?t" and "dd_inv ?t" by (simp_all add: dd_inv_def split: if_splits)
  then show ?case by (rule rerender_inv)
qed (rule dd_key_inv)

lemma dd_reach_inv: "dd_reach s0 s \<Longrightarrow> dd_inv s0 \<Longrightarrow> dd_inv s"
  by (induction rule: dd_reach.induct) (auto intro: dd_step_inv)

lemma rerender_nan: "highlighted (rerender s t) = None \<Longrightarrow> highlighted t = None"
  by (auto simp: rerender_def dd_sync_def split: if_splits)

lemma dd_move_nan: "highlighted (dd_move f s) = None \<Longrightarrow> highlighted s = None \<or> ddOptions s = []"
  by (cases "highlighted s") (auto simp: dd_move_def js_rem_def split: if_splits)

lemma step_to_nan:
  assumes "dd_step s t" and "highlighted s \<noteq> None" and "highlighted t = None"
  shows "ddOptions s = []"
  using assms
proof (induction rule: dd_step.induct)
  case (key s k)
  from rerender_nan [OF key(2)] key(1) show ?case
    by (auto simp: dd_key_def dd_select_def dest: dd_move_nan split: if_splits option.splits)
qed (auto simp: dd_toggle_def dd_outside_def dd_select_def dest!: rerender_nan split: if_splits)

section \<open>Properties\<close>

text \<open>
  C19: the drop-down list in any sequence of keys, clicks, moves of the pointer and new props from its parent: every value it has
  reported was the value of an option it had at that moment; while it is closed nothing is highlighted, while it is open the
  highlight is not negative or not a number; and it becomes not a number only by a step from a state without options.
\<close>

theorem dropdown_choices_valid:
  assumes "dd_reach (init_dd opts v dis) s"
  shows "list_all (\<lambda>(x, os). x \<in> fst ` set os) (chosen s)
    \<and> (if ddOpen s then \<forall>h. highlighted s = Some h \<longrightarrow> 0 \<le> h else highlighted s = Some (-1))
    \<and> (\<forall>t. dd_step s t \<and> highlighted s \<noteq> None \<and> highlighted t = None \<longrightarrow> ddOptions s = [])"
proof -
  have "dd_inv (init_dd opts v dis)" by (simp add: dd_inv_def init_dd_def log_ok_def)
  with assms have "dd_inv s" by (rule dd_reach_inv)
  then show ?thesis using step_to_nan by (auto simp: dd_inv_def log_ok_def)
qed

definition yes_no :: "(jsv \<times> string) list" where
  "yes_no = [(JStr ''yes'', ''Yes''), (JStr ''no'', ''No'')]"

definition dd_keys :: "string list \<Rightarrow> dd_st \<Rightarrow> dd_st" where
  "dd_keys ks s = foldl (\<lambda>s k. rerender s (dd_key k s)) s ks"

lemma dd_keys_reach: "dd_reach s0 (dd_keys ks s0)"
  by (induction ks rule: rev_induct) (auto simp: dd_keys_def intro: dd_reach.intros dd_step.key)

theorem dropdown_choices_valid_witness:
  "list_all (\<lambda>(x, os). x \<in> fst ` set os) (chosen (dd_keys [''Enter'', ''ArrowDown'', ''Enter''] (init_dd yes_no (JStr ''yes'') False)))"
  using dropdown_choices_valid [OF dd_keys_reach] by blast

text \<open>
  Such a highlight stays when options arrive for an open list whose value is not among them: Enter then chooses nothing.
\<close>

lemma nan_highlight_stays:
  "let s = dd_keys [''Enter'', ''ArrowDown''] (init_dd [] JNull False); t = rerender s (s\<lparr>ddOptions := yes_no\<rparr>) in
    ddOpen t \<and> highlighted t = None \<and> chosen (dd_keys [''ArrowDown'', ''Enter''] t) = []"
  by code_simp

text \<open>Moving the highlight of an open list.\<close>

lemma rerender_move: "rerender s (dd_move f s) = dd_move f s"
proof -
  have "selectedIndex (dd_move f s) = selectedIndex s" by (simp add: selectedIndex_def dd_move_def)
  then show ?thesis by (simp add: rerender_def) (simp add: dd_move_def)
qed

lemma arrow_down:
  assumes "ddOpen s" and "\<not> ddDisabled s" and "highlighted s = Some h" and "0 \<le> h" and "ddOptions s \<noteq> []"
  shows "rerender s (dd_key ''ArrowDown'' s) = s\<lparr>highlighted := Some ((h + 1) mod int (length (ddOptions s)))\<rparr>"
  using assms by (simp add: dd_key_def rerender_move) (simp add: dd_move_def js_rem_def)

lemma arrows_down:
  assumes "ddOpen s" and "\<not> ddDisabled s" and "highlighted s = Some h" and "0 \<le> h" and "h < int (length (ddOptions s))"
  shows "dd_keys (replicate k ''ArrowDown'') s = s\<lparr>highlighted := Some ((h + int k) mod int (length (ddOptions s)))\<rparr>"
proof (induction k)
  case 0
  with assms show ?case by (simp add: dd_keys_def)
next
  case (Suc k)
  let ?n = "int (length (ddOptions s))" and ?t = "dd_keys (replicate k ''ArrowDown'') s"
  have "0 < ?n" using assms(4,5) by linarith
  have "dd_keys (replicate (Suc k) ''ArrowDown'') s = rerender ?t (dd_key ''ArrowDown'' ?t)"
    unfolding replicate_append_same [symmetric] replicate_Suc by (simp add: dd_keys_def)
  also have "\<dots> = ?t\<lparr>highlighted := Some (((h + int k) mod ?n + 1) mod ?n)\<rparr>"
    using assms(1,2) \<open>0 < ?n\<close> arrow_down [of ?t "(h + int k) mod ?n"] by (simp add: Suc.IH)
  also have "((h + int k) mod ?n + 1) mod ?n = (h + int (Suc k)) mod ?n"
    by (simp only: mod_add_left_eq) (simp add: algebra_simps)
  finally show ?case by (simp add: Suc.IH)
qed

text \<open>
  C39: every option can be chosen with the keyboard: from an open, enabled list with the highlight on option \<open>h\<close>, pressing the
  down arrow as many times as option \<open>i\<close> is behind it (round the end, if need be) and then Enter reports the value of option
  \<open>i\<close> and closes the list.
\<close>

theorem every_option_reachable:
  assumes "ddOpen s" and "\<not> ddDisabled s" and "highlighted s = Some h" and "0 \<le> h" and "h < int (length (ddOptions s))"
    and "i < length (ddOptions s)"
  shows "let t = dd_keys (replicate (nat ((int i - h) mod int (length (ddOptions s)))) ''ArrowDown'' @ [''Enter'']) s in
    chosen t = chosen s @ [(fst (ddOptions s ! i), ddOptions s)] \<and> \<not> ddOpen t"
proof -
  let ?n = "int (length (ddOptions s))"
  let ?k = "nat ((int i - h) mod ?n)"
  have "0 < ?n" using assms(4,5) by linarith
  then have "int ?k = (int i - h) mod ?n" by simp
  then have "(h + int ?k) mod ?n = (h + (int i - h)) mod ?n" by (simp only: mod_add_right_eq)
  also have "\<dots> = int i" using assms(6) by simp
  finally have "dd_keys (replicate ?k ''ArrowDown'') s = s\<lparr>highlighted := Some (int i)\<rparr>" (is "_ = ?t")
    by (simp only: arrows_down [OF assms(1-5)])
  then have "dd_keys (replicate ?k ''ArrowDown'' @ [''Enter'']) s = rerender ?t (dd_key ''Enter'' ?t)"
    by (simp add: dd_keys_def)
  moreover have "dd_key ''Enter'' ?t = dd_select (fst (ddOptions s ! i)) ?t"
    using assms(1,2,6) by (simp add: dd_key_def)
  ultimately show ?thesis
    using assms(1) by (simp add: rerender_def dd_select_def dd_sync_def)
qed

theorem every_option_reachable_witness:
  "chosen (dd_keys (replicate 1 ''ArrowDown'' @ [''Enter'']) ((init_dd yes_no (JStr ''yes'') False)\<lparr>ddOpen := True, highlighted := Some 0\<rparr>))
   = [(JStr ''no'', yes_no)]"
  using every_option_reachable [of "(init_dd yes_no (JStr ''yes'') False)\<lparr>ddOpen := True, highlighted := Some 0\<rparr>" 0 1]
  by (simp add: init_dd_def yes_no_def Let_def)

text \<open>
  The bar of a policy's score range: for scores that are numbers it starts within the scale and is at least 2 and at most
  100 wide; an upper score of 0, which \<open>||\<close> takes for a missing one, is drawn as if it were 100.
\<close>

theorem range_bar_bounds:
  assumes "fld p ''min_score'' = jn a" and "fld p ''max_score'' = jn b"
  shows "\<exists>l w. range_left p = Fin l \<and> range_width p = Fin w \<and> 0 \<le> l \<and> l \<le> 100 \<and> 2 \<le> w \<and> w \<le> 100
    \<and> (b = 0 \<and> 0 \<le> a \<and> a \<le> 98 \<longrightarrow> l + w = 100)"
  using assms by (cases "b = 0") (auto simp: range_left_def range_width_def js_or_def)

theorem range_bar_bounds_witness:
  "\<exists>l w. range_left (JObj [(''min_score'', jn 0), (''max_score'', jn 0)]) = Fin l
     \<and> range_width (JObj [(''min_score'', jn 0), (''max_score'', jn 0)]) = Fin w \<and> l + w = 100"
  using range_bar_bounds [of "JObj [(''min_score'', jn 0), (''max_score'', jn 0)]" 0 0] by auto

end
