(* ===== verification/TableRows.thy ===== *)
theory TableRows
  imports Widgets HealthScore SideScreens Navigation
begin

text \<open>
  The rows of three tables: policies (\<open>components/policies/PolicyTable.jsx\<close>), containers
  (\<open>components/ui/DockerMonitorTable.jsx\<close>), agents (\<open>components/ui/AgentTable.jsx\<close>), and of the recent threats
  (\<open>components/dashboard/RecentThreats.jsx\<close>). Colours are named by their level; Vietnamese texts are written without diacritics.
\<close>

section \<open>Policies\<close>

definition getActionBadge :: "jsv \<Rightarrow> string \<times> jsv" where
  "getActionBadge a =
     (if a = JStr ''isolate'' then (''danger'', JStr ''Isolate'') else if a = JStr ''block_ip'' then (''warning'', JStr ''Block IP'')
      else if a = JStr ''quarantine'' then (''info'', JStr ''Quarantine'') else if a = JStr ''alert'' then (''neutral'', JStr ''Alert Only'')
      else (''neutral'', a))"

definition priority_level :: "jsv \<Rightarrow> string" where
  "priority_level p = (if num_le (Fin 30) (to_num (fld p ''priority'')) then ''error''
     else if num_le (Fin 20) (to_num (fld p ''priority'')) then ''warning'' else ''primary'')"

definition target_text :: "(string \<Rightarrow> jsv) \<Rightarrow> jsv \<Rightarrow> string" where
  "target_text names p = (if fld p ''scope'' = JStr ''group''
     then (if truthy (target_name names p) then to_str (target_name names p) else ''All Groups'')
     else ''(Per Agent)'')"

record policy_row =
  prId :: jsv
  prPriority :: "string \<times> string"
  prName :: jsv
  prRange :: "jsv \<times> jsv"
  prBar :: "jsnum \<times> jsnum \<times> nat"
  prAction :: "string \<times> jsv"
  prScope :: jsv
  prTarget :: string
  prActive :: bool

definition policy_row_of :: "(string \<Rightarrow> jsv) \<Rightarrow> jsv \<Rightarrow> policy_row res" where
  "policy_row_of names p = rbind (get p ''id'') (\<lambda>i.
     rbind (if truthy (fld p ''scope'') then to_upper (fld p ''scope'') else Inr (JStr ''AGENT'')) (\<lambda>scope.
       Inr \<lparr>prId = i, prPriority = (''#'' @ to_str (fld p ''priority''), priority_level p), prName = fld p ''name'',
         prRange = (fld p ''min_score'', fld p ''max_score''), prBar = (range_left p, range_width p, range_level (fld p ''min_score'')),
         prAction = getActionBadge (fld p ''action_type''), prScope = scope, prTarget = target_text names p,
         prActive = truthy (fld p ''is_active'')\<rparr>))"

datatype policy_view = Loading_cards | No_policies | Policy_rows "policy_row list"

definition policy_table :: "(string \<Rightarrow> jsv) \<Rightarrow> bool \<Rightarrow> jsv list \<Rightarrow> policy_view res" where
  "policy_table names busy ps = (if busy \<and> ps = [] then Inr Loading_cards else if ps = [] then Inr No_policies
     else rmap Policy_rows (rmapM (policy_row_of names) ps))"

text \<open>What the buttons of a row call, with what.\<close>

datatype policy_button = Switch_policy | Test_policy | Edit_policy | Delete_policy

definition policy_call :: "policy_button \<Rightarrow> jsv \<Rightarrow> string \<times> jsv list" where
  "policy_call b p = (case b of Switch_policy \<Rightarrow> (''onToggleActive'', [fld p ''id'', fld p ''is_active''])
     | Test_policy \<Rightarrow> (''onTest'', [p]) | Edit_policy \<Rightarrow> (''onEdit'', [p]) | Delete_policy \<Rightarrow> (''onDelete'', [p]))"

section \<open>Containers\<close>

text \<open>\<open>x.toFixed(k)\<close> for \<open>x\<close> from 0 on: the nearest decimal of \<open>k\<close> places, the larger one of two.\<close>

definition fixed_units :: "nat \<Rightarrow> rat \<Rightarrow> nat" where
  "fixed_units k q = nat \<lfloor>q * 10 ^ k + 1 / 2\<rfloor>"

definition padded :: "nat \<Rightarrow> string \<Rightarrow> string" where
  "padded k s = replicate (k - length s) CHR ''0'' @ s"

definition toFixed :: "nat \<Rightarrow> rat \<Rightarrow> string" where
  "toFixed k q = (let n = fixed_units k q in nat_str (n div 10 ^ k) @ ''.'' @ padded k (nat_str (n mod 10 ^ k)))"

definition formatBytes :: "jsv \<Rightarrow> string" where
  \<comment> \<open>negative counts are below 1024\<close>
  "formatBytes b = (if \<not> truthy b then ''0 B'' else case to_num b of NaN \<Rightarrow> ''NaN GB''
     | Fin q \<Rightarrow>
         if q < 1024 then to_str b @ '' B''
         else if q < 1024 ^ 2 then toFixed 1 (q / 1024) @ '' KB''
         else if q < 1024 ^ 3 then toFixed 1 (q / 1024 ^ 2) @ '' MB''
         else toFixed 2 (q / 1024 ^ 3) @ '' GB'')"

definition mem_percent :: "jsv \<Rightarrow> jsnum" where
  "mem_percent c = (case (to_num (fld c ''memory_limit''), to_num (fld c ''memory_usage'')) of
     (Fin l, u) \<Rightarrow> if 0 < l then (case u of Fin m \<Rightarrow> Fin (min 100 (of_int \<lfloor>m / l * 100 + 1 / 2\<rfloor>)) | NaN \<Rightarrow> NaN) else Fin 0
   | _ \<Rightarrow> Fin 0)"

definition load_level :: "rat \<Rightarrow> rat \<Rightarrow> jsnum \<Rightarrow> string" where
  "load_level high mid n = (if num_lt (Fin high) n then ''error'' else if num_lt (Fin mid) n then ''warning'' else ''calm'')"

record container_row =
  crName :: jsv
  crBadge :: jsv
  crCpu :: "string \<times> string"
  crMemory :: "string \<times> (string \<times> jsnum \<times> string) option"
  crUptime :: jsv
  crNetwork :: "string \<times> string"

definition container_row_of :: "jsv \<Rightarrow> container_row res" where
  \<comment> \<open>\<open>c.cpu_percent.toFixed(1)\<close> throws for anything but a number\<close>
  "container_row_of c = rbind (get c ''container_id'') (\<lambda>_. rbind (container_badge (fld c ''status'')) (\<lambda>b.
     case fld c ''cpu_percent'' of
       JNum n \<Rightarrow> Inr \<lparr>crName = fld c ''name'', crBadge = b,
         crCpu = ((case n of Fin q \<Rightarrow> (if q < 0 then ''-'' @ toFixed 1 (- q) else toFixed 1 q) | NaN \<Rightarrow> ''NaN'') @ ''%'', load_level 80 50 n),
         crMemory = (to_str (fld c ''memory_usage'') @ '' MB'',
           if num_lt (Fin 0) (to_num (fld c ''memory_limit''))
           then Some (to_str (fld c ''memory_limit'') @ '' MB'', mem_percent c, load_level 85 65 (mem_percent c)) else None),
         crUptime = js_or (fld c ''uptime'') (JStr ''N/A''),
         crNetwork = (formatBytes (fld c ''network_rx''), formatBytes (fld c ''network_tx''))\<rparr>
     | _ \<Rightarrow> Inl type_error))"

definition no_containers :: "bool \<Rightarrow> jsv \<Rightarrow> string" where
  "no_containers busy err = (if busy then ''Fetching container metrics...'' else if truthy err then ''Docker daemon unavailable''
     else ''No containers found'')"

section \<open>Agents\<close>

record agent_row =
  arHost :: jsv
  arBadge :: "string \<times> jsv \<times> string option"
  arCpu :: "string \<times> string"
  arRam :: "string \<times> string"
  arFirewall :: bool
  arDead :: bool

definition agent_row_of :: "jsv \<Rightarrow> agent_row res" where
  \<comment> \<open>only the first of the three buttons of a row calls anything\<close>
  "agent_row_of a = rmap (\<lambda>b. \<lparr>arHost = fld a ''hostname'', arBadge = b,
     arCpu = (to_str (fld a ''cpu'') @ ''%'', load_level 80 60 (to_num (fld a ''cpu''))),
     arRam = (to_str (fld a ''ram'') @ ''%'', load_level 80 60 (to_num (fld a ''ram''))),
     arFirewall = truthy (fld a ''firewall''), arDead = row_dead a\<rparr>) (badge (fld a ''status'') JUndef)"

section \<open>Recent threats\<close>

definition getTimeAgo :: "clock \<Rightarrow> jsv \<Rightarrow> string" where
  "getTimeAgo c t = (if \<not> truthy t then [] else case date_ms c t of NaN \<Rightarrow> ''NaNd''
     | Fin ms \<Rightarrow> (let mins = \<lfloor>(now_ms c - ms) / 60000\<rfloor>; hours = mins div 60 in
         if mins < 1 then ''vua xong'' else if mins < 60 then nat_str (nat mins) @ ''p''
         else if hours < 24 then nat_str (nat hours) @ ''h'' else nat_str (nat (hours div 24)) @ ''d''))"

text \<open>The expression \<open>'([^']+)'\s+spawned\s+'([^']+)'\<close>: a quoted name, and where it matches first.\<close>

definition quote_char :: char where
  "quote_char = CHR 0x27"

definition quoted_name :: "string \<Rightarrow> (string \<times> string) option" where
  "quoted_name s = (case s of [] \<Rightarrow> None | q # r \<Rightarrow>
     (let name = takeWhile (\<lambda>ch. ch \<noteq> quote_char) r; rest = dropWhile (\<lambda>ch. ch \<noteq> quote_char) r in
      if q = quote_char \<and> name \<noteq> [] \<and> rest \<noteq> [] then Some (name, tl rest) else None))"

definition skip_blanks :: "string \<Rightarrow> string option" where
  "skip_blanks s = (case s of [] \<Rightarrow> None | ch # r \<Rightarrow> if is_space ch then Some (dropWhile is_space r) else None)"

definition spawned_here :: "string \<Rightarrow> (string \<times> string) option" where
  "spawned_here s = Option.bind (quoted_name s) (\<lambda>(a, r). Option.bind (skip_blanks r) (\<lambda>r.
     if take 7 r = ''spawned'' then Option.bind (skip_blanks (drop 7 r)) (\<lambda>r. map_option (\<lambda>(b, _). (a, b)) (quoted_name r)) else None))"

fun spawned_in :: "string \<Rightarrow> (string \<times> string) option" where
  "spawned_in [] = None"
| "spawned_in (ch # s) = (case spawned_here (ch # s) of Some m \<Rightarrow> Some m | None \<Rightarrow> spawned_in s)"

definition right_arrow :: string where
  "right_arrow = [CHR '' '', CHR 0xE2, CHR 0x86, CHR 0x92, CHR '' '']"

definition chain_text :: "jsv \<Rightarrow> string option" where
  "chain_text v = map_option (\<lambda>(a, b). a @ right_arrow @ b) (spawned_in (to_str v))"

definition by_rules :: "jsv list \<Rightarrow> string option" where
  "by_rules rules = (let has = \<lambda>r. JStr r \<in> set rules in
     if has ''living_off_land'' then Some ''LOLBin Abuse'' else if has ''credential_dumping'' then Some ''Credential Dumping''
     else if has ''c2_communication'' \<or> has ''http_beaconing'' \<or> has ''dns_tunneling'' then Some ''C2 Communication''
     else if has ''ml_behavioral_anomaly'' then Some ''Behavioral Anomaly''
     else if has ''suspicious_process'' then Some ''Suspicious Process'' else None)"

definition by_factors :: "jsv \<Rightarrow> string option" where
  "by_factors fs = (let has = \<lambda>r. truthy (fld fs r) in
     case (if has ''process_chain'' then chain_text (fld fs ''process_chain'') else None) of Some t \<Rightarrow> Some t | None \<Rightarrow>
     if has ''living_off_land'' then Some ''LOLBin Abuse'' else if has ''credential_dumping'' then Some ''Credential Dumping''
     else if has ''c2_communication'' then Some ''C2 Communication'' else if has ''suspicious_process'' then Some ''Suspicious Process''
     else if has ''ml_behavioral_anomaly'' then Some ''Behavioral Anomaly'' else None)"

definition by_breakdown :: "jsv \<Rightarrow> string option res" where
  "by_breakdown fb = (if \<not> is_array fb then Inr None
     else rmap (\<lambda>rules. case (case List.find (\<lambda>f. fld f ''rule'' = JStr ''process_chain'') (elems fb) of
           Some pc \<Rightarrow> chain_text (js_or (fld pc ''reason'') (JStr '''')) | None \<Rightarrow> None) of
         Some t \<Rightarrow> Some t | None \<Rightarrow> by_rules rules) (rmapM (\<lambda>f. get f ''rule'') (elems fb)))"

definition extractAttackType :: "jsv \<Rightarrow> string res" where
  "extractAttackType inc = (let p = fld (fld inc ''parent_process'') ''name''; q = fld (fld inc ''culprit_process'') ''name'' in
     if nullishp inc then Inl type_error
     else if truthy p \<and> truthy q then Inr (to_str p @ right_arrow @ to_str q)
     else rmap (\<lambda>first. case first of Some t \<Rightarrow> t | None \<Rightarrow> (case by_factors (js_or (fld inc ''factors'') (JObj [])) of Some t \<Rightarrow> t
         | None \<Rightarrow> to_str (js_or (fld inc ''title'') (js_or (fld inc ''description'') (JStr ''Unknown Attack'')))))
       (by_breakdown (fld inc ''factors_breakdown'')))"

definition threat_link :: "jsv \<Rightarrow> string" where
  "threat_link inc = (let pid = js_or (fld (fld inc ''culprit_process'') ''pid'') (JStr '''') in
     ''/investigate?tab=process&agent='' @ encodeURIComponent (to_str (fld inc ''agent_id''))
     @ (if truthy pid then ''&pid='' @ to_str pid else []))"

definition threat_row :: "clock \<Rightarrow> jsv \<Rightarrow> (string \<times> string \<times> string \<times> string \<times> string) res" where
  \<comment> \<open>severity, agent and age, type, where a click leads, where the button leads\<close>
  "threat_row c inc = rmap (\<lambda>ty. (threat_severity inc,
     to_str (fld inc ''agent_id'') @ '' '' @ getTimeAgo c (js_or (fld inc ''created_at'') (fld inc ''createdAt'')), ty,
     ''/incidents/'' @ to_str (fld inc ''id''), threat_link inc)) (extractAttackType inc)"

section \<open>Lemmas\<close>

text \<open>A printed decimal is at most half a unit of its last place away from the number.\<close>

lemma toFixed_near:
  assumes "0 \<le> q"
  shows "\<bar>of_nat (fixed_units k q) / 10 ^ k - q\<bar> \<le> 1 / (2 * 10 ^ k)"
proof -
  have "of_nat (fixed_units k q) = (of_int \<lfloor>q * 10 ^ k + 1 / 2\<rfloor> :: rat)"
    using assms by (simp add: fixed_units_def)
  moreover have "of_int \<lfloor>q * 10 ^ k + 1 / 2\<rfloor> \<le> q * 10 ^ k + 1 / 2" "q * 10 ^ k + 1 / 2 < of_int \<lfloor>q * 10 ^ k + 1 / 2\<rfloor> + 1"
    using floor_correct [of "q * 10 ^ k + 1 / 2"] by simp_all
  ultimately have "\<bar>of_nat (fixed_units k q) - q * 10 ^ k\<bar> \<le> 1 / 2" by linarith
  then have near: "\<bar>of_nat (fixed_units k q) - q * 10 ^ k\<bar> \<le> 1 / 2" .
  have "of_nat (fixed_units k q) / 10 ^ k - q = (of_nat (fixed_units k q) - q * 10 ^ k) / 10 ^ k"
    by (simp add: diff_divide_distrib)
  then have "\<bar>of_nat (fixed_units k q) / 10 ^ k - q\<bar> = \<bar>of_nat (fixed_units k q) - q * 10 ^ k\<bar> / 10 ^ k"
    by (simp add: abs_divide)
  also have "\<dots> \<le> 1 / 2 / 10 ^ k" by (rule divide_right_mono [OF near]) simp
  finally show ?thesis by simp
qed

text \<open>One byte below a megabyte is shown as 1024 KB: the unit is chosen before rounding.\<close>

lemma byte_units:
  "formatBytes (jn 1023) = ''1023 B''" "formatBytes (jn 1536) = ''1.5 KB''" "formatBytes (jn 1048575) = ''1024.0 KB''"
proof -
  have "fixed_units 1 (3 / 2) = 15" and "fixed_units 1 (1048575 / 1024) = 10240"
    by (simp_all add: fixed_units_def floor_unique [where z = 15] floor_unique [where z = 10240])
  moreover have "nat_str 0 = ''0''" "nat_str 1 = ''1''" "nat_str 5 = ''5''" "nat_str 1024 = ''1024''" by code_simp+
  ultimately show "formatBytes (jn 1536) = ''1.5 KB''" "formatBytes (jn 1048575) = ''1024.0 KB''"
    by (simp_all add: formatBytes_def toFixed_def padded_def)
  have "to_str (jn 1023) = ''1023''" by code_simp
  then show "formatBytes (jn 1023) = ''1023 B''" by (simp add: formatBytes_def)
qed

text \<open>The reason the manager writes for a process chain, with any rule named before it, is read back as the two names.\<close>

lemma quoted_name_back:
  assumes "quote_char \<notin> set a" and "a \<noteq> []"
  shows "quoted_name (quote_char # a @ quote_char # r) = Some (a, r)"
proof -
  have "takeWhile (\<lambda>ch. ch \<noteq> quote_char) (a @ quote_char # r) = a" "dropWhile (\<lambda>ch. ch \<noteq> quote_char) (a @ quote_char # r) = quote_char # r"
    using assms(1) by (induction a) auto
  with assms(2) show ?thesis by (simp add: quoted_name_def)
qed

definition chain_reason :: "string \<Rightarrow> string \<Rightarrow> string \<Rightarrow> string" where
  "chain_reason rule a b = rule @ [quote_char] @ a @ [quote_char] @ '' spawned '' @ [quote_char] @ b @ [quote_char]"

lemma spawned_prefix: "quote_char \<notin> set p \<Longrightarrow> spawned_in (p @ s) = spawned_in s"
  by (induction p) (auto simp: spawned_here_def quoted_name_def)

lemma chain_reason_read:
  assumes "quote_char \<notin> set rule" and "quote_char \<notin> set a" and "quote_char \<notin> set b" and "a \<noteq> []" and "b \<noteq> []"
  shows "chain_text (JStr (chain_reason rule a b)) = Some (a @ right_arrow @ b)"
proof -
  have "quoted_name (quote_char # b @ [quote_char]) = Some (b, [])"
    using quoted_name_back [of b "[]"] assms by simp
  then have "spawned_here (quote_char # a @ quote_char # '' spawned '' @ quote_char # b @ [quote_char]) = Some (a, b)"
    by (simp add: spawned_here_def quoted_name_back [OF assms(2,4)] skip_blanks_def is_space_def)
       (simp add: quote_char_def is_space_def)
  then show ?thesis
    by (simp add: chain_text_def chain_reason_def spawned_prefix [OF assms(1)])
qed

end
