(* ===== verification/UndoScreens.thy ===== *)
theory UndoScreens
  imports ActionsPage FeedHooks Texts
begin

text \<open>
  How an action is undone from the screen: \<open>src/frontend/src/components/actions/UndoButton.jsx\<close>, the dialogs
  \<open>RollbackConfirmModal.jsx\<close> and \<open>BulkUndoConfirmModal.jsx\<close>, the audit trail \<open>AuditLogModal.jsx\<close>, and the two lists the buttons
  stand in, \<open>ActionsTable.jsx\<close> (in the actions history) and \<open>ActionTimeline.jsx\<close> (in an agent, an incident or a group). What the
  buttons do is decided by the \<open>onUndo\<close> the parent hands down; the two parents are composed here.
\<close>

section \<open>The dialogs\<close>

record dialog_st =
  dlgReason :: string
  dlgSubmitting :: bool

definition init_dialog :: dialog_st where
  "init_dialog = \<lparr>dlgReason = ''Manual undo via UI'', dlgSubmitting = False\<rparr>"

definition confirm_rollback :: "((dialog_st \<Rightarrow> dialog_st) \<Rightarrow> 's \<Rightarrow> 's) \<Rightarrow> ('s, jsv) act \<Rightarrow> ('s \<Rightarrow> 's) \<Rightarrow> ('s, jsv) act" where
  \<comment> \<open>\<open>handleSubmit\<close> of the dialog whose state \<open>dlg\<close> updates; \<open>onConfirm\<close> is applied to the reason\<close>
  "confirm_rollback dlg onConfirm onClose = Upd (dlg (dlgSubmitting_update (\<lambda>_. True)))
     (fin (catch (thn onConfirm (Upd onClose (Ret JUndef))) (\<lambda>_. Ret JUndef)) (dlg (dlgSubmitting_update (\<lambda>_. False))))"

definition confirm_enabled :: "dialog_st \<Rightarrow> bool" where
  "confirm_enabled d \<longleftrightarrow> \<not> dlgSubmitting d \<and> trim (dlgReason d) \<noteq> []"

definition bulk_default_reason :: string where
  "bulk_default_reason = ''Bulk rollback via Actions History''"

definition bulk_opens :: "bool \<Rightarrow> string \<Rightarrow> string" where
  \<comment> \<open>the effect of \<open>isOpen\<close> on the reason\<close>
  "bulk_opens isOpen reason = (if isOpen then bulk_default_reason else reason)"

definition bulk_submit :: "string \<Rightarrow> bool \<Rightarrow> jsv list \<Rightarrow> (string \<Rightarrow> ('s, jsv) act) \<Rightarrow> ('s, jsv) act" where
  "bulk_submit reason busy listed onConfirm =
     (if trim reason = [] \<or> busy \<or> length listed = 0 then Ret JUndef else onConfirm (trim reason))"

section \<open>The button of one action\<close>

datatype undo_view = No_undo | Undone_mark string | Undo_btn string bool

definition undo_button :: "jsv \<Rightarrow> bool \<Rightarrow> undo_view" where
  \<comment> \<open>the text and whether it is disabled\<close>
  "undo_button action disabled =
     (if \<not> truthy action then No_undo
      else if fld action ''status'' = JStr ''reverted'' then
        Undone_mark (''Reverted at '' @ to_str (js_or (fld action ''undone_at'') (JStr '''')) @ '' by '' @
          to_str (js_or (fld action ''undone_by'') (JStr '''')))
      else if fld action ''status'' = JStr ''reverting'' then Undo_btn ''Reverting...'' True
      else Undo_btn ''Undo Action'' disabled)"

section \<open>Audit trail\<close>

record audit_st = fetch_st +
  auditLogs :: "jsv list"

definition init_audit :: audit_st where
  "init_audit = \<lparr>loading = False, error = JNull, auditLogs = []\<rparr>"

definition audit_effect :: "bool \<Rightarrow> jsv \<Rightarrow> (audit_st, jsv) act" where
  \<comment> \<open>of \<open>isOpen\<close> and \<open>actionId\<close>\<close>
  "audit_effect isOpen actionId =
     (if \<not> isOpen \<or> \<not> truthy actionId then Ret JUndef
      else Upd (loading_update (\<lambda>_. True)) (fin (catch
        (bnd (await (getActionAuditLogs actionId)) (\<lambda>data.
           Upd (auditLogs_update (\<lambda>_. elems data)) (Upd (error_update (\<lambda>_. JNull)) (Ret JUndef))))
        (\<lambda>err. Upd (error_update (\<lambda>_. message_or err ''Failed to load audit logs'')) (Ret JUndef)))
       (loading_update (\<lambda>_. False))))"

datatype audit_part = Loading_part | Error_part jsv | Empty_part | Logs_part "jsv list"

definition audit_shown :: "audit_st \<Rightarrow> audit_part list" where
  "audit_shown s = (if loading s then [Loading_part] else [])
     @ (if truthy (error s) then [Error_part (error s)] else [])
     @ (if \<not> loading s \<and> \<not> truthy (error s) \<and> auditLogs s = [] then [Empty_part] else [])
     @ (if \<not> loading s \<and> auditLogs s \<noteq> [] then [Logs_part (auditLogs s)] else [])"

datatype event_kind = Created | Applied | Undone | Requested | Failed | Other_event

definition event_badge :: "jsv \<Rightarrow> event_kind res" where
  \<comment> \<open>\<open>getEventBadge\<close>: the colour; \<open>event.includes\<close> throws on what has no such method\<close>
  "event_badge event =
     (if event = JStr ''created'' then Inr Created
      else if event = JStr ''applied'' then Inr Applied
      else rbind (has_text event ''undone'') (\<lambda>u. if u then Inr Undone
        else rbind (has_text event ''requested'') (\<lambda>r. if r then Inr Requested
          else Inr (if event = JStr ''failed'' then Failed else Other_event))))"

section \<open>The table of the history\<close>

definition appliedActions :: "jsv list \<Rightarrow> jsv list" where
  "appliedActions acts = filter (\<lambda>a. fld a ''status'' = JStr ''applied'') acts"

definition allAppliedSelected :: "jsv list \<Rightarrow> jsv list \<Rightarrow> bool" where
  "allAppliedSelected acts sel \<longleftrightarrow>
     0 < length (appliedActions acts) \<and> list_all (\<lambda>a. fld a ''id'' \<in> set sel) (appliedActions acts)"

definition statusBadge :: "jsv \<Rightarrow> string \<times> jsv \<times> bool" where
  \<comment> \<open>style, label, dot\<close>
  "statusBadge st =
     (if st = JStr ''applied'' then (''danger'', JStr ''Applied'', True)
      else if st = JStr ''reverted'' then (''active'', JStr ''Reverted'', True)
      else if st = JStr ''failed'' then (''danger'', JStr ''Failed'', False)
      else if st = JStr ''reverting'' then (''warning'', JStr ''Reverting...'', True)
      else (''neutral'', js_or st (JStr ''Unknown''), False))"

datatype timer_cell = Countdown jsv | Reverted_mark | No_timer

record table_row =
  rowSelected :: bool
  rowSelectable :: bool
  rowGroup :: "jsv option"
  rowTimer :: timer_cell
  rowUndo :: undo_view

definition table_row_of :: "jsv list \<Rightarrow> jsv \<Rightarrow> table_row" where
  "table_row_of sel act =
     (let isApplied = (fld act ''status'' = JStr ''applied''); groupName = fld (fld act ''action_params'') ''group_name'';
          groupId = fld (fld act ''action_params'') ''group_id'' in
      \<lparr>rowSelected = (fld act ''id'' \<in> set sel), rowSelectable = isApplied,
       rowGroup = (if truthy (js_or groupName groupId) then Some (js_or groupName groupId) else None),
       rowTimer = (if isApplied \<and> truthy (fld act ''auto_rollback_at'') then Countdown (fld act ''auto_rollback_at'')
         else if fld act ''status'' = JStr ''reverted'' then Reverted_mark else No_timer),
       rowUndo = undo_button act False\<rparr>)"

datatype table_view = Skeleton | Empty_table | Rows "table_row list"

definition actionsTable :: "jsv list \<Rightarrow> jsv list \<Rightarrow> bool \<Rightarrow> table_view" where
  "actionsTable acts sel busy =
     (if busy \<and> acts = [] then Skeleton else if acts = [] then Empty_table else Rows (map (table_row_of sel) acts))"

section \<open>The timeline\<close>

record timeline_st =
  batchOpen :: bool
  auditId :: jsv
  snapshots :: obj

definition toggleSnapshot :: "jsv \<Rightarrow> timeline_st \<Rightarrow> timeline_st" where
  "toggleSnapshot i = snapshots_update (\<lambda>prev. AList.update (to_str i) (JBool (\<not> truthy (lookup prev (to_str i)))) prev)"

definition rollback_all_button :: "jsv list \<Rightarrow> bool \<Rightarrow> bool \<Rightarrow> (nat \<times> bool) option" where
  \<comment> \<open>the number on it and whether it is disabled\<close>
  "rollback_all_button acts busy fetching =
     (if 0 < length (appliedActions acts) then Some (length (appliedActions acts), busy \<or> fetching) else None)"

definition timeline_undo :: "jsv \<Rightarrow> bool \<Rightarrow> undo_view" where
  "timeline_undo act busy = undo_button act busy"

section \<open>The two parents\<close>

text \<open>
  The history page (\<open>ActionsHistory.jsx\<close>) with the dialog of a row's button and the page's own dialog. It hands
  \<open>(act) => setSingleUndoAction(act)\<close> to the table as \<open>onUndo\<close>; the button calls \<open>onUndo(action.id, reason)\<close>.
\<close>

record histscreen_st = apage_st +
  rowDialogOpen :: bool
  rowDialog :: dialog_st
  pageDialog :: dialog_st

definition history_onUndo :: "jsv \<Rightarrow> jsv \<Rightarrow> ('z apage_st_scheme, jsv) act" where
  "history_onUndo act reason = Upd (singleUndo_update (\<lambda>_. act)) (Ret JUndef)"

definition row_confirm :: "jsv \<Rightarrow> string \<Rightarrow> (histscreen_st, jsv) act" where
  \<comment> \<open>the dialog of the button of \<open>action\<close>, in the history\<close>
  "row_confirm action reason = confirm_rollback rowDialog_update
     (history_onUndo (fld action ''id'') (JStr reason)) (rowDialogOpen_update (\<lambda>_. False))"

definition page_confirm :: "clock \<Rightarrow> actions_props \<Rightarrow> jsv \<Rightarrow> string \<Rightarrow> (histscreen_st, jsv) act" where
  \<comment> \<open>the page's dialog, with the \<open>singleUndoAction\<close> of the rendering\<close>
  "page_confirm c p single reason = confirm_rollback pageDialog_update
     (handleConfirmSingleUndo c p single (JStr reason)) (singleUndo_update (\<lambda>_. JNull))"

definition page_dialog_open :: "'z apage_st_scheme \<Rightarrow> bool" where
  "page_dialog_open s \<longleftrightarrow> truthy (singleUndo s)"

text \<open>An agent's detail window (\<open>AgentDetailModal.jsx\<close>) hands the hook's \<open>handleUndo\<close> down.\<close>

record agentwin_st = actions_st +
  awDialogOpen :: bool
  awDialog :: dialog_st

definition timeline_confirm :: "clock \<Rightarrow> actions_props \<Rightarrow> jsv \<Rightarrow> string \<Rightarrow> (agentwin_st, jsv) act" where
  "timeline_confirm c p action reason = confirm_rollback awDialog_update
     (handleUndo c p (fld action ''id'') (JStr reason)) (awDialogOpen_update (\<lambda>_. False))"

section \<open>Lemmas\<close>

lemma fetchActions_quiet: "never_throws (fetchActions c p)"
  by (auto simp: fetchActions_def intro!: throws_catch throws_bnd)

lemma scoped_list_get: "list_all (\<lambda>q. req_method q = GET) (requests [scoped_list c p])"
  by (simp add: scoped_list_def listAllActions_def getIncidentActions_def getAgentActions_def api_verbs)

lemma fetchActions_gets: "asks (\<lambda>q. req_method q = GET) (fetchActions c p)"
  using scoped_list_get [of c p] by (auto simp: fetchActions_def intro!: asks_catch asks_bnd asks_await)

text \<open>The reload that follows an undo: it does not fail and only reads.\<close>

lemma fetch_after:
  obtains y s' qs where "run (logging f) (fetchActions c p) s w = (Inr y, s', w @ qs)" and "list_all (\<lambda>q. req_method q = GET) qs"
proof -
  from run_never_throws [OF fetchActions_quiet, of "logging f" c p s w] obtain y where y: "result (run (logging f) (fetchActions c p) s w) = Inr y"
    by blast
  moreover from asks_run [OF fetchActions_gets, of f c p s w] obtain qs where
    "world_of (run (logging f) (fetchActions c p) s w) = w @ qs" "list_all (\<lambda>q. req_method q = GET) qs" by blast
  ultimately show thesis using that by (cases "run (logging f) (fetchActions c p) s w") auto
qed

section \<open>Properties\<close>



text \<open>
  The same button in the window of an agent: confirming sends the undo of that action with the reason typed; accepted, the list
  is read again and the dialog closes; refused, the dialog stays open and nothing says that the undo failed.
\<close>

theorem timeline_undo_outcome:
  "case f (undo_req (JStr r) (fld a ''id'')) of
     Inl err \<Rightarrow> run (logging f) (timeline_confirm c p a r) s [] =
       (Inr JUndef, s\<lparr>actionLoading := False, awDialog := (awDialog s)\<lparr>dlgSubmitting := False\<rparr>\<rparr>, [undo_req (JStr r) (fld a ''id'')])
   | Inr res \<Rightarrow> \<not> awDialogOpen (state_of (run (logging f) (timeline_confirm c p a r) s []))
       \<and> (\<exists>qs. world_of (run (logging f) (timeline_confirm c p a r) s []) = undo_req (JStr r) (fld a ''id'') # qs
            \<and> list_all (\<lambda>q. req_method q = GET) qs)"
proof (cases "f (undo_req (JStr r) (fld a ''id''))")
  case (Inl err)
  then show ?thesis
    by (simp add: timeline_confirm_def confirm_rollback_def handleUndo_def undoAction_ask run_simps)
next
  case (Inr res)
  let ?q = "undo_req (JStr r) (fld a ''id'')"
  let ?s = "(awDialog_update (dlgSubmitting_update (\<lambda>_. True)) s)\<lparr>actionLoading := True\<rparr>"
  let ?t = "actions_update (patch_by ''id'' (fld a ''id'') (\<lambda>act. with_fld (spread2 act (fld res ''data'')) ''status'' (JStr ''reverted''))) ?s"
  obtain y s' qs where "run (logging f) (fetchActions c p) ?t [?q] = (Inr y, s', [?q] @ qs)" and "list_all (\<lambda>q. req_method q = GET) qs"
    by (rule fetch_after)
  with Inr show ?thesis
    by (simp add: timeline_confirm_def confirm_rollback_def handleUndo_def undoAction_ask run_simps)
qed

text \<open>
  Ticking "select all" ticks the box of the table: after it every applied action of the page shown is selected, since the page
  is a part of the filtered list.
\<close>

theorem select_all_checks_box:
  assumes "set page \<subseteq> set filtered" and "appliedActions page \<noteq> []"
  shows "allAppliedSelected page (selectedIds (handleSelectAll True filtered s))
    \<and> (\<forall>act \<in> set page. rowSelectable (table_row_of (selectedIds (handleSelectAll True filtered s)) act) \<longrightarrow>
         rowSelected (table_row_of (selectedIds (handleSelectAll True filtered s)) act))"
  using assms by (auto simp: allAppliedSelected_def appliedActions_def handleSelectAll_def list_all_iff table_row_of_def Let_def)

theorem select_all_checks_box_witness:
  "\<exists>s. allAppliedSelected [JObj [(''id'', JStr ''A1''), (''status'', JStr ''applied'')]]
     (selectedIds (handleSelectAll True [JObj [(''id'', JStr ''A1''), (''status'', JStr ''applied'')]] s))"
  using select_all_checks_box [of "[JObj [(''id'', JStr ''A1''), (''status'', JStr ''applied'')]]"
      "[JObj [(''id'', JStr ''A1''), (''status'', JStr ''applied'')]]"]
  by (simp add: appliedActions_def)

text \<open>
  The audit trail of an action that cannot be read: the window shows the error and, below it, the trail of the action it was
  opened on before, under the title of the new one.
\<close>

theorem failed_audit_shows_previous:
  assumes "f (Req GET (''/actions/'' @ to_str i @ ''/audit'') JUndef JUndef) = Inl err" and "truthy i" and "auditLogs s \<noteq> []"
  shows "audit_shown (state_of (run (logging f) (audit_effect True i) s [])) =
    [Error_part (message_or (intercept_error err) ''Failed to load audit logs''), Logs_part (auditLogs s)]"
  using assms
  by (simp add: audit_effect_def getActionAuditLogs_def api_get_def run_simps audit_shown_def message_or_def js_or_default)

theorem failed_audit_shows_previous_witness:
  "audit_shown (state_of (run (logging (\<lambda>_. Inl JNull)) (audit_effect True (JStr ''A2'')) (init_audit\<lparr>auditLogs := [JStr ''log of A1'']\<rparr>) []))
   = [Error_part (JStr ''Something went wrong''), Logs_part [JStr ''log of A1'']]"
proof -
  have "(\<lambda>_. Inl JNull) (Req GET (''/actions/'' @ to_str (JStr ''A2'') @ ''/audit'') JUndef JUndef) = (Inl JNull :: response)" by simp
  from failed_audit_shows_previous [where f = "\<lambda>_. Inl JNull", OF this, where s = "init_audit\<lparr>auditLogs := [JStr ''log of A1'']\<rparr>"]
  show ?thesis by (simp add: intercept_error_def message_or_def js_or_def)
qed

text \<open>A failed action cannot be selected for the bulk undo, but its own button offers the undo.\<close>

lemma failed_action_undoable:
  assumes "fld a ''status'' = JStr ''failed''"
  shows "rowUndo (table_row_of sel a) = Undo_btn ''Undo Action'' False \<and> \<not> rowSelectable (table_row_of sel a)"
proof -
  have "truthy a" using assms by (cases a) (auto simp: fld_def split: if_splits)
  with assms show ?thesis by (simp add: table_row_of_def undo_button_def Let_def)
qed

end
