(* ===== verification/Spec2Isabelle.thy ===== *)
theory Spec2Isabelle
  imports ActionsHook ActionsPage AgentsPage AiPanels ApiAdmin ApiClient ApiData ApiServices Async ChainRulesHook ChainRulesPage ConsolePages DashboardPage DetectionRulesHook DetectionRulesPage FeedHooks GroupsHook GroupsUI HealthScore HistoryScreen HookBase IncidentDetail IncidentsHook IncidentRows IncidentsPage InventoryRows InvestigateHub JsPrelude Json Navigation Paging PanelViews PoliciesHook PoliciesPage PolicyDryRun Polling ProcessPage ProcessTreeHook RiskPages RuleEditor RuleLab RulesHook SettingsPage SideScreens SocketHook StoredHooks StoryCards TableRows Texts TreeView UndoScreens Widgets
begin

text \<open>
  The browser console of a LAN active-response platform: \<open>src/frontend/src\<close>, a React application in JavaScript. It shows what
  the manager (Python, \<open>src/manager\<close>) knows of the agents on the hosts, their incidents, risk scores, processes and flows, and
  lets an operator edit rules and policies and send response actions (kill a process, isolate a host, undo an action). This
  library models its code from the HTTP client up to the state and handlers of the pages.

  HOW THE PROGRAM IS BUILT. A page or component keeps React state and calls hooks; a hook keeps the fetched data and offers
  handlers; a handler calls endpoint functions of \<open>api/\<close>, which go through one axios instance with a response interceptor.
  The manager, axios and the browser are the environment: the theorems hold for every function from requests to
  responses, unless they state what it answers. Two things make the code hard: handlers interleave at their awaits, and the data is whatever JSON the manager
  sends.

  THE LANGUAGE.
  - JsPrelude: JavaScript values \<open>jsv\<close>, computations that may throw (\<open>res\<close>, a sum whose left side is the thrown value), the
    operators and library functions the code uses. Numbers are exact rationals or NaN: no rounding, infinities or negative
    zero. Strings are byte characters with the ASCII case mapping.
  - Texts: the splitting, joining and trimming of lists typed as text. Json: \<open>JSON.stringify\<close> with two blanks and
    \<open>JSON.parse\<close>; the parser has fuel \<open>2 * length s + 2\<close>, and \<open>json_roundtrip\<close> shows that this is enough for every printed
    value.
  - Async: a handler is a tree of state updates, reads and awaits. \<open>run\<close> executes one handler against a server; \<open>step\<close> is the
    event loop, in which handlers start at any time and pending requests are answered in any order. Its locales \<open>hook\<close> (an
    invariant of the single updates holds in every reachable state) and \<open>spinner\<close> (a busy flag is up only while a request
    that will lower it is pending) are interpreted in the theory of each hook.
  - ApiClient: \<open>api/api.js\<close>, with the interceptor as \<open>settle\<close>; \<open>await\<close> and \<open>promise_all\<close>. HookBase: what the hooks share, the
    locale \<open>rollback\<close> for optimistic updates, and the calculus that shows a handler never throws. Paging: \<open>page_slice\<close>, and
    the locale \<open>pager\<close>, that the pages partition the list.
  - Polling: a button, an interval and an answer as one step relation, with its abstract specification \<open>wait_step\<close>.

  THE CLIENT LAYER.
  - ApiData: the mappers of \<open>api/agents.js\<close>, \<open>commands.js\<close>, \<open>events.js\<close>, \<open>flows.js\<close>, \<open>incidents.js\<close> and \<open>risk.js\<close>.
  - ApiServices and ApiAdmin: one definition per exported endpoint function of \<open>api/\<close>.

  THE HOOKS (\<open>hooks/use...js\<close>), each a record of its state and one definition per handler.
  - DetectionRulesHook, RulesHook (firewall rules), PoliciesHook, ActionsHook, GroupsHook, IncidentsHook, ProcessTreeHook.
  - ChainRulesHook: useProcessChainRules and useProcessGroups. FeedHooks: agents, agent history, commands, docker, events,
    flows, reports, risk scores, threat intelligence. StoredHooks: settings, notifications and whitelist, with their built-in
    defaults.
  - SocketHook: useDashboardSocket as a step relation over sockets, timers and effects.

  THE SCREENS (\<open>pages/\<close> and \<open>components/\<close>): page state, filters, forms, handlers and what the buttons are wired to.
  - DashboardPage (\<open>Dashboard.jsx\<close>) and HealthScore (\<open>components/dashboard/\<close>).
  - IncidentsPage (\<open>Incidents.jsx\<close>, \<open>ui/FilterTabs.jsx\<close>: counters, filters, chart, handlers) and IncidentRows (the tables of both
    its queues, their buttons and dialogs).
  - IncidentDetail (\<open>components/incidents/\<close>: the storyboard and its tabs), StoryCards (its timeline, its footer, the security of an
    agent) and AiPanels (\<open>AISuggestionPanel.jsx\<close>, \<open>AIAnalysisTab.jsx\<close>, as two instances of Polling).
  - ProcessPage (\<open>ProcessTree.jsx\<close>, \<open>components/process/\<close>: the agents and the kill dialog) and TreeView (its agent selection
    under the address, the folding of the tree). ActionsPage and HistoryScreen (\<open>ActionsHistory.jsx\<close>,
    \<open>ui/Pagination.jsx\<close>), UndoScreens (\<open>components/actions/\<close>, \<open>ui/AgentDetailModal.jsx\<close>: every way to an undo).
  - PoliciesPage (\<open>Policies.jsx\<close>, \<open>PolicyFormModal.jsx\<close>) and PolicyDryRun (\<open>PolicyDryRunPanel.jsx\<close>: its effects, its timer and
    every control, as events).
  - AgentsPage (\<open>Agents.jsx\<close>, \<open>CreateGroupModal.jsx\<close>) and GroupsUI (the rest of \<open>components/groups/\<close>). InventoryRows: the rows
    of the inventory of \<open>Agents.jsx\<close> and of the process tree (\<open>TreeNode.jsx\<close>, the tabs of \<open>ProcessTree.jsx\<close>), with their buttons.
  - DetectionRulesPage (\<open>DetectionRules.jsx\<close>), ChainRulesPage (\<open>components/rules/\<close>), RuleEditor (\<open>ui/RuleForm.jsx\<close>) and
    RuleLab (\<open>ui/RuleTable.jsx\<close>, \<open>ui/RuleTestModal.jsx\<close>, the exported file of \<open>useRules.js\<close>).
  - SettingsPage (\<open>Settings.jsx\<close>, \<open>Whitelist.jsx\<close>, \<open>Notifications.jsx\<close>, \<open>Reports.jsx\<close>).
  - ConsolePages (\<open>Commands.jsx\<close>, \<open>YaraRules.jsx\<close>, \<open>ThreatIntel.jsx\<close>, \<open>Alerts.jsx\<close>).
  - InvestigateHub (\<open>layout/Header.jsx\<close>, \<open>Investigate.jsx\<close>, \<open>NetworkOverview.jsx\<close>, \<open>components/network/\<close>).
  - RiskPages (\<open>RiskAssessment.jsx\<close>, \<open>RiskMonitor.jsx\<close>, \<open>FixVerification.jsx\<close>).
  - Navigation (\<open>App.jsx\<close>, \<open>layout/Sidebar.jsx\<close>): the routes over an arbitrary router, the queries of addresses, the tab a page
    opens with, and the links to the process tree.
  - SideScreens (\<open>Attack.jsx\<close>, \<open>NetworkInvestigation.jsx\<close>, \<open>PolicyDryRunModal.jsx\<close>, \<open>groups/GroupCard.jsx\<close>, \<open>ui/Badge.jsx\<close>,
    \<open>ui/RecentAlerts.jsx\<close>, the false-positive banner of \<open>Dashboard.jsx\<close>).
  - Widgets (\<open>ui/Dropdown.jsx\<close> as a step relation; the filters of the agent, container and policy tables) and TableRows
    (their rows and buttons, and those of \<open>dashboard/RecentThreats.jsx\<close>); PanelViews (what \<open>AISuggestionPanel.jsx\<close> and
    \<open>PolicyDryRunPanel.jsx\<close> show and offer).

  WHAT THE LEMMAS SHOW.
  - Busy flags: the hooks interpret \<open>spinner\<close> for their loading and busy flags, so that no interleaving of its handlers leaves
    a flag up with nothing pending; \<open>killing_never_sticks\<close> is the case with a timer.
  - Invariants of all reachable states: the shape of the incidents shown, the one connection of the dashboard socket, the
    values a drop-down list reports, the patterns of a process group.
  - Outcomes: for single handlers the final state, the result and the requests sent, on success and refusal
    (\<open>..._outcome\<close>); the optimistic edits give the old state back after a refusal (\<open>rollback\<close>).
  - Composition: \<open>incident_link_leads_to_process\<close>, at the end of this theory, follows a link from an incident of the manager
    through mapper, banner, address, hub and process tree to the row of its process.
  - Forms: opening and saving an object unchanged sends it back, with the exceptions stated (\<open>..._roundtrip\<close>);
    links and exported files are read back as they were written.
  - Refinement and equivalence: each AI panel, used patiently, implements the abstract wait of Polling
    (\<open>panels_refine_wait\<close>), and the grouping of the rules page is the comprehension it is meant to be
    (\<open>grouping_reference\<close>).
  - Termination: a wait ends within \<open>2 * limit + 4\<close> events, where the limits of the two panels, 45 and 60, are those of the
    code.
  - Defects: where the code does not do what it means to, the theorem states what it does (\<open>alert_queue_throws\<close>, \<open>status_tab_hides_all\<close>,
    \<open>dashboard_gauge_blind\<close>, \<open>isolation_hits_previous_group\<close>, \<open>made_up_process_killed\<close>, \<open>history_undo_targets_undefined\<close>,
    \<open>unloaded_settings_overwrite\<close> and others).

  READING THE MODEL. A state setter is an update of one field; a closure over a rendering is an argument of the handler that
  uses it (the state as it was rendered), while functional updates read the current state; a mutable ref is read in the
  handler. \<open>Date.now()\<close> and locale-dependent texts are arguments (\<open>clock\<close>); confirmation dialogs of the browser are
  Booleans; timers and sockets are events. The elements of the arrays held by the hooks are taken to be non-null where an
  updater searches them; the pages' filters throw where the code throws. Console output is left out.

  NOT MODELLED.
  - Rendering: JSX, styles, icons, chart options, focus and scrolling. A table is the data of its rows, a dialog what it shows
    and what its buttons call. The charts (\<open>charts/LineChart.jsx\<close>, \<open>RiskScoreChart.jsx\<close>, \<open>FactorBreakdown.jsx\<close>) only hand data to
    a library.
  - \<open>getFlows\<close> of \<open>api/flows.js\<close>, whose module does not parse (an opened block is never closed): it is an argument of the
    flows hook. A download ends with the address and the name of its file.
  - The wrappers \<open>Groups.jsx\<close>, \<open>Rules.jsx\<close> and \<open>layout/Layout.jsx\<close>, which place other components. \<open>Attack.jsx\<close>,
    \<open>NetworkInvestigation.jsx\<close>, \<open>Alerts.jsx\<close>, the risk pages, \<open>PolicyDryRunModal.jsx\<close>, \<open>RuleForm.jsx\<close>, \<open>RuleTable.jsx\<close> and
    \<open>RuleTestModal.jsx\<close> are modelled although no route or import leads to them.
  - The manager, the agents and the attack simulators: other programs in other languages. The manager is the parameter of
    every theorem.
\<close>

section \<open>From an incident to its process\<close>

text \<open>
  C1: the way from an incident to the process it is about, across the mapper, the banner of the storyboard, the router's address,
  the investigation hub and the process tree. If the incident of the manager names an agent and a culprit process with a pid, the
  agent is one of those the process tree lists, and its tree has a process of that pid, then following the link opens the hub on
  its process tab, selects that agent whatever was selected before, and, once the tree is there, shows the row of that process,
  whatever was folded.
\<close>

theorem incident_link_leads_to_process:
  assumes "mapIncident c raw = Inr inc" and "truthy raw"
    and "fld raw ''agent_id'' = JStr (ch # cs)" and "fld (fld raw ''culprit_process'') ''pid'' = jn (of_nat n)" and "0 < n"
    and "query_match (JStr (ch # cs)) ags = Inr (Some a)" and "truthy (fld a ''id'')"
    and "truthy tree" and "jn (of_nat n) \<in> set (forest_pids (tree_roots tree))"
  shows "let url = hero_link inc (banner_culprit inc); ps = parse_query (query_of url);
      t = expand_effect tree (fld a ''id'') (query_pid ps) s in
    path_of url = ''/investigate'' \<and> hubTab (init_hub (search_get ''tab'' ps) JUndef) = JStr ''process''
    \<and> (\<forall>sel. select_pass (query_agent ps) ags sel = Inr (fld a ''id''))
    \<and> jn (of_nat n) \<in> set (rendered_rows tree t)"
proof -
  have "truthy (fld raw ''culprit_process'')"
    using assms(4) by (cases "fld raw ''culprit_process''") (auto simp: fld_def split: if_splits)
  with assms(1-5) have link: "hero_link inc (banner_culprit inc) = tree_link (JStr (ch # cs)) (jn (of_nat n))"
    by (auto simp: mapIncident_def rbind_eq_Inr hero_link_def banner_culprit_def split: if_splits)
  note read = tree_link_read [OF assms(5), of ch cs]
  have pid: "query_pid (parse_query (query_of (hero_link inc (banner_culprit inc)))) = JStr (nat_str n)"
    by (simp add: link read(2) query_pid_def search_get_def)
  have "jn (of_nat n) \<in> set (rendered_rows tree (expand_effect tree (fld a ''id'') (JStr (nat_str n)) s))"
    using assms(7-9) nat_str_plain [of n]
    by (intro expand_effect_shows) (simp_all add: str_num_nat plain_part_def)
  with pid show ?thesis
    by (simp add: Let_def link read search_get_def query_agent_def init_hub_def select_pass_address [OF assms(6)])
qed

definition raw_culprit :: jsv where
  "raw_culprit = JObj [(''id'', JStr ''INC-1''), (''agent_id'', JStr ''HR-PC''), (''culprit_process'', JObj [(''pid'', jn 4)])]"

theorem incident_link_leads_to_process_witness:
  "\<exists>inc. mapIncident stopped_clock raw_culprit = Inr inc
    \<and> select_pass (query_agent (parse_query (query_of (hero_link inc (banner_culprit inc))))) two_agents (JStr ''a2'') = Inr (JStr ''a1'')"
proof -
  obtain inc where inc: "mapIncident stopped_clock raw_culprit = Inr inc"
    by (simp add: mapIncident_def raw_culprit_def lower_or_def)
  have "jn (of_nat 4) \<in> set (forest_pids (tree_roots deep_tree))" by code_simp
  moreover have "truthy deep_tree" by (simp add: deep_tree_def)
  moreover have "fld (hd two_agents) ''id'' = JStr ''a1''" by (simp add: two_agents_def)
  ultimately show ?thesis
    using incident_link_leads_to_process [OF inc, of "CHR ''H''" "''R-PC''" 4 two_agents "hd two_agents" deep_tree init_tree]
      match_two_agents inc
    by (simp add: Let_def raw_culprit_def)
qed

end
